(* ===== verification/Prelude.thy ===== *)
theory Prelude
  imports Main "HOL-Library.Word" "HOL-Library.AList"
begin

text \<open>
  Shared vocabulary of the development: the machine integers and byte strings of the wire
  protocol, Rust's \<open>String\<close> as a list of Unicode scalar values, Rust's \<open>HashMap\<close> as an
  association list (iteration order is the list's order), saturating arithmetic, big-endian
  integer codecs, and the generic contracts (a map, a codec that returns its remaining bytes, a
  deterministic machine with an invariant) that the components instantiate.
\<close>

unbundle bit_operations_syntax

section \<open>Types\<close>

type_synonym u8 = "8 word"
type_synonym u16 = "16 word"
type_synonym i16 = "16 word"
type_synonym u32 = "32 word"
type_synonym i32 = "32 word"
type_synonym u64 = "64 word"
type_synonym i64 = "64 word"
type_synonym bytes = "u8 list"

text \<open>A Rust \<open>String\<close>: its sequence of \<open>char\<close>s, each a Unicode scalar value.\<close>

type_synonym rstring = "nat list"

text \<open>A Rust \<open>HashMap\<close>: an association list, read with \<^const>\<open>map_of\<close>.\<close>

type_synonym ('k, 'v) hmap = "('k \<times> 'v) list"

abbreviation hget :: "('k, 'v) hmap \<Rightarrow> 'k \<Rightarrow> 'v option" where
  "hget m k \<equiv> map_of m k"

abbreviation hinsert :: "'k \<Rightarrow> 'v \<Rightarrow> ('k, 'v) hmap \<Rightarrow> ('k, 'v) hmap" where
  "hinsert k v m \<equiv> AList.update k v m"

abbreviation hremove :: "'k \<Rightarrow> ('k, 'v) hmap \<Rightarrow> ('k, 'v) hmap" where
  "hremove k m \<equiv> AList.delete k m"

text \<open>A \<open>VecDeque\<close> is a list: \<open>front()\<close>, \<open>pop_front()\<close> (dropped value), \<open>push_back\<close>, \<open>retain\<close>.\<close>

definition front :: "'a list \<Rightarrow> 'a option" where
  "front xs = (case xs of [] \<Rightarrow> None | x # _ \<Rightarrow> Some x)"

definition pop_front :: "'a list \<Rightarrow> 'a list" where
  "pop_front xs = (case xs of [] \<Rightarrow> [] | _ # r \<Rightarrow> r)"

lemma front_simps [simp]: "front [] = None" "front (x # xs) = Some x"
  by (simp_all add: front_def)

lemma pop_front_simps [simp]: "pop_front [] = []" "pop_front (x # xs) = xs"
  by (simp_all add: pop_front_def)

lemma front_append: "front (xs @ ys) = (if xs = [] then front ys else front xs)"
  by (cases xs) simp_all

lemma set_pop_front: "set (pop_front xs) \<subseteq> set xs"
  by (cases xs) auto

text \<open>A string literal of the source, as scalar values and as bytes.\<close>

definition str :: "string \<Rightarrow> rstring" where
  "str s = map of_char s"

definition lit :: "string \<Rightarrow> bytes" where
  "lit s = map of_char s"

section \<open>Collections of facts\<close>

named_theorems wire_simps \<open>rewriting of wire decoders over their encodings\<close>
named_theorems frame_simps \<open>fields an operation leaves unchanged\<close>
named_theorems inv_intros \<open>preservation of a component's invariant\<close>

section \<open>Saturating and checked arithmetic\<close>

definition saturating_succ :: "'a::len word \<Rightarrow> 'a word" where
  "saturating_succ w = (if w = - 1 then w else w + 1)"

lemma saturating_succ_eq_iff: "saturating_succ w = w \<longleftrightarrow> w = - 1"
  by (auto simp: saturating_succ_def)

lemma word_less_succ: "w \<noteq> - 1 \<Longrightarrow> w < w + (1 :: 'a::len word)"
  by (metis inc_less_eq_triv_imp linorder_less_linear word_le_less_eq)

lemma saturating_succ_le: "w \<le> saturating_succ w"
  by (auto simp: saturating_succ_def intro: order.strict_implies_order word_less_succ)

lemma saturating_succ_less: "w \<noteq> - 1 \<Longrightarrow> w < saturating_succ w"
  by (simp add: saturating_succ_def word_less_succ)

section \<open>Big-endian integers\<close>

fun be_encode :: "nat \<Rightarrow> 'a::len word \<Rightarrow> bytes" where
  "be_encode 0 w = []"
| "be_encode (Suc n) w = ucast (drop_bit (8 * n) w) # be_encode n w"

definition be_decode :: "bytes \<Rightarrow> 'a::len word" where
  "be_decode bs = foldl (\<lambda>acc b. push_bit 8 acc OR ucast b) 0 bs"

lemma length_be_encode [simp]: "length (be_encode n w) = n"
  by (induction n) auto

lemma be_encode_nonempty [simp]: "be_encode (Suc n) w \<noteq> []"
  by simp

lemma be_encode_bytes:
  "be_encode 2 w = [ucast (drop_bit 8 w), ucast w]"
  "be_encode 4 w = [ucast (drop_bit 24 w), ucast (drop_bit 16 w), ucast (drop_bit 8 w), ucast w]"
  by (simp_all add: eval_nat_numeral)

lemma foldl_be_encode:
  "foldl (\<lambda>acc b. push_bit 8 acc OR ucast b) acc (be_encode n w)
     = push_bit (8 * n) acc OR take_bit (8 * n) (w :: 'a::len word)"
proof (induction n arbitrary: acc)
  case 0
  then show ?case by simp
next
  case (Suc n)
  have "push_bit (8 * n) (push_bit 8 acc OR ucast (ucast (drop_bit (8 * n) w) :: u8))
          OR take_bit (8 * n) w
        = push_bit (8 * Suc n) acc OR take_bit (8 * Suc n) w"
    by (rule bit_word_eqI) (auto simp: bit_simps add.commute)
  with Suc show ?case by simp
qed

lemma be_decode_encode [wire_simps, simp]:
  assumes "LENGTH('a::len) \<le> 8 * n"
  shows "be_decode (be_encode n (w :: 'a word)) = w"
  unfolding be_decode_def foldl_be_encode
  by (rule bit_word_eqI) (use assms in \<open>auto simp: bit_simps\<close>)

section \<open>Splitting a stream\<close>

lemma append_split_le:
  assumes "xs @ ys = us @ vs" and "length us \<le> length xs"
  obtains r where "xs = us @ r" and "vs = r @ ys"
proof
  show "xs = us @ drop (length us) xs"
    using assms by (metis append_eq_append_conv_if append_take_drop_id)
  then show "vs = drop (length us) xs @ ys"
    using assms(1) by (metis append.assoc same_append_eq)
qed

lemma append_split_less:
  assumes "xs @ ys = us @ vs" and "length xs < length us"
  obtains p where "us = xs @ p" and "ys = p @ vs" and "p \<noteq> []"
proof -
  obtain p where "us = xs @ p" "ys = p @ vs"
    using append_split_le [OF assms(1) [symmetric]] assms(2) by auto
  with assms(2) that show thesis by auto
qed

section \<open>Contracts\<close>

text \<open>
  The finite-map contract the plan state relies on: what a lookup returns after an insertion or a
  removal, and what follows for the \<open>for key in keys { map.remove(key) }\<close> loops of the source.
\<close>

locale finite_map =
  fixes lookup :: "'m \<Rightarrow> 'k \<Rightarrow> 'v option"
    and insert :: "'k \<Rightarrow> 'v \<Rightarrow> 'm \<Rightarrow> 'm"
    and remove :: "'k \<Rightarrow> 'm \<Rightarrow> 'm"
  assumes lookup_insert: "lookup (insert k v m) = (lookup m)(k \<mapsto> v)"
    and lookup_remove: "lookup (remove k m) = (lookup m)(k := None)"
begin

lemma lookup_remove_all:
  "lookup (fold remove ks m) k = (if k \<in> set ks then None else lookup m k)"
  by (induction ks arbitrary: m) (auto simp: lookup_remove)

lemma lookup_insert_all:
  "lookup (fold (\<lambda>k. insert k (f k)) ks m) k = (if k \<in> set ks then Some (f k) else lookup m k)"
  by (induction ks arbitrary: m) (auto simp: lookup_insert)

end

interpretation hm: finite_map map_of AList.update AList.delete
  by unfold_locales (simp_all add: update_conv' delete_conv')

lemmas hmap_simps = update_conv' delete_conv' hm.lookup_remove_all hm.lookup_insert_all

text \<open>
  A codec whose decoder hands back the bytes it did not read. \<open>dec_many\<close> is the counted loop
  \<open>for _ in 0..n\<close> of the protocol parsers, stopping at the first error.
\<close>

fun dec_many :: "(bytes \<Rightarrow> 'e + ('a \<times> bytes)) \<Rightarrow> nat \<Rightarrow> bytes \<Rightarrow> 'e + ('a list \<times> bytes)" where
  "dec_many dec 0 bs = Inr ([], bs)"
| "dec_many dec (Suc n) bs =
     (case dec bs of
        Inl e \<Rightarrow> Inl e
      | Inr (x, rest) \<Rightarrow>
          (case dec_many dec n rest of
             Inl e \<Rightarrow> Inl e
           | Inr (xs, rest') \<Rightarrow> Inr (x # xs, rest')))"

lemma dec_many_length: "dec_many dec n bs = Inr (xs, rest) \<Longrightarrow> length xs = n"
  by (induction n arbitrary: bs xs rest) (auto split: sum.splits prod.splits)

locale wire_codec =
  fixes enc :: "'a \<Rightarrow> bytes"
    and dec :: "bytes \<Rightarrow> 'e + ('a \<times> bytes)"
    and ok :: "'a \<Rightarrow> bool"
  assumes dec_enc: "ok x \<Longrightarrow> dec (enc x @ rest) = Inr (x, rest)"
begin

lemma dec_many_enc:
  "list_all ok xs \<Longrightarrow>
     dec_many dec (length xs) (concat (map enc xs) @ rest) = Inr (xs, rest)"
  by (induction xs) (simp_all add: dec_enc)

lemma prefix_free:
  assumes "ok x" and "ok y" and "enc x @ r = enc y @ r'"
  shows "x = y \<and> r = r'"
proof -
  from assms(1) have "dec (enc y @ r') = Inr (x, r)"
    unfolding assms(3) [symmetric] by (rule dec_enc)
  with dec_enc [OF assms(2), of r'] show ?thesis by simp
qed

end

text \<open>The same contract for a decoder that signals failure with \<open>None\<close>.\<close>

locale option_codec =
  fixes enc :: "'a \<Rightarrow> bytes"
    and dec :: "bytes \<Rightarrow> ('a \<times> bytes) option"
    and ok :: "'a \<Rightarrow> bool"
  assumes dec_enc_Some: "ok x \<Longrightarrow> dec (enc x @ rest) = Some (x, rest)"

sublocale option_codec \<subseteq> wire_codec enc "\<lambda>bs. case dec bs of None \<Rightarrow> Inl () | Some r \<Rightarrow> Inr r" ok
  by unfold_locales (simp add: dec_enc_Some)

text \<open>A deterministic machine, its runs, and an invariant every step keeps.\<close>

locale step_machine =
  fixes step :: "'s \<Rightarrow> 'op \<Rightarrow> 's"
    and inv :: "'s \<Rightarrow> bool"
  assumes step_inv: "inv s \<Longrightarrow> inv (step s op)"
begin

lemma run_inv: "inv s \<Longrightarrow> inv (foldl step s ops)"
  by (induction ops arbitrary: s) (auto simp: step_inv)

end

end
