(* ===== verification/Utf8.thy ===== *)
theory Utf8
  imports Prelude
begin

text \<open>
  The part of Rust's string library the proxy uses: \<open>str::as_bytes\<close>, \<open>String::from_utf8\<close> and
  \<open>String::from_utf8_lossy\<close>. Names are compared as raw bytes, SQL text is decoded strictly, and
  field names, diagnostics and masked text are decoded lossily, so the three are kept apart.
  The lossy decoder replaces each maximal ill-formed prefix by U+FFFD, as the standard library's
  chunk iterator does.
\<close>

definition is_scalar :: "nat \<Rightarrow> bool" where
  "is_scalar c \<longleftrightarrow> c < 0xD800 \<or> (0xE000 \<le> c \<and> c < 0x110000)"

definition byte_of :: "nat \<Rightarrow> u8" where
  "byte_of n = of_nat n"

lemma unat_byte_of [simp]: "n < 256 \<Longrightarrow> unat (byte_of n) = n"
  by (simp add: byte_of_def unat_of_nat take_bit_eq_mod)

lemma byte_of_unat [simp]: "byte_of (unat b) = b"
  by (simp add: byte_of_def)

definition utf8_char :: "nat \<Rightarrow> bytes" where
  "utf8_char c =
     (if c < 0x80 then [byte_of c]
      else if c < 0x800 then [byte_of (0xC0 + c div 64), byte_of (0x80 + c mod 64)]
      else if c < 0x10000 then
        [byte_of (0xE0 + c div 4096), byte_of (0x80 + c div 64 mod 64), byte_of (0x80 + c mod 64)]
      else
        [byte_of (0xF0 + c div 262144), byte_of (0x80 + c div 4096 mod 64),
         byte_of (0x80 + c div 64 mod 64), byte_of (0x80 + c mod 64)])"

definition as_bytes :: "rstring \<Rightarrow> bytes" where
  "as_bytes s = concat (map utf8_char s)"

text \<open>Continuation bytes, and the bytes allowed after a three- or four-byte lead.\<close>

definition is_cont :: "u8 \<Rightarrow> bool" where
  "is_cont b \<longleftrightarrow> 0x80 \<le> unat b \<and> unat b \<le> 0xBF"

definition second_of_3 :: "u8 \<Rightarrow> u8 \<Rightarrow> bool" where
  "second_of_3 b0 b1 \<longleftrightarrow> is_cont b1 \<and> (unat b0 = 0xE0 \<longrightarrow> 0xA0 \<le> unat b1) \<and>
     (unat b0 = 0xED \<longrightarrow> unat b1 \<le> 0x9F)"

definition second_of_4 :: "u8 \<Rightarrow> u8 \<Rightarrow> bool" where
  "second_of_4 b0 b1 \<longleftrightarrow> is_cont b1 \<and> (unat b0 = 0xF0 \<longrightarrow> 0x90 \<le> unat b1) \<and>
     (unat b0 = 0xF4 \<longrightarrow> unat b1 \<le> 0x8F)"

text \<open>
  One step over a nonempty input: the scalar value read, or \<open>None\<close> for a maximal ill-formed
  prefix, and the bytes that follow it.
\<close>

fun utf8_next :: "bytes \<Rightarrow> nat option \<times> bytes" where
  "utf8_next [] = (None, [])"
| "utf8_next (b0 # r0) =
     (if unat b0 < 0x80 then (Some (unat b0), r0)
      else if 0xC2 \<le> unat b0 \<and> unat b0 \<le> 0xDF then
        (case r0 of
           b1 # r1 \<Rightarrow>
             if is_cont b1 then (Some ((unat b0 - 0xC0) * 64 + (unat b1 - 0x80)), r1)
             else (None, r0)
         | [] \<Rightarrow> (None, []))
      else if 0xE0 \<le> unat b0 \<and> unat b0 \<le> 0xEF then
        (case r0 of
           b1 # r1 \<Rightarrow>
             if second_of_3 b0 b1 then
               (case r1 of
                  b2 # r2 \<Rightarrow>
                    if is_cont b2 then
                      (Some ((unat b0 - 0xE0) * 4096 + (unat b1 - 0x80) * 64 + (unat b2 - 0x80)), r2)
                    else (None, r1)
                | [] \<Rightarrow> (None, []))
             else (None, r0)
         | [] \<Rightarrow> (None, []))
      else if 0xF0 \<le> unat b0 \<and> unat b0 \<le> 0xF4 then
        (case r0 of
           b1 # r1 \<Rightarrow>
             if second_of_4 b0 b1 then
               (case r1 of
                  b2 # r2 \<Rightarrow>
                    if is_cont b2 then
                      (case r2 of
                         b3 # r3 \<Rightarrow>
                           if is_cont b3 then
                             (Some ((unat b0 - 0xF0) * 262144 + (unat b1 - 0x80) * 4096
                                    + (unat b2 - 0x80) * 64 + (unat b3 - 0x80)), r3)
                           else (None, r2)
                       | [] \<Rightarrow> (None, []))
                    else (None, r1)
                | [] \<Rightarrow> (None, []))
             else (None, r0)
         | [] \<Rightarrow> (None, []))
      else (None, r0))"

lemma utf8_next_shorter: "length (snd (utf8_next (b # bs))) \<le> length bs"
  by (auto split: list.splits)

declare utf8_next.simps(2) [simp del]

lemma utf8_next_rest: "(c, rest) = utf8_next (b # bs) \<Longrightarrow> length rest < Suc (length bs)"
  using utf8_next_shorter [of b bs] by (metis le_imp_less_Suc snd_conv)

function from_utf8_lossy :: "bytes \<Rightarrow> rstring" where
  "from_utf8_lossy [] = []"
| "from_utf8_lossy (b # bs) =
     (case utf8_next (b # bs) of
        (c, rest) \<Rightarrow> (case c of Some v \<Rightarrow> v | None \<Rightarrow> 0xFFFD) # from_utf8_lossy rest)"
  by pat_completeness auto
termination
  by (relation "measure length")
    (auto dest: utf8_next_rest)

function from_utf8 :: "bytes \<Rightarrow> rstring option" where
  "from_utf8 [] = Some []"
| "from_utf8 (b # bs) =
     (case utf8_next (b # bs) of
        (None, rest) \<Rightarrow> None
      | (Some v, rest) \<Rightarrow> map_option ((#) v) (from_utf8 rest))"
  by pat_completeness auto
termination
  by (relation "measure length")
    (auto dest: utf8_next_rest)


section \<open>Round trips\<close>

lemma utf8_char_nonempty: "utf8_char c \<noteq> []"
  by (simp add: utf8_char_def)

text \<open>The base-64 digits of a scalar value, for linear arithmetic.\<close>

lemma digits64:
  fixes c :: nat
  shows "c = 64 * (c div 64) + c mod 64" "c mod 64 < 64"
    "c div 64 = 64 * (c div 4096) + c div 64 mod 64" "c div 64 mod 64 < 64"
    "c div 4096 = 64 * (c div 262144) + c div 4096 mod 64" "c div 4096 mod 64 < 64"
  using div_mult2_eq [of c 64 64] div_mult2_eq [of c 4096 64]
    mult_div_mod_eq [of 64 "c div 64"] mult_div_mod_eq [of 64 "c div 4096"]
  by (simp_all del: mult_div_mod_eq)

lemma utf8_next_1: "n0 < 0x80 \<Longrightarrow> utf8_next (byte_of n0 # r) = (Some n0, r)"
  by (simp add: utf8_next.simps(2))

lemma utf8_next_2:
  "0xC2 \<le> n0 \<Longrightarrow> n0 \<le> 0xDF \<Longrightarrow> 0x80 \<le> n1 \<Longrightarrow> n1 \<le> 0xBF \<Longrightarrow>
     utf8_next (byte_of n0 # byte_of n1 # r) = (Some ((n0 - 0xC0) * 64 + (n1 - 0x80)), r)"
  by (simp add: utf8_next.simps(2) is_cont_def)

lemma utf8_next_3:
  "0xE0 \<le> n0 \<Longrightarrow> n0 \<le> 0xEF \<Longrightarrow> 0x80 \<le> n1 \<Longrightarrow> n1 \<le> 0xBF \<Longrightarrow> 0x80 \<le> n2 \<Longrightarrow> n2 \<le> 0xBF \<Longrightarrow>
   (n0 = 0xE0 \<longrightarrow> 0xA0 \<le> n1) \<Longrightarrow> (n0 = 0xED \<longrightarrow> n1 \<le> 0x9F) \<Longrightarrow>
     utf8_next (byte_of n0 # byte_of n1 # byte_of n2 # r)
       = (Some ((n0 - 0xE0) * 4096 + (n1 - 0x80) * 64 + (n2 - 0x80)), r)"
  by (simp add: utf8_next.simps(2) is_cont_def second_of_3_def)

lemma utf8_next_4:
  "0xF0 \<le> n0 \<Longrightarrow> n0 \<le> 0xF4 \<Longrightarrow> 0x80 \<le> n1 \<Longrightarrow> n1 \<le> 0xBF \<Longrightarrow> 0x80 \<le> n2 \<Longrightarrow> n2 \<le> 0xBF \<Longrightarrow>
   0x80 \<le> n3 \<Longrightarrow> n3 \<le> 0xBF \<Longrightarrow> (n0 = 0xF0 \<longrightarrow> 0x90 \<le> n1) \<Longrightarrow> (n0 = 0xF4 \<longrightarrow> n1 \<le> 0x8F) \<Longrightarrow>
     utf8_next (byte_of n0 # byte_of n1 # byte_of n2 # byte_of n3 # r)
       = (Some ((n0 - 0xF0) * 262144 + (n1 - 0x80) * 4096 + (n2 - 0x80) * 64 + (n3 - 0x80)), r)"
  by (simp add: utf8_next.simps(2) is_cont_def second_of_4_def)

lemma utf8_next_char:
  assumes "is_scalar c"
  shows "utf8_next (utf8_char c @ rest) = (Some c, rest)"
proof -
  have c: "c < 0x110000" and surr: "0xD800 \<le> c \<longrightarrow> 0xE000 \<le> c"
    using assms by (auto simp: is_scalar_def)
  consider "c < 0x80" | "0x80 \<le> c" "c < 0x800" | "0x800 \<le> c" "c < 0x10000" | "0x10000 \<le> c"
    by linarith
  then show ?thesis
  proof cases
    case 1
    then show ?thesis by (simp add: utf8_char_def utf8_next_1)
  next
    case 2
    then have "0xC2 \<le> 0xC0 + c div 64" "0xC0 + c div 64 \<le> 0xDF" using digits64 [of c] by linarith+
    with 2 show ?thesis
      by (simp add: utf8_char_def utf8_next_2)
  next
    case 3
    then have "0xE0 + c div 4096 \<le> 0xEF" "0xE0 + c div 4096 = 0xE0 \<longrightarrow> 0xA0 \<le> 0x80 + c div 64 mod 64"
      "0xE0 + c div 4096 = 0xED \<longrightarrow> 0x80 + c div 64 mod 64 \<le> 0x9F"
      "0x80 + c div 64 mod 64 \<le> 0xBF" "0x80 + c mod 64 \<le> 0xBF"
      "c div 4096 * 4096 + c div 64 mod 64 * 64 + c mod 64 = c"
      using surr digits64 [of c] by linarith+
    with 3 show ?thesis
      by (simp add: utf8_char_def utf8_next_3)
  next
    case 4
    with c have "0xF0 + c div 262144 \<le> 0xF4"
      "0xF0 + c div 262144 = 0xF0 \<longrightarrow> 0x90 \<le> 0x80 + c div 4096 mod 64"
      "0xF0 + c div 262144 = 0xF4 \<longrightarrow> 0x80 + c div 4096 mod 64 \<le> 0x8F"
      "0x80 + c div 4096 mod 64 \<le> 0xBF" "0x80 + c div 64 mod 64 \<le> 0xBF" "0x80 + c mod 64 \<le> 0xBF"
      "c div 262144 * 262144 + c div 4096 mod 64 * 4096 + c div 64 mod 64 * 64 + c mod 64 = c"
      using digits64 [of c] by linarith+
    with 4 show ?thesis
      by (simp add: utf8_char_def utf8_next_4)
  qed
qed

interpretation utf8_codec: option_codec utf8_char
    "\<lambda>bs. case utf8_next bs of (None, _) \<Rightarrow> None | (Some c, rest) \<Rightarrow> Some (c, rest)" is_scalar
  by unfold_locales (simp add: utf8_next_char)

lemma from_utf8_lossy_char:
  assumes "is_scalar c"
  shows "from_utf8_lossy (utf8_char c @ rest) = c # from_utf8_lossy rest"
proof -
  obtain b bs where "utf8_char c @ rest = b # bs"
    by (metis append_is_Nil_conv neq_Nil_conv utf8_char_nonempty)
  with utf8_next_char [OF assms, of rest] show ?thesis by simp
qed

lemma from_utf8_char:
  assumes "is_scalar c"
  shows "from_utf8 (utf8_char c @ rest) = map_option ((#) c) (from_utf8 rest)"
proof -
  obtain b bs where "utf8_char c @ rest = b # bs"
    by (metis append_is_Nil_conv neq_Nil_conv utf8_char_nonempty)
  with utf8_next_char [OF assms, of rest] show ?thesis by simp
qed

lemma from_utf8_lossy_as_bytes: "list_all is_scalar s \<Longrightarrow> from_utf8_lossy (as_bytes s) = s"
  by (induction s) (simp_all add: as_bytes_def from_utf8_lossy_char)

lemma from_utf8_as_bytes: "list_all is_scalar s \<Longrightarrow> from_utf8 (as_bytes s) = Some s"
  by (induction s) (simp_all add: as_bytes_def from_utf8_char)

section \<open>Exactness of strict decoding\<close>

lemma digit_div: "(x::nat) < m \<Longrightarrow> (a * m + x) div m = a"
  and digit_mod: "(x::nat) < m \<Longrightarrow> (a * m + x) mod m = x"
  by (simp_all add: div_nat_eqI)

lemma utf8_char_2:
  assumes "2 \<le> a" "a \<le> 31" "d \<le> 63" and c: "c = a * 64 + d"
  shows "is_scalar c \<and> utf8_char c = [byte_of (0xC0 + a), byte_of (0x80 + d)]"
proof -
  have "0x80 \<le> c" "c < 0x800" using assms by linarith+
  with assms digit_div [of d 64 a] digit_mod [of d 64 a] show ?thesis
    by (simp add: is_scalar_def utf8_char_def)
qed

lemma utf8_char_3:
  assumes "a \<le> 15" "b \<le> 63" "d \<le> 63" "a = 0 \<longrightarrow> 32 \<le> b" "a = 13 \<longrightarrow> b \<le> 31"
    and c: "c = a * 4096 + b * 64 + d"
  shows "is_scalar c \<and> utf8_char c = [byte_of (0xE0 + a), byte_of (0x80 + b), byte_of (0x80 + d)]"
proof -
  have "c = (a * 64 + b) * 64 + d" using c by simp
  then have 1: "c div 64 = a * 64 + b" "c mod 64 = d"
    using assms(3) by (simp_all only: digit_div digit_mod)
  then have 2: "c div 64 mod 64 = b" "c div 4096 = a"
    using assms(2) digit_div [of b 64 a] digit_mod [of b 64 a] div_mult2_eq [of c 64 64] by simp_all
  consider "a \<le> 12" | "a = 13" | "14 \<le> a" by linarith
  then have "is_scalar c" using assms c by cases (auto simp: is_scalar_def)
  moreover have "0x800 \<le> c" "c < 0x10000" using assms by (cases "a = 0"; auto)+
  ultimately show ?thesis using 1 2 by (simp add: utf8_char_def)
qed

lemma utf8_char_4:
  assumes "a \<le> 4" "b \<le> 63" "d \<le> 63" "e \<le> 63" "a = 0 \<longrightarrow> 16 \<le> b" "a = 4 \<longrightarrow> b \<le> 15"
    and c: "c = a * 262144 + b * 4096 + d * 64 + e"
  shows "is_scalar c \<and>
    utf8_char c = [byte_of (0xF0 + a), byte_of (0x80 + b), byte_of (0x80 + d), byte_of (0x80 + e)]"
proof -
  have "c = ((a * 64 + b) * 64 + d) * 64 + e" using c by simp
  then have 1: "c div 64 = (a * 64 + b) * 64 + d" "c mod 64 = e"
    using assms(4) by (simp_all only: digit_div digit_mod)
  then have 2: "c div 64 div 64 = a * 64 + b" "c div 64 mod 64 = d"
    using assms(3) by (simp_all only: digit_div digit_mod)
  then have 3: "c div 64 div 64 div 64 = a" "c div 64 div 64 mod 64 = b"
    using assms(2) by (simp_all only: digit_div digit_mod)
  have 4: "c div 4096 = c div 64 div 64" "c div 262144 = c div 64 div 64 div 64"
    using div_mult2_eq [of c 64 64] div_mult2_eq [of c 4096 64] by simp_all
  have "0x10000 \<le> c" using assms by (cases "a = 0") auto
  moreover have "c < 0x110000" using assms by (cases "a = 4") auto
  ultimately show ?thesis using 1(2) 2(2) 3 4 by (simp add: utf8_char_def is_scalar_def)
qed

lemma byte_of_offset: "k \<le> unat b \<Longrightarrow> byte_of (k + (unat b - k)) = b"
  by simp

lemma utf8_next_Some:
  assumes "utf8_next bs = (Some c, rest)"
  shows "is_scalar c \<and> bs = utf8_char c @ rest"
proof (cases bs)
  case (Cons b0 r0)
  consider "unat b0 < 0x80" | "0xC2 \<le> unat b0" "unat b0 \<le> 0xDF" | "0xE0 \<le> unat b0" "unat b0 \<le> 0xEF"
    | "0xF0 \<le> unat b0" "unat b0 \<le> 0xF4"
    using assms unfolding Cons by (auto simp: utf8_next.simps(2) split: if_splits)
  then show ?thesis
  proof cases
    case 1
    with assms Cons show ?thesis
      by (auto simp: utf8_next.simps(2) is_scalar_def utf8_char_def)
  next
    case 2
    with assms obtain b1 where r: "r0 = b1 # rest" "is_cont b1"
      and c: "c = (unat b0 - 0xC0) * 64 + (unat b1 - 0x80)"
      unfolding Cons by (auto simp: utf8_next.simps(2) split: if_splits list.splits)
    from 2 r have "is_scalar c \<and> utf8_char c
        = [byte_of (0xC0 + (unat b0 - 0xC0)), byte_of (0x80 + (unat b1 - 0x80))]"
      unfolding is_cont_def by (intro utf8_char_2 [OF _ _ _ c]) linarith+
    with 2 r have "is_scalar c \<and> utf8_char c = [b0, b1]"
      by (simp add: is_cont_def byte_of_offset)
    with r Cons show ?thesis by simp
  next
    case 3
    with assms obtain b1 b2 where r: "r0 = b1 # b2 # rest" "second_of_3 b0 b1" "is_cont b2"
      and c: "c = (unat b0 - 0xE0) * 4096 + (unat b1 - 0x80) * 64 + (unat b2 - 0x80)"
      unfolding Cons by (auto simp: utf8_next.simps(2) split: if_splits list.splits)
    from 3 r have "is_scalar c \<and> utf8_char c
        = [byte_of (0xE0 + (unat b0 - 0xE0)), byte_of (0x80 + (unat b1 - 0x80)), byte_of (0x80 + (unat b2 - 0x80))]"
      unfolding is_cont_def second_of_3_def by (intro utf8_char_3 [OF _ _ _ _ _ c]) linarith+
    with 3 r have "is_scalar c \<and> utf8_char c = [b0, b1, b2]"
      by (simp add: is_cont_def second_of_3_def byte_of_offset)
    with r Cons show ?thesis by simp
  next
    case 4
    with assms obtain b1 b2 b3 where r: "r0 = b1 # b2 # b3 # rest" "second_of_4 b0 b1" "is_cont b2" "is_cont b3"
      and c: "c = (unat b0 - 0xF0) * 262144 + (unat b1 - 0x80) * 4096 + (unat b2 - 0x80) * 64
                + (unat b3 - 0x80)"
      unfolding Cons by (auto simp: utf8_next.simps(2) split: if_splits list.splits)
    from 4 r have "is_scalar c \<and> utf8_char c
        = [byte_of (0xF0 + (unat b0 - 0xF0)), byte_of (0x80 + (unat b1 - 0x80)),
           byte_of (0x80 + (unat b2 - 0x80)), byte_of (0x80 + (unat b3 - 0x80))]"
      unfolding is_cont_def second_of_4_def by (intro utf8_char_4 [OF _ _ _ _ _ _ c]) linarith+
    with 4 r have "is_scalar c \<and> utf8_char c = [b0, b1, b2, b3]"
      by (simp add: is_cont_def second_of_4_def byte_of_offset)
    with r Cons show ?thesis by simp
  qed
qed (use assms in simp)

lemma from_utf8_Some:
  "from_utf8 bs = Some s \<Longrightarrow> list_all is_scalar s \<and> as_bytes s = bs"
proof (induction bs arbitrary: s rule: from_utf8.induct)
  case 1
  then show ?case by (simp add: as_bytes_def)
next
  case (2 b bs)
  then show ?case
    by (auto simp: as_bytes_def split: prod.splits option.splits dest!: utf8_next_Some)
qed

lemma from_utf8_lossy_scalar: "list_all is_scalar (from_utf8_lossy bs)"
  by (induction bs rule: from_utf8_lossy.induct)
    (auto simp: is_scalar_def [of 65533] split: prod.splits option.splits dest!: utf8_next_Some)

end
