(* ===== verification/Protocol.thy ===== *)
theory Protocol
  imports Utf8
begin

text \<open>
  The PostgreSQL wire protocol as \<open>protocol.rs\<close> reads and writes it: message framing and the
  buffered frame reader, startup packets, RowDescription and DataRow bodies, SASL mechanism
  lists, Error/Notice scrubbing, and the frontend messages that steer the session. A Rust
  \<open>Result\<close> is a sum with one error constructor per \<open>bail!\<close>; an \<open>Option\<close> is an \<open>option\<close>; a
  \<open>&mut Bytes\<close> cursor is the remaining byte list, returned.
\<close>

section \<open>Tags and constants\<close>

definition B_AUTHENTICATION :: u8 where "B_AUTHENTICATION = 0x52"
definition B_ROW_DESCRIPTION :: u8 where "B_ROW_DESCRIPTION = 0x54"
definition B_DATA_ROW :: u8 where "B_DATA_ROW = 0x44"
definition B_COPY_OUT_RESPONSE :: u8 where "B_COPY_OUT_RESPONSE = 0x48"
definition B_COPY_BOTH_RESPONSE :: u8 where "B_COPY_BOTH_RESPONSE = 0x57"
definition B_ERROR_RESPONSE :: u8 where "B_ERROR_RESPONSE = 0x45"
definition B_NOTICE_RESPONSE :: u8 where "B_NOTICE_RESPONSE = 0x4E"
definition B_PARAMETER_STATUS :: u8 where "B_PARAMETER_STATUS = 0x53"
definition B_NOTIFICATION_RESPONSE :: u8 where "B_NOTIFICATION_RESPONSE = 0x41"
definition B_READY_FOR_QUERY :: u8 where "B_READY_FOR_QUERY = 0x5A"
definition B_COMMAND_COMPLETE :: u8 where "B_COMMAND_COMPLETE = 0x43"
definition B_EMPTY_QUERY_RESPONSE :: u8 where "B_EMPTY_QUERY_RESPONSE = 0x49"
definition B_PARSE_COMPLETE :: u8 where "B_PARSE_COMPLETE = 0x31"
definition B_BIND_COMPLETE :: u8 where "B_BIND_COMPLETE = 0x32"
definition B_COPY_DATA :: u8 where "B_COPY_DATA = 0x64"
definition B_COPY_DONE :: u8 where "B_COPY_DONE = 0x63"
definition B_PORTAL_SUSPENDED :: u8 where "B_PORTAL_SUSPENDED = 0x73"
definition B_NO_DATA :: u8 where "B_NO_DATA = 0x6E"

text \<open>Authentication, BackendKeyData, ReadyForQuery, Parse/Bind/CloseComplete,
  ParameterDescription, CopyInResponse, NegotiateProtocolVersion.\<close>

definition BACKEND_CONTROL_TAGS :: "u8 list" where
  "BACKEND_CONTROL_TAGS = [0x52, 0x4B, 0x5A, 0x31, 0x32, 0x33, 0x74, 0x47, 0x76]"

definition F_QUERY :: u8 where "F_QUERY = 0x51"
definition F_PARSE :: u8 where "F_PARSE = 0x50"
definition F_SYNC :: u8 where "F_SYNC = 0x53"
definition F_BIND :: u8 where "F_BIND = 0x42"
definition F_CLOSE :: u8 where "F_CLOSE = 0x43"
definition F_DESCRIBE :: u8 where "F_DESCRIBE = 0x44"
definition F_EXECUTE :: u8 where "F_EXECUTE = 0x45"
definition F_FUNCTION_CALL :: u8 where "F_FUNCTION_CALL = 0x46"
definition F_TERMINATE :: u8 where "F_TERMINATE = 0x58"

lemmas backend_tag_defs =
  B_AUTHENTICATION_def B_ROW_DESCRIPTION_def B_DATA_ROW_def B_COPY_OUT_RESPONSE_def
  B_COPY_BOTH_RESPONSE_def B_ERROR_RESPONSE_def B_NOTICE_RESPONSE_def B_PARAMETER_STATUS_def
  B_NOTIFICATION_RESPONSE_def B_READY_FOR_QUERY_def B_COMMAND_COMPLETE_def
  B_EMPTY_QUERY_RESPONSE_def B_PARSE_COMPLETE_def B_BIND_COMPLETE_def B_COPY_DATA_def
  B_COPY_DONE_def B_PORTAL_SUSPENDED_def B_NO_DATA_def BACKEND_CONTROL_TAGS_def

lemmas frontend_tag_defs =
  F_QUERY_def F_PARSE_def F_SYNC_def F_BIND_def F_CLOSE_def F_DESCRIBE_def F_EXECUTE_def
  F_FUNCTION_CALL_def F_TERMINATE_def

text \<open>Text, varchar, bpchar, name, unknown.\<close>

definition TEXT_FAMILY_OIDS :: "u32 list" where
  "TEXT_FAMILY_OIDS = [25, 1043, 1042, 19, 705]"

definition is_text_family :: "u32 \<Rightarrow> bool" where
  "is_text_family oid \<longleftrightarrow> oid \<in> set TEXT_FAMILY_OIDS"

section \<open>Errors\<close>

datatype proto_error =
    InvalidMessageLength i32
  | PeerClosedMidMessage nat
  | ImplausibleStartupLength i32
  | PeerClosedMidStartup
  | TruncatedRowDescription
  | NegativeFieldCount
  | BadFieldName
  | TruncatedField
  | TrailingBytesInRowDescription
  | TruncatedDataRow
  | NegativeDataRowCount
  | TruncatedFieldLength
  | InvalidNegativeFieldLength
  | TruncatedFieldBody
  | TrailingBytesInDataRow

section \<open>Framed messages\<close>

text \<open>
  \<open>i32::try_from(n).unwrap_or(i32::MAX).saturating_add(k)\<close> for a buffer length \<open>n\<close>.
\<close>

definition i32_max :: nat where
  "i32_max = 2 ^ 31 - 1"

definition i32_saturating_len :: "nat \<Rightarrow> nat \<Rightarrow> i32" where
  "i32_saturating_len n k = of_nat (min (min n i32_max + k) i32_max)"

record message =
  tag :: u8
  body :: bytes
  raw :: bytes

definition message_new :: "u8 \<Rightarrow> bytes \<Rightarrow> message" where
  "message_new t b =
     (let r = t # be_encode 4 (i32_saturating_len (length b) 4) @ b
      in \<lparr>tag = t, body = drop 5 r, raw = r\<rparr>)"

definition from_frame :: "u8 \<Rightarrow> bytes \<Rightarrow> message" where
  "from_frame t r = \<lparr>tag = t, body = drop 5 r, raw = r\<rparr>"

definition encode :: "message \<Rightarrow> bytes" where
  "encode m = raw m"

text \<open>
  \<open>try_take_message\<close>: a short buffer is "not yet" (\<open>None\<close> with the buffer untouched), a length
  below four is an error, and a complete frame is split off. The length is read as a signed
  32-bit integer; on a 64-bit target its conversion to \<open>usize\<close> plus one cannot overflow.
\<close>

definition try_take_message :: "bytes \<Rightarrow> proto_error + message option \<times> bytes" where
  "try_take_message buf =
     (case buf of
        t # l0 # l1 # l2 # l3 # _ \<Rightarrow>
          let len = be_decode [l0, l1, l2, l3] :: i32
          in if sint len < 4 then Inl (InvalidMessageLength len)
             else let total = nat (sint len) + 1
                  in if length buf < total then Inr (None, buf)
                     else Inr (Some (from_frame t (take total buf)), drop total buf)
      | _ \<Rightarrow> Inr (None, buf))"

section \<open>The frame reader\<close>

text \<open>
  The socket is the list of chunks it will still deliver; an exhausted list, like an empty chunk,
  is a read of zero bytes (end of file).
\<close>

record frame_reader =
  fr_buf :: bytes
  fr_eof :: bool

definition frame_reader_new :: frame_reader where
  "frame_reader_new = \<lparr>fr_buf = [], fr_eof = False\<rparr>"

fun read_message ::
  "frame_reader \<Rightarrow> bytes list \<Rightarrow> (proto_error + message option) \<times> frame_reader \<times> bytes list"
where
  "read_message fr chunks =
     (case try_take_message (fr_buf fr) of
        Inl e \<Rightarrow> (Inl e, fr, chunks)
      | Inr (Some m, rest) \<Rightarrow> (Inr (Some m), fr\<lparr>fr_buf := rest\<rparr>, chunks)
      | Inr (None, _) \<Rightarrow>
          (case chunks of
             [] \<Rightarrow>
               let fr' = fr\<lparr>fr_eof := True\<rparr>
               in if fr_buf fr = [] then (Inr None, fr', [])
                  else (Inl (PeerClosedMidMessage (length (fr_buf fr))), fr', [])
           | c # cs \<Rightarrow>
               if c = [] then
                 let fr' = fr\<lparr>fr_eof := True\<rparr>
                 in if fr_buf fr = [] then (Inr None, fr', cs)
                    else (Inl (PeerClosedMidMessage (length (fr_buf fr))), fr', cs)
               else read_message (fr\<lparr>fr_buf := fr_buf fr @ c\<rparr>) cs))"

declare read_message.simps [simp del]

definition try_buffered_message :: "frame_reader \<Rightarrow> (proto_error + message option) \<times> frame_reader" where
  "try_buffered_message fr =
     (case try_take_message (fr_buf fr) of
        Inl e \<Rightarrow> (Inl e, fr)
      | Inr (m, rest) \<Rightarrow> (Inr m, fr\<lparr>fr_buf := rest\<rparr>))"

section \<open>Cursor reads\<close>

definition read_i16 :: "bytes \<Rightarrow> (i16 \<times> bytes) option" where
  "read_i16 buf = (if length buf < 2 then None else Some (be_decode (take 2 buf), drop 2 buf))"

definition read_i32 :: "bytes \<Rightarrow> (i32 \<times> bytes) option" where
  "read_i32 buf = (if length buf < 4 then None else Some (be_decode (take 4 buf), drop 4 buf))"

text \<open>\<open>position(|b| b == 0)\<close>, then \<open>split_to\<close> and \<open>advance(1)\<close>.\<close>

definition read_cstring_bytes :: "bytes \<Rightarrow> (bytes \<times> bytes) option" where
  "read_cstring_bytes buf =
     (let stop = length (takeWhile (\<lambda>b. b \<noteq> 0) buf)
      in if stop = length buf then None else Some (take stop buf, drop (Suc stop) buf))"

definition read_cstring :: "bytes \<Rightarrow> (rstring \<times> bytes) option" where
  "read_cstring buf = map_option (apfst from_utf8_lossy) (read_cstring_bytes buf)"

definition read_utf8_cstring :: "bytes \<Rightarrow> (rstring option \<times> bytes) option" where
  "read_utf8_cstring buf = map_option (apfst from_utf8) (read_cstring_bytes buf)"

lemma read_cstring_bytes_append [wire_simps]:
  assumes "0 \<notin> set v"
  shows "read_cstring_bytes (v @ 0 # rest) = Some (v, rest)"
proof -
  have "takeWhile (\<lambda>b. b \<noteq> 0) (v @ 0 # rest) = v"
    using assms by (subst takeWhile_append2) auto
  then show ?thesis by (simp add: read_cstring_bytes_def)
qed

lemma read_cstring_bytes_Some:
  assumes "read_cstring_bytes buf = Some (v, rest)"
  shows "buf = v @ 0 # rest \<and> 0 \<notin> set v"
proof -
  let ?w = "takeWhile (\<lambda>b. b \<noteq> 0) buf"
  from assms have ne: "length ?w \<noteq> length buf"
    and v: "v = take (length ?w) buf" and r: "rest = drop (Suc (length ?w)) buf"
    by (auto simp: read_cstring_bytes_def Let_def split: if_splits)
  have lt: "length ?w < length buf"
    using ne length_takeWhile_le [of "\<lambda>b. b \<noteq> 0" buf] by linarith
  have "v = ?w" unfolding v by (metis takeWhile_eq_take)
  moreover have "buf ! length ?w = 0" using lt nth_length_takeWhile by blast
  moreover have "buf = take (length ?w) buf @ buf ! length ?w # drop (Suc (length ?w)) buf"
    using lt by (simp add: id_take_nth_drop)
  ultimately show ?thesis using v r by (metis set_takeWhileD)
qed

lemma read_cstring_bytes_shorter:
  "read_cstring_bytes buf = Some (v, rest) \<Longrightarrow> length rest < length buf"
  by (auto dest: read_cstring_bytes_Some)

lemma read_cstring_shorter: "read_cstring buf = Some (v, rest) \<Longrightarrow> length rest < length buf"
  by (auto simp: read_cstring_def dest: read_cstring_bytes_shorter)

interpretation cstring_codec: option_codec "\<lambda>v. v @ [0]" read_cstring_bytes "\<lambda>v. 0 \<notin> set v"
  by unfold_locales (simp add: read_cstring_bytes_append)

interpretation i16_codec: option_codec "be_encode 2" read_i16 "\<lambda>_. True"
  by unfold_locales (simp add: read_i16_def)

interpretation i32_codec: option_codec "be_encode 4" read_i32 "\<lambda>_. True"
  by unfold_locales (simp add: read_i32_def)

lemmas read_int_simps [wire_simps] =
  i16_codec.dec_enc_Some [OF TrueI] i32_codec.dec_enc_Some [OF TrueI]

section \<open>Startup packets\<close>

record startup_packet =
  code :: i32
  startup_body :: bytes

definition SSL_REQUEST_CODE :: i32 where "SSL_REQUEST_CODE = 80877103"
definition GSSENC_REQUEST_CODE :: i32 where "GSSENC_REQUEST_CODE = 80877104"
definition CANCEL_REQUEST_CODE :: i32 where "CANCEL_REQUEST_CODE = 80877102"

definition startup_encode :: "startup_packet \<Rightarrow> bytes" where
  "startup_encode p =
     be_encode 4 (i32_saturating_len (length (startup_body p)) 8) @ be_encode 4 (code p) @ startup_body p"

function parameters_loop :: "bytes \<Rightarrow> (rstring \<times> rstring) list" where
  "parameters_loop buf =
     (case read_cstring buf of
        None \<Rightarrow> []
      | Some (key, buf1) \<Rightarrow>
          if key = [] then []
          else (case read_cstring buf1 of
                  None \<Rightarrow> []
                | Some (val, buf2) \<Rightarrow> (key, val) # parameters_loop buf2))"
  by pat_completeness auto
termination
  by (relation "measure length") (auto dest!: read_cstring_shorter)

declare parameters_loop.simps [simp del]

definition parameters :: "startup_packet \<Rightarrow> (rstring \<times> rstring) list" where
  "parameters p = parameters_loop (startup_body p)"

definition try_take_startup :: "bytes \<Rightarrow> proto_error + startup_packet option \<times> bytes" where
  "try_take_startup buf =
     (if length buf < 8 then Inr (None, buf)
      else let len = be_decode (take 4 buf) :: i32
           in if \<not> (8 \<le> sint len \<and> sint len \<le> 1048576) then Inl (ImplausibleStartupLength len)
              else if length buf < nat (sint len) then Inr (None, buf)
              else let frame = drop 4 (take (nat (sint len)) buf)
                   in Inr (Some \<lparr>code = be_decode (take 4 frame), startup_body = drop 4 frame\<rparr>,
                           drop (nat (sint len)) buf))"

text \<open>Unlike \<open>read_message\<close>, it leaves the end-of-file flag alone.\<close>

fun read_startup ::
  "frame_reader \<Rightarrow> bytes list \<Rightarrow> (proto_error + startup_packet option) \<times> frame_reader \<times> bytes list"
where
  "read_startup fr chunks =
     (case try_take_startup (fr_buf fr) of
        Inl e \<Rightarrow> (Inl e, fr, chunks)
      | Inr (Some p, rest) \<Rightarrow> (Inr (Some p), fr\<lparr>fr_buf := rest\<rparr>, chunks)
      | Inr (None, _) \<Rightarrow>
          (case chunks of
             [] \<Rightarrow> if fr_buf fr = [] then (Inr None, fr, []) else (Inl PeerClosedMidStartup, fr, [])
           | c # cs \<Rightarrow>
               if c = [] then (if fr_buf fr = [] then (Inr None, fr, cs) else (Inl PeerClosedMidStartup, fr, cs))
               else read_startup (fr\<lparr>fr_buf := fr_buf fr @ c\<rparr>) cs))"

declare read_startup.simps [simp del]

section \<open>RowDescription\<close>

record field_description =
  fd_name :: rstring
  table_oid :: u32
  column_id :: i16
  type_oid :: u32
  type_mod :: i32
  format :: i16

definition has_provenance :: "field_description \<Rightarrow> bool" where
  "has_provenance f \<longleftrightarrow> table_oid f \<noteq> 0"

definition parse_field_description :: "bytes \<Rightarrow> proto_error + (field_description \<times> bytes)" where
  "parse_field_description buf =
     (case read_cstring buf of
        None \<Rightarrow> Inl BadFieldName
      | Some (n, b) \<Rightarrow>
          if length b < 18 then Inl TruncatedField
          else Inr (\<lparr>fd_name = n,
                     table_oid = be_decode (take 4 b),
                     column_id = be_decode (take 2 (drop 4 b)),
                     type_oid = be_decode (take 4 (drop 6 b)),
                     type_mod = be_decode (take 4 (drop 12 b)),
                     format = be_decode (take 2 (drop 16 b))\<rparr>, drop 18 b))"

definition parse_row_description :: "bytes \<Rightarrow> proto_error + field_description list" where
  "parse_row_description b =
     (if length b < 2 then Inl TruncatedRowDescription
      else let count = be_decode (take 2 b) :: i16
           in if sint count < 0 then Inl NegativeFieldCount
              else (case dec_many parse_field_description (nat (sint count)) (drop 2 b) of
                      Inl e \<Rightarrow> Inl e
                    | Inr (fds, rest) \<Rightarrow>
                        if rest \<noteq> [] then Inl TrailingBytesInRowDescription else Inr fds))"

section \<open>DataRow\<close>

definition parse_data_row_field :: "bytes \<Rightarrow> proto_error + (bytes option \<times> bytes)" where
  "parse_data_row_field buf =
     (if length buf < 4 then Inl TruncatedFieldLength
      else let len = be_decode (take 4 buf) :: i32; b = drop 4 buf
           in if sint len = - 1 then Inr (None, b)
              else if sint len < - 1 then Inl InvalidNegativeFieldLength
              else if length b < nat (sint len) then Inl TruncatedFieldBody
              else Inr (Some (take (nat (sint len)) b), drop (nat (sint len)) b))"

definition parse_data_row :: "bytes \<Rightarrow> proto_error + bytes option list" where
  "parse_data_row b =
     (if length b < 2 then Inl TruncatedDataRow
      else let count = be_decode (take 2 b) :: i16
           in if sint count < 0 then Inl NegativeDataRowCount
              else (case dec_many parse_data_row_field (nat (sint count)) (drop 2 b) of
                      Inl e \<Rightarrow> Inl e
                    | Inr (vs, rest) \<Rightarrow> if rest \<noteq> [] then Inl TrailingBytesInDataRow else Inr vs))"

text \<open>The incremental reader over the same body.\<close>

record data_row_reader =
  dr_buf :: bytes
  remaining_fields :: i16

definition data_row_reader_new :: "bytes \<Rightarrow> proto_error + data_row_reader" where
  "data_row_reader_new b =
     (if length b < 2 then Inl TruncatedDataRow
      else let count = be_decode (take 2 b) :: i16
           in if sint count < 0 then Inl NegativeDataRowCount
              else Inr \<lparr>dr_buf = drop 2 b, remaining_fields = count\<rparr>)"

definition field_count :: "data_row_reader \<Rightarrow> nat" where
  "field_count r = nat (max (sint (remaining_fields r)) 0)"

definition next_field :: "data_row_reader \<Rightarrow> proto_error + (bytes option option \<times> data_row_reader)" where
  "next_field r =
     (if remaining_fields r = 0 then
        (if dr_buf r \<noteq> [] then Inl TrailingBytesInDataRow else Inr (None, r))
      else
        let n = (if sint (remaining_fields r) = - (2 ^ 15) then remaining_fields r
                 else remaining_fields r - 1)
        in (if length (dr_buf r) < 4 then Inl TruncatedFieldLength
            else let len = be_decode (take 4 (dr_buf r)) :: i32; b = drop 4 (dr_buf r)
                 in if sint len = - 1 then Inr (Some None, \<lparr>dr_buf = b, remaining_fields = n\<rparr>)
                    else if sint len < - 1 then Inl InvalidNegativeFieldLength
                    else if length b < nat (sint len) then Inl TruncatedFieldBody
                    else Inr (Some (Some (take (nat (sint len)) b)),
                              \<lparr>dr_buf = drop (nat (sint len)) b, remaining_fields = n\<rparr>)))"

definition put_value :: "bytes option \<Rightarrow> bytes" where
  "put_value v =
     (case v of
        None \<Rightarrow> be_encode 4 (- 1 :: i32)
      | Some b \<Rightarrow> be_encode 4 (of_nat (length b) :: i32) @ b)"

definition build_data_row :: "bytes option list \<Rightarrow> message" where
  "build_data_row values =
     (let size = (\<Sum>v\<leftarrow>values. 4 + (case v of None \<Rightarrow> 0 | Some b \<Rightarrow> length b))
      in from_frame B_DATA_ROW
           (B_DATA_ROW # be_encode 4 (i32_saturating_len size 6)
              @ be_encode 2 (of_nat (length values) :: i16) @ concat (map put_value values)))"

section \<open>SASL mechanism negotiation\<close>

definition AUTH_SASL :: i32 where "AUTH_SASL = 10"

definition ends_with :: "rstring \<Rightarrow> rstring \<Rightarrow> bool" where
  "ends_with s suf \<longleftrightarrow> length suf \<le> length s \<and> drop (length s - length suf) s = suf"

definition is_plus :: "rstring \<Rightarrow> bool" where
  "is_plus m \<longleftrightarrow> ends_with m (str ''-PLUS'')"

function mechanisms_loop :: "bytes \<Rightarrow> rstring list" where
  "mechanisms_loop buf =
     (case read_cstring buf of
        None \<Rightarrow> []
      | Some (m, rest) \<Rightarrow> if m = [] then [] else m # mechanisms_loop rest)"
  by pat_completeness auto
termination
  by (relation "measure length") (auto dest!: read_cstring_shorter)

declare mechanisms_loop.simps [simp del]

definition sasl_mechanisms :: "bytes \<Rightarrow> rstring list" where
  "sasl_mechanisms b =
     (if length b < 4 \<or> (be_decode (take 4 b) :: i32) \<noteq> AUTH_SASL then [] else mechanisms_loop (drop 4 b))"

definition strip_channel_binding :: "bytes \<Rightarrow> bytes option" where
  "strip_channel_binding b =
     (let ms = sasl_mechanisms b
      in if ms = [] \<or> \<not> list_ex is_plus ms then None
         else Some (be_encode 4 AUTH_SASL
                    @ concat (map (\<lambda>m. as_bytes m @ [0]) (filter (\<lambda>m. \<not> is_plus m) ms)) @ [0]))"

section \<open>ErrorResponse and NoticeResponse\<close>

definition SQLSTATE_INSUFFICIENT_PRIVILEGE :: bytes where
  "SQLSTATE_INSUFFICIENT_PRIVILEGE = lit ''42501''"

definition SQLSTATE_PROGRAM_LIMIT_EXCEEDED :: bytes where
  "SQLSTATE_PROGRAM_LIMIT_EXCEEDED = lit ''54000''"

definition put_field :: "u8 \<Rightarrow> bytes \<Rightarrow> bytes" where
  "put_field f v = f # v @ [0]"

definition build_error :: "bytes \<Rightarrow> bytes \<Rightarrow> bytes option \<Rightarrow> message" where
  "build_error sqlstate msg hint =
     message_new B_ERROR_RESPONSE
       (put_field 0x53 (lit ''ERROR'') @ put_field 0x56 (lit ''ERROR'')
        @ put_field 0x43 sqlstate @ put_field 0x4D msg
        @ (case hint of None \<Rightarrow> [] | Some h \<Rightarrow> put_field 0x48 h) @ [0])"

text \<open>\<open>b"DHncdtsqW"\<close>.\<close>

definition LEAKY_FIELDS :: "u8 list" where
  "LEAKY_FIELDS = [0x44, 0x48, 0x6E, 0x63, 0x64, 0x74, 0x73, 0x71, 0x57]"

definition NOTICE_WITHHELD :: bytes where
  "NOTICE_WITHHELD = lit ''pgmask: notice text withheld (it is written by SQL)''"

definition ERROR_WITHHELD :: bytes where
  "ERROR_WITHHELD = lit ''error text withheld by pgmask (SQL can choose it); see the SQLSTATE''"

definition WITHHELD_SQLSTATE :: bytes where
  "WITHHELD_SQLSTATE = lit ''XX000''"

definition ERROR_WITHHELD_WITH_CODE :: bytes where
  "ERROR_WITHHELD_WITH_CODE = lit ''error text and SQLSTATE withheld by pgmask (SQL can choose both)''"

function has_field :: "bytes \<Rightarrow> u8 \<Rightarrow> bool" where
  "has_field buf wanted =
     (case buf of
        [] \<Rightarrow> False
      | f # r \<Rightarrow>
          if f = 0 then False
          else (case read_cstring r of
                  None \<Rightarrow> False
                | Some (_, rest) \<Rightarrow> if f = wanted then True else has_field rest wanted))"
  by pat_completeness auto
termination
  by (relation "measure (length \<circ> fst)") (auto dest!: read_cstring_shorter)

declare has_field.simps [simp del]

definition withheld_message :: "bool \<Rightarrow> bool \<Rightarrow> bytes" where
  "withheld_message notice from_user_sql =
     (if notice then NOTICE_WITHHELD
      else if from_user_sql then ERROR_WITHHELD_WITH_CODE else ERROR_WITHHELD)"

text \<open>The rebuild loop: the bytes kept so far and whether anything changed.\<close>

function scrub_loop :: "bool \<Rightarrow> bool \<Rightarrow> bytes \<Rightarrow> bytes \<Rightarrow> bool \<Rightarrow> bytes \<times> bool" where
  "scrub_loop notice from_user_sql buf kept changed =
     (case buf of
        [] \<Rightarrow> (kept, changed)
      | f # r \<Rightarrow>
          if f = 0 then (kept, changed)
          else (case read_cstring r of
                  None \<Rightarrow> (kept, changed)
                | Some (v, rest) \<Rightarrow>
                    if f \<in> set LEAKY_FIELDS then scrub_loop notice from_user_sql rest kept True
                    else if f = 0x4D then
                      scrub_loop notice from_user_sql rest
                        (kept @ put_field 0x4D (withheld_message notice from_user_sql)) True
                    else if from_user_sql \<and> f = 0x43 then
                      scrub_loop notice from_user_sql rest (kept @ put_field 0x43 WITHHELD_SQLSTATE) True
                    else scrub_loop notice from_user_sql rest (kept @ put_field f (as_bytes v)) changed))"
  by pat_completeness auto
termination
  by (relation "measure (\<lambda>(n, u, buf, k, c). length buf)") (auto dest!: read_cstring_shorter)

declare scrub_loop.simps [simp del]

definition scrub_diagnostic :: "bytes \<Rightarrow> bool \<Rightarrow> bytes option" where
  "scrub_diagnostic b notice =
     (let from_user_sql = notice \<or> has_field b 0x57;
          (kept, changed) = scrub_loop notice from_user_sql b [] False
      in if \<not> changed then None else Some (kept @ [0]))"

definition scrub_error :: "bytes \<Rightarrow> bytes option" where
  "scrub_error b = scrub_diagnostic b False"

definition scrub_notice :: "bytes \<Rightarrow> bytes option" where
  "scrub_notice b = scrub_diagnostic b True"

section \<open>ParameterStatus\<close>

definition REPORTABLE_GUCS :: "rstring list" where
  "REPORTABLE_GUCS = map str
     [''client_encoding'', ''DateStyle'', ''default_transaction_read_only'', ''in_hot_standby'',
      ''integer_datetimes'', ''IntervalStyle'', ''is_superuser'', ''server_encoding'',
      ''server_version'', ''session_authorization'', ''standard_conforming_strings'', ''TimeZone'']"

definition parameter_status_is_safe :: "bytes \<Rightarrow> bool" where
  "parameter_status_is_safe b =
     (case read_cstring b of None \<Rightarrow> False | Some (key, _) \<Rightarrow> key \<in> set REPORTABLE_GUCS)"

section \<open>Frontend messages\<close>

datatype describe_target = Statement bytes | Portal bytes

definition parse_describe :: "bytes \<Rightarrow> describe_target option" where
  "parse_describe b =
     (case b of
        [] \<Rightarrow> None
      | kind # r \<Rightarrow>
          (case read_cstring_bytes r of
             None \<Rightarrow> None
           | Some (name, _) \<Rightarrow>
               if kind = 0x53 then Some (Statement name)
               else if kind = 0x50 then Some (Portal name) else None))"

definition parse_close :: "bytes \<Rightarrow> describe_target option" where
  "parse_close b = parse_describe b"

definition parse_bind :: "bytes \<Rightarrow> (bytes \<times> bytes) option" where
  "parse_bind b =
     (case read_cstring_bytes b of
        None \<Rightarrow> None
      | Some (portal, r) \<Rightarrow>
          (case read_cstring_bytes r of None \<Rightarrow> None | Some (statement, _) \<Rightarrow> Some (portal, statement)))"

text \<open>\<open>for _ in 0..n { read_i16(&mut buf)? }\<close>, collecting the codes.\<close>

fun read_i16s :: "nat \<Rightarrow> bytes \<Rightarrow> (i16 list \<times> bytes) option" where
  "read_i16s 0 buf = Some ([], buf)"
| "read_i16s (Suc n) buf =
     (case read_i16 buf of
        None \<Rightarrow> None
      | Some (c, r) \<Rightarrow> map_option (\<lambda>(cs, r'). (c # cs, r')) (read_i16s n r))"

text \<open>Skip the parameter values: a length, then that many bytes when it is positive.\<close>

fun skip_params :: "nat \<Rightarrow> bytes \<Rightarrow> bytes option" where
  "skip_params 0 buf = Some buf"
| "skip_params (Suc n) buf =
     (case read_i32 buf of
        None \<Rightarrow> None
      | Some (len, r) \<Rightarrow>
          if sint len > 0 then
            (if length r < nat (sint len) then None else skip_params n (drop (nat (sint len)) r))
          else skip_params n r)"

definition parse_bind_result_formats :: "bytes \<Rightarrow> i16 list option" where
  "parse_bind_result_formats b =
     (case read_cstring_bytes b of
        None \<Rightarrow> None
      | Some (_, b1) \<Rightarrow>
     (case read_cstring_bytes b1 of
        None \<Rightarrow> None
      | Some (_, b2) \<Rightarrow>
     (case read_i16 b2 of
        None \<Rightarrow> None
      | Some (n_param_formats, b3) \<Rightarrow>
     (case read_i16s (nat (max (sint n_param_formats) 0)) b3 of
        None \<Rightarrow> None
      | Some (_, b4) \<Rightarrow>
     (case read_i16 b4 of
        None \<Rightarrow> None
      | Some (n_params, b5) \<Rightarrow>
     (case skip_params (nat (max (sint n_params) 0)) b5 of
        None \<Rightarrow> None
      | Some b6 \<Rightarrow>
     (case read_i16 b6 of
        None \<Rightarrow> None
      | Some (n_result_formats, b7) \<Rightarrow>
          map_option fst (read_i16s (nat (max (sint n_result_formats) 0)) b7))))))))"

fun format_for :: "i16 list \<Rightarrow> nat \<Rightarrow> i16" where
  "format_for [] index = 0"
| "format_for [only] index = only"
| "format_for (c # d # cs) index =
     (if index < length (c # d # cs) then (c # d # cs) ! index else 0)"

definition parse_simple_query :: "bytes \<Rightarrow> rstring option" where
  "parse_simple_query b = (case read_utf8_cstring b of None \<Rightarrow> None | Some (sql, _) \<Rightarrow> sql)"

definition parse_parse :: "bytes \<Rightarrow> (bytes \<times> rstring) option" where
  "parse_parse b =
     (case read_cstring_bytes b of
        None \<Rightarrow> None
      | Some (name, r) \<Rightarrow>
          (case read_utf8_cstring r of
             Some (Some sql, _) \<Rightarrow> Some (name, sql)
           | _ \<Rightarrow> None))"

definition parse_execute :: "bytes \<Rightarrow> bytes option" where
  "parse_execute b = map_option fst (read_cstring_bytes b)"

end
