(* ===== verification/Mask_Types.thy ===== *)
theory Mask_Types
  imports Protocol
begin

text \<open>
  The data of the masking layer: the \<open>Mask\<close> enumeration, a mask specification with its JSON policy
  tables (\<open>MaskSpec\<close>, \<open>JsonFieldSpec\<close>, \<open>JsonKeySpec\<close>, \<open>JsonPolicyTrie\<close>), projection paths, the
  HMAC state a plan carries, and the capability table \<open>supports\<close> with the type-aware fallback for
  unclassified columns that is chosen from it.
\<close>

section \<open>Type OIDs and formats\<close>

definition OID_INT2 :: u32 where "OID_INT2 = 21"
definition OID_INT4 :: u32 where "OID_INT4 = 23"
definition OID_INT8 :: u32 where "OID_INT8 = 20"
definition OID_FLOAT4 :: u32 where "OID_FLOAT4 = 700"
definition OID_FLOAT8 :: u32 where "OID_FLOAT8 = 701"
definition OID_NUMERIC :: u32 where "OID_NUMERIC = 1700"
definition OID_DATE :: u32 where "OID_DATE = 1082"
definition OID_TIMESTAMP :: u32 where "OID_TIMESTAMP = 1114"
definition OID_TIMESTAMPTZ :: u32 where "OID_TIMESTAMPTZ = 1184"
definition OID_UUID :: u32 where "OID_UUID = 2950"
definition OID_INET :: u32 where "OID_INET = 869"
definition OID_CIDR :: u32 where "OID_CIDR = 650"
definition OID_VARCHAR :: u32 where "OID_VARCHAR = 1043"
definition OID_BPCHAR :: u32 where "OID_BPCHAR = 1042"
definition OID_BOOL :: u32 where "OID_BOOL = 16"
definition OID_JSON :: u32 where "OID_JSON = 114"
definition OID_JSONB :: u32 where "OID_JSONB = 3802"

lemmas oid_defs = OID_INT2_def OID_INT4_def OID_INT8_def OID_FLOAT4_def OID_FLOAT8_def
  OID_NUMERIC_def OID_DATE_def OID_TIMESTAMP_def OID_TIMESTAMPTZ_def OID_UUID_def OID_INET_def
  OID_CIDR_def OID_VARCHAR_def OID_BPCHAR_def OID_BOOL_def OID_JSON_def OID_JSONB_def

definition FORMAT_TEXT :: i16 where "FORMAT_TEXT = 0"
definition FORMAT_BINARY :: i16 where "FORMAT_BINARY = 1"

section \<open>Masks\<close>

datatype mask =
    MNone | MNull | Redact | Partial | Inner | Outer | Range | Hash | Pseudonym
  | DateYear | DateMonth | NumericBucket | Scrub | IpPrefix | Json

text \<open>The variants are finitely many, so statements over all of them evaluate.\<close>

instantiation mask :: enum
begin

definition enum_mask :: "mask list" where
  "enum_mask = [MNone, MNull, Redact, Partial, Inner, Outer, Range, Hash, Pseudonym,
     DateYear, DateMonth, NumericBucket, Scrub, IpPrefix, Json]"

definition enum_all_mask :: "(mask \<Rightarrow> bool) \<Rightarrow> bool" where
  "enum_all_mask P = list_all P enum_class.enum"

definition enum_ex_mask :: "(mask \<Rightarrow> bool) \<Rightarrow> bool" where
  "enum_ex_mask P = list_ex P enum_class.enum"

instance
proof
  have univ: "(UNIV :: mask set) = set enum_class.enum"
    by (auto simp: enum_mask_def intro: mask.exhaust)
  then show "(UNIV :: mask set) = set enum_class.enum" .
  show "distinct (enum_class.enum :: mask list)"
    by (simp add: enum_mask_def)
  show "enum_class.enum_all P \<longleftrightarrow> Ball UNIV P" for P :: "mask \<Rightarrow> bool"
    unfolding enum_all_mask_def univ by (simp add: list_all_iff)
  show "enum_class.enum_ex P \<longleftrightarrow> Bex UNIV P" for P :: "mask \<Rightarrow> bool"
    unfolding enum_ex_mask_def univ by (simp add: list_ex_iff)
qed

end

datatype json_unlisted = UnlistedNull | ShapeOnly | PassThrough
datatype json_path_navigation = ObjectKey | ArrayIndex | Ambiguous
datatype json_limit = LimitBytes | LimitDepth

section \<open>Specifications\<close>

datatype mask_spec =
    MaskSpec (kind: mask) (keep: u16) (range_start: u16) (range_end: u16) (bucket: i64)
      (keep_domain: bool) (domain: "rstring option")
      (json: "json_field_spec list") (json_trie: json_policy_node)
      (json_keys: "json_key_spec list") (json_key_policies: "(rstring \<times> mask_spec) list")
      (unlisted: json_unlisted) (json_max_bytes: nat) (json_max_depth: nat)
  and json_field_spec =
    JsonFieldSpec (pointer: rstring) (segments: "rstring list") (field_spec: mask_spec)
  and json_key_spec =
    JsonKeySpec (rule_key: rstring) (key_spec: mask_spec)
  and json_policy_node =
    JsonPolicyNode (policy: "(mask_spec \<times> nat) option") (children: "(rstring \<times> json_policy_node) list")

definition DEFAULT_JSON_MAX_BYTES :: nat where "DEFAULT_JSON_MAX_BYTES = 1048576"
definition DEFAULT_JSON_MAX_DEPTH :: nat where "DEFAULT_JSON_MAX_DEPTH = 64"
definition MAX_JSON_MAX_DEPTH :: nat where "MAX_JSON_MAX_DEPTH = 128"

definition empty_node :: json_policy_node where
  "empty_node = JsonPolicyNode None []"

text \<open>\<open>MaskSpec::new(kind)\<close>: the default specification with its kind replaced.\<close>

definition spec_new :: "mask \<Rightarrow> mask_spec" where
  "spec_new k = MaskSpec k 4 0 0 1 False None [] empty_node [] [] UnlistedNull
     DEFAULT_JSON_MAX_BYTES DEFAULT_JSON_MAX_DEPTH"

fun with_domain :: "rstring option \<Rightarrow> mask_spec \<Rightarrow> mask_spec" where
  "with_domain d (MaskSpec k kp s e b kd _ j t ks kps u mb md) =
     MaskSpec k kp s e b kd d j t ks kps u mb md"

lemma kind_spec_new [simp]: "kind (spec_new k) = k"
  by (simp add: spec_new_def)

lemma kind_with_domain [simp]: "kind (with_domain d s) = kind s"
  by (cases s) simp

lemma domain_with_domain [simp]: "domain (with_domain d s) = d"
  by (cases s) simp

definition is_passthrough :: "mask_spec \<Rightarrow> bool" where
  "is_passthrough s \<longleftrightarrow> kind s = MNone"

section \<open>Projections and HMAC states\<close>

record json_path_segment =
  seg_value :: rstring
  navigation :: json_path_navigation

type_synonym json_projection = "json_path_segment list"

text \<open>A keyed HMAC in progress: the key and the bytes absorbed so far.\<close>

record hmac_state =
  mac_key :: bytes
  absorbed :: bytes

type_synonym primed_mac = hmac_state

section \<open>The capability table\<close>

definition supports :: "mask_spec \<Rightarrow> u32 \<Rightarrow> i16 \<Rightarrow> bool" where
  "supports s oid fmt =
     (case kind s of
        MNone \<Rightarrow> True
      | MNull \<Rightarrow> True
      | Redact \<Rightarrow> is_text_family oid
      | Partial \<Rightarrow> is_text_family oid
      | Inner \<Rightarrow> is_text_family oid
      | Outer \<Rightarrow> is_text_family oid
      | Range \<Rightarrow> is_text_family oid
      | Hash \<Rightarrow> is_text_family oid
      | Pseudonym \<Rightarrow> is_text_family oid \<or> oid = OID_UUID
      | DateYear \<Rightarrow> oid \<in> {OID_DATE, OID_TIMESTAMP, OID_TIMESTAMPTZ}
      | DateMonth \<Rightarrow> oid \<in> {OID_DATE, OID_TIMESTAMP, OID_TIMESTAMPTZ}
      | NumericBucket \<Rightarrow>
          if oid \<in> {OID_INT2, OID_INT4, OID_INT8, OID_FLOAT4, OID_FLOAT8} then True
          else if oid = OID_NUMERIC then fmt = FORMAT_TEXT else False
      | Scrub \<Rightarrow> is_text_family oid
      | IpPrefix \<Rightarrow> is_text_family oid \<or> oid \<in> {OID_INET, OID_CIDR} \<and> fmt = FORMAT_TEXT
      | Json \<Rightarrow> oid \<in> {OID_JSON, OID_JSONB})"

definition PSEUDONYM_HEX_CHARS :: nat where "PSEUDONYM_HEX_CHARS = 16"

definition PSEUDONYM_MAX_CHARS :: nat where
  "PSEUDONYM_MAX_CHARS = PSEUDONYM_HEX_CHARS + 1 + 8 + length ''.invalid''"

definition pseudonym_fits_declared_width :: "u32 \<Rightarrow> i32 \<Rightarrow> bool" where
  "pseudonym_fits_declared_width oid tmod =
     (if oid \<notin> {OID_VARCHAR, OID_BPCHAR} \<or> sint tmod < 4 then True
      else PSEUDONYM_MAX_CHARS \<le> nat (sint tmod - 4))"

text \<open>
  \<open>MaskSpec::for_unclassified\<close>: the candidates in preference order, each accepted only when
  \<open>supports\<close> agrees and its intent gate holds.
\<close>

definition pseudonym_candidate :: "u32 \<Rightarrow> i16 \<Rightarrow> i32 \<Rightarrow> rstring option \<Rightarrow> mask_spec option" where
  "pseudonym_candidate oid fmt tmod stable_name =
     (if \<not> supports (spec_new Pseudonym) oid fmt then None
      else (case stable_name of
              None \<Rightarrow> None
            | Some name \<Rightarrow>
                if pseudonym_fits_declared_width oid tmod
                then Some (with_domain (Some (str ''unclassified:'' @ name)) (spec_new Pseudonym))
                else None))"

definition for_unclassified :: "u32 \<Rightarrow> i16 \<Rightarrow> i32 \<Rightarrow> rstring option \<Rightarrow> mask_spec" where
  "for_unclassified oid fmt tmod stable_name =
     (case pseudonym_candidate oid fmt tmod stable_name of
        Some s \<Rightarrow> s
      | None \<Rightarrow>
          if supports (spec_new DateYear) oid fmt then spec_new DateYear
          else if supports (spec_new IpPrefix) oid fmt \<and> oid \<in> {OID_INET, OID_CIDR}
          then spec_new IpPrefix
          else spec_new MNull)"

lemma supports_kind_cong: "kind s = kind t \<Longrightarrow> supports s = supports t"
  by (simp add: supports_def fun_eq_iff)

lemma supports_trivial [simp]:
  "kind s = MNone \<Longrightarrow> supports s oid fmt" "kind s = MNull \<Longrightarrow> supports s oid fmt"
  by (simp_all add: supports_def)

lemma pseudonym_candidate_unnamed [simp]: "pseudonym_candidate oid fmt tmod None = None"
  by (simp add: pseudonym_candidate_def)

lemma pseudonym_candidate_Some:
  "pseudonym_candidate oid fmt tmod nm = Some s \<Longrightarrow>
     kind s = Pseudonym \<and> supports s oid fmt \<and> (\<exists>name. nm = Some name \<and> domain s = Some (str ''unclassified:'' @ name))"
  by (auto simp: pseudonym_candidate_def supports_kind_cong [of "with_domain _ _" "spec_new Pseudonym"]
      split: if_splits option.splits)

text \<open>
  The automatic mask for an unclassified column is always one the column's type and format
  support, is never a passthrough, and is a pseudonym only under a catalog-resolved column name.
\<close>

theorem for_unclassified_safe:
  "supports (for_unclassified oid fmt tmod nm) oid fmt \<and>
   \<not> is_passthrough (for_unclassified oid fmt tmod nm) \<and>
   kind (for_unclassified oid fmt tmod nm) \<in> {Pseudonym, DateYear, IpPrefix, MNull} \<and>
   (nm = None \<longrightarrow> kind (for_unclassified oid fmt tmod nm) \<noteq> Pseudonym)"
  using pseudonym_candidate_Some [of oid fmt tmod nm]
  by (auto simp: for_unclassified_def is_passthrough_def split: option.splits)

theorem for_unclassified_safe_witness:
  "kind (for_unclassified 25 0 (- 1) None) \<noteq> Pseudonym \<and>
   kind (for_unclassified 25 0 (- 1) (Some (str ''s.t.c''))) = Pseudonym"
  using for_unclassified_safe [of 25 0 "- 1" None]
  by (simp add: for_unclassified_def pseudonym_candidate_def supports_def is_text_family_def
      TEXT_FAMILY_OIDS_def pseudonym_fits_declared_width_def oid_defs)

end
