(* ===== verification/Plan_State.thy ===== *)
theory Plan_State
  imports Mask_Types
begin

text \<open>
  The extended-query plan lifecycle of \<open>plan_state.rs\<close>: which masking plan governs the rows the
  backend sends next. The state holds the plans of statements and portals, the FIFO of messages
  whose description is owed, the provisional Parse and Bind mutations, and the queue of Executes
  whose rows are owed, each tagged with its \<open>Sync\<close> epoch and its Bind generation. Every method of
  \<open>PlanState\<close> is one function of the state; 64-bit counters saturate as in the source.
\<close>

section \<open>State\<close>

record field_plan =
  fp_spec :: mask_spec
  json_projection :: "json_projection option"
  fp_type_oid :: u32
  fp_format :: i16
  lenient :: bool
  primed :: "primed_mac option"

type_synonym plan = "field_plan list"

record pending_describe =
  pd_target :: describe_target
  pd_sql :: "rstring option"
  pd_epoch :: u64

record pending_simple =
  ps_sql :: "rstring option"
  ps_epoch :: u64
  ps_order :: u64

datatype pending_description = Describe pending_describe | Simple pending_simple

record pending_mutation =
  pm_name :: bytes
  pm_epoch :: u64

record pending_execute =
  pe_name :: bytes
  pe_epoch :: u64
  pe_order :: u64
  pe_plan :: "plan option"
  pe_generation :: u64

record plan_state =
  statement_plans :: "(bytes, plan) hmap"
  statement_sql :: "(bytes, rstring) hmap"
  portal_statement :: "(bytes, bytes) hmap"
  portal_plans :: "(bytes, plan) hmap"
  portal_formats :: "(bytes, i16 list option) hmap"
  portal_bind_generations :: "(bytes, u64) hmap"
  active_plan :: "plan option"
  active_portal :: "bytes option"
  active_epoch :: "u64 option"
  pending_descriptions :: "pending_description list"
  pending_parses :: "pending_mutation list"
  pending_binds :: "pending_mutation list"
  pending_executes :: "pending_execute list"
  suspended :: bool
  streaming_simple_result :: bool
  sync_epoch :: u64
  next_result_order :: u64
  generation :: u64

definition plan_state_default :: plan_state where
  "plan_state_default =
     \<lparr>statement_plans = [], statement_sql = [], portal_statement = [], portal_plans = [],
      portal_formats = [], portal_bind_generations = [], active_plan = None, active_portal = None,
      active_epoch = None, pending_descriptions = [], pending_parses = [], pending_binds = [],
      pending_executes = [], suspended = False, streaming_simple_result = False, sync_epoch = 0,
      next_result_order = 0, generation = 0\<rparr>"

fun description_epoch :: "pending_description \<Rightarrow> u64" where
  "description_epoch (Describe d) = pd_epoch d"
| "description_epoch (Simple q) = ps_epoch q"

section \<open>Frontend operations\<close>

definition invalidate_if_stale :: "u64 \<Rightarrow> plan_state \<Rightarrow> bool \<times> plan_state" where
  "invalidate_if_stale current s =
     (if generation s = current then (False, s)
      else (True, s\<lparr>generation := current, statement_plans := [], portal_plans := []\<rparr>))"

definition clear_active :: "plan_state \<Rightarrow> plan_state" where
  "clear_active s = s\<lparr>active_plan := None, active_epoch := None\<rparr>"

definition begin_simple_query :: "rstring option \<Rightarrow> plan_state \<Rightarrow> plan_state" where
  "begin_simple_query sql s =
     (let order = next_result_order s
      in s\<lparr>active_plan := None, active_epoch := None,
           next_result_order := saturating_succ (next_result_order s),
           pending_descriptions := pending_descriptions s @
             [Simple \<lparr>ps_sql = sql, ps_epoch = sync_epoch s, ps_order = order\<rparr>]\<rparr>)"

definition portals_of :: "bytes \<Rightarrow> plan_state \<Rightarrow> bytes list" where
  "portals_of statement s = map fst (filter (\<lambda>(_, st). st = statement) (portal_statement s))"

definition forget_stale_portal :: "bytes \<Rightarrow> plan_state \<Rightarrow> plan_state" where
  "forget_stale_portal portal s =
     s\<lparr>portal_plans := hremove portal (portal_plans s),
       portal_formats := hremove portal (portal_formats s),
       portal_bind_generations := hremove portal (portal_bind_generations s)\<rparr>"

definition parse :: "bytes \<Rightarrow> rstring \<Rightarrow> plan_state \<Rightarrow> plan_state" where
  "parse name sql s =
     (let s1 = (if hget (statement_sql s) name \<noteq> Some sql
                then fold forget_stale_portal (portals_of name s)
                       (s\<lparr>statement_plans := hremove name (statement_plans s)\<rparr>)
                else s)
      in s1\<lparr>statement_sql := hinsert name sql (statement_sql s1),
            pending_parses := pending_parses s1 @ [\<lparr>pm_name = name, pm_epoch = sync_epoch s1\<rparr>]\<rparr>)"

definition bind_generation :: "plan_state \<Rightarrow> bytes \<Rightarrow> u64" where
  "bind_generation s portal = (case hget (portal_bind_generations s) portal of None \<Rightarrow> 0 | Some g \<Rightarrow> g)"

definition holds_generation :: "pending_execute list \<Rightarrow> bytes \<Rightarrow> u64 \<Rightarrow> bool" where
  "holds_generation pending portal g \<longleftrightarrow>
     list_ex (\<lambda>p. pe_name p = portal \<and> pe_generation p = g) pending"

lemma saturating_succ_progress:
  assumes "saturating_succ w \<noteq> (w :: 'a::len word)"
  shows "2 ^ LENGTH('a) - unat (saturating_succ w) < 2 ^ LENGTH('a) - unat w"
proof -
  have "w < saturating_succ w" using assms saturating_succ_le [of w] by simp
  moreover have "unat (saturating_succ w) < 2 ^ LENGTH('a)" by (rule unsigned_less)
  ultimately show ?thesis unfolding word_less_nat_alt by linarith
qed

function fresh_generation :: "pending_execute list \<Rightarrow> bytes \<Rightarrow> u64 \<Rightarrow> u64" where
  "fresh_generation pending portal g =
     (if holds_generation pending portal g then
        (let bumped = saturating_succ g
         in if bumped = g then g else fresh_generation pending portal bumped)
      else g)"
  by pat_completeness auto
termination
  by (relation "measure (\<lambda>(_, _, g). 2 ^ 64 - unat g)")
    (use saturating_succ_progress [where 'a = 64] in auto)

declare fresh_generation.simps [simp del]

definition bump_bind_generation :: "bytes \<Rightarrow> plan_state \<Rightarrow> plan_state" where
  "bump_bind_generation portal s =
     s\<lparr>portal_bind_generations :=
        hinsert portal
          (fresh_generation (pending_executes s) portal (saturating_succ (bind_generation s portal)))
          (portal_bind_generations s)\<rparr>"

definition fill_pending_plan :: "bytes \<Rightarrow> plan \<Rightarrow> plan_state \<Rightarrow> plan_state" where
  "fill_pending_plan portal pl s =
     s\<lparr>pending_executes := map
        (\<lambda>p. if pe_name p = portal \<and> pe_generation p = bind_generation s portal \<and> pe_plan p = None
             then p\<lparr>pe_plan := Some pl\<rparr> else p) (pending_executes s)\<rparr>"

definition install_portal_plan :: "bytes \<Rightarrow> plan \<Rightarrow> plan_state \<Rightarrow> plan_state" where
  "install_portal_plan portal pl s =
     (let s1 = fill_pending_plan portal pl s
      in s1\<lparr>portal_plans := hinsert portal pl (portal_plans s1)\<rparr>)"

definition stamp :: "plan \<Rightarrow> i16 list option \<Rightarrow> plan" where
  "stamp pl formats =
     (case formats of
        Some fs \<Rightarrow> map (\<lambda>(i, f). f\<lparr>fp_format := format_for fs i\<rparr>) (List.enumerate 0 pl)
      | None \<Rightarrow> pl)"

definition plan_bind :: "bytes \<Rightarrow> bytes \<Rightarrow> i16 list option \<Rightarrow> plan_state \<Rightarrow> plan_state" where
  "plan_bind portal statement formats s =
     (let s1 = s\<lparr>portal_statement := hinsert portal statement (portal_statement s),
                 pending_binds := pending_binds s @ [\<lparr>pm_name = portal, pm_epoch = sync_epoch s\<rparr>],
                 portal_formats := hinsert portal formats (portal_formats s)\<rparr>;
          s2 = bump_bind_generation portal s1
      in case hget (statement_plans s2) statement of
           None \<Rightarrow> s2\<lparr>portal_plans := hremove portal (portal_plans s2)\<rparr>
         | Some statement_plan \<Rightarrow> install_portal_plan portal (stamp statement_plan formats) s2)"

definition sql_for_portal :: "plan_state \<Rightarrow> bytes \<Rightarrow> rstring option" where
  "sql_for_portal s portal =
     (case hget (portal_statement s) portal of
        None \<Rightarrow> None
      | Some statement \<Rightarrow> hget (statement_sql s) statement)"

definition describe :: "describe_target \<Rightarrow> plan_state \<Rightarrow> plan_state" where
  "describe target s =
     (let sql = (case target of
                   Statement name \<Rightarrow> hget (statement_sql s) name
                 | Portal portal \<Rightarrow> sql_for_portal s portal)
      in s\<lparr>pending_descriptions := pending_descriptions s @
             [Describe \<lparr>pd_target = target, pd_sql = sql, pd_epoch = sync_epoch s\<rparr>]\<rparr>)"

definition is_resume :: "plan_state \<Rightarrow> bytes \<Rightarrow> bool" where
  "is_resume s portal =
     (case front (pending_executes s) of
        None \<Rightarrow> False
      | Some p \<Rightarrow> pe_name p = portal \<and> pe_generation p = bind_generation s portal)"

definition restamp_front :: "u64 \<Rightarrow> pending_execute list \<Rightarrow> pending_execute list" where
  "restamp_front e ps = (case ps of [] \<Rightarrow> [] | p # r \<Rightarrow> p\<lparr>pe_epoch := e\<rparr> # r)"

definition push_execute :: "bytes \<Rightarrow> plan_state \<Rightarrow> plan_state" where
  "push_execute portal s =
     s\<lparr>next_result_order := saturating_succ (next_result_order s),
       pending_executes := pending_executes s @
         [\<lparr>pe_name = portal, pe_epoch = sync_epoch s, pe_order = next_result_order s,
           pe_plan = hget (portal_plans s) portal, pe_generation = bind_generation s portal\<rparr>]\<rparr>"

definition execute :: "bytes \<Rightarrow> plan_state \<Rightarrow> plan_state" where
  "execute portal s =
     (let s1 = s\<lparr>active_plan := hget (portal_plans s) portal, active_epoch := Some (sync_epoch s),
                 active_portal := Some portal\<rparr>
      in if suspended s1 then
           (let s2 = s1\<lparr>suspended := False\<rparr>
            in if is_resume s2 portal
               then s2\<lparr>pending_executes := restamp_front (sync_epoch s2) (pending_executes s2)\<rparr>
               else push_execute portal (s2\<lparr>pending_executes := pop_front (pending_executes s2)\<rparr>))
         else if is_resume s1 portal then s1
         else push_execute portal s1)"

definition forget_closed_portal :: "bytes \<Rightarrow> plan_state \<Rightarrow> plan_state" where
  "forget_closed_portal portal s =
     s\<lparr>portal_statement := hremove portal (portal_statement s),
       portal_plans := hremove portal (portal_plans s),
       portal_formats := hremove portal (portal_formats s)\<rparr>"

definition plan_close :: "describe_target \<Rightarrow> plan_state \<Rightarrow> plan_state" where
  "plan_close target s =
     (case target of
        Statement statement \<Rightarrow>
          let s1 = s\<lparr>statement_sql := hremove statement (statement_sql s),
                     statement_plans := hremove statement (statement_plans s)\<rparr>
          in fold forget_closed_portal (portals_of statement s1) s1
      | Portal portal \<Rightarrow> forget_closed_portal portal s)"

definition sync :: "plan_state \<Rightarrow> plan_state" where
  "sync s = s\<lparr>sync_epoch := saturating_succ (sync_epoch s)\<rparr>"

section \<open>Backend operations\<close>

definition suspend_result :: "plan_state \<Rightarrow> plan_state" where
  "suspend_result s =
     (if length (pending_executes s) > 1
      then s\<lparr>pending_executes := pop_front (pending_executes s), suspended := False\<rparr>
      else s\<lparr>suspended := True\<rparr>)"

definition ready_for_query :: "u8 \<Rightarrow> plan_state \<Rightarrow> plan_state" where
  "ready_for_query status s =
     (if \<not> suspended s \<or> status \<noteq> 0x49 then s
      else s\<lparr>pending_executes := [], suspended := False, active_plan := None,
             active_portal := None, active_epoch := None\<rparr>)"

definition result_owner :: "plan_state \<Rightarrow> bytes option" where
  "result_owner s = map_option pe_name (front (pending_executes s))"

definition streaming_plan :: "plan_state \<Rightarrow> plan option" where
  "streaming_plan s =
     (if streaming_simple_result s then active_plan s
      else (case front (pending_executes s) of
              None \<Rightarrow> if suspended s then None else active_plan s
            | Some p \<Rightarrow>
                (case pe_plan p of
                   Some pl \<Rightarrow> Some pl
                 | None \<Rightarrow>
                     if pe_generation p = bind_generation s (pe_name p)
                     then hget (portal_plans s) (pe_name p) else None)))"

definition finish_result_set :: "plan_state \<Rightarrow> plan_state" where
  "finish_result_set s =
     (if streaming_simple_result s then s\<lparr>streaming_simple_result := False\<rparr>
      else
        (let s1 = s\<lparr>suspended := False\<rparr>;
             simple_order = (case front (pending_descriptions s1) of
                               Some (Simple q) \<Rightarrow> Some (ps_order q) | _ \<Rightarrow> None);
             execute_order = map_option pe_order (front (pending_executes s1))
         in if (case simple_order of
                  None \<Rightarrow> False
                | Some sm \<Rightarrow> (case execute_order of None \<Rightarrow> True | Some ex \<Rightarrow> sm < ex))
            then s1\<lparr>pending_descriptions := pop_front (pending_descriptions s1)\<rparr>
            else s1\<lparr>pending_executes := pop_front (pending_executes s1)\<rparr>))"

definition finish_parse :: "plan_state \<Rightarrow> plan_state" where
  "finish_parse s = s\<lparr>pending_parses := pop_front (pending_parses s)\<rparr>"

definition portal_stamp :: "plan_state \<Rightarrow> bytes \<Rightarrow> plan \<Rightarrow> plan" where
  "portal_stamp s portal pl =
     stamp pl (case hget (portal_formats s) portal of None \<Rightarrow> None | Some f \<Rightarrow> f)"

definition finish_bind :: "plan_state \<Rightarrow> plan_state" where
  "finish_bind s =
     (case pending_binds s of
        [] \<Rightarrow> s
      | pending # rest \<Rightarrow>
          let portal = pm_name pending;
              s1 = s\<lparr>pending_binds := rest\<rparr>;
              s2 = (case hget (portal_plans s1) portal of
                      None \<Rightarrow>
                        (case hget (portal_statement s1) portal of
                           None \<Rightarrow> s1
                         | Some statement \<Rightarrow>
                             (case hget (statement_plans s1) statement of
                                None \<Rightarrow> s1
                              | Some pl \<Rightarrow> install_portal_plan portal (portal_stamp s1 portal pl) s1))
                    | Some pl \<Rightarrow> fill_pending_plan portal pl s1)
          in if active_portal s2 = Some portal
             then (case hget (portal_plans s2) portal of
                     Some pl \<Rightarrow> s2\<lparr>active_plan := Some pl\<rparr>
                   | None \<Rightarrow> s2)
             else s2)"

definition rejection_epoch :: "plan_state \<Rightarrow> u64" where
  "rejection_epoch s =
     (case front (pending_descriptions s) of
        Some d \<Rightarrow> description_epoch d
      | None \<Rightarrow> (case active_epoch s of Some e \<Rightarrow> e | None \<Rightarrow> sync_epoch s))"

definition finish_suppressed_epoch :: "u64 \<Rightarrow> plan_state \<Rightarrow> plan_state" where
  "finish_suppressed_epoch epoch s =
     s\<lparr>pending_descriptions := filter (\<lambda>d. description_epoch d \<noteq> epoch) (pending_descriptions s),
       pending_parses := filter (\<lambda>p. pm_epoch p \<noteq> epoch) (pending_parses s),
       pending_binds := filter (\<lambda>p. pm_epoch p \<noteq> epoch) (pending_binds s),
       pending_executes := filter (\<lambda>p. pe_epoch p \<noteq> epoch) (pending_executes s),
       streaming_simple_result := False,
       suspended := False\<rparr>"

definition failed_epoch :: "plan_state \<Rightarrow> u64 option" where
  "failed_epoch s =
     (case List.map_filter id
             [map_option description_epoch (front (pending_descriptions s)),
              map_option pm_epoch (front (pending_parses s)),
              map_option pm_epoch (front (pending_binds s))] of
        e # es \<Rightarrow> Some (fold min es e)
      | [] \<Rightarrow> map_option pe_epoch (front (pending_executes s)))"

definition failed_names :: "u64 \<Rightarrow> pending_mutation list \<Rightarrow> bytes list" where
  "failed_names e ps =
     filter (\<lambda>n. n \<notin> set (map pm_name (filter (\<lambda>p. pm_epoch p > e) ps)))
       (map pm_name (filter (\<lambda>p. pm_epoch p = e) ps))"

definition discard_failed_epoch :: "plan_state \<Rightarrow> plan_state" where
  "discard_failed_epoch s =
     (let was_suspended = suspended s;
          fe = failed_epoch s;
          s1 = s\<lparr>streaming_simple_result := False, active_plan := None, active_portal := None,
                 active_epoch := None\<rparr>
      in case fe of
           None \<Rightarrow> s1\<lparr>suspended := False\<rparr>
         | Some e \<Rightarrow>
             s1\<lparr>statement_sql := fold hremove (failed_names e (pending_parses s1)) (statement_sql s1),
                statement_plans := fold hremove (failed_names e (pending_parses s1)) (statement_plans s1),
                portal_statement := fold hremove (failed_names e (pending_binds s1)) (portal_statement s1),
                portal_plans := fold hremove (failed_names e (pending_binds s1)) (portal_plans s1),
                pending_descriptions := filter (\<lambda>d. description_epoch d \<noteq> e) (pending_descriptions s1),
                pending_parses := filter (\<lambda>p. pm_epoch p \<noteq> e) (pending_parses s1),
                pending_binds := filter (\<lambda>p. pm_epoch p \<noteq> e) (pending_binds s1),
                pending_executes := filter
                  (\<lambda>p. pe_epoch p \<noteq> e \<and> \<not> (was_suspended \<and> pe_epoch p < e)) (pending_executes s1),
                suspended := False\<rparr>)"

definition finish_no_data :: "plan_state \<Rightarrow> unit + plan_state" where
  "finish_no_data s =
     (case front (pending_descriptions s) of
        Some (Describe _) \<Rightarrow> Inr (s\<lparr>pending_descriptions := pop_front (pending_descriptions s)\<rparr>)
      | _ \<Rightarrow> Inl ())"

definition described_sql :: "plan_state \<Rightarrow> rstring option" where
  "described_sql s =
     (case front (pending_descriptions s) of
        Some (Describe d) \<Rightarrow> pd_sql d
      | Some (Simple q) \<Rightarrow> ps_sql q
      | None \<Rightarrow> None)"

definition discard_description :: "plan_state \<Rightarrow> plan_state" where
  "discard_description s = s\<lparr>pending_descriptions := pop_front (pending_descriptions s)\<rparr>"

definition install_statement_plan :: "bytes \<Rightarrow> plan \<Rightarrow> plan_state \<Rightarrow> plan_state" where
  "install_statement_plan name pl s =
     (let s1 = s\<lparr>statement_plans := hinsert name pl (statement_plans s)\<rparr>
      in fold (\<lambda>portal st. install_portal_plan portal (portal_stamp st portal pl) st)
           (portals_of name s1) s1)"

definition finish_description :: "plan \<Rightarrow> plan_state \<Rightarrow> unit + plan_state" where
  "finish_description pl s =
     (case pending_descriptions s of
        [] \<Rightarrow> Inl ()
      | Describe d # rest \<Rightarrow>
          let s1 = s\<lparr>pending_descriptions := rest, streaming_simple_result := False\<rparr>;
              s2 = (case pd_target d of
                      Statement name \<Rightarrow> install_statement_plan name pl s1
                    | Portal name \<Rightarrow> install_portal_plan name pl s1)
          in Inr (s2\<lparr>active_plan := Some pl, active_epoch := Some (pd_epoch d)\<rparr>)
      | Simple q # rest \<Rightarrow>
          Inr (s\<lparr>pending_descriptions := rest, streaming_simple_result := True,
                 active_plan := Some pl, active_epoch := Some (ps_epoch q)\<rparr>))"

definition finish_empty_query :: "plan_state \<Rightarrow> unit + plan_state" where
  "finish_empty_query s =
     (case front (pending_descriptions s) of
        Some (Simple _) \<Rightarrow>
          Inr (s\<lparr>pending_descriptions := pop_front (pending_descriptions s),
                 streaming_simple_result := False\<rparr>)
      | _ \<Rightarrow> Inl ())"

end
