(* ===== verification/Plan_State_Facts.thy ===== *)
theory Plan_State_Facts
  imports Plan_State
begin

text \<open>
  The plan lifecycle as a machine. Every method of \<open>PlanState\<close> is an operation of
  \<open>plan_step\<close>; a method that returns \<open>Err\<close> leaves the state as the caller then finds it. The facts
  are the well-formedness invariant of every run (queues ordered by epoch and by frontend order),
  what each operation can do to the plan that governs owed rows, the snapshot discipline of queued
  Executes, error recovery by epoch, and two pipelines in which rows are judged by a plan that was
  made for another result.
\<close>

section \<open>The machine\<close>

datatype plan_op =
    OpInvalidate u64 | OpClearActive | OpSimple "rstring option" | OpParse bytes rstring
  | OpBind bytes bytes "i16 list option" | OpDescribe describe_target | OpExecute bytes
  | OpClose describe_target | OpSync | OpSuspended | OpReady u8 | OpResultEnd | OpParseComplete
  | OpBindComplete | OpSuppressed u64 | OpError | OpNoData | OpDropDescription
  | OpDescription plan | OpEmptyQuery

definition or_same :: "plan_state \<Rightarrow> unit + plan_state \<Rightarrow> plan_state" where
  "or_same s r = (case r of Inl _ \<Rightarrow> s | Inr s' \<Rightarrow> s')"

fun plan_step :: "plan_state \<Rightarrow> plan_op \<Rightarrow> plan_state" where
  "plan_step s (OpInvalidate g) = snd (invalidate_if_stale g s)"
| "plan_step s OpClearActive = clear_active s"
| "plan_step s (OpSimple sql) = begin_simple_query sql s"
| "plan_step s (OpParse n sql) = parse n sql s"
| "plan_step s (OpBind p st fs) = plan_bind p st fs s"
| "plan_step s (OpDescribe t) = describe t s"
| "plan_step s (OpExecute p) = execute p s"
| "plan_step s (OpClose t) = plan_close t s"
| "plan_step s OpSync = sync s"
| "plan_step s OpSuspended = suspend_result s"
| "plan_step s (OpReady b) = ready_for_query b s"
| "plan_step s OpResultEnd = finish_result_set s"
| "plan_step s OpParseComplete = finish_parse s"
| "plan_step s OpBindComplete = finish_bind s"
| "plan_step s (OpSuppressed e) = finish_suppressed_epoch e s"
| "plan_step s OpError = discard_failed_epoch s"
| "plan_step s OpNoData = or_same s (finish_no_data s)"
| "plan_step s OpDropDescription = discard_description s"
| "plan_step s (OpDescription pl) = or_same s (finish_description pl s)"
| "plan_step s OpEmptyQuery = or_same s (finish_empty_query s)"

abbreviation plan_run :: "plan_state \<Rightarrow> plan_op list \<Rightarrow> plan_state" where
  "plan_run \<equiv> foldl plan_step"

section \<open>Frames of the loops\<close>

text \<open>The fields the map-updating loops leave alone.\<close>

definition queues :: "plan_state \<Rightarrow> _" where
  "queues s = (pending_descriptions s, pending_parses s, pending_binds s, suspended s,
     streaming_simple_result s, sync_epoch s, next_result_order s, active_plan s, active_portal s,
     active_epoch s)"

lemma fold_frame:
  assumes "\<And>x s. f (g x s) = f s"
  shows "f (fold g xs s) = f s"
  by (induction xs arbitrary: s) (simp_all add: assms)

lemma forget_stale_portal_frame:
  "queues (fold forget_stale_portal ps s) = queues s"
  "pending_executes (fold forget_stale_portal ps s) = pending_executes s"
  "portal_statement (fold forget_stale_portal ps s) = portal_statement s"
  "statement_sql (fold forget_stale_portal ps s) = statement_sql s"
  "statement_plans (fold forget_stale_portal ps s) = statement_plans s"
  by (rule fold_frame; simp add: forget_stale_portal_def queues_def)+

lemma forget_stale_portal_maps:
  "portal_plans (fold forget_stale_portal ps s) = fold hremove ps (portal_plans s)"
  "portal_formats (fold forget_stale_portal ps s) = fold hremove ps (portal_formats s)"
  "portal_bind_generations (fold forget_stale_portal ps s) = fold hremove ps (portal_bind_generations s)"
  by (induction ps arbitrary: s) (simp_all add: forget_stale_portal_def)

lemma forget_closed_portal_frame:
  "queues (fold forget_closed_portal ps s) = queues s"
  "pending_executes (fold forget_closed_portal ps s) = pending_executes s"
  "portal_bind_generations (fold forget_closed_portal ps s) = portal_bind_generations s"
  "statement_sql (fold forget_closed_portal ps s) = statement_sql s"
  "statement_plans (fold forget_closed_portal ps s) = statement_plans s"
  by (rule fold_frame; simp add: forget_closed_portal_def queues_def)+

lemma forget_closed_portal_maps:
  "portal_plans (fold forget_closed_portal ps s) = fold hremove ps (portal_plans s)"
  "portal_formats (fold forget_closed_portal ps s) = fold hremove ps (portal_formats s)"
  "portal_statement (fold forget_closed_portal ps s) = fold hremove ps (portal_statement s)"
  by (induction ps arbitrary: s) (simp_all add: forget_closed_portal_def)

lemma install_portal_plan_frame:
  "queues (install_portal_plan p pl s) = queues s"
  "portal_bind_generations (install_portal_plan p pl s) = portal_bind_generations s"
  "portal_statement (install_portal_plan p pl s) = portal_statement s"
  "portal_formats (install_portal_plan p pl s) = portal_formats s"
  "statement_sql (install_portal_plan p pl s) = statement_sql s"
  "statement_plans (install_portal_plan p pl s) = statement_plans s"
  "portal_plans (install_portal_plan p pl s) = hinsert p pl (portal_plans s)"
  by (simp_all add: install_portal_plan_def fill_pending_plan_def queues_def)

text \<open>What a queued Execute keeps whatever is installed: only a missing snapshot is ever filled.\<close>

definition keeps_slot :: "pending_execute \<Rightarrow> pending_execute \<Rightarrow> bool" where
  "keeps_slot p p' \<longleftrightarrow>
     pe_name p' = pe_name p \<and> pe_epoch p' = pe_epoch p \<and> pe_order p' = pe_order p \<and>
     pe_generation p' = pe_generation p \<and> (pe_plan p \<noteq> None \<longrightarrow> pe_plan p' = pe_plan p)"

definition keeps_slots :: "plan_state \<Rightarrow> plan_state \<Rightarrow> bool" where
  "keeps_slots s s' \<longleftrightarrow> list_all2 keeps_slot (pending_executes s) (pending_executes s')"

lemma keeps_slot_refl [simp]: "keeps_slot p p"
  by (simp add: keeps_slot_def)

lemma keeps_slot_trans: "keeps_slot p q \<Longrightarrow> keeps_slot q r \<Longrightarrow> keeps_slot p r"
  by (auto simp: keeps_slot_def)

lemma keeps_slots_refl: "pending_executes s' = pending_executes s \<Longrightarrow> keeps_slots s s'"
  by (simp add: keeps_slots_def list_all2_refl)

lemma keeps_slots_trans: "keeps_slots s t \<Longrightarrow> keeps_slots t u \<Longrightarrow> keeps_slots s u"
  unfolding keeps_slots_def using list_all2_trans [of keeps_slot keeps_slot keeps_slot] keeps_slot_trans
  by blast

lemma fill_pending_plan_keeps: "keeps_slots s (fill_pending_plan p pl s)"
  by (auto simp: keeps_slots_def fill_pending_plan_def keeps_slot_def list_all2_conv_all_nth)

lemma install_portal_plan_keeps: "keeps_slots s (install_portal_plan p pl s)"
  by (rule keeps_slots_trans [OF fill_pending_plan_keeps [of s p pl]])
    (simp add: install_portal_plan_def Let_def keeps_slots_refl)

lemma keeps_slots_maps:
  assumes "keeps_slots s s'"
  shows "map pe_epoch (pending_executes s') = map pe_epoch (pending_executes s)"
    and "map pe_order (pending_executes s') = map pe_order (pending_executes s)"
    and "length (pending_executes s') = length (pending_executes s)"
  using assms
  by (auto simp: keeps_slots_def keeps_slot_def list_all2_conv_all_nth intro!: nth_equalityI)


section \<open>Well-formed states\<close>

text \<open>A queue whose stamps never decrease and never exceed the counter they are taken from.\<close>

definition ordered_upto :: "('a \<Rightarrow> u64) \<Rightarrow> u64 \<Rightarrow> 'a list \<Rightarrow> bool" where
  "ordered_upto key b xs \<longleftrightarrow> sorted (map key xs) \<and> list_all (\<lambda>x. key x \<le> b) xs"

lemma ordered_upto_Nil [simp]: "ordered_upto key b []"
  by (simp add: ordered_upto_def)

lemma ordered_upto_snoc [simp]:
  "ordered_upto key b (xs @ [x]) \<longleftrightarrow>
     ordered_upto key b xs \<and> key x \<le> b \<and> (\<forall>y\<in>set xs. key y \<le> key x)"
  by (auto simp: ordered_upto_def sorted_append list_all_iff)

lemma ordered_upto_bound: "ordered_upto key b xs \<Longrightarrow> x \<in> set xs \<Longrightarrow> key x \<le> b"
  by (auto simp: ordered_upto_def list_all_iff)

lemma ordered_upto_mono: "ordered_upto key b xs \<Longrightarrow> b \<le> c \<Longrightarrow> ordered_upto key c xs"
  by (auto simp: ordered_upto_def list_all_iff)

lemma ordered_upto_pop: "ordered_upto key b xs \<Longrightarrow> ordered_upto key b (pop_front xs)"
  by (cases xs) (auto simp: ordered_upto_def)

lemma ordered_upto_tl: "ordered_upto key b (x # xs) \<Longrightarrow> ordered_upto key b xs"
  by (auto simp: ordered_upto_def)

lemma ordered_upto_filter: "ordered_upto key b xs \<Longrightarrow> ordered_upto key b (filter P xs)"
  by (auto simp: ordered_upto_def list_all_iff sorted_filter)

lemma ordered_upto_front:
  "ordered_upto key b xs \<Longrightarrow> front xs = Some x \<Longrightarrow> y \<in> set xs \<Longrightarrow> key x \<le> key y"
  by (cases xs) (auto simp: ordered_upto_def)

lemma ordered_upto_map_cong:
  "map key ys = map key xs \<Longrightarrow> ordered_upto key b ys = ordered_upto key b xs"
  unfolding ordered_upto_def list_all_iff
  by (metis (mono_tags, lifting) image_iff list.set_map)

definition simple_orders :: "pending_description list \<Rightarrow> u64 list" where
  "simple_orders ds = List.map_filter (\<lambda>d. case d of Simple q \<Rightarrow> Some (ps_order q) | _ \<Rightarrow> None) ds"

lemma simple_orders_simps [simp]:
  "simple_orders [] = []"
  "simple_orders (Describe d # ds) = simple_orders ds"
  "simple_orders (Simple q # ds) = ps_order q # simple_orders ds"
  "simple_orders (ds @ ds') = simple_orders ds @ simple_orders ds'"
  by (simp_all add: simple_orders_def List.map_filter_def)

lemma simple_orders_pop: "simple_orders (pop_front ds) = pop_front (simple_orders ds) \<or>
    simple_orders (pop_front ds) = simple_orders ds"
  by (cases ds; cases "hd ds") auto

lemma ordered_simple_pop:
  "ordered_upto id b (simple_orders ds) \<Longrightarrow> ordered_upto id b (simple_orders (pop_front ds))"
  using simple_orders_pop [of ds] by (auto simp: ordered_upto_pop)

lemma simple_orders_filter:
  "sorted (simple_orders ds) \<Longrightarrow>
     sorted (simple_orders (filter P ds)) \<and> set (simple_orders (filter P ds)) \<subseteq> set (simple_orders ds)"
proof (induction ds)
  case (Cons d ds)
  then show ?case by (cases d) auto
qed simp

lemma ordered_simple_filter:
  "ordered_upto id b (simple_orders ds) \<Longrightarrow> ordered_upto id b (simple_orders (filter P ds))"
  using simple_orders_filter [of ds P] by (auto simp: ordered_upto_def list_all_iff)

text \<open>
  The invariant: the five queues are stamped in order under their counters, an armed plan's epoch
  is not in the future, a paused portal is the only queued Execute, and every portal is bound to
  one statement.
\<close>

definition plan_inv :: "plan_state \<Rightarrow> bool" where
  "plan_inv s \<longleftrightarrow>
     ordered_upto description_epoch (sync_epoch s) (pending_descriptions s) \<and>
     ordered_upto pm_epoch (sync_epoch s) (pending_parses s) \<and>
     ordered_upto pm_epoch (sync_epoch s) (pending_binds s) \<and>
     ordered_upto pe_epoch (sync_epoch s) (pending_executes s) \<and>
     ordered_upto pe_order (next_result_order s) (pending_executes s) \<and>
     ordered_upto id (next_result_order s) (simple_orders (pending_descriptions s)) \<and>
     (\<forall>e. active_epoch s = Some e \<longrightarrow> e \<le> sync_epoch s) \<and>
     (suspended s \<longrightarrow> length (pending_executes s) \<le> 1) \<and>
     distinct (map fst (portal_statement s))"

lemma plan_inv_default: "plan_inv plan_state_default"
  by (simp add: plan_inv_def plan_state_default_def)

lemma plan_inv_frame:
  assumes "plan_inv s" and "queues s' = queues s" and "keeps_slots s s'"
    and "distinct (map fst (portal_statement s'))"
  shows "plan_inv s'"
  using assms keeps_slots_maps [OF assms(3)]
    ordered_upto_map_cong [of pe_epoch "pending_executes s'" "pending_executes s"]
    ordered_upto_map_cong [of pe_order "pending_executes s'" "pending_executes s"]
  by (simp add: plan_inv_def queues_def)

lemmas ordered_simps = ordered_upto_pop ordered_upto_filter ordered_simple_pop ordered_simple_filter
  ordered_upto_tl


lemma plan_inv_flags [simp]:
  "plan_inv (s\<lparr>active_plan := a\<rparr>) = plan_inv s"
  "plan_inv (s\<lparr>active_portal := q\<rparr>) = plan_inv s"
  "plan_inv (s\<lparr>streaming_simple_result := b\<rparr>) = plan_inv s"
  "plan_inv (s\<lparr>statement_sql := m\<rparr>) = plan_inv s"
  "plan_inv (s\<lparr>statement_plans := ps\<rparr>) = plan_inv s"
  "plan_inv (s\<lparr>portal_plans := ps\<rparr>) = plan_inv s"
  by (simp_all add: plan_inv_def)

lemma plan_inv_shrink [intro]:
  assumes "plan_inv s"
  shows "plan_inv (s\<lparr>suspended := False\<rparr>)" "plan_inv (s\<lparr>active_epoch := None\<rparr>)"
    "plan_inv (s\<lparr>pending_descriptions := pop_front (pending_descriptions s)\<rparr>)"
    "plan_inv (s\<lparr>pending_parses := pop_front (pending_parses s)\<rparr>)"
    "plan_inv (s\<lparr>pending_binds := pop_front (pending_binds s)\<rparr>)"
    "plan_inv (s\<lparr>pending_executes := pop_front (pending_executes s)\<rparr>)"
    "plan_inv (s\<lparr>pending_descriptions := filter P (pending_descriptions s)\<rparr>)"
    "plan_inv (s\<lparr>pending_parses := filter Q (pending_parses s)\<rparr>)"
    "plan_inv (s\<lparr>pending_binds := filter Q (pending_binds s)\<rparr>)"
    "plan_inv (s\<lparr>pending_executes := filter R (pending_executes s)\<rparr>)"
  using assms length_filter_le [of R "pending_executes s"]
  by (simp_all add: plan_inv_def ordered_simps) (cases "pending_executes s"; simp)+

lemma distinct_fold_hremove:
  "distinct (map fst m) \<Longrightarrow> distinct (map fst (fold hremove ks m))"
  by (induction ks arbitrary: m) (auto simp: distinct_delete)

lemma plan_inv_maps [inv_intros]: "plan_inv s \<Longrightarrow> plan_inv (snd (invalidate_if_stale g s))"
  by (rule plan_inv_frame [of s]) (auto simp: invalidate_if_stale_def queues_def keeps_slots_refl plan_inv_def)

lemma plan_inv_clear_active [inv_intros]: "plan_inv s \<Longrightarrow> plan_inv (clear_active s)"
  by (simp add: clear_active_def plan_inv_def)

lemma plan_inv_begin_simple_query [inv_intros]: "plan_inv s \<Longrightarrow> plan_inv (begin_simple_query sql s)"
  using saturating_succ_le [of "next_result_order s"]
  by (auto simp: begin_simple_query_def plan_inv_def Let_def intro: ordered_upto_mono
      dest: ordered_upto_bound)

lemma plan_inv_parse [inv_intros]:
  assumes "plan_inv s" shows "plan_inv (parse name sql s)"
proof -
  define s1 where "s1 = (if hget (statement_sql s) name \<noteq> Some sql
    then fold forget_stale_portal (portals_of name s) (s\<lparr>statement_plans := hremove name (statement_plans s)\<rparr>)
    else s)"
  have "queues (s\<lparr>statement_plans := m\<rparr>) = queues s" for m by (simp add: queues_def)
  then have "plan_inv s1"
    using assms by (intro plan_inv_frame [OF assms])
      (simp_all add: s1_def forget_stale_portal_frame keeps_slots_refl plan_inv_def)
  then show ?thesis
    by (auto simp: parse_def s1_def [symmetric] Let_def plan_inv_def dest: ordered_upto_bound)
qed

lemma plan_inv_bump [inv_intros]: "plan_inv s \<Longrightarrow> plan_inv (bump_bind_generation p s)"
  by (simp add: bump_bind_generation_def plan_inv_def)

lemma plan_inv_install [inv_intros]: "plan_inv s \<Longrightarrow> plan_inv (install_portal_plan p pl s)"
  by (rule plan_inv_frame [of s])
    (simp_all add: install_portal_plan_frame install_portal_plan_keeps plan_inv_def)

lemma plan_inv_fill [inv_intros]: "plan_inv s \<Longrightarrow> plan_inv (fill_pending_plan p pl s)"
  by (rule plan_inv_frame [of s])
    (simp_all add: fill_pending_plan_keeps plan_inv_def, simp_all add: fill_pending_plan_def queues_def)

lemma plan_inv_bind [inv_intros]:
  assumes "plan_inv s" shows "plan_inv (plan_bind p st fs s)"
proof -
  let ?s1 = "s\<lparr>portal_statement := hinsert p st (portal_statement s),
    pending_binds := pending_binds s @ [\<lparr>pm_name = p, pm_epoch = sync_epoch s\<rparr>],
    portal_formats := hinsert p fs (portal_formats s)\<rparr>"
  have "plan_inv ?s1"
    using assms by (auto simp: plan_inv_def distinct_update dest: ordered_upto_bound)
  then have b: "plan_inv (bump_bind_generation p ?s1)" by (rule inv_intros)
  then have "plan_inv (bump_bind_generation p ?s1\<lparr>portal_plans := m\<rparr>)" for m
    by (simp add: plan_inv_def)
  with b show ?thesis
    by (auto simp: plan_bind_def Let_def plan_inv_install split: option.split)
qed

lemma plan_inv_describe [inv_intros]: "plan_inv s \<Longrightarrow> plan_inv (describe t s)"
  by (auto simp: describe_def plan_inv_def Let_def dest: ordered_upto_bound)

lemma plan_inv_push_execute:
  "plan_inv s \<Longrightarrow> \<not> suspended s \<Longrightarrow> plan_inv (push_execute p s)"
  using saturating_succ_le [of "next_result_order s"]
  by (auto simp: push_execute_def plan_inv_def intro: ordered_upto_mono dest: ordered_upto_bound)

lemma plan_inv_execute [inv_intros]:
  assumes "plan_inv s" shows "plan_inv (execute p s)"
proof -
  let ?s1 = "s\<lparr>active_plan := hget (portal_plans s) p, active_epoch := Some (sync_epoch s),
    active_portal := Some p\<rparr>"
  have "plan_inv ?s1" using assms by (simp add: plan_inv_def)
  moreover have "plan_inv (?s1\<lparr>suspended := False,
      pending_executes := restamp_front (sync_epoch s) (pending_executes s)\<rparr>)" if "suspended s"
    using assms that by (cases "pending_executes s")
      (auto simp: plan_inv_def restamp_front_def ordered_upto_def)
  moreover have "plan_inv (?s1\<lparr>suspended := False, pending_executes := pop_front (pending_executes s)\<rparr>)"
    using assms by (auto simp: plan_inv_def ordered_simps)
  ultimately show ?thesis
    by (auto simp: execute_def Let_def intro: plan_inv_push_execute)
qed

lemma plan_inv_forget_closed: "plan_inv s \<Longrightarrow> plan_inv (fold forget_closed_portal ps s)"
  by (rule plan_inv_frame [of s]) (simp_all add: forget_closed_portal_frame forget_closed_portal_maps
    keeps_slots_refl plan_inv_def distinct_fold_hremove)

lemma plan_inv_close [inv_intros]:
  assumes "plan_inv s" shows "plan_inv (plan_close t s)"
proof -
  have "plan_inv (s\<lparr>statement_sql := m, statement_plans := m'\<rparr>)" for m m'
    using assms by (simp add: plan_inv_def)
  then show ?thesis
    using plan_inv_forget_closed [of s "[_]"] assms
    by (cases t) (simp_all add: plan_close_def Let_def plan_inv_forget_closed)
qed

lemma plan_inv_sync [inv_intros]: "plan_inv s \<Longrightarrow> plan_inv (sync s)"
  using saturating_succ_le [of "sync_epoch s"]
  by (auto simp: sync_def plan_inv_def intro: ordered_upto_mono order.trans)

lemma plan_inv_suspend [inv_intros]: "plan_inv s \<Longrightarrow> plan_inv (suspend_result s)"
  by (auto simp: suspend_result_def plan_inv_def ordered_simps)

lemma plan_inv_ready [inv_intros]: "plan_inv s \<Longrightarrow> plan_inv (ready_for_query b s)"
  by (auto simp: ready_for_query_def plan_inv_def)

lemma plan_inv_result_end [inv_intros]:
  assumes "plan_inv s" shows "plan_inv (finish_result_set s)"
proof -
  let ?t = "s\<lparr>suspended := False\<rparr>"
  have t: "plan_inv ?t" by (rule plan_inv_shrink [OF assms])
  show ?thesis
    unfolding finish_result_set_def Let_def
    using plan_inv_shrink(3,6) [OF t] assms by simp
qed

lemma plan_inv_parse_complete [inv_intros]: "plan_inv s \<Longrightarrow> plan_inv (finish_parse s)"
  by (auto simp: finish_parse_def plan_inv_def ordered_simps)

lemma plan_inv_bind_complete [inv_intros]:
  assumes "plan_inv s" shows "plan_inv (finish_bind s)"
proof (cases "pending_binds s")
  case (Cons b bs)
  have "plan_inv (s\<lparr>pending_binds := bs\<rparr>)"
    using assms Cons by (auto simp: plan_inv_def ordered_simps)
  moreover have "plan_inv (u\<lparr>active_plan := a\<rparr>)" if "plan_inv u" for u a
    using that by (simp add: plan_inv_def)
  ultimately show ?thesis
    by (auto simp: finish_bind_def Cons Let_def intro: inv_intros split: option.split)
qed (simp add: finish_bind_def assms)

lemma plan_inv_suppressed [inv_intros]: "plan_inv s \<Longrightarrow> plan_inv (finish_suppressed_epoch e s)"
  by (auto simp: finish_suppressed_epoch_def plan_inv_def ordered_simps)

lemma plan_inv_error [inv_intros]: "plan_inv s \<Longrightarrow> plan_inv (discard_failed_epoch s)"
  by (cases "failed_epoch s")
    (simp_all add: discard_failed_epoch_def plan_inv_def Let_def ordered_simps distinct_fold_hremove)

lemma plan_inv_install_all:
  "plan_inv s \<Longrightarrow> plan_inv (fold (\<lambda>p u. install_portal_plan p (portal_stamp u p pl) u) ps s)"
  by (induction ps arbitrary: s) (simp_all add: plan_inv_install)

lemma plan_inv_description [inv_intros]:
  assumes "plan_inv s" shows "plan_inv (or_same s (finish_description pl s))"
proof (cases "pending_descriptions s")
  case (Cons d ds)
  define t where "t b = s\<lparr>pending_descriptions := ds, streaming_simple_result := b\<rparr>" for b
  have t: "plan_inv (t b)" for b
    using plan_inv_shrink(3) [OF assms] Cons by (simp add: t_def)
  have ep: "description_epoch d \<le> sync_epoch s"
    using assms Cons by (auto simp: plan_inv_def dest: ordered_upto_bound)
  have act: "plan_inv (u\<lparr>active_plan := a, active_epoch := Some (description_epoch d)\<rparr>)"
    if "plan_inv u" and "sync_epoch u = sync_epoch s" for u a
    using that ep by (simp add: plan_inv_def)
  show ?thesis
  proof (cases d)
    case (Describe pd)
    have "plan_inv (install_statement_plan n pl (t False))" for n
      using plan_inv_install_all t [of False] by (simp add: install_statement_plan_def Let_def)
    moreover have "sync_epoch (install_statement_plan n pl (t False)) = sync_epoch s" for n
      by (simp add: install_statement_plan_def Let_def)
        (rule trans [OF fold_frame], simp_all add: install_portal_plan_def fill_pending_plan_def t_def)
    moreover have "sync_epoch (install_portal_plan n pl (t False)) = sync_epoch s" for n
      by (simp add: install_portal_plan_def fill_pending_plan_def t_def)
    moreover have "plan_inv (install_portal_plan n pl (t False))" for n
      by (rule plan_inv_install [OF t])
    ultimately show ?thesis
      using act Describe
      by (cases "pd_target pd") (simp_all add: finish_description_def or_same_def Cons t_def [symmetric])
  next
    case (Simple q)
    then show ?thesis
      using act [OF t [of True]] by (simp add: finish_description_def or_same_def Cons t_def)
  qed
qed (simp add: finish_description_def or_same_def assms)

lemma plan_inv_other_answers [inv_intros]:
  assumes "plan_inv s"
  shows "plan_inv (or_same s (finish_no_data s))" "plan_inv (discard_description s)"
    "plan_inv (or_same s (finish_empty_query s))"
  using assms plan_inv_shrink(3) [OF assms]
  by (simp_all add: finish_no_data_def discard_description_def finish_empty_query_def or_same_def
      split: option.split pending_description.split)

interpretation plan_machine: step_machine plan_step plan_inv
proof
  show "plan_inv (plan_step s op)" if "plan_inv s" for s op
    by (cases op) (simp_all add: inv_intros that)
qed

text \<open>
  C6. In every state a session can reach, the four protocol queues are ordered by \<open>Sync\<close> epoch and
  the result queues by frontend order, no stamp exceeds its counter, a paused portal is the only
  queued Execute, and each portal name is bound to one statement: the order \<open>failed_epoch\<close> and
  \<open>finish_result_set\<close> read off the queue heads is the order of the whole queues.
\<close>

theorem plan_state_well_formed: "plan_inv (plan_run plan_state_default ops)"
  by (rule plan_machine.run_inv [OF plan_inv_default])


section \<open>Bind generations\<close>

lemma fresh_generation_free:
  "fresh_generation ps n g \<noteq> - 1 \<Longrightarrow> \<not> holds_generation ps n (fresh_generation ps n g)"
proof (induction ps n g rule: fresh_generation.induct)
  case (1 ps n g)
  then show ?case
    by (subst (asm) fresh_generation.simps, subst fresh_generation.simps)
      (auto simp: Let_def saturating_succ_eq_iff split: if_splits)
qed

lemma fresh_generation_ge: "g \<le> fresh_generation ps n g"
proof (induction ps n g rule: fresh_generation.induct)
  case (1 ps n g)
  then show ?case
    using saturating_succ_le [of g] by (subst fresh_generation.simps) (auto simp: Let_def intro: order.trans)
qed

lemma bind_generation_cong [simp]:
  "bind_generation (s\<lparr>portal_formats := f\<rparr>) p = bind_generation s p"
  "bind_generation (s\<lparr>portal_plans := ps\<rparr>) p = bind_generation s p"
  "bind_generation (s\<lparr>statement_plans := ps\<rparr>) p = bind_generation s p"
  "bind_generation (s\<lparr>statement_sql := m\<rparr>) p = bind_generation s p"
  "bind_generation (s\<lparr>portal_statement := t\<rparr>) p = bind_generation s p"
  "bind_generation (s\<lparr>pending_binds := b\<rparr>) p = bind_generation s p"
  "bind_generation (s\<lparr>pending_parses := b\<rparr>) p = bind_generation s p"
  "bind_generation (s\<lparr>pending_executes := x\<rparr>) p = bind_generation s p"
  "bind_generation (s\<lparr>pending_descriptions := d\<rparr>) p = bind_generation s p"
  "bind_generation (s\<lparr>active_plan := a\<rparr>) p = bind_generation s p"
  "bind_generation (s\<lparr>active_epoch := e\<rparr>) p = bind_generation s p"
  "bind_generation (s\<lparr>active_portal := q\<rparr>) p = bind_generation s p"
  "bind_generation (s\<lparr>suspended := u\<rparr>) p = bind_generation s p"
  "bind_generation (s\<lparr>generation := g\<rparr>) p = bind_generation s p"
  "bind_generation (s\<lparr>sync_epoch := g\<rparr>) p = bind_generation s p"
  "bind_generation (s\<lparr>next_result_order := g\<rparr>) p = bind_generation s p"
  by (simp_all add: bind_generation_def)

lemma bind_generation_bump:
  "bind_generation (bump_bind_generation p s) q =
     (if q = p then fresh_generation (pending_executes s) p (saturating_succ (bind_generation s p))
      else bind_generation s q)"
  by (simp add: bump_bind_generation_def bind_generation_def hmap_simps)

lemma bind_generation_after_bind:
  "bind_generation (plan_bind p st fs s) q =
     (if q = p then fresh_generation (pending_executes s) p (saturating_succ (bind_generation s p))
      else bind_generation s q)"
  by (simp add: plan_bind_def Let_def bind_generation_def install_portal_plan_frame
      bump_bind_generation_def hmap_simps split: option.split)

lemma pending_executes_bump [simp]: "pending_executes (bump_bind_generation p s) = pending_executes s"
  by (simp add: bump_bind_generation_def)

lemma fill_pending_plan_idle:
  "\<not> holds_generation (pending_executes s) p (bind_generation s p) \<Longrightarrow> fill_pending_plan p pl s = s"
proof -
  assume "\<not> holds_generation (pending_executes s) p (bind_generation s p)"
  then have "map (\<lambda>q. if pe_name q = p \<and> pe_generation q = bind_generation s p \<and> pe_plan q = None
                   then q\<lparr>pe_plan := Some pl\<rparr> else q) (pending_executes s) = pending_executes s"
    by (intro map_idI) (auto simp: holds_generation_def list_ex_iff)
  then show ?thesis by (simp add: fill_pending_plan_def)
qed

lemma install_portal_plan_idle:
  "\<not> holds_generation (pending_executes s) p (bind_generation s p) \<Longrightarrow>
     pending_executes (install_portal_plan p pl s) = pending_executes s"
  by (simp add: install_portal_plan_def fill_pending_plan_idle)

lemma pending_executes_bind:
  assumes "bind_generation (plan_bind p st fs s) p \<noteq> - 1"
  shows "pending_executes (plan_bind p st fs s) = pending_executes s"
    and "\<not> holds_generation (pending_executes s) p (bind_generation (plan_bind p st fs s) p)"
proof -
  let ?g = "fresh_generation (pending_executes s) p (saturating_succ (bind_generation s p))"
  have free: "\<not> holds_generation (pending_executes s) p ?g"
    using assms by (simp add: bind_generation_after_bind fresh_generation_free)
  then show "\<not> holds_generation (pending_executes s) p (bind_generation (plan_bind p st fs s) p)"
    by (simp add: bind_generation_after_bind)
  from free show "pending_executes (plan_bind p st fs s) = pending_executes s"
    by (simp add: plan_bind_def Let_def install_portal_plan_idle bind_generation_bump split: option.split)
qed


text \<open>
  A Bind never disturbs rows already owed: unless the 64-bit counter is exhausted, the portal's
  new generation is one that no queued Execute of that name carries, every queued Execute keeps its
  plan snapshot exactly, and the plan installed for the portal is the statement's plan with the
  formats of this Bind (or none when the statement is not described yet).
\<close>

theorem bind_leaves_owed_rows:
  assumes "bind_generation (plan_bind p st fs s) p \<noteq> - 1"
  shows "pending_executes (plan_bind p st fs s) = pending_executes s \<and>
    (\<forall>x \<in> set (pending_executes s). pe_name x = p \<longrightarrow>
       pe_generation x \<noteq> bind_generation (plan_bind p st fs s) p) \<and>
    hget (portal_plans (plan_bind p st fs s)) =
      (hget (portal_plans s))(p := map_option (\<lambda>pl. stamp pl fs) (hget (statement_plans s) st))"
  using pending_executes_bind [OF assms]
  by (auto simp: holds_generation_def list_ex_iff plan_bind_def Let_def install_portal_plan_frame
      bump_bind_generation_def hmap_simps split: option.split)

theorem bind_leaves_owed_rows_witness:
  "pending_executes (plan_bind [112] [115] None
     (plan_state_default\<lparr>pending_executes :=
        [\<lparr>pe_name = [112], pe_epoch = 0, pe_order = 0, pe_plan = None, pe_generation = 1\<rparr>]\<rparr>)) =
   [\<lparr>pe_name = [112], pe_epoch = 0, pe_order = 0, pe_plan = None, pe_generation = 1\<rparr>]"
  (is "pending_executes (plan_bind _ _ _ ?s) = ?x")
proof -
  have "bind_generation (plan_bind [112] [115] None ?s) [112] = 2"
    unfolding bind_generation_after_bind
    by (simp add: bind_generation_def plan_state_default_def saturating_succ_def fresh_generation.simps [of _ _ 1] fresh_generation.simps [of _ _ 2]
        holds_generation_def)
  then show ?thesis
    using bind_leaves_owed_rows [of "[112]" "[115]" None ?s] by simp
qed


section \<open>The plan of owed rows\<close>

definition current_plan :: "plan_state \<Rightarrow> pending_execute \<Rightarrow> plan option" where
  "current_plan s p =
     (case pe_plan p of
        Some pl \<Rightarrow> Some pl
      | None \<Rightarrow> if pe_generation p = bind_generation s (pe_name p)
                then hget (portal_plans s) (pe_name p) else None)"

lemma streaming_plan_front:
  "streaming_plan s =
     (if streaming_simple_result s then active_plan s
      else case front (pending_executes s) of
             None \<Rightarrow> if suspended s then None else active_plan s
           | Some p \<Rightarrow> current_plan s p)"
  by (simp add: streaming_plan_def current_plan_def split: option.split)

lemma streaming_plan_weaken:
  assumes "streaming_simple_result s' = streaming_simple_result s" and "suspended s' = suspended s"
    and "pending_executes s' = pending_executes s" and "active_plan s' \<in> {None, active_plan s}"
    and "\<And>p. p \<in> set (pending_executes s) \<Longrightarrow> current_plan s' p \<in> {None, current_plan s p}"
  shows "streaming_plan s' \<in> {None, streaming_plan s}"
  using assms by (cases "pending_executes s") (auto simp: streaming_plan_front)

lemma current_plan_weaken:
  assumes "\<And>q. hget (portal_plans s') q = None \<or>
    hget (portal_plans s') q = hget (portal_plans s) q \<and> bind_generation s' q = bind_generation s q"
  shows "current_plan s' p \<in> {None, current_plan s p}"
  using assms [of "pe_name p"] by (auto simp: current_plan_def split: option.split)

lemma streaming_plan_parse: "streaming_plan (parse n sql s) \<in> {None, streaming_plan s}"
proof (rule streaming_plan_weaken)
  define s1 where "s1 = (if hget (statement_sql s) n \<noteq> Some sql
    then fold forget_stale_portal (portals_of n s) (s\<lparr>statement_plans := hremove n (statement_plans s)\<rparr>)
    else s)"
  have "queues (s\<lparr>statement_plans := m\<rparr>) = queues s" for m by (simp add: queues_def)
  then have q: "queues s1 = queues s" "pending_executes s1 = pending_executes s"
    by (simp_all add: s1_def forget_stale_portal_frame)
  have p: "parse n sql s = s1\<lparr>statement_sql := hinsert n sql (statement_sql s1),
      pending_parses := pending_parses s1 @ [\<lparr>pm_name = n, pm_epoch = sync_epoch s1\<rparr>]\<rparr>"
    by (simp add: parse_def s1_def Let_def)
  show "streaming_simple_result (parse n sql s) = streaming_simple_result s"
    "suspended (parse n sql s) = suspended s" "pending_executes (parse n sql s) = pending_executes s"
    "active_plan (parse n sql s) \<in> {None, active_plan s}"
    using q by (simp_all add: p queues_def)
  show "current_plan (parse n sql s) x \<in> {None, current_plan s x}" for x
    by (rule current_plan_weaken)
      (simp add: p s1_def bind_generation_def forget_stale_portal_maps hmap_simps)
qed

lemma streaming_plan_bind:
  assumes "bind_generation (plan_bind p st fs s) p \<noteq> - 1"
  shows "streaming_plan (plan_bind p st fs s) \<in> {None, streaming_plan s}"
proof (rule streaming_plan_weaken)
  show "pending_executes (plan_bind p st fs s) = pending_executes s"
    by (rule pending_executes_bind [OF assms])
  show "streaming_simple_result (plan_bind p st fs s) = streaming_simple_result s"
    "suspended (plan_bind p st fs s) = suspended s"
    "active_plan (plan_bind p st fs s) \<in> {None, active_plan s}"
    by (simp_all add: plan_bind_def Let_def install_portal_plan_def fill_pending_plan_def
        bump_bind_generation_def split: option.split)
  have other: "q \<noteq> p \<Longrightarrow> hget (portal_plans (plan_bind p st fs s)) q = hget (portal_plans s) q" for q
    by (simp add: plan_bind_def Let_def install_portal_plan_frame bump_bind_generation_def hmap_simps
        split: option.split)
  show "current_plan (plan_bind p st fs s) x \<in> {None, current_plan s x}"
    if "x \<in> set (pending_executes s)" for x
  proof (cases "pe_name x = p")
    case True
    with that pending_executes_bind(2) [OF assms]
    have "pe_generation x \<noteq> bind_generation (plan_bind p st fs s) p"
      by (auto simp: holds_generation_def list_ex_iff)
    with True show ?thesis by (auto simp: current_plan_def split: option.split)
  next
    case False
    with other show ?thesis
      by (auto simp: current_plan_def bind_generation_after_bind split: option.split)
  qed
qed

lemma streaming_plan_close: "streaming_plan (plan_close t s) \<in> {None, streaming_plan s}"
proof (rule streaming_plan_weaken)
  have "queues (s\<lparr>statement_sql := m, statement_plans := m'\<rparr>) = queues s" for m m'
    by (simp add: queues_def)
  then have "queues (plan_close t s) = queues s"
    using forget_closed_portal_frame(1) [of "[_]" s]
    by (cases t) (simp_all add: plan_close_def Let_def forget_closed_portal_frame)
  then show "streaming_simple_result (plan_close t s) = streaming_simple_result s"
    "suspended (plan_close t s) = suspended s" "active_plan (plan_close t s) \<in> {None, active_plan s}"
    by (simp_all add: queues_def)
  show "pending_executes (plan_close t s) = pending_executes s"
    by (cases t) (simp_all add: plan_close_def Let_def forget_closed_portal_frame forget_closed_portal_def)
  show "current_plan (plan_close t s) x \<in> {None, current_plan s x}" for x
    by (rule current_plan_weaken; cases t)
      (simp_all add: plan_close_def Let_def bind_generation_def forget_closed_portal_frame
        forget_closed_portal_maps hmap_simps forget_closed_portal_def)
qed

text \<open>The requests that may arrive while the rows of an earlier request are still owed.\<close>

fun request_while_owed :: "plan_state \<Rightarrow> plan_op \<Rightarrow> bool" where
  "request_while_owed s (OpInvalidate _) = True"
| "request_while_owed s OpClearActive = True"
| "request_while_owed s (OpSimple _) = True"
| "request_while_owed s (OpParse _ _) = True"
| "request_while_owed s (OpBind p st fs) = (bind_generation (plan_bind p st fs s) p \<noteq> - 1)"
| "request_while_owed s (OpDescribe _) = True"
| "request_while_owed s (OpExecute _) =
     (\<not> streaming_simple_result s \<and> \<not> suspended s \<and> pending_executes s \<noteq> [])"
| "request_while_owed s (OpClose _) = True"
| "request_while_owed s OpSync = True"
| "request_while_owed s _ = False"

lemma streaming_plan_execute:
  "request_while_owed s (OpExecute p) \<Longrightarrow> streaming_plan (execute p s) = streaming_plan s"
  by (cases "pending_executes s")
    (auto simp: execute_def Let_def streaming_plan_front push_execute_def current_plan_def split: option.split)

text \<open>
  A request that arrives while rows are owed never puts another plan in force for them: after a
  policy reload, a Parse, Bind, Describe, Close, Sync or simple Query, and after an Execute queued
  behind an unfinished one, the plan governing the next DataRow is the one that governed it before,
  or none (in which case the session refuses the row). For Execute this needs that the rows owed
  are an Execute's; for Bind, that the generation counter is not exhausted.
\<close>

theorem requests_keep_owed_plan:
  assumes "request_while_owed s op"
  shows "streaming_plan (plan_step s op) \<in> {None, streaming_plan s}"
  using assms streaming_plan_parse streaming_plan_bind streaming_plan_close streaming_plan_execute
  by (cases op)
    (auto simp: streaming_plan_front current_plan_def invalidate_if_stale_def clear_active_def
      begin_simple_query_def describe_def sync_def Let_def split: option.splits)


definition sample_field :: "mask \<Rightarrow> field_plan" where
  "sample_field k = \<lparr>fp_spec = spec_new k, json_projection = None, fp_type_oid = 25, fp_format = 0,
     lenient = False, primed = None\<rparr>"

theorem requests_keep_owed_plan_witness:
  "streaming_plan (plan_step
     (plan_state_default\<lparr>pending_executes :=
        [\<lparr>pe_name = [112], pe_epoch = 0, pe_order = 0, pe_plan = Some [sample_field Redact],
          pe_generation = 1\<rparr>]\<rparr>)
     (OpClose (Portal [112]))) = Some [sample_field Redact]"
  (is "streaming_plan (plan_step ?s ?op) = ?r")
proof -
  have "streaming_plan ?s = ?r" by (simp add: streaming_plan_def plan_state_default_def)
  moreover have "streaming_plan (plan_step ?s ?op) \<noteq> None"
    by (simp add: streaming_plan_def plan_state_default_def plan_close_def forget_closed_portal_def)
  ultimately show ?thesis
    using requests_keep_owed_plan [of ?s ?op] by (simp only: request_while_owed.simps) auto
qed

text \<open>How an operation may change the queue of owed result sets.\<close>

definition slot_step :: "plan_state \<Rightarrow> plan_op \<Rightarrow> pending_execute \<Rightarrow> bool" where
  "slot_step s op p' \<longleftrightarrow>
     (\<exists>p \<in> set (pending_executes s).
        pe_name p' = pe_name p \<and> pe_order p' = pe_order p \<and> pe_generation p' = pe_generation p \<and>
        (pe_plan p \<noteq> None \<longrightarrow> pe_plan p' = pe_plan p)) \<or>
     (\<exists>portal. op = OpExecute portal \<and> pe_name p' = portal \<and> pe_order p' = next_result_order s \<and>
        pe_plan p' = hget (portal_plans s) portal \<and> pe_generation p' = bind_generation s portal)"

lemma slot_step_keeps:
  assumes "keeps_slots s s'" and "p' \<in> set (pending_executes s')"
  shows "slot_step s op p'"
proof -
  from assms(2) obtain i where "i < length (pending_executes s')" "p' = pending_executes s' ! i"
    by (auto simp: in_set_conv_nth)
  with assms(1) show ?thesis
    unfolding slot_step_def keeps_slots_def keeps_slot_def list_all2_conv_all_nth
    by (intro disjI1 bexI [of _ "pending_executes s ! i"]) auto
qed

lemma slot_step_subset:
  "set (pending_executes s') \<subseteq> set (pending_executes s) \<Longrightarrow> p' \<in> set (pending_executes s') \<Longrightarrow>
     slot_step s op p'"
  by (auto simp: slot_step_def)

lemma slot_step_execute:
  "p' \<in> set (pending_executes (execute q s)) \<Longrightarrow> slot_step s (OpExecute q) p'"
  by (cases "pending_executes s")
    (auto simp: execute_def Let_def push_execute_def restamp_front_def slot_step_def split: if_splits)

lemma keeps_slots_cong:
  "pending_executes t = pending_executes s \<Longrightarrow> keeps_slots t u = keeps_slots s u"
  "pending_executes v = pending_executes u \<Longrightarrow> keeps_slots s v = keeps_slots s u"
  by (simp_all add: keeps_slots_def)

lemma keeps_slots_bind: "keeps_slots s (plan_bind p st fs s)"
proof -
  let ?s2 = "bump_bind_generation p (s\<lparr>portal_statement := hinsert p st (portal_statement s),
     pending_binds := pending_binds s @ [\<lparr>pm_name = p, pm_epoch = sync_epoch s\<rparr>],
     portal_formats := hinsert p fs (portal_formats s)\<rparr>)"
  have "keeps_slots s (install_portal_plan p pl ?s2)" for pl
    using install_portal_plan_keeps [of ?s2 p pl] by (simp add: keeps_slots_def)
  then show ?thesis
    by (simp add: plan_bind_def Let_def keeps_slots_refl split: option.split)
qed

lemma keeps_slots_bind_complete: "keeps_slots s (finish_bind s)"
proof (cases "pending_binds s")
  case (Cons b bs)
  let ?s1 = "s\<lparr>pending_binds := bs\<rparr>"
  have "keeps_slots s (install_portal_plan (pm_name b) pl ?s1)" "keeps_slots s (fill_pending_plan (pm_name b) pl ?s1)"
    "keeps_slots s ?s1" for pl
    using install_portal_plan_keeps [of ?s1 "pm_name b" pl] fill_pending_plan_keeps [of ?s1 "pm_name b" pl]
    by (simp_all add: keeps_slots_def list_all2_refl)
  then show ?thesis
    by (simp add: finish_bind_def Cons Let_def split: option.split) (simp add: keeps_slots_def)
qed (simp add: finish_bind_def keeps_slots_refl)

lemma keeps_slots_install_all:
  "keeps_slots s (fold (\<lambda>p u. install_portal_plan p (portal_stamp u p pl) u) ps s)"
  by (induction ps arbitrary: s)
    (auto simp: keeps_slots_refl intro: keeps_slots_trans [OF install_portal_plan_keeps])

lemma keeps_slots_description: "keeps_slots s (or_same s (finish_description pl s))"
proof (cases "pending_descriptions s")
  case (Cons d ds)
  let ?t = "s\<lparr>pending_descriptions := ds, streaming_simple_result := False\<rparr>"
  have "keeps_slots s (install_statement_plan n pl ?t)" for n
    using keeps_slots_install_all [of "?t\<lparr>statement_plans := hinsert n pl (statement_plans s)\<rparr>" pl
        "portals_of n (?t\<lparr>statement_plans := hinsert n pl (statement_plans s)\<rparr>)"]
    by (simp add: install_statement_plan_def Let_def keeps_slots_def)
  moreover have "keeps_slots s (install_portal_plan n pl ?t)" for n
    using install_portal_plan_keeps [of ?t n pl] by (simp add: keeps_slots_def)
  ultimately show ?thesis
    by (cases d) (auto simp: finish_description_def or_same_def Cons Let_def keeps_slots_def list_all2_refl
        split: describe_target.split)
qed (simp add: finish_description_def or_same_def keeps_slots_refl)


lemma pending_executes_parse [simp]: "pending_executes (parse n sql s) = pending_executes s"
  by (simp add: parse_def Let_def forget_stale_portal_frame)

lemma pending_executes_close [simp]: "pending_executes (plan_close t s) = pending_executes s"
  by (cases t) (simp_all add: plan_close_def Let_def forget_closed_portal_frame forget_closed_portal_def)

lemma pending_executes_shrink:
  "set (pending_executes (suspend_result s)) \<subseteq> set (pending_executes s)"
  "set (pending_executes (ready_for_query b s)) \<subseteq> set (pending_executes s)"
  "set (pending_executes (finish_result_set s)) \<subseteq> set (pending_executes s)"
  "set (pending_executes (finish_suppressed_epoch e s)) \<subseteq> set (pending_executes s)"
  "set (pending_executes (discard_failed_epoch s)) \<subseteq> set (pending_executes s)"
  using set_pop_front [of "pending_executes s"]
  by (auto simp: suspend_result_def ready_for_query_def finish_result_set_def finish_suppressed_epoch_def
      discard_failed_epoch_def Let_def split: option.splits if_splits)

text \<open>
  C5. The plan an Execute was queued with is immutable: whatever message arrives, from client or
  backend, every owed result set of the new state is either one that was already owed, with its
  name, order and Bind generation unchanged and with its plan unchanged once it had one, or the
  result of the Execute just received, carrying the portal's plan and generation of that moment.
\<close>

theorem owed_plan_is_immutable:
  assumes "p' \<in> set (pending_executes (plan_step s op))"
  shows "slot_step s op p'"
proof (cases op)
  case (OpExecute q)
  with assms show ?thesis by (simp add: slot_step_execute)
qed (use assms slot_step_keeps [OF keeps_slots_bind] slot_step_keeps [OF keeps_slots_bind_complete]
      slot_step_keeps [OF keeps_slots_description] slot_step_subset [OF pending_executes_shrink(1)]
      slot_step_subset [OF pending_executes_shrink(2)] slot_step_subset [OF pending_executes_shrink(3)]
      slot_step_subset [OF pending_executes_shrink(4)] slot_step_subset [OF pending_executes_shrink(5)]
      slot_step_subset [of "plan_step s op" s p' op]
    in \<open>auto simp: invalidate_if_stale_def clear_active_def begin_simple_query_def Let_def describe_def
      sync_def finish_parse_def finish_no_data_def discard_description_def finish_empty_query_def
      or_same_def split: option.splits pending_description.splits\<close>)

theorem owed_plan_is_immutable_witness:
  "slot_step
     (plan_state_default\<lparr>pending_executes :=
        [\<lparr>pe_name = [112], pe_epoch = 0, pe_order = 0, pe_plan = Some [sample_field Redact],
          pe_generation = 1\<rparr>]\<rparr>)
     (OpExecute [113])
     \<lparr>pe_name = [113], pe_epoch = 0, pe_order = 0, pe_plan = None, pe_generation = 0\<rparr>"
  by (rule owed_plan_is_immutable)
    (simp add: plan_state_default_def execute_def is_resume_def push_execute_def bind_generation_def)

end
