(* ===== verification/Plan_Recovery.thy ===== *)
theory Plan_Recovery
  imports Plan_State_Facts
begin

text \<open>
  Facts on the answers of the backend: how a description reaches the portals of its statement, what
  an error discards, and the pipelines in which a plan governs rows it was not made for.
\<close>

section \<open>Descriptions\<close>

lemma install_all_frame:
  "portal_formats (fold (\<lambda>p u. install_portal_plan p (portal_stamp u p pl) u) ps s) = portal_formats s"
  "portal_statement (fold (\<lambda>p u. install_portal_plan p (portal_stamp u p pl) u) ps s) = portal_statement s"
  "statement_plans (fold (\<lambda>p u. install_portal_plan p (portal_stamp u p pl) u) ps s) = statement_plans s"
  "queues (fold (\<lambda>p u. install_portal_plan p (portal_stamp u p pl) u) ps s) = queues s"
  by (rule fold_frame; simp add: install_portal_plan_frame)+

lemma portal_plans_install_all:
  "hget (portal_plans (fold (\<lambda>p u. install_portal_plan p (portal_stamp u p pl) u) ps s)) q =
     (if q \<in> set ps then Some (portal_stamp s q pl) else hget (portal_plans s) q)"
  by (induction ps arbitrary: s)
    (auto simp: install_portal_plan_frame hmap_simps portal_stamp_def)

lemma portals_of_iff:
  "distinct (map fst (portal_statement s)) \<Longrightarrow>
     q \<in> set (portals_of n s) \<longleftrightarrow> hget (portal_statement s) q = Some n"
  by (force simp: portals_of_def map_of_eq_Some_iff)

text \<open>
  The RowDescription that answers a statement-level Describe installs its plan for the
  statement and, re-stamped with the formats each Bind chose, for exactly the portals bound to that
  statement; every other portal keeps its plan, and the described slot alone leaves the queue.
\<close>

theorem statement_description_reaches_portals:
  assumes "plan_inv s" and "pending_descriptions s = Describe d # rest" and "pd_target d = Statement n"
  shows "\<exists>s'. finish_description pl s = Inr s' \<and> pending_descriptions s' = rest \<and>
    hget (statement_plans s') = (hget (statement_plans s))(n \<mapsto> pl) \<and>
    (\<forall>q. hget (portal_plans s') q =
       (if hget (portal_statement s) q = Some n
        then Some (stamp pl (case hget (portal_formats s) q of None \<Rightarrow> None | Some f \<Rightarrow> f))
        else hget (portal_plans s) q))"
proof -
  let ?t = "s\<lparr>pending_descriptions := rest, streaming_simple_result := False,
     statement_plans := hinsert n pl (statement_plans s)\<rparr>"
  have dist: "distinct (map fst (portal_statement ?t))" using assms(1) by (simp add: plan_inv_def)
  have "queues (fold (\<lambda>p u. install_portal_plan p (portal_stamp u p pl) u) ps ?t) = queues ?t" for ps
    by (rule install_all_frame)
  moreover have "portal_stamp ?t q pl = portal_stamp s q pl" for q by (simp add: portal_stamp_def)
  ultimately show ?thesis
    unfolding portal_stamp_def [symmetric]
    using assms(2,3) portals_of_iff [OF dist]
    by (simp add: finish_description_def install_statement_plan_def Let_def portal_plans_install_all
        install_all_frame hmap_simps queues_def)
qed

theorem statement_description_reaches_portals_witness:
  "\<exists>s'. finish_description [sample_field Redact]
       (plan_run plan_state_default
          [OpParse [115] [], OpBind [112] [115] (Some [1]), OpDescribe (Statement [115])]) = Inr s' \<and>
     hget (portal_plans s') [112] = Some (stamp [sample_field Redact] (Some [1]))"
  (is "\<exists>s'. finish_description ?pl ?s = _ \<and> _")
proof -
  have "pending_descriptions ?s =
      [Describe \<lparr>pd_target = Statement [115], pd_sql = Some [], pd_epoch = 0\<rparr>]"
    and st: "hget (portal_statement ?s) [112] = Some [115]"
    and f: "hget (portal_formats ?s) [112] = Some (Some [1])"
    by (simp_all add: plan_state_default_def parse_def plan_bind_def describe_def
        bump_bind_generation_def Let_def portals_of_def)
  then show ?thesis
    using statement_description_reaches_portals
        [OF plan_machine.run_inv [OF plan_inv_default], of _ _ _ "[115]" ?pl]
    by fastforce
qed

section \<open>Recovery by epoch\<close>

lemma fold_min_le:
  fixes e :: u64
  shows "x = e \<or> x \<in> set es \<Longrightarrow> fold min es e \<le> x"
proof (induction es arbitrary: e x)
  case (Cons a es)
  have "fold min es (min a e) \<le> min a e" by (rule Cons.IH) simp
  then have "fold min es (min a e) \<le> a" "fold min es (min a e) \<le> e" by (metis min.bounded_iff)+
  with Cons.prems Cons.IH [of x "min a e"] show ?case by auto
qed simp

lemma failed_epoch_least:
  assumes "plan_inv s" and "failed_epoch s = Some e"
  shows "d \<in> set (pending_descriptions s) \<Longrightarrow> e \<le> description_epoch d"
    and "p \<in> set (pending_parses s) \<Longrightarrow> e \<le> pm_epoch p"
    and "b \<in> set (pending_binds s) \<Longrightarrow> e \<le> pm_epoch b"
    and "pending_descriptions s = [] \<Longrightarrow> pending_parses s = [] \<Longrightarrow> pending_binds s = [] \<Longrightarrow>
           x \<in> set (pending_executes s) \<Longrightarrow> e \<le> pe_epoch x"
proof -
  define hs where "hs = List.map_filter id
             [map_option description_epoch (front (pending_descriptions s)),
              map_option pm_epoch (front (pending_parses s)),
              map_option pm_epoch (front (pending_binds s))]"
  have le: "e \<le> h" if "h \<in> set hs" for h
    using that assms(2) fold_min_le unfolding failed_epoch_def hs_def [symmetric]
    by (cases hs) auto
  have ins: "front (pending_descriptions s) = Some d' \<Longrightarrow> description_epoch d' \<in> set hs"
    "front (pending_parses s) = Some p' \<Longrightarrow> pm_epoch p' \<in> set hs"
    "front (pending_binds s) = Some b' \<Longrightarrow> pm_epoch b' \<in> set hs" for d' p' b'
    by (force simp: hs_def List.map_filter_def)+
  have ord: "ordered_upto description_epoch (sync_epoch s) (pending_descriptions s)"
    "ordered_upto pm_epoch (sync_epoch s) (pending_parses s)"
    "ordered_upto pm_epoch (sync_epoch s) (pending_binds s)"
    "ordered_upto pe_epoch (sync_epoch s) (pending_executes s)"
    using assms(1) by (simp_all add: plan_inv_def)
  show "d \<in> set (pending_descriptions s) \<Longrightarrow> e \<le> description_epoch d"
    using le ins(1) ordered_upto_front [OF ord(1)]
    by (cases "pending_descriptions s") (auto intro: order.trans)
  show "p \<in> set (pending_parses s) \<Longrightarrow> e \<le> pm_epoch p"
    using le ins(2) ordered_upto_front [OF ord(2)]
    by (cases "pending_parses s") (auto intro: order.trans)
  show "b \<in> set (pending_binds s) \<Longrightarrow> e \<le> pm_epoch b"
    using le ins(3) ordered_upto_front [OF ord(3)]
    by (cases "pending_binds s") (auto intro: order.trans)
  show "e \<le> pe_epoch x" if "pending_descriptions s = []" "pending_parses s = []" "pending_binds s = []"
    "x \<in> set (pending_executes s)"
    using that assms(2) ordered_upto_front [OF ord(4)]
    by (cases "pending_executes s") (auto simp: failed_epoch_def List.map_filter_def)
qed

text \<open>
  A backend error discards exactly the exchange that failed: in a well-formed state the failed
  epoch is the oldest one with an unanswered Parse, Bind, Describe or Query; what remains queued is
  exactly what later epochs sent; the SQL text and statement plan of a name survive unless that
  epoch parsed it and no later epoch re-parsed it; and no plan is left armed.
\<close>

theorem error_discards_failed_epoch:
  assumes "plan_inv s" and "failed_epoch s = Some e"
  shows "pending_descriptions (discard_failed_epoch s) =
           filter (\<lambda>d. e < description_epoch d) (pending_descriptions s) \<and>
    pending_parses (discard_failed_epoch s) = filter (\<lambda>p. e < pm_epoch p) (pending_parses s) \<and>
    pending_binds (discard_failed_epoch s) = filter (\<lambda>p. e < pm_epoch p) (pending_binds s) \<and>
    (\<forall>x \<in> set (pending_executes (discard_failed_epoch s)).
       pe_epoch x \<noteq> e \<and> (suspended s \<longrightarrow> e < pe_epoch x)) \<and>
    (\<forall>n. hget (statement_sql (discard_failed_epoch s)) n =
       (if n \<in> set (failed_names e (pending_parses s)) then None else hget (statement_sql s) n)) \<and>
    (\<forall>n. hget (statement_plans (discard_failed_epoch s)) n =
       (if n \<in> set (failed_names e (pending_parses s)) then None else hget (statement_plans s) n)) \<and>
    active_plan (discard_failed_epoch s) = None \<and> \<not> suspended (discard_failed_epoch s) \<and>
    \<not> streaming_simple_result (discard_failed_epoch s)"
proof -
  note least = failed_epoch_least [OF assms]
  have "filter (\<lambda>d. description_epoch d \<noteq> e) (pending_descriptions s) =
      filter (\<lambda>d. e < description_epoch d) (pending_descriptions s)"
    "filter (\<lambda>p. pm_epoch p \<noteq> e) (pending_parses s) = filter (\<lambda>p. e < pm_epoch p) (pending_parses s)"
    "filter (\<lambda>p. pm_epoch p \<noteq> e) (pending_binds s) = filter (\<lambda>p. e < pm_epoch p) (pending_binds s)"
    using least by (auto intro!: filter_cong simp: order_less_le)
  then show ?thesis
    using assms(2) by (simp add: discard_failed_epoch_def Let_def hmap_simps order_less_le) auto
qed

theorem error_discards_failed_epoch_witness:
  "pending_parses (discard_failed_epoch (plan_run plan_state_default
      [OpParse [97] [1], OpSync, OpParse [98] [2]])) = [\<lparr>pm_name = [98], pm_epoch = 1\<rparr>]"
  (is "pending_parses (discard_failed_epoch ?s) = _")
proof -
  have f: "failed_epoch ?s = Some 0" and "pending_parses ?s = [\<lparr>pm_name = [97], pm_epoch = 0\<rparr>, \<lparr>pm_name = [98], pm_epoch = 1\<rparr>]"
    by (simp_all add: plan_state_default_def parse_def sync_def Let_def portals_of_def failed_epoch_def
        List.map_filter_def saturating_succ_def)
  then show ?thesis
    using error_discards_failed_epoch [OF plan_machine.run_inv [OF plan_inv_default] f]
    by (simp del: plan_step.simps foldl_Cons)
qed

section \<open>The queue of descriptions\<close>

text \<open>The entry a request adds to the queue of owed descriptions.\<close>

fun description_added :: "plan_state \<Rightarrow> plan_op \<Rightarrow> pending_description list" where
  "description_added s (OpSimple sql) =
     [Simple \<lparr>ps_sql = sql, ps_epoch = sync_epoch s, ps_order = next_result_order s\<rparr>]"
| "description_added s (OpDescribe (Statement n)) =
     [Describe \<lparr>pd_target = Statement n, pd_sql = hget (statement_sql s) n, pd_epoch = sync_epoch s\<rparr>]"
| "description_added s (OpDescribe (Portal p)) =
     [Describe \<lparr>pd_target = Portal p, pd_sql = sql_for_portal s p, pd_epoch = sync_epoch s\<rparr>]"
| "description_added s _ = []"

lemma queues_descriptions: "queues s' = queues s \<Longrightarrow> pending_descriptions s' = pending_descriptions s"
  by (simp add: queues_def)

lemma pending_descriptions_frame:
  "pending_descriptions (parse n sql s) = pending_descriptions s"
  "pending_descriptions (plan_bind p st fs s) = pending_descriptions s"
  "pending_descriptions (plan_close t s) = pending_descriptions s"
  "pending_descriptions (finish_bind s) = pending_descriptions s"
  "pending_descriptions (execute q s) = pending_descriptions s"
  using queues_descriptions [OF forget_stale_portal_frame(1)]
    queues_descriptions [OF forget_closed_portal_frame(1)]
    queues_descriptions [OF install_portal_plan_frame(1)]
  by (auto simp: parse_def plan_bind_def plan_close_def finish_bind_def execute_def push_execute_def
      bump_bind_generation_def fill_pending_plan_def forget_closed_portal_def Let_def
      split: option.split describe_target.split list.split)

lemma pending_descriptions_description:
  "pending_descriptions (or_same s (finish_description pl s)) = drop 1 (pending_descriptions s)"
proof (cases "pending_descriptions s")
  case (Cons d ds)
  then show ?thesis
    using queues_descriptions [OF install_all_frame(4)] queues_descriptions [OF install_portal_plan_frame(1)]
    by (cases d) (auto simp: finish_description_def or_same_def install_statement_plan_def Let_def
        split: describe_target.split)
qed (simp add: finish_description_def or_same_def)

text \<open>
  A description is judged by the text of the request it answers. Whatever message is processed,
  the queue of owed descriptions loses at most its head and the entries of a discarded epoch, keeps
  the order of the rest, and gains at its end only the entry of that request, carrying the SQL the
  statement, portal or simple query had at that moment.
\<close>

theorem descriptions_are_fifo:
  "\<exists>k P. k \<le> 1 \<and> pending_descriptions (plan_step s op) =
     filter P (drop k (pending_descriptions s)) @ description_added s op"
proof -
  have keep: "\<exists>k P. k \<le> 1 \<and> xs = filter P (drop k xs)" for xs :: "pending_description list"
    by (rule exI [of _ 0], rule exI [of _ "\<lambda>_. True"]) simp
  have drop: "\<exists>k P. k \<le> 1 \<and> pop_front xs = filter P (drop k xs)" for xs :: "pending_description list"
    by (rule exI [of _ 1], rule exI [of _ "\<lambda>_. True"]) (cases xs; simp)
  have filt: "\<exists>k P. k \<le> 1 \<and> filter Q xs = filter P (drop k xs)" for Q and xs :: "pending_description list"
    by (rule exI [of _ 0], rule exI [of _ Q]) simp
  have drop1: "drop (Suc 0) xs = pop_front xs" for xs :: "pending_description list" by (cases xs) simp_all
  note ops = invalidate_if_stale_def clear_active_def begin_simple_query_def describe_def sync_def
    suspend_result_def ready_for_query_def finish_parse_def finish_suppressed_epoch_def
    discard_description_def finish_no_data_def finish_empty_query_def or_same_def Let_def
  show ?thesis
  proof (cases op)
    case (OpDescribe t)
    with keep show ?thesis by (cases t) (simp_all add: ops)
  next
    case (OpDescription pl)
    then show ?thesis using drop by (simp add: pending_descriptions_description drop1)
  next
    case OpError
    then show ?thesis using keep filt by (auto simp: discard_failed_epoch_def Let_def split: option.split)
  qed (use keep drop filt in \<open>auto simp: ops pending_descriptions_frame finish_result_set_def
        split: option.split pending_description.split\<close>)
qed

section \<open>Suspended portals\<close>

text \<open>
  A paused portal's plan never outlives the pause by accident. Once \<open>PortalSuspended\<close> has been
  seen with one Execute queued, executing a different portal (or the same name after a new Bind)
  drops the paused owner, so the rows that follow are judged by that portal's own plan or refused;
  resuming the same binding keeps the owner and its snapshot; and \<open>ReadyForQuery\<close> with status \<open>I\<close>
  leaves no plan in force at all.
\<close>

theorem suspended_owner_is_not_inherited:
  assumes "pending_executes s = [x]" and "\<not> streaming_simple_result s"
  shows "streaming_plan (execute p (suspend_result s)) =
      (if pe_name x = p \<and> pe_generation x = bind_generation s p then current_plan s x
       else hget (portal_plans s) p) \<and>
    (ready_for_query 0x49 (suspend_result s)) =
      s\<lparr>pending_executes := [], suspended := False, active_plan := None, active_portal := None,
        active_epoch := None\<rparr> \<and>
    streaming_plan (ready_for_query 0x49 (suspend_result s)) = None"
  using assms
  by (auto simp: suspend_result_def execute_def is_resume_def push_execute_def restamp_front_def
      ready_for_query_def streaming_plan_front current_plan_def Let_def split: option.split)

theorem suspended_owner_is_not_inherited_witness:
  "streaming_plan (execute [113] (suspend_result
     (plan_state_default\<lparr>portal_plans := [([113], [sample_field Redact])], pending_executes :=
        [\<lparr>pe_name = [112], pe_epoch = 0, pe_order = 0, pe_plan = Some [sample_field MNone],
          pe_generation = 1\<rparr>]\<rparr>))) = Some [sample_field Redact]"
  (is "streaming_plan (execute _ (suspend_result ?s)) = _")
proof -
  have "\<not> streaming_simple_result ?s" "hget (portal_plans ?s) [113] = Some [sample_field Redact]"
    "pending_executes ?s = [\<lparr>pe_name = [112], pe_epoch = 0, pe_order = 0,
       pe_plan = Some [sample_field MNone], pe_generation = 1\<rparr>]"
    by (simp_all add: plan_state_default_def)
  then show ?thesis
    using suspended_owner_is_not_inherited [of ?s _ "[113]"] by (simp del: plan_state.select_convs)
qed

section \<open>Two pipelines\<close>

text \<open>
  \<open>fill_pending_plan\<close> compares a queued Execute's generation with the portal's current one, not with
  the generation the answered Describe was sent under.
\<close>

definition rebind_pipeline :: "plan \<Rightarrow> plan \<Rightarrow> plan_op list" where
  "rebind_pipeline plan_a plan_b =
     [OpParse [97] (str ''a''), OpParse [98] (str ''b''),
      OpBind [112] [97] None, OpDescribe (Portal [112]), OpExecute [112], OpSync,
      OpBind [112] [98] None, OpDescribe (Portal [112]), OpExecute [112], OpSync,
      OpParseComplete, OpParseComplete, OpBindComplete, OpDescription plan_a, OpResultEnd,
      OpReady 0x49,
      OpBindComplete, OpDescription plan_b]"


definition simple_stream_pipeline :: "plan \<Rightarrow> plan \<Rightarrow> plan_op list" where
  "simple_stream_pipeline plan_s plan_q =
     [OpParse [97] (str ''a''), OpDescribe (Statement [97]), OpSync,
      OpParseComplete, OpDescription plan_s, OpReady 0x49,
      OpSimple (Some (str ''q'')), OpDescription plan_q,
      OpBind [112] [97] None, OpExecute [112]]"

text \<open>
  An Execute of an already planned portal that arrives while a simple query's rows are still
  streaming puts the portal's plan in force for the remaining rows of the simple query:
  \<open>execute\<close> overwrites the active plan, which is the plan a streaming simple result is judged by.
\<close>

theorem execute_replaces_streaming_simple_plan:
  "streaming_plan (plan_run plan_state_default (butlast (butlast (simple_stream_pipeline plan_s plan_q)))) =
     Some plan_q \<and>
   streaming_plan (plan_run plan_state_default (simple_stream_pipeline plan_s plan_q)) = Some plan_s"
  by (simp add: simple_stream_pipeline_def plan_state_default_def parse_def plan_bind_def describe_def
      execute_def sync_def finish_parse_def finish_description_def install_statement_plan_def
      begin_simple_query_def stamp_def ready_for_query_def or_same_def is_resume_def push_execute_def
      bump_bind_generation_def bind_generation_def install_portal_plan_def fill_pending_plan_def
      portals_of_def Let_def streaming_plan_def saturating_succ_def fresh_generation.simps [of _ _ 1]
      holds_generation_def str_def)

end
