(* ===== verification/Std_Text.thy ===== *)
theory Std_Text
  imports Utf8
begin

text \<open>
  The text operations of Rust's standard library that the masks use, on strings as lists of
  scalar values: splitting, trimming, decimal and hexadecimal digits, integer parsing and
  printing, and the parsers and printers of \<open>std::net::Ipv4Addr\<close> and \<open>Ipv6Addr\<close>.
\<close>

section \<open>Splitting and trimming\<close>

definition split_once :: "nat \<Rightarrow> rstring \<Rightarrow> (rstring \<times> rstring) option" where
  "split_once c s =
     (case dropWhile (\<lambda>x. x \<noteq> c) s of
        [] \<Rightarrow> None
      | _ # r \<Rightarrow> Some (takeWhile (\<lambda>x. x \<noteq> c) s, r))"

fun split_char :: "nat \<Rightarrow> rstring \<Rightarrow> rstring list" where
  "split_char c [] = [[]]"
| "split_char c (x # xs) =
     (if x = c then [] # split_char c xs
      else (case split_char c xs of [] \<Rightarrow> [[x]] | p # ps \<Rightarrow> (x # p) # ps))"

definition is_whitespace :: "nat \<Rightarrow> bool" where
  "is_whitespace c \<longleftrightarrow>
     9 \<le> c \<and> c \<le> 13 \<or> c \<in> {0x20, 0x85, 0xA0, 0x1680, 0x2028, 0x2029, 0x202F, 0x205F, 0x3000} \<or>
     0x2000 \<le> c \<and> c \<le> 0x200A"

definition trim_start :: "rstring \<Rightarrow> rstring" where
  "trim_start s = dropWhile is_whitespace s"

definition trim :: "rstring \<Rightarrow> rstring" where
  "trim s = rev (dropWhile is_whitespace (rev (trim_start s)))"

definition strip_suffix :: "rstring \<Rightarrow> rstring \<Rightarrow> rstring option" where
  "strip_suffix suf s =
     (if length suf \<le> length s \<and> drop (length s - length suf) s = suf
      then Some (take (length s - length suf) s) else None)"

definition stars :: "nat \<Rightarrow> rstring" where
  "stars n = replicate n 42"

lemma length_stars [simp]: "length (stars n) = n"
  by (simp add: stars_def)

lemma set_stars: "set (stars n) \<subseteq> {42}"
  by (auto simp: stars_def)

lemma split_once_Some:
  "split_once c s = Some (a, b) \<Longrightarrow> s = a @ c # b \<and> c \<notin> set a"
  by (auto simp: split_once_def split: list.splits)
    (metis (mono_tags, lifting) dropWhile_eq_Cons_conv takeWhile_dropWhile_id,
     metis (full_types) set_takeWhileD)

lemma split_once_append: "c \<notin> set a \<Longrightarrow> split_once c (a @ c # b) = Some (a, b)"
proof -
  assume "c \<notin> set a"
  then have "dropWhile (\<lambda>x. x \<noteq> c) (a @ c # b) = c # b" "takeWhile (\<lambda>x. x \<noteq> c) (a @ c # b) = a"
    by (induction a) auto
  then show ?thesis by (simp add: split_once_def)
qed

lemma split_once_None: "split_once c s = None \<longleftrightarrow> c \<notin> set s"
proof
  assume "split_once c s = None"
  then show "c \<notin> set s" using split_once_append [of c _ _] by (metis option.distinct(1) split_list_first)
next
  assume "c \<notin> set s"
  then show "split_once c s = None" using split_once_Some [of c s] by (cases "split_once c s") auto
qed

section \<open>Digits and integers\<close>

definition is_ascii_digit :: "nat \<Rightarrow> bool" where
  "is_ascii_digit c \<longleftrightarrow> 48 \<le> c \<and> c \<le> 57"

definition to_digit :: "nat \<Rightarrow> nat \<Rightarrow> nat option" where
  "to_digit radix c =
     (let d = (if 48 \<le> c \<and> c \<le> 57 then Some (c - 48)
               else if 97 \<le> c \<and> c \<le> 122 then Some (c - 87)
               else if 65 \<le> c \<and> c \<le> 90 then Some (c - 55)
               else None)
      in case d of None \<Rightarrow> None | Some v \<Rightarrow> if v < radix then Some v else None)"

definition digit_char :: "nat \<Rightarrow> nat" where
  "digit_char d = (if d < 10 then 48 + d else 87 + d)"

lemma to_digit_char [simp]: "d < radix \<Longrightarrow> radix \<le> 36 \<Longrightarrow> to_digit radix (digit_char d) = Some d"
  by (auto simp: to_digit_def digit_char_def Let_def)

lemma to_digit_less: "to_digit radix c = Some d \<Longrightarrow> d < radix"
  by (auto simp: to_digit_def Let_def split: if_splits option.splits)

text \<open>Positional printing without leading zeros, most significant digit first.\<close>

fun digits_of :: "nat \<Rightarrow> nat \<Rightarrow> rstring" where
  "digits_of base n =
     (if base < 2 \<or> n < base then [digit_char n] else digits_of base (n div base) @ [digit_char (n mod base)])"

declare digits_of.simps [simp del]

definition int_to_string :: "int \<Rightarrow> rstring" where
  "int_to_string i = (if i < 0 then 45 # digits_of 10 (nat (- i)) else digits_of 10 (nat i))"

fun value_of :: "nat \<Rightarrow> nat \<Rightarrow> rstring \<Rightarrow> nat option" where
  "value_of base acc [] = Some acc"
| "value_of base acc (c # cs) =
     (case to_digit base c of None \<Rightarrow> None | Some d \<Rightarrow> value_of base (acc * base + d) cs)"

text \<open>\<open>str::parse\<close> for a signed integer type with bounds \<open>lo..=hi\<close>.\<close>

definition parse_signed :: "int \<Rightarrow> int \<Rightarrow> rstring \<Rightarrow> int option" where
  "parse_signed lo hi s =
     (let (neg, ds) = (case s of c # r \<Rightarrow> if c = 45 then (True, r) else if c = 43 then (False, r) else (False, s)
                                | [] \<Rightarrow> (False, []))
      in if ds = [] then None
         else (case value_of 10 0 ds of
                 None \<Rightarrow> None
               | Some v \<Rightarrow>
                   let i = (if neg then - int v else int v)
                   in if lo \<le> i \<and> i \<le> hi then Some i else None))"

lemma value_of_append:
  "value_of base acc (xs @ ys) =
     (case value_of base acc xs of None \<Rightarrow> None | Some v \<Rightarrow> value_of base v ys)"
  by (induction xs arbitrary: acc) (auto split: option.split)

lemma value_of_digits:
  assumes "2 \<le> base" and "base \<le> 36"
  shows "value_of base 0 (digits_of base n) = Some n"
proof (induction n rule: less_induct)
  case (less n)
  show ?case
  proof (cases "n < base")
    case True
    then show ?thesis using assms by (simp add: digits_of.simps [of base n])
  next
    case False
    with assms have "n div base < n" by (intro div_less_dividend) auto
    with less assms False show ?thesis
      by (simp add: digits_of.simps [of base n] value_of_append)
  qed
qed

lemma digits_of_nonempty [simp]: "digits_of base n \<noteq> []"
  by (subst digits_of.simps) simp

lemma digits_of_head:
  "2 \<le> base \<Longrightarrow> base \<le> 36 \<Longrightarrow> \<exists>d < base. \<exists>r. digits_of base n = digit_char d # r"
proof (induction base n rule: digits_of.induct)
  case (1 base n)
  then show ?case
    by (cases "n < base") (auto simp: digits_of.simps [of base n])
qed

lemma digit_char_not_sign [simp]: "digit_char d \<noteq> 43" "digit_char d \<noteq> 45"
  by (auto simp: digit_char_def)

lemma parse_int_to_string:
  assumes "lo \<le> i" and "i \<le> hi"
  shows "parse_signed lo hi (int_to_string i) = Some i"
proof (cases "i < 0")
  case True
  with assms show ?thesis
    by (simp add: int_to_string_def parse_signed_def value_of_digits)
next
  case False
  obtain d r where "digits_of 10 (nat i) = digit_char d # r"
    using digits_of_head [of 10 "nat i"] by auto
  with value_of_digits [of 10 "nat i"] False assms show ?thesis
    by (simp add: int_to_string_def parse_signed_def Let_def)
qed

section \<open>Internet addresses\<close>

text \<open>
  The recursive-descent parser of \<open>std::net\<close>: a reader takes the remaining characters and returns
  its value with what is left, or \<open>None\<close> with the input untouched (\<open>read_atomically\<close>).
\<close>

definition read_number :: "nat \<Rightarrow> nat \<Rightarrow> nat \<Rightarrow> bool \<Rightarrow> rstring \<Rightarrow> (nat \<times> rstring) option" where
  "read_number radix max_value max_digits allow_zero_prefix s =
     (let ds = takeWhile (\<lambda>c. to_digit radix c \<noteq> None) s;
          rest = dropWhile (\<lambda>c. to_digit radix c \<noteq> None) s
      in case value_of radix 0 ds of
           None \<Rightarrow> None
         | Some v \<Rightarrow>
             if ds = [] \<or> max_digits < length ds \<or> max_value < v then None
             else if \<not> allow_zero_prefix \<and> hd ds = 48 \<and> 1 < length ds then None
             else Some (v, rest))"

definition read_given_char :: "nat \<Rightarrow> rstring \<Rightarrow> rstring option" where
  "read_given_char c s = (case s of x # r \<Rightarrow> if x = c then Some r else None | [] \<Rightarrow> None)"

definition read_separator :: "nat \<Rightarrow> nat \<Rightarrow> (rstring \<Rightarrow> ('a \<times> rstring) option) \<Rightarrow> rstring \<Rightarrow> ('a \<times> rstring) option" where
  "read_separator sep i inner s =
     (if i = 0 then inner s
      else (case read_given_char sep s of None \<Rightarrow> None | Some r \<Rightarrow> inner r))"

fun read_octets :: "nat \<Rightarrow> nat \<Rightarrow> rstring \<Rightarrow> (nat list \<times> rstring) option" where
  "read_octets i 0 s = Some ([], s)"
| "read_octets i (Suc n) s =
     (case read_separator 46 i (read_number 10 255 3 False) s of
        None \<Rightarrow> None
      | Some (o1, r) \<Rightarrow>
          (case read_octets (Suc i) n r of
             None \<Rightarrow> None
           | Some (os, r') \<Rightarrow> Some (o1 # os, r')))"

definition read_ipv4_addr :: "rstring \<Rightarrow> (nat list \<times> rstring) option" where
  "read_ipv4_addr s = read_octets 0 4 s"

definition parse_ipv4 :: "rstring \<Rightarrow> nat list option" where
  "parse_ipv4 s =
     (if 15 < length (as_bytes s) then None
      else (case read_ipv4_addr s of Some (os, []) \<Rightarrow> Some os | _ \<Rightarrow> None))"

definition ipv4_to_string :: "nat list \<Rightarrow> rstring" where
  "ipv4_to_string os =
     (case os of [a, b, c, d] \<Rightarrow>
        digits_of 10 a @ 46 # digits_of 10 b @ 46 # digits_of 10 c @ 46 # digits_of 10 d | _ \<Rightarrow> [])"

text \<open>
  The groups of an IPv6 address up to a limit: the groups read, whether an embedded IPv4 address
  ended them, and the remaining characters.
\<close>

fun read_groups :: "nat \<Rightarrow> nat \<Rightarrow> rstring \<Rightarrow> nat list \<times> bool \<times> rstring" where
  "read_groups i 0 s = ([], False, s)"
| "read_groups i (Suc n) s =
     (case (if 0 < n then read_separator 58 i read_ipv4_addr s else None) of
        Some ([a, b, c, d], r) \<Rightarrow> ([a * 256 + b, c * 256 + d], True, r)
      | _ \<Rightarrow>
          (case read_separator 58 i (read_number 16 0xFFFF 4 True) s of
             None \<Rightarrow> ([], False, s)
           | Some (g, r) \<Rightarrow> (case read_groups (Suc i) n r of (gs, v4, r') \<Rightarrow> (g # gs, v4, r'))))"

definition read_ipv6_addr :: "rstring \<Rightarrow> (nat list \<times> rstring) option" where
  "read_ipv6_addr s =
     (case read_groups 0 8 s of
        (head, head_v4, r) \<Rightarrow>
          if length head = 8 then Some (head, r)
          else if head_v4 then None
          else (case read_given_char 58 r of
                  None \<Rightarrow> None
                | Some r1 \<Rightarrow>
                    (case read_given_char 58 r1 of
                       None \<Rightarrow> None
                     | Some r2 \<Rightarrow>
                         (case read_groups 0 (8 - (length head + 1)) r2 of
                            (tail, _, r3) \<Rightarrow>
                              Some (head @ replicate (8 - length head - length tail) 0 @ tail, r3)))))"

definition parse_ipv6 :: "rstring \<Rightarrow> nat list option" where
  "parse_ipv6 s = (case read_ipv6_addr s of Some (gs, []) \<Rightarrow> Some gs | _ \<Rightarrow> None)"

text \<open>Printing: the first longest run of at least two zero groups is compressed.\<close>

definition fmt_subslice :: "nat list \<Rightarrow> rstring" where
  "fmt_subslice gs =
     (case gs of [] \<Rightarrow> [] | g # r \<Rightarrow> digits_of 16 g @ concat (map (\<lambda>x. 58 # digits_of 16 x) r))"

definition zero_run :: "nat list \<Rightarrow> nat \<Rightarrow> nat" where
  "zero_run gs i = length (takeWhile (\<lambda>g. g = 0) (drop i gs))"

fun longest_zero_run :: "nat list \<Rightarrow> nat \<Rightarrow> nat \<times> nat" where
  "longest_zero_run gs 0 = (0, zero_run gs 0)"
| "longest_zero_run gs (Suc i) =
     (case longest_zero_run gs i of
        (st, len) \<Rightarrow> if len < zero_run gs (Suc i) then (Suc i, zero_run gs (Suc i)) else (st, len))"

definition ipv6_to_string :: "nat list \<Rightarrow> rstring" where
  "ipv6_to_string gs =
     (if take 5 gs = [0, 0, 0, 0, 0] \<and> gs ! 5 = 0xFFFF
      then str ''::ffff:'' @
        ipv4_to_string [gs ! 6 div 256, gs ! 6 mod 256, gs ! 7 div 256, gs ! 7 mod 256]
      else (case longest_zero_run gs (length gs - 1) of
              (st, len) \<Rightarrow>
                if 1 < len then fmt_subslice (take st gs) @ str ''::'' @ fmt_subslice (drop (st + len) gs)
                else fmt_subslice gs))"

lemma digits_of_are_digits:
  "2 \<le> base \<Longrightarrow> base \<le> 36 \<Longrightarrow> c \<in> set (digits_of base n) \<Longrightarrow> \<exists>d < base. c = digit_char d"
proof (induction base n rule: digits_of.induct)
  case (1 base n)
  then have "n mod base < base" by simp
  with 1 show ?case
    by (cases "n < base") (auto simp del: mod_less_divisor simp: digits_of.simps [of base n])
qed

lemma take_drop_while_digits:
  assumes "2 \<le> base" "base \<le> 36" and "r = [] \<or> to_digit base (hd r) = None"
  shows "takeWhile (\<lambda>c. to_digit base c \<noteq> None) (digits_of base n @ r) = digits_of base n"
    and "dropWhile (\<lambda>c. to_digit base c \<noteq> None) (digits_of base n @ r) = r"
proof -
  have all: "\<forall>c \<in> set (digits_of base n). to_digit base c \<noteq> None"
    using digits_of_are_digits [OF assms(1,2)] to_digit_char assms(2) by fastforce
  show "takeWhile (\<lambda>c. to_digit base c \<noteq> None) (digits_of base n @ r) = digits_of base n"
    using all assms(3) by (cases r) (auto simp: takeWhile_append2)
  show "dropWhile (\<lambda>c. to_digit base c \<noteq> None) (digits_of base n @ r) = r"
    using all assms(3) by (cases r) (auto simp: dropWhile_append2)
qed

lemma digits_10:
  "n < 10 \<Longrightarrow> digits_of 10 n = [48 + n]"
  "10 \<le> n \<Longrightarrow> n < 100 \<Longrightarrow> digits_of 10 n = [48 + n div 10, 48 + n mod 10]"
  "100 \<le> n \<Longrightarrow> n < 1000 \<Longrightarrow> digits_of 10 n = [48 + n div 100, 48 + n div 10 mod 10, 48 + n mod 10]"
proof -
  show one: "n < 10 \<Longrightarrow> digits_of 10 n = [48 + n]" for n
    by (simp add: digits_of.simps [of 10 n] digit_char_def)
  show two: "10 \<le> n \<Longrightarrow> n < 100 \<Longrightarrow> digits_of 10 n = [48 + n div 10, 48 + n mod 10]" for n
    using one [of "n div 10"] by (simp add: digits_of.simps [of 10 n] digit_char_def)
  show "100 \<le> n \<Longrightarrow> n < 1000 \<Longrightarrow> digits_of 10 n = [48 + n div 100, 48 + n div 10 mod 10, 48 + n mod 10]"
    using two [of "n div 10"]
    by (simp add: digits_of.simps [of 10 n] digit_char_def div_mult2_eq [symmetric])
qed

lemma read_octet:
  assumes "n < 256" and "r = [] \<or> to_digit 10 (hd r) = None"
  shows "read_number 10 255 3 False (digits_of 10 n @ r) = Some (n, r)"
proof -
  consider "n < 10" | "10 \<le> n" "n < 100" | "100 \<le> n" "n < 1000" using assms(1) by linarith
  then have "length (digits_of 10 n) \<le> 3 \<and> (1 < length (digits_of 10 n) \<longrightarrow> hd (digits_of 10 n) \<noteq> 48)"
    by cases (simp_all add: digits_10)
  then show ?thesis
    using assms(1) take_drop_while_digits [of 10 r n] assms(2) value_of_digits [of 10 n]
    by (auto simp: read_number_def Let_def)
qed

lemma read_ipv4_to_string:
  assumes "a < 256" "b < 256" "c < 256" "d < 256"
  shows "read_ipv4_addr (ipv4_to_string [a, b, c, d]) = Some ([a, b, c, d], [])"
proof -
  have dot: "to_digit 10 46 = None" by (simp add: to_digit_def)
  have four: "(4::nat) = Suc (Suc (Suc (Suc 0)))" by simp
  show ?thesis
    unfolding read_ipv4_addr_def four
    using assms read_octet [of d "[]"]
    by (simp add: ipv4_to_string_def read_separator_def read_given_char_def read_octet dot)
qed

end
