(* ===== verification/Mask_Text.thy ===== *)
theory Mask_Text
  imports Mask_Types Std_Text
begin

text \<open>
  The text algorithms of \<open>mask.rs\<close>: the four string masks, the address prefix, the coarsening of
  dates in text form, the checksums that guard the free-text patterns, hexadecimal rendering and
  the uuid shapes.
\<close>

section \<open>String masks\<close>

datatype mask_error =
    Unsupported u32 i16 mask
  | Undecodable u32 i16
  | JsonLimitExceeded json_limit nat

definition text_op :: "bytes \<Rightarrow> (rstring \<Rightarrow> rstring) \<Rightarrow> bytes" where
  "text_op bs f = as_bytes (f (from_utf8_lossy bs))"

definition partial :: "rstring \<Rightarrow> nat \<Rightarrow> rstring" where
  "partial t k =
     (let masked = length t - k
      in if masked > 0 then stars masked @ drop masked t else stars (length t))"

definition inner :: "rstring \<Rightarrow> nat \<Rightarrow> rstring" where
  "inner t k =
     (let masked = length t - 2 * k
      in if masked > 0 then take k t @ stars masked @ drop masked (drop k t) else stars (length t))"

definition outer :: "rstring \<Rightarrow> nat \<Rightarrow> rstring" where
  "outer t k =
     (if k = 0 then stars (length t)
      else
        (let kept = length t - 2 * k
         in if kept > 0 then stars k @ take kept (drop k t) @ stars k else stars (length t)))"

definition range_mask :: "rstring \<Rightarrow> nat \<Rightarrow> nat \<Rightarrow> rstring" where
  "range_mask t s e =
     (if s \<ge> length t then stars (length t)
      else
        (let st = min s (length t); en = max st (min e (length t))
         in map (\<lambda>(i, c). if st \<le> i \<and> i < en then 42 else c) (List.enumerate 0 t)))"

text \<open>\<open>ip_prefix\<close>: the network part of an address, or stars for anything that does not parse.\<close>

definition ip_prefix :: "rstring \<Rightarrow> rstring" where
  "ip_prefix t =
     (let (addr, had_prefix) = (case split_once 47 t of Some (a, _) \<Rightarrow> (a, True) | None \<Rightarrow> (t, False));
          addr = trim (hd (split_char 37 addr))
      in case parse_ipv4 addr of
           Some os \<Rightarrow>
             let base = ipv4_to_string [os ! 0, os ! 1, os ! 2, 0]
             in if had_prefix then base @ str ''/24'' else base
         | None \<Rightarrow>
             (case parse_ipv6 addr of
                Some gs \<Rightarrow>
                  let base = ipv6_to_string (take 3 gs @ replicate 5 0)
                  in if had_prefix then base @ str ''/48'' else base
              | None \<Rightarrow> stars (length t)))"

section \<open>Dates in text form\<close>

definition digits_within :: "rstring \<Rightarrow> nat \<Rightarrow> nat \<Rightarrow> bool" where
  "digits_within field lo hi \<longleftrightarrow>
     lo \<le> length (as_bytes field) \<and> length (as_bytes field) \<le> hi \<and> list_all is_ascii_digit field"

text \<open>\<open>rfind(['+', '-'])\<close> and the text from there on, or the empty string.\<close>

definition tz_suffix :: "rstring \<Rightarrow> rstring" where
  "tz_suffix time =
     (let back = takeWhile (\<lambda>c. c \<noteq> 43 \<and> c \<noteq> 45) (rev time)
      in if length back = length time then [] else drop (length time - length back - 1) time)"

definition truncate_date_text :: "rstring \<Rightarrow> u32 \<Rightarrow> i16 \<Rightarrow> bool \<Rightarrow> mask_error + rstring" where
  "truncate_date_text t oid fmt to_month =
     (let (stem, era) = (case strip_suffix (str '' BC'') t of Some st \<Rightarrow> (st, str '' BC'') | None \<Rightarrow> (t, []));
          (date_part, time_part) =
            (case split_once 32 stem of Some (d, tm) \<Rightarrow> (d, Some tm) | None \<Rightarrow> (stem, None))
      in case split_char 45 date_part of
           [year, month, day] \<Rightarrow>
             if \<not> digits_within year 1 7 \<or> \<not> digits_within month 2 2 \<or> \<not> digits_within day 2 2
             then Inl (Undecodable oid fmt)
             else (case parse_signed (- (2 ^ 31)) (2 ^ 31 - 1) year of
                     None \<Rightarrow> Inl (Undecodable oid fmt)
                   | Some y \<Rightarrow>
                       if y > 9999 then Inl (Undecodable oid fmt)
                       else
                         (let month = (if to_month then month else str ''01'')
                          in if oid = OID_DATE then Inr (year @ str ''-'' @ month @ str ''-01'' @ era)
                             else
                               (let tz = (case time_part of Some tm \<Rightarrow> tz_suffix tm | None \<Rightarrow> [])
                                in Inr (year @ str ''-'' @ month @ str ''-01 00:00:00'' @ tz @ era))))
         | _ \<Rightarrow> Inl (Undecodable oid fmt))"

section \<open>Checksums of the free-text patterns\<close>

definition decimal_digits :: "rstring \<Rightarrow> nat list" where
  "decimal_digits t = List.map_filter (to_digit 10) t"

definition is_luhn :: "rstring \<Rightarrow> bool" where
  "is_luhn candidate =
     (let ds = decimal_digits candidate
      in if length ds < 13 then False
         else (\<Sum>(i, d) \<leftarrow> List.enumerate 0 (rev ds).
                 if i mod 2 = 1 then (let doubled = 2 * d in if doubled > 9 then doubled - 9 else doubled)
                 else d) mod 10 = 0)"

definition is_phone_length :: "rstring \<Rightarrow> bool" where
  "is_phone_length candidate =
     (let n = length (filter is_ascii_digit candidate)
      in if (case trim_start candidate of c # _ \<Rightarrow> c = 43 | [] \<Rightarrow> False) then 7 \<le> n \<and> n \<le> 15
         else 7 \<le> n \<and> n \<le> 11)"

definition is_nhs_number :: "rstring \<Rightarrow> bool" where
  "is_nhs_number candidate =
     (let ds = decimal_digits candidate
      in if length ds \<noteq> 10 then False
         else
           (let sum = (\<Sum>(d, w) \<leftarrow> zip (take 9 ds) (rev [2..<11]). d * w);
                remainder = sum mod 11
            in if remainder = 0 then ds ! 9 = 0
               else if remainder = 1 then False
               else 11 - remainder = ds ! 9))"

section \<open>Hexadecimal and uuid shapes\<close>

definition hex_into :: "bytes \<Rightarrow> rstring \<Rightarrow> rstring" where
  "hex_into bs out = out @ concat (map (\<lambda>b. [digit_char (unat b div 16), digit_char (unat b mod 16)]) bs)"

definition uuid_bytes :: "bytes \<Rightarrow> bytes" where
  "uuid_bytes digest =
     (let out = take 16 digest;
          out = out[6 := (out ! 6 AND 0x0F) OR 0x40]
      in out[8 := (out ! 8 AND 0x3F) OR 0x80])"

definition uuid_text :: "bytes \<Rightarrow> rstring" where
  "uuid_text bs =
     (let hex = hex_into bs []
      in take 8 hex @ 45 # take 4 (drop 8 hex) @ 45 # take 4 (drop 12 hex) @ 45 #
         take 4 (drop 16 hex) @ 45 # take 12 (drop 20 hex))"

fun read_nibbles :: "nat \<Rightarrow> rstring \<Rightarrow> (bytes \<times> rstring) option" where
  "read_nibbles 0 cs = Some ([], cs)"
| "read_nibbles (Suc n) cs =
     (case cs of
        h # l # r \<Rightarrow>
          (case to_digit 16 h of
             None \<Rightarrow> None
           | Some hi \<Rightarrow>
               (case to_digit 16 l of
                  None \<Rightarrow> None
                | Some lo \<Rightarrow>
                    (case read_nibbles n r of
                       None \<Rightarrow> None
                     | Some (bs, r') \<Rightarrow> Some (byte_of (hi * 16 + lo) # bs, r'))))
      | _ \<Rightarrow> None)"

definition canonical_uuid :: "bytes \<Rightarrow> i16 \<Rightarrow> bytes option" where
  "canonical_uuid bs fmt =
     (if fmt = FORMAT_BINARY then (if length bs = 16 then Some bs else None)
      else (case from_utf8 bs of
              None \<Rightarrow> None
            | Some t \<Rightarrow>
                (case read_nibbles 16 (filter (\<lambda>c. c \<noteq> 45) t) of
                   Some (out, []) \<Rightarrow> Some out
                 | _ \<Rightarrow> None)))"

end
