(* ===== verification/Mask_Text_Facts.thy ===== *)
theory Mask_Text_Facts
  imports Mask_Text
begin

text \<open>
  Facts on the text masks: which characters each string mask reveals, the agreement of the two
  wire forms of a uuid, the coarsening of dates and addresses.
\<close>

section \<open>String masks\<close>

lemma length_partial [simp]: "length (partial t k) = length t"
  by (auto simp: partial_def Let_def)

lemma length_inner [simp]: "length (inner t k) = length t"
  by (auto simp: inner_def Let_def)

lemma length_outer [simp]: "length (outer t k) = length t"
  by (auto simp: outer_def Let_def)

lemma length_range_mask [simp]: "length (range_mask t s e) = length t"
  by (auto simp: range_mask_def Let_def)

lemma partial_nth:
  "i < length t \<Longrightarrow> partial t k ! i = (if k < length t \<and> length t - k \<le> i then t ! i else 42)"
  by (auto simp: partial_def Let_def stars_def nth_append)

lemma inner_nth:
  "i < length t \<Longrightarrow>
     inner t k ! i = (if 2 * k < length t \<and> (i < k \<or> length t - k \<le> i) then t ! i else 42)"
  by (auto simp: inner_def Let_def stars_def nth_append)

lemma outer_nth:
  "i < length t \<Longrightarrow>
     outer t k ! i = (if 0 < k \<and> 2 * k < length t \<and> k \<le> i \<and> i < length t - k then t ! i else 42)"
  by (auto simp: outer_def Let_def stars_def nth_append)

lemma range_mask_nth:
  "i < length t \<Longrightarrow>
     range_mask t s e ! i = (if s < length t \<and> \<not> (s \<le> i \<and> i < e) then t ! i else 42)"
  by (auto simp: range_mask_def Let_def stars_def nth_enumerate_eq)

text \<open>The positions a string mask lets through, for a value of a given length.\<close>

fun revealed :: "mask_spec \<Rightarrow> nat \<Rightarrow> nat \<Rightarrow> bool" where
  "revealed s n i =
     (case kind s of
        Partial \<Rightarrow> unat (keep s) < n \<and> n - unat (keep s) \<le> i
      | Inner \<Rightarrow> 2 * unat (keep s) < n \<and> (i < unat (keep s) \<or> n - unat (keep s) \<le> i)
      | Outer \<Rightarrow> 0 < unat (keep s) \<and> 2 * unat (keep s) < n \<and> unat (keep s) \<le> i \<and> i < n - unat (keep s)
      | Range \<Rightarrow> unat (range_start s) < n \<and> \<not> (unat (range_start s) \<le> i \<and> i < unat (range_end s))
      | _ \<Rightarrow> False)"

definition string_mask :: "mask_spec \<Rightarrow> rstring \<Rightarrow> rstring" where
  "string_mask s t =
     (case kind s of
        Partial \<Rightarrow> partial t (unat (keep s))
      | Inner \<Rightarrow> inner t (unat (keep s))
      | Outer \<Rightarrow> outer t (unat (keep s))
      | Range \<Rightarrow> range_mask t (unat (range_start s)) (unat (range_end s))
      | _ \<Rightarrow> stars (length t))"

text \<open>
  The string masks \<open>partial\<close>, \<open>inner\<close>, \<open>outer\<close> and \<open>range\<close> keep the length of the value and show
  exactly the characters of their window: every other character is a star, and a value too short
  for its window is starred entirely.
\<close>

theorem string_masks_reveal_only_window:
  "length (string_mask s t) = length t \<and>
   (\<forall>i < length t. string_mask s t ! i = (if revealed s (length t) i then t ! i else 42))"
  by (auto simp: string_mask_def partial_nth inner_nth outer_nth range_mask_nth stars_def split: mask.split)

theorem string_masks_reveal_only_window_witness:
  "string_mask (spec_new Partial) (str ''41111234'') ! 1 = 42"
  using string_masks_reveal_only_window [of "spec_new Partial" "str ''41111234''"]
  by (simp add: str_def spec_new_def)

section \<open>Hexadecimal and uuids\<close>

lemma hex_into_Cons:
  "hex_into (b # bs) out = hex_into bs (out @ [digit_char (unat b div 16), digit_char (unat b mod 16)])"
  by (simp add: hex_into_def)

lemma length_hex_into [simp]: "length (hex_into bs out) = length out + 2 * length bs"
  by (induction bs arbitrary: out) (simp_all add: hex_into_def)

lemma unat_u8_less: "unat (b :: u8) < 256"
  using unsigned_less [of b] by simp

lemma read_nibbles_hex:
  "read_nibbles (length bs) (hex_into bs [] @ r) = Some (bs, r)"
proof (induction bs)
  case (Cons b bs)
  have d: "unat b div 16 < 16" using unat_u8_less [of b] by (simp add: div_less_iff_less_mult)
  from Cons show ?case
    by (simp add: hex_into_def d)
qed (simp add: hex_into_def)

lemma hex_into_ascii: "c \<in> set (hex_into bs []) \<Longrightarrow> c < 128 \<and> c \<noteq> 45"
proof -
  have "digit_char d < 128 \<and> digit_char d \<noteq> 45" if "d < 16" for d
    using that by (auto simp: digit_char_def)
  moreover assume "c \<in> set (hex_into bs [])"
  then obtain b where "c = digit_char (unat (b :: u8) div 16) \<or> c = digit_char (unat b mod 16)"
    by (auto simp: hex_into_def)
  moreover have "unat (b :: u8) div 16 < 16" for b
    using unat_u8_less [of b] by (simp add: div_less_iff_less_mult)
  ultimately show ?thesis by auto
qed

lemma uuid_text_chunks:
  assumes "length bs = 16"
  shows "filter (\<lambda>c. c \<noteq> 45) (uuid_text bs) = hex_into bs []"
proof -
  let ?h = "hex_into bs []"
  have "filter (\<lambda>c. c \<noteq> 45) ?h = ?h" by (simp add: filter_id_conv hex_into_ascii)
  then have f: "filter (\<lambda>c. c \<noteq> 45) (take n (drop m ?h)) = take n (drop m ?h)" for n m
    by (metis (no_types, lifting) filter_id_conv in_set_dropD in_set_takeD hex_into_ascii)
  have "?h = take 8 ?h @ take 4 (drop 8 ?h) @ take 4 (drop 12 ?h) @ take 4 (drop 16 ?h) @ take 12 (drop 20 ?h)"
    using assms by (simp add: list_eq_iff_nth_eq nth_append) 
  then show ?thesis
    using f [of 8 0] f [of 4 8] f [of 4 12] f [of 4 16] f [of 12 20]
    unfolding uuid_text_def Let_def by simp
qed

lemma ascii_scalar: "\<forall>c \<in> set t. c < 128 \<Longrightarrow> list_all is_scalar t"
  by (auto simp: list_all_iff is_scalar_def)

lemma uuid_text_scalar: "list_all is_scalar (uuid_text bs)"
  by (rule ascii_scalar)
    (auto simp: uuid_text_def Let_def dest!: in_set_takeD in_set_dropD hex_into_ascii)

text \<open>
  The two wire forms of a uuid denote the same sixteen bytes: the text form of any sixteen bytes
  is read back to those bytes, which is what the binary form yields, and the bytes a digest is
  shaped into always carry version 4 and the RFC 4122 variant.
\<close>

theorem uuid_forms_agree:
  assumes "length bs = 16"
  shows "canonical_uuid (as_bytes (uuid_text bs)) FORMAT_TEXT = Some bs \<and>
    canonical_uuid bs FORMAT_BINARY = Some bs \<and>
    length (uuid_bytes bs) = 16 \<and>
    uuid_bytes bs ! 6 AND 0xF0 = 0x40 \<and> uuid_bytes bs ! 8 AND 0xC0 = 0x80 \<and>
    (\<forall>i < 16. i \<noteq> 6 \<longrightarrow> i \<noteq> 8 \<longrightarrow> uuid_bytes bs ! i = bs ! i)"
proof -
  have "read_nibbles 16 (hex_into bs []) = Some (bs, [])"
    using read_nibbles_hex [of bs "[]"] assms by simp
  then have "canonical_uuid (as_bytes (uuid_text bs)) FORMAT_TEXT = Some bs"
    using assms by (simp add: canonical_uuid_def FORMAT_TEXT_def FORMAT_BINARY_def
        from_utf8_as_bytes uuid_text_scalar uuid_text_chunks)
  moreover have "((x AND 0x0F) OR 0x40) AND 0xF0 = (0x40 :: u8)" "((x AND 0x3F) OR 0x80) AND 0xC0 = (0x80 :: u8)" for x
    by (rule bit_word_eqI; auto simp: bit_simps numeral_eq_Suc nth_Cons' less_Suc_eq)+
  ultimately show ?thesis
    using assms by (simp add: canonical_uuid_def uuid_bytes_def Let_def)
qed

theorem uuid_forms_agree_witness:
  "canonical_uuid (as_bytes (uuid_text (replicate 16 0xAB))) FORMAT_TEXT = Some (replicate 16 0xAB)"
  using uuid_forms_agree [of "replicate 16 0xAB"] by simp

section \<open>Dates\<close>

lemma split_char_join: "c \<notin> set a \<Longrightarrow> split_char c (a @ c # b) = a # split_char c b"
  by (induction a) auto

lemma split_char_single: "c \<notin> set a \<Longrightarrow> split_char c a = [a]"
  by (induction a) auto

lemma as_bytes_ascii: "\<forall>c \<in> set t. c < 128 \<Longrightarrow> length (as_bytes t) = length t"
  by (induction t) (auto simp: as_bytes_def utf8_char_def)

lemma digits_ascii: "list_all is_ascii_digit t \<Longrightarrow> \<forall>c \<in> set t. c < 128 \<and> c \<noteq> 45 \<and> c \<noteq> 32 \<and> c \<noteq> 43"
  by (auto simp: list_all_iff is_ascii_digit_def)

lemma digits_within_iff:
  "digits_within t lo hi \<longleftrightarrow> lo \<le> length t \<and> length t \<le> hi \<and> list_all is_ascii_digit t"
proof (cases "list_all is_ascii_digit t")
  case True
  then have "length (as_bytes t) = length t" by (simp add: as_bytes_ascii digits_ascii)
  with True show ?thesis by (simp add: digits_within_def)
qed (simp add: digits_within_def)

lemma value_of_ascii_digits_bound:
  "list_all is_ascii_digit t \<Longrightarrow> \<exists>v. value_of 10 acc t = Some v \<and> v < (acc + 1) * 10 ^ length t"
proof (induction t arbitrary: acc)
  case (Cons c t)
  then have d: "to_digit 10 c = Some (c - 48)" "c - 48 < 10" "list_all is_ascii_digit t"
    by (auto simp: is_ascii_digit_def [of c] to_digit_def)
  from Cons.IH [OF d(3), of "acc * 10 + (c - 48)"]
  obtain v where v: "value_of 10 (acc * 10 + (c - 48)) t = Some v"
    "v < (acc * 10 + (c - 48) + 1) * 10 ^ length t" by blast
  have "(acc * 10 + (c - 48) + 1) * 10 ^ length t \<le> (acc + 1) * 10 * 10 ^ length t"
    by (rule mult_right_mono) (use d(2) in auto)
  with v d(1) show ?case by (auto simp: algebra_simps)
qed simp

text \<open>The text PostgreSQL writes for a date or timestamp, from its parts.\<close>

definition date_text :: "rstring \<Rightarrow> rstring \<Rightarrow> rstring \<Rightarrow> rstring option \<Rightarrow> bool \<Rightarrow> rstring" where
  "date_text year month day time bc =
     year @ 45 # month @ 45 # day @ (case time of None \<Rightarrow> [] | Some tm \<Rightarrow> 32 # tm) @ (if bc then str '' BC'' else [])"

definition date_parts_ok :: "rstring \<Rightarrow> rstring \<Rightarrow> rstring \<Rightarrow> rstring option \<Rightarrow> bool" where
  "date_parts_ok year month day time \<longleftrightarrow>
     list_all is_ascii_digit (year @ month @ day) \<and> 1 \<le> length year \<and> length year \<le> 4 \<and>
     length month = 2 \<and> length day = 2 \<and>
     (case time of None \<Rightarrow> True | Some tm \<Rightarrow> strip_suffix (str '' BC'') (32 # tm) = None \<and> 2 \<le> length tm)"

lemma strip_suffix_append [simp]: "strip_suffix suf (t @ suf) = Some t"
  by (simp add: strip_suffix_def)

lemma strip_suffix_prefix:
  "length suf \<le> length t \<Longrightarrow> strip_suffix suf t = None \<Longrightarrow> strip_suffix suf (pre @ t) = None"
  by (auto simp: strip_suffix_def split: if_splits)

lemma strip_suffix_digits:
  assumes "list_all is_ascii_digit t" and "t \<noteq> []"
  shows "strip_suffix (str '' BC'') (pre @ t) = None"
proof -
  have "is_ascii_digit (last t)" using assms last_in_set [of t] by (simp add: list_all_iff)
  then have last: "last (pre @ t) \<noteq> 67" using assms(2) by (auto simp: is_ascii_digit_def)
  have "drop n (pre @ t) \<noteq> [32, 66, 67]" for n
    using last by (metis last.simps last_drop list.discI list.size(3) drop_eq_Nil not_le)
  then show ?thesis
    unfolding strip_suffix_def str_def by (simp del: drop_append)
qed

text \<open>
  A date or timestamp in text form is coarsened to the first of its year (or month) for every
  month, day and time of day: only the year (and month), the timezone offset and the era of the
  value survive, so two values of the same year mask to the same text.
\<close>

theorem date_text_is_coarsened:
  assumes "date_parts_ok year month day time"
  shows "truncate_date_text (date_text year month day time bc) oid fmt to_month =
    Inr (let m = (if to_month then month else str ''01''); era = (if bc then str '' BC'' else [])
         in if oid = OID_DATE then year @ str ''-'' @ m @ str ''-01'' @ era
            else year @ str ''-'' @ m @ str ''-01 00:00:00'' @
              (case time of None \<Rightarrow> [] | Some tm \<Rightarrow> tz_suffix tm) @ era)"
proof -
  let ?stem = "year @ 45 # month @ 45 # day @ (case time of None \<Rightarrow> [] | Some tm \<Rightarrow> 32 # tm)"
  let ?date = "year @ 45 # month @ 45 # day"
  have dig: "list_all is_ascii_digit year" "list_all is_ascii_digit month" "list_all is_ascii_digit day"
    and len: "1 \<le> length year" "length year \<le> 4" "length month = 2" "length day = 2"
    using assms by (simp_all add: date_parts_ok_def)
  note chars = digits_ascii [OF dig(1)] digits_ascii [OF dig(2)] digits_ascii [OF dig(3)]
  have "day \<noteq> []" using len by auto
  then have d: "strip_suffix (str '' BC'') (year @ 45 # month @ 45 # day) = None"
    using strip_suffix_digits [OF dig(3), of "year @ 45 # month @ [45]"] by simp
  have "strip_suffix (str '' BC'') (?date @ 32 # tm) = None" if "time = Some tm" for tm
    using assms that by (intro strip_suffix_prefix) (simp_all add: date_parts_ok_def str_def)
  then have strip: "strip_suffix (str '' BC'') ?stem = None"
    using d by (cases time) simp_all
  have stem: "(case strip_suffix (str '' BC'') (date_text year month day time bc) of
      Some st \<Rightarrow> (st, str '' BC'') | None \<Rightarrow> (date_text year month day time bc, [])) =
      (?stem, if bc then str '' BC'' else [])"
    using strip strip_suffix_append [of "str '' BC''" ?stem] by (simp add: date_text_def)
  have "32 \<notin> set ?date" using chars by auto
  then have once: "split_once 32 ?stem = (case time of None \<Rightarrow> None | Some tm \<Rightarrow> Some (?date, tm))"
    using split_once_None [of 32 ?date] split_once_append [of 32 ?date] by (cases time) simp_all
  have no: "45 \<notin> set year" "45 \<notin> set month" "45 \<notin> set day" using chars by auto
  have fields: "split_char 45 ?date = [year, month, day]"
    using no by (simp add: split_char_join split_char_single)
  obtain v where "value_of 10 0 year = Some v" "v < 10 ^ length year"
    using value_of_ascii_digits_bound [OF dig(1), of 0] by auto
  moreover have "(10::nat) ^ length year \<le> 10 ^ 4" using len by (intro power_increasing) auto
  ultimately have v: "value_of 10 0 year = Some v" "v \<le> 9999" by auto
  have yr: "parse_signed (- (2 ^ 31)) (2 ^ 31 - 1) year = Some (int v)"
    using v len chars(1) by (cases year) (auto simp: parse_signed_def Let_def)
  show ?thesis
    unfolding truncate_date_text_def stem
    using v yr once fields dig len
    by (cases time) (simp_all add: digits_within_iff)
qed

theorem date_text_is_coarsened_witness:
  "truncate_date_text (str ''1987-06-15 13:45:00+02'') OID_TIMESTAMPTZ FORMAT_TEXT False =
     Inr (str ''1987-01-01 00:00:00+02'')"
proof -
  have "date_text (str ''1987'') (str ''06'') (str ''15'') (Some (str ''13:45:00+02'')) False =
      str ''1987-06-15 13:45:00+02''" by (simp add: date_text_def str_def)
  moreover have "date_parts_ok (str ''1987'') (str ''06'') (str ''15'') (Some (str ''13:45:00+02''))"
    by (simp add: date_parts_ok_def str_def is_ascii_digit_def strip_suffix_def)
  ultimately show ?thesis
    using date_text_is_coarsened [of "str ''1987''" "str ''06''" "str ''15''" "Some (str ''13:45:00+02'')"
        False OID_TIMESTAMPTZ FORMAT_TEXT False]
    by (simp add: str_def tz_suffix_def oid_defs)
qed

section \<open>Addresses\<close>

lemma ipv4_chars:
  assumes "length os = 4"
  shows "c \<in> set (ipv4_to_string os) \<Longrightarrow> c = 46 \<or> is_ascii_digit c"
proof -
  obtain a b d e where "os = [a, b, d, e]"
    using assms by (auto simp: length_Suc_conv numeral_eq_Suc)
  moreover have "c \<in> set (digits_of 10 n) \<Longrightarrow> is_ascii_digit c" for c n
    using digits_of_are_digits [of 10 c n] by (auto simp: digit_char_def is_ascii_digit_def)
  ultimately show "c \<in> set (ipv4_to_string os) \<Longrightarrow> c = 46 \<or> is_ascii_digit c"
    by (auto simp: ipv4_to_string_def)
qed

lemma address_char:
  "c = 46 \<or> is_ascii_digit c \<Longrightarrow> c < 128 \<and> c \<noteq> 47 \<and> c \<noteq> 37 \<and> \<not> is_whitespace c"
  by (auto simp: is_ascii_digit_def is_whitespace_def)

lemma trim_id:
  assumes "\<forall>c \<in> set t. \<not> is_whitespace c"
  shows "trim t = t"
proof -
  have "dropWhile is_whitespace u = u" if "\<forall>c \<in> set u. \<not> is_whitespace c" for u
    using that by (cases u) auto
  from this [of t] this [of "rev t"] assms show ?thesis by (simp add: trim_def trim_start_def)
qed

lemma digits_of_octet_length: "n < 256 \<Longrightarrow> length (digits_of 10 n) \<le> 3"
  by (cases "n < 10"; cases "n < 100") (auto simp: digits_10)

lemma parse_ipv4_to_string:
  assumes "a < 256" "b < 256" "c < 256" "d < 256"
  shows "parse_ipv4 (ipv4_to_string [a, b, c, d]) = Some [a, b, c, d]"
proof -
  have "\<forall>x \<in> set (ipv4_to_string [a, b, c, d]). x < 128"
    using ipv4_chars [of "[a, b, c, d]"] address_char by fastforce
  then have "length (as_bytes (ipv4_to_string [a, b, c, d])) = length (ipv4_to_string [a, b, c, d])"
    by (rule as_bytes_ascii)
  also have "\<dots> \<le> 15"
    using assms [THEN digits_of_octet_length] by (simp add: ipv4_to_string_def)
  finally show ?thesis
    using read_ipv4_to_string [OF assms] by (simp add: parse_ipv4_def)
qed

text \<open>
  The address mask keeps the network and drops the host: every IPv4 address, with or without a
  prefix length, is replaced by the first address of its /24, and a text that is no address is
  starred in full.
\<close>

theorem ip_prefix_drops_host:
  "(\<forall>a b c d. a < 256 \<longrightarrow> b < 256 \<longrightarrow> c < 256 \<longrightarrow> d < 256 \<longrightarrow>
      ip_prefix (ipv4_to_string [a, b, c, d]) = ipv4_to_string [a, b, c, 0] \<and>
      ip_prefix (ipv4_to_string [a, b, c, d] @ 47 # n) = ipv4_to_string [a, b, c, 0] @ str ''/24'') \<and>
   (37 \<notin> set t \<longrightarrow> 47 \<notin> set t \<longrightarrow> parse_ipv4 (trim t) = None \<longrightarrow> parse_ipv6 (trim t) = None \<longrightarrow>
      ip_prefix t = stars (length t))"
proof (intro conjI allI impI)
  fix a b c d :: nat
  assume less: "a < 256" "b < 256" "c < 256" "d < 256"
  let ?t = "ipv4_to_string [a, b, c, d]"
  have no: "47 \<notin> set ?t" "37 \<notin> set ?t" "\<forall>x \<in> set ?t. \<not> is_whitespace x"
    using ipv4_chars [of "[a, b, c, d]"] address_char by fastforce+
  then have addr: "trim (hd (split_char 37 ?t)) = ?t"
    by (simp add: split_char_single trim_id)
  show "ip_prefix ?t = ipv4_to_string [a, b, c, 0]"
    using no addr parse_ipv4_to_string [OF less] by (simp add: ip_prefix_def split_once_None [THEN iffD2])
  show "ip_prefix (?t @ 47 # n) = ipv4_to_string [a, b, c, 0] @ str ''/24''"
    using no addr parse_ipv4_to_string [OF less] by (simp add: ip_prefix_def split_once_append)
next
  assume "37 \<notin> set t" "47 \<notin> set t" "parse_ipv4 (trim t) = None" "parse_ipv6 (trim t) = None"
  then show "ip_prefix t = stars (length t)"
    by (simp add: ip_prefix_def split_once_None [THEN iffD2] split_char_single)
qed

theorem ip_prefix_drops_host_witness:
  "ip_prefix (ipv4_to_string [10, 20, 30, 40]) = ipv4_to_string [10, 20, 30, 0]"
  using ip_prefix_drops_host by simp

end
