(* ===== verification/Mask.thy ===== *)
theory Mask
  imports Mask_Text
begin

text \<open>
  The masker of \<open>mask.rs\<close>: keyed digests and pseudonyms, date truncation, numeric buckets, free-text
  scrubbing and the dispatch \<open>apply_planned\<close>. Code outside the repository (HMAC-SHA256, the regex
  engine, \<open>iban_validate\<close>, jiff, \<open>rust_decimal\<close>, the hardware's IEEE arithmetic and
  \<open>serde_json\<close>) is the record \<open>mask_env\<close> of functions, an argument of every operation that calls it.
  Floats are their IEEE bit patterns; a \<open>serde_json::Number\<close> is the text it prints as.
\<close>

section \<open>Code outside the repository\<close>

record civil_date =
  date_year :: int
  date_month :: nat
  date_day :: nat

datatype json_value =
    JNull | JBool bool | JNumber rstring | JString rstring
  | JArray "json_value list" | JObject "(rstring \<times> json_value) list"

type_synonym decimal = "int \<times> nat"
type_synonym f64 = u64
type_synonym f32 = u32

record mask_env =
  hmac_sha256 :: "bytes \<Rightarrow> bytes \<Rightarrow> bytes"
  regex_is_match :: "nat \<Rightarrow> rstring \<Rightarrow> bool"
  regex_replace_all :: "nat \<Rightarrow> (rstring \<Rightarrow> rstring) \<Rightarrow> rstring \<Rightarrow> rstring"
  iban_parses :: "rstring \<Rightarrow> bool"
  date_new :: "int \<Rightarrow> nat \<Rightarrow> nat \<Rightarrow> civil_date option"
  date_from_sql :: "bytes \<Rightarrow> civil_date option"
  date_to_sql :: "civil_date \<Rightarrow> bytes option"
  datetime_from_sql :: "bytes \<Rightarrow> (civil_date \<times> nat) option"
  datetime_to_sql :: "civil_date \<times> nat \<Rightarrow> bytes option"
  timestamp_from_sql :: "bytes \<Rightarrow> int option"
  timestamp_utc_date :: "int \<Rightarrow> civil_date"
  datetime_utc_timestamp :: "civil_date \<times> nat \<Rightarrow> int option"
  timestamp_to_sql :: "int \<Rightarrow> bytes option"
  decimal_parse :: "rstring \<Rightarrow> decimal option"
  decimal_from_i64 :: "i64 \<Rightarrow> decimal"
  decimal_checked_div :: "decimal \<Rightarrow> decimal \<Rightarrow> decimal option"
  decimal_floor :: "decimal \<Rightarrow> decimal"
  decimal_checked_mul :: "decimal \<Rightarrow> decimal \<Rightarrow> decimal option"
  decimal_normalized_string :: "decimal \<Rightarrow> rstring"
  f64_parse :: "rstring \<Rightarrow> f64 option"
  f64_from_i64 :: "i64 \<Rightarrow> f64"
  f64_div :: "f64 \<Rightarrow> f64 \<Rightarrow> f64"
  f64_floor :: "f64 \<Rightarrow> f64"
  f64_mul :: "f64 \<Rightarrow> f64 \<Rightarrow> f64"
  f64_to_string :: "f64 \<Rightarrow> rstring"
  f64_from_f32 :: "f32 \<Rightarrow> f64"
  f64_clamp_f32 :: "f64 \<Rightarrow> f64"
  f32_from_f64 :: "f64 \<Rightarrow> f32"
  json_from_slice :: "bytes \<Rightarrow> json_value option"
  json_to_vec :: "json_value \<Rightarrow> bytes option"

section \<open>Free text\<close>

definition is_iban :: "mask_env \<Rightarrow> rstring \<Rightarrow> bool" where
  "is_iban e candidate = iban_parses e (filter (\<lambda>c. c \<noteq> 32) candidate)"

datatype validator = IsIban | IsLuhn | IsNhsNumber | IsPhoneLength

fun valid :: "mask_env \<Rightarrow> validator \<Rightarrow> rstring \<Rightarrow> bool" where
  "valid e IsIban t = is_iban e t"
| "valid e IsLuhn t = is_luhn t"
| "valid e IsNhsNumber t = is_nhs_number t"
| "valid e IsPhoneLength t = is_phone_length t"

text \<open>The pattern table: the placeholder of each pattern, in order, and its validator.\<close>

definition SCRUB_PATTERNS :: "(rstring \<times> validator option) list" where
  "SCRUB_PATTERNS =
     [(str ''<EMAIL>'', None), (str ''<URL>'', None), (str ''<UUID>'', None), (str ''<MAC>'', None),
      (str ''<IBAN>'', Some IsIban), (str ''<CARD>'', Some IsLuhn), (str ''<NATIONAL_ID>'', None),
      (str ''<NATIONAL_ID>'', Some IsNhsNumber), (str ''<NATIONAL_ID>'', None),
      (str ''<POSTCODE>'', None), (str ''<CRYPTO>'', None), (str ''<IP>'', None),
      (str ''<PHONE>'', Some IsPhoneLength)]"

definition scrub_replacement :: "mask_env \<Rightarrow> rstring \<Rightarrow> validator option \<Rightarrow> rstring \<Rightarrow> rstring" where
  "scrub_replacement e label v hit =
     (case v of None \<Rightarrow> label | Some w \<Rightarrow> if valid e w hit then label else hit)"

definition scrub_free_text :: "mask_env \<Rightarrow> rstring \<Rightarrow> rstring" where
  "scrub_free_text e t =
     (if \<not> list_ex (\<lambda>i. regex_is_match e i t) [0..<length SCRUB_PATTERNS] then t
      else fold (\<lambda>(i, (label, v)) out.
             if regex_is_match e i t then regex_replace_all e i (scrub_replacement e label v) out else out)
             (List.enumerate 0 SCRUB_PATTERNS) t)"

section \<open>Digests and pseudonyms\<close>

definition hmac_update :: "hmac_state \<Rightarrow> bytes \<Rightarrow> hmac_state" where
  "hmac_update m bs = m\<lparr>absorbed := absorbed m @ bs\<rparr>"

definition hmac_finalize :: "mask_env \<Rightarrow> hmac_state \<Rightarrow> bytes" where
  "hmac_finalize e m = hmac_sha256 e (mac_key m) (absorbed m)"

record masker =
  masker_mac :: hmac_state
  masker_key :: bytes

definition masker_new :: "bytes \<Rightarrow> masker" where
  "masker_new k = \<lparr>masker_mac = \<lparr>mac_key = k, absorbed = []\<rparr>, masker_key = k\<rparr>"

definition absorb_domain :: "mask_spec \<Rightarrow> hmac_state \<Rightarrow> hmac_state" where
  "absorb_domain spec m =
     (case domain spec of
        None \<Rightarrow> m
      | Some d \<Rightarrow> hmac_update (hmac_update m (as_bytes d)) [0])"

definition prime :: "masker \<Rightarrow> mask_spec \<Rightarrow> primed_mac option" where
  "prime mk spec =
     (if kind spec \<notin> {Hash, Pseudonym} then None else Some (absorb_domain spec (masker_mac mk)))"

definition digest :: "mask_env \<Rightarrow> masker \<Rightarrow> mask_spec \<Rightarrow> primed_mac option \<Rightarrow> bytes \<Rightarrow> bytes" where
  "digest e mk spec pr input =
     (let m = (case pr of Some p \<Rightarrow> p | None \<Rightarrow> absorb_domain spec (masker_mac mk))
      in hmac_finalize e (hmac_update m input))"

definition as_email :: "rstring \<Rightarrow> (rstring \<times> rstring) option" where
  "as_email t =
     (case split_once 64 t of
        None \<Rightarrow> None
      | Some (l, d) \<Rightarrow> if l \<noteq> [] \<and> d \<noteq> [] then Some (l, d) else None)"

definition pseudonym ::
  "mask_env \<Rightarrow> masker \<Rightarrow> mask_spec \<Rightarrow> primed_mac option \<Rightarrow> u32 \<Rightarrow> i16 \<Rightarrow> bytes \<Rightarrow> mask_error + bytes" where
  "pseudonym e mk spec pr oid fmt bs =
     (if oid = OID_UUID then
        (case canonical_uuid bs fmt of
           None \<Rightarrow> Inl (Undecodable oid fmt)
         | Some canonical \<Rightarrow>
             let dg = digest e mk spec pr canonical
             in Inr (if fmt = FORMAT_BINARY then uuid_bytes dg else as_bytes (uuid_text (uuid_bytes dg))))
      else
        (let dg = digest e mk spec pr bs;
             hex = hex_into (take (PSEUDONYM_HEX_CHARS div 2) dg) []
         in case as_email (from_utf8_lossy bs) of
              Some (_, d) \<Rightarrow>
                if \<not> keep_domain spec then
                  (let m = absorb_domain spec (masker_mac mk);
                       m = hmac_update m (lit ''domain'' @ [0]);
                       dd = hmac_finalize e (hmac_update m (as_bytes d))
                   in Inr (as_bytes (hex_into (take 4 dd) (hex @ [64]) @ str ''.invalid'')))
                else Inr (as_bytes (hex @ 64 # d))
            | None \<Rightarrow> Inr (as_bytes hex)))"

section \<open>Dates\<close>

definition coarsen :: "mask_env \<Rightarrow> civil_date \<Rightarrow> bool \<Rightarrow> mask_error + civil_date" where
  "coarsen e date to_month =
     (case date_new e (date_year date) (if to_month then date_month date else 1) 1 of
        None \<Rightarrow> Inl (Undecodable OID_DATE FORMAT_BINARY)
      | Some d \<Rightarrow> Inr d)"

definition ok_or :: "'e \<Rightarrow> 'a option \<Rightarrow> 'e + 'a" where
  "ok_or err r = (case r of None \<Rightarrow> Inl err | Some x \<Rightarrow> Inr x)"

definition and_then :: "'e + 'a \<Rightarrow> ('a \<Rightarrow> 'e + 'b) \<Rightarrow> 'e + 'b" where
  "and_then r f = (case r of Inl e \<Rightarrow> Inl e | Inr x \<Rightarrow> f x)"

lemma result_simps [simp]:
  "ok_or err None = Inl err" "ok_or err (Some x) = Inr x"
  "and_then (Inl e) f = Inl e" "and_then (Inr x) f = f x"
  by (simp_all add: ok_or_def and_then_def)

lemma and_then_Inr: "and_then r f = Inr y \<longleftrightarrow> (\<exists>x. r = Inr x \<and> f x = Inr y)"
  by (cases r) auto

definition truncate_date :: "mask_env \<Rightarrow> bytes \<Rightarrow> u32 \<Rightarrow> i16 \<Rightarrow> mask \<Rightarrow> mask_error + bytes" where
  "truncate_date e bs oid fmt k =
     (let to_month = (k = DateMonth); undecodable = Undecodable oid fmt
      in if fmt = FORMAT_TEXT then
           (case truncate_date_text (from_utf8_lossy bs) oid fmt to_month of
              Inl err \<Rightarrow> Inl err
            | Inr t \<Rightarrow> Inr (as_bytes t))
         else if oid = OID_DATE then
           and_then (ok_or undecodable (date_from_sql e bs)) (\<lambda>date.
           and_then (coarsen e date to_month) (\<lambda>d.
             ok_or undecodable (date_to_sql e d)))
         else if oid = OID_TIMESTAMP then
           and_then (ok_or undecodable (datetime_from_sql e bs)) (\<lambda>dt.
           and_then (coarsen e (fst dt) to_month) (\<lambda>d.
             ok_or undecodable (datetime_to_sql e (d, 0))))
         else if oid = OID_TIMESTAMPTZ then
           and_then (ok_or undecodable (timestamp_from_sql e bs)) (\<lambda>ts.
           and_then (coarsen e (timestamp_utc_date e ts) to_month) (\<lambda>d.
           and_then (ok_or undecodable (datetime_utc_timestamp e (d, 0))) (\<lambda>ts'.
             ok_or undecodable (timestamp_to_sql e ts'))))
         else Inl undecodable)"

section \<open>Numeric buckets\<close>

definition i64_min :: int where "i64_min = - (2 ^ 63)"
definition i64_max :: int where "i64_max = 2 ^ 63 - 1"

definition bucket_of :: "i64 \<Rightarrow> int" where
  "bucket_of b = max (sint b) 1"

definition floor_to :: "i64 \<Rightarrow> i64 \<Rightarrow> i64" where
  "floor_to v b =
     word_of_int (max i64_min (min i64_max (sint v div bucket_of b * bucket_of b)))"

definition floor_within :: "i64 \<Rightarrow> i64 \<Rightarrow> int \<Rightarrow> int \<Rightarrow> i64 option" where
  "floor_within v b lo hi =
     (let floored = floor_to v b
      in if lo \<le> sint floored \<and> sint floored \<le> hi then Some floored else None)"

definition f64_is_finite :: "f64 \<Rightarrow> bool" where
  "f64_is_finite v \<longleftrightarrow> drop_bit 52 v AND 0x7FF \<noteq> 0x7FF"

definition f64_is_nan :: "f64 \<Rightarrow> bool" where
  "f64_is_nan v \<longleftrightarrow> \<not> f64_is_finite v \<and> take_bit 52 v \<noteq> 0"

definition f64_is_sign_positive :: "f64 \<Rightarrow> bool" where
  "f64_is_sign_positive v \<longleftrightarrow> \<not> bit v 63"

definition f64_bucket :: "mask_env \<Rightarrow> f64 \<Rightarrow> i64 \<Rightarrow> f64" where
  "f64_bucket e v b =
     (let bf = f64_from_i64 e (word_of_int (bucket_of b))
      in f64_mul e (f64_floor e (f64_div e v bf)) bf)"

definition bucket_text :: "mask_env \<Rightarrow> rstring \<Rightarrow> u32 \<Rightarrow> i16 \<Rightarrow> i64 \<Rightarrow> mask_error + bytes" where
  "bucket_text e trimmed oid fmt b =
     (case parse_signed i64_min i64_max trimmed of
        Some v \<Rightarrow> Inr (as_bytes (int_to_string (sint (floor_to (word_of_int v) b))))
      | None \<Rightarrow>
          (case decimal_parse e trimmed of
             Some v \<Rightarrow>
               (let bd = decimal_from_i64 e (word_of_int (bucket_of b))
                in case decimal_checked_div e v bd of
                     None \<Rightarrow> Inl (Undecodable oid fmt)
                   | Some q \<Rightarrow>
                       (case decimal_checked_mul e (decimal_floor e q) bd of
                          None \<Rightarrow> Inl (Undecodable oid fmt)
                        | Some r \<Rightarrow> Inr (as_bytes (decimal_normalized_string e r))))
           | None \<Rightarrow>
               (case f64_parse e trimmed of
                  Some v \<Rightarrow>
                    if \<not> f64_is_finite v then
                      Inr (if f64_is_nan v then lit ''NaN''
                           else if f64_is_sign_positive v then lit ''Infinity'' else lit ''-Infinity'')
                    else Inr (as_bytes (f64_to_string e (f64_bucket e v b)))
                | None \<Rightarrow> Inl (Undecodable oid fmt))))"

definition bucket_number :: "mask_env \<Rightarrow> bytes \<Rightarrow> u32 \<Rightarrow> i16 \<Rightarrow> i64 \<Rightarrow> mask_error + bytes" where
  "bucket_number e bs oid fmt b =
     (let undecodable = Undecodable oid fmt
      in if fmt = FORMAT_TEXT then bucket_text e (trim (from_utf8_lossy bs)) oid fmt b
         else if oid = OID_INT2 then
           if length bs \<noteq> 2 then Inl undecodable
           else (case floor_within (scast (be_decode bs :: i16)) b (- (2 ^ 15)) (2 ^ 15 - 1) of
                   None \<Rightarrow> Inl undecodable
                 | Some out \<Rightarrow> Inr (be_encode 2 (scast out :: i16)))
         else if oid = OID_INT4 then
           if length bs \<noteq> 4 then Inl undecodable
           else (case floor_within (scast (be_decode bs :: i32)) b (- (2 ^ 31)) (2 ^ 31 - 1) of
                   None \<Rightarrow> Inl undecodable
                 | Some out \<Rightarrow> Inr (be_encode 4 (scast out :: i32)))
         else if oid = OID_INT8 then
           if length bs \<noteq> 8 then Inl undecodable
           else Inr (be_encode 8 (floor_to (be_decode bs) b))
         else if oid = OID_FLOAT4 then
           if length bs \<noteq> 4 then Inl undecodable
           else Inr (be_encode 4 (f32_from_f64 e
                  (f64_clamp_f32 e (f64_bucket e (f64_from_f32 e (be_decode bs)) b))))
         else if oid = OID_FLOAT8 then
           if length bs \<noteq> 8 then Inl undecodable
           else Inr (be_encode 8 (f64_bucket e (be_decode bs) b))
         else Inl undecodable)"

section \<open>Dispatch\<close>

text \<open>
  \<open>apply_planned\<close> over the JSON walker it calls; the walker itself applies masks to scalars, so the
  two are tied in the JSON theory.
\<close>

type_synonym json_walker =
  "mask_spec \<Rightarrow> json_projection option \<Rightarrow> u32 \<Rightarrow> i16 \<Rightarrow> bytes \<Rightarrow> mask_error + bytes"

definition mask_value ::
  "json_walker \<Rightarrow> mask_env \<Rightarrow> masker \<Rightarrow> mask_spec \<Rightarrow> primed_mac option \<Rightarrow> json_projection option \<Rightarrow>
     u32 \<Rightarrow> i16 \<Rightarrow> bytes \<Rightarrow> mask_error + bytes" where
  "mask_value walk e mk spec pr proj oid fmt bs =
     (case kind spec of
        Redact \<Rightarrow> Inr (lit ''***'')
      | Partial \<Rightarrow> Inr (text_op bs (\<lambda>t. partial t (unat (keep spec))))
      | Inner \<Rightarrow> Inr (text_op bs (\<lambda>t. inner t (unat (keep spec))))
      | Outer \<Rightarrow> Inr (text_op bs (\<lambda>t. outer t (unat (keep spec))))
      | Range \<Rightarrow> Inr (text_op bs (\<lambda>t. range_mask t (unat (range_start spec)) (unat (range_end spec))))
      | Hash \<Rightarrow> Inr (as_bytes (hex_into (take 16 (digest e mk spec pr bs)) []))
      | Pseudonym \<Rightarrow> pseudonym e mk spec pr oid fmt bs
      | DateYear \<Rightarrow> truncate_date e bs oid fmt (kind spec)
      | DateMonth \<Rightarrow> truncate_date e bs oid fmt (kind spec)
      | NumericBucket \<Rightarrow> bucket_number e bs oid fmt (bucket spec)
      | IpPrefix \<Rightarrow> Inr (text_op bs ip_prefix)
      | Scrub \<Rightarrow> Inr (text_op bs (scrub_free_text e))
      | Json \<Rightarrow> walk spec proj oid fmt bs
      | _ \<Rightarrow> Inl (Unsupported oid fmt (kind spec)))"

definition apply_with ::
  "json_walker \<Rightarrow> mask_env \<Rightarrow> masker \<Rightarrow> mask_spec \<Rightarrow> primed_mac option \<Rightarrow> json_projection option \<Rightarrow>
     u32 \<Rightarrow> i16 \<Rightarrow> bytes option \<Rightarrow> mask_error + bytes option" where
  "apply_with walk e mk spec pr proj oid fmt v =
     (if kind spec = MNone then Inr v
      else if kind spec = MNull then Inr None
      else if \<not> supports spec oid fmt then Inl (Unsupported oid fmt (kind spec))
      else (case v of
              None \<Rightarrow> Inr None
            | Some bs \<Rightarrow>
                (case mask_value walk e mk spec pr proj oid fmt bs of
                   Inl err \<Rightarrow> Inl err
                 | Inr out \<Rightarrow> Inr (Some out))))"

end
