(* ===== verification/Json_Mask.thy ===== *)
theory Json_Mask
  imports Mask
begin

text \<open>
  Structure-aware JSON masking (\<open>mask/json.rs\<close>): JSON Pointers and their trie, the policy of a path
  (pointer, then object key, then inherited), the plans of JSON extracts, the lexical depth check
  and the document walk. \<open>apply_planned\<close> ties the walk to the masker.
\<close>

section \<open>Pointers\<close>

datatype pointer_error = RootPointer | MissingSlash | BadEscape

fun decode_segment :: "rstring \<Rightarrow> rstring option" where
  "decode_segment [] = Some []"
| "decode_segment (c # cs) =
     (if c \<noteq> 126 then map_option ((#) c) (decode_segment cs)
      else (case cs of
              [] \<Rightarrow> None
            | d # ds \<Rightarrow>
                if d = 48 then map_option ((#) 126) (decode_segment ds)
                else if d = 49 then map_option ((#) 47) (decode_segment ds)
                else None))"

fun decode_segments :: "rstring list \<Rightarrow> rstring list option" where
  "decode_segments [] = Some []"
| "decode_segments (s # ss) =
     (case decode_segment s of
        None \<Rightarrow> None
      | Some d \<Rightarrow> (case decode_segments ss of None \<Rightarrow> None | Some ds \<Rightarrow> Some (d # ds)))"

definition json_field_spec_new :: "rstring \<Rightarrow> mask_spec \<Rightarrow> pointer_error + json_field_spec" where
  "json_field_spec_new ptr spec =
     (case ptr of
        [] \<Rightarrow> Inl RootPointer
      | c # encoded \<Rightarrow>
          if c \<noteq> 47 then Inl MissingSlash
          else (case decode_segments (split_char 47 encoded) of
                  None \<Rightarrow> Inl BadEscape
                | Some segs \<Rightarrow> Inr (JsonFieldSpec ptr segs spec)))"

definition STAR :: rstring where "STAR = [42]"

definition wildcard_count :: "json_field_spec \<Rightarrow> nat" where
  "wildcard_count f = length (filter (\<lambda>s. s = STAR) (segments f))"

definition patterns_overlap :: "json_field_spec \<Rightarrow> json_field_spec \<Rightarrow> bool" where
  "patterns_overlap l r \<longleftrightarrow>
     length (segments l) = length (segments r) \<and>
     list_all (\<lambda>(a, b). a = b \<or> a = STAR \<or> b = STAR) (zip (segments l) (segments r))"

definition equally_specific_overlap :: "json_field_spec \<Rightarrow> json_field_spec \<Rightarrow> bool" where
  "equally_specific_overlap f g \<longleftrightarrow> patterns_overlap f g \<and> wildcard_count f = wildcard_count g"

section \<open>The policy trie\<close>

type_synonym trie_policy = "mask_spec \<times> nat"
type_synonym json_path = "json_path_segment list"

fun trie_insert :: "rstring list \<Rightarrow> trie_policy \<Rightarrow> json_policy_node \<Rightarrow> json_policy_node" where
  "trie_insert [] pol (JsonPolicyNode _ ch) = JsonPolicyNode (Some pol) ch"
| "trie_insert (s # ss) pol (JsonPolicyNode p ch) =
     JsonPolicyNode p
       (hinsert s (trie_insert ss pol (case hget ch s of None \<Rightarrow> empty_node | Some n \<Rightarrow> n)) ch)"

definition trie_compile :: "json_field_spec list \<Rightarrow> json_policy_node" where
  "trie_compile fs =
     fold (\<lambda>f trie. trie_insert (segments f) (field_spec f, wildcard_count f) trie) fs empty_node"

definition opt_list :: "'a option \<Rightarrow> 'a list" where
  "opt_list r = (case r of None \<Rightarrow> [] | Some x \<Rightarrow> [x])"

definition next_from :: "json_path_segment \<Rightarrow> json_policy_node \<Rightarrow> json_policy_node list" where
  "next_from seg n =
     opt_list (hget (children n) (seg_value seg)) @
     (if navigation seg = ArrayIndex then opt_list (hget (children n) STAR) else [])"

definition next_states :: "json_policy_node list \<Rightarrow> json_path_segment \<Rightarrow> json_policy_node list" where
  "next_states states seg = concat (map (next_from seg) states)"

fun walk_states :: "json_policy_node list \<Rightarrow> json_path \<Rightarrow> json_policy_node list" where
  "walk_states states [] = states"
| "walk_states states (seg # path) =
     (let next = next_states states seg
      in if next = [] then [] else walk_states next path)"

definition states_at :: "json_policy_node \<Rightarrow> json_path \<Rightarrow> json_policy_node list" where
  "states_at root path = walk_states [root] path"

text \<open>\<open>min_by_key\<close>: the first of the elements with the least wildcard count.\<close>

fun min_by_wildcards :: "trie_policy list \<Rightarrow> trie_policy option" where
  "min_by_wildcards [] = None"
| "min_by_wildcards (p # ps) =
     (case min_by_wildcards ps of
        None \<Rightarrow> Some p
      | Some q \<Rightarrow> if snd p \<le> snd q then Some p else Some q)"

definition policy_at :: "json_policy_node \<Rightarrow> json_path \<Rightarrow> mask_spec option" where
  "policy_at root path =
     map_option fst (min_by_wildcards (List.map_filter policy (states_at root path)))"

definition has_descendants_at :: "json_policy_node \<Rightarrow> json_path \<Rightarrow> bool" where
  "has_descendants_at root path \<longleftrightarrow> list_ex (\<lambda>n. children n \<noteq> []) (states_at root path)"

fun ambiguous_from :: "json_policy_node list \<Rightarrow> json_path \<Rightarrow> bool" where
  "ambiguous_from states [] = False"
| "ambiguous_from states (seg # path) =
     (if navigation seg = Ambiguous \<and> list_ex (\<lambda>n. hget (children n) STAR \<noteq> None) states then True
      else (let next = next_states states seg
            in if next = [] then False else ambiguous_from next path))"

definition has_ambiguous_wildcard :: "json_policy_node \<Rightarrow> json_path \<Rightarrow> bool" where
  "has_ambiguous_wildcard root path = ambiguous_from [root] path"

section \<open>Policies of a specification\<close>

fun set_json_policies :: "json_field_spec list \<Rightarrow> json_key_spec list \<Rightarrow> mask_spec \<Rightarrow> mask_spec" where
  "set_json_policies fs ks (MaskSpec k kp s e b kd d _ _ _ _ u mb md) =
     MaskSpec k kp s e b kd d fs (trie_compile fs) ks
       (fold (\<lambda>r m. hinsert (rule_key r) (key_spec r) m) ks []) u mb md"

definition key_policy_at :: "mask_spec \<Rightarrow> json_path_segment option \<Rightarrow> mask_spec option" where
  "key_policy_at spec seg =
     (case seg of
        None \<Rightarrow> None
      | Some sg \<Rightarrow>
          if navigation sg = ArrayIndex then None
          else hget (json_key_policies spec) (seg_value sg))"

definition last_segment :: "json_path \<Rightarrow> json_path_segment option" where
  "last_segment path = (if path = [] then None else Some (last path))"

definition policy_at_or_inherited :: "mask_spec \<Rightarrow> json_path \<Rightarrow> mask_spec option \<Rightarrow> mask_spec option" where
  "policy_at_or_inherited spec path inherited =
     (case policy_at (json_trie spec) path of
        Some p \<Rightarrow> Some p
      | None \<Rightarrow>
          (case key_policy_at spec (last_segment path) of
             Some p \<Rightarrow> Some p
           | None \<Rightarrow> inherited))"

definition may_reveal_serialized_children :: "mask_spec \<Rightarrow> bool" where
  "may_reveal_serialized_children spec \<longleftrightarrow>
     kind spec \<in> {MNone, Partial, Inner, Outer, Range, Scrub} \<or>
     kind spec = Pseudonym \<and> keep_domain spec"

fun policy_along_from :: "mask_spec \<Rightarrow> json_path \<Rightarrow> mask_spec option \<Rightarrow> json_path \<Rightarrow> mask_spec option" where
  "policy_along_from spec walked inherited [] = inherited"
| "policy_along_from spec walked inherited (seg # path) =
     policy_along_from spec (walked @ [seg])
       (policy_at_or_inherited spec (walked @ [seg]) inherited) path"

definition policy_along :: "mask_spec \<Rightarrow> json_path \<Rightarrow> mask_spec option" where
  "policy_along spec path = policy_along_from spec [] None path"

definition path_segments :: "(rstring \<times> json_path_navigation) list \<Rightarrow> json_path" where
  "path_segments path = map (\<lambda>(v, n). \<lparr>seg_value = v, navigation = n\<rparr>) path"

definition json_document_projection ::
  "mask_spec \<Rightarrow> (rstring \<times> json_path_navigation) list \<Rightarrow> json_projection option" where
  "json_document_projection spec path =
     (if kind spec \<noteq> Json \<or> path = [] then None
      else if has_ambiguous_wildcard (json_trie spec) (path_segments path) then None
      else Some (path_segments path))"

definition json_text_extract_spec ::
  "mask_spec \<Rightarrow> (rstring \<times> json_path_navigation) list \<Rightarrow> mask_spec option" where
  "json_text_extract_spec spec path =
     (if kind spec \<noteq> Json \<or> path = [] then None
      else
        (let segs = path_segments path
         in if has_ambiguous_wildcard (json_trie spec) segs \<or> has_descendants_at (json_trie spec) segs
            then None
            else (case policy_along spec segs of
                    Some p \<Rightarrow>
                      if kind p = Json then None
                      else if json_keys spec \<noteq> [] \<and> may_reveal_serialized_children p then None
                      else Some p
                  | None \<Rightarrow>
                      if json_keys spec \<noteq> [] \<and> unlisted spec = PassThrough then None
                      else (case unlisted spec of
                              PassThrough \<Rightarrow> Some (spec_new MNone)
                            | UnlistedNull \<Rightarrow> Some (spec_new MNull)
                            | ShapeOnly \<Rightarrow> Some (spec_new MNull)))))"

section \<open>The depth check\<close>

text \<open>The scanner's state: current depth, inside a string, after a backslash.\<close>

fun nesting_exceeds_from :: "nat \<Rightarrow> nat \<Rightarrow> bool \<Rightarrow> bool \<Rightarrow> bytes \<Rightarrow> bool" where
  "nesting_exceeds_from max_depth depth in_string escaped [] = False"
| "nesting_exceeds_from max_depth depth in_string escaped (b # bs) =
     (if in_string then
        (if escaped then nesting_exceeds_from max_depth depth True False bs
         else if b = 0x5C then nesting_exceeds_from max_depth depth True True bs
         else if b = 0x22 then nesting_exceeds_from max_depth depth False False bs
         else nesting_exceeds_from max_depth depth True False bs)
      else if b = 0x22 then nesting_exceeds_from max_depth depth True escaped bs
      else if b = 0x7B \<or> b = 0x5B then
        (if depth + 1 > max_depth then True
         else nesting_exceeds_from max_depth (depth + 1) False escaped bs)
      else if b = 0x7D \<or> b = 0x5D then nesting_exceeds_from max_depth (depth - 1) False escaped bs
      else nesting_exceeds_from max_depth depth False escaped bs)"

definition json_nesting_exceeds :: "bytes \<Rightarrow> nat \<Rightarrow> bool" where
  "json_nesting_exceeds bs max_depth = nesting_exceeds_from max_depth 0 False False bs"

section \<open>The document walk\<close>

definition is_number :: "json_value \<Rightarrow> bool" where
  "is_number v = (case v of JNumber _ \<Rightarrow> True | _ \<Rightarrow> False)"

definition is_boolean :: "json_value \<Rightarrow> bool" where
  "is_boolean v = (case v of JBool _ \<Rightarrow> True | _ \<Rightarrow> False)"

text \<open>
  Masks inside a document are applied to scalars of kinds other than \<open>json\<close>, so the walker that
  \<open>apply_with\<close> would call for a nested document is never reached from here.
\<close>

definition no_nested_walk :: json_walker where
  "no_nested_walk spec proj oid fmt bs = Inl (Unsupported oid fmt (kind spec))"

definition apply_scalar ::
  "mask_env \<Rightarrow> masker \<Rightarrow> mask_spec \<Rightarrow> u32 \<Rightarrow> bytes \<Rightarrow> mask_error + bytes option" where
  "apply_scalar e mk spec oid bs = apply_with no_nested_walk e mk spec None None oid FORMAT_TEXT (Some bs)"

definition reparse :: "mask_env \<Rightarrow> (json_value \<Rightarrow> bool) \<Rightarrow> u32 \<Rightarrow> bytes \<Rightarrow> mask_error + json_value" where
  "reparse e shape oid masked =
     (case json_from_slice e masked of
        Some v \<Rightarrow> if shape v then Inr v else Inl (Undecodable oid FORMAT_TEXT)
      | None \<Rightarrow> Inl (Undecodable oid FORMAT_TEXT))"

definition mask_json_value :: "mask_env \<Rightarrow> masker \<Rightarrow> mask_spec \<Rightarrow> json_value \<Rightarrow> mask_error + json_value" where
  "mask_json_value e mk spec v =
     (if v = JNull \<or> kind spec = MNull then Inr JNull
      else if kind spec = MNone then Inr v
      else if (case v of JArray _ \<Rightarrow> True | JObject _ \<Rightarrow> True | _ \<Rightarrow> False)
      then Inl (Unsupported OID_JSONB FORMAT_TEXT (kind spec))
      else if kind spec = Json then Inl (Unsupported OID_JSONB FORMAT_TEXT (kind spec))
      else
        (case v of
           JString t \<Rightarrow>
             (case apply_scalar e mk spec 25 (as_bytes t) of
                Inl err \<Rightarrow> Inl err
              | Inr None \<Rightarrow> Inr JNull
              | Inr (Some masked) \<Rightarrow>
                  (case from_utf8 masked of
                     None \<Rightarrow> Inl (Undecodable 25 FORMAT_TEXT)
                   | Some t' \<Rightarrow> Inr (JString t')))
         | JNumber n \<Rightarrow>
             (case apply_scalar e mk spec OID_NUMERIC (as_bytes n) of
                Inl err \<Rightarrow> Inl err
              | Inr None \<Rightarrow> Inr JNull
              | Inr (Some masked) \<Rightarrow> reparse e is_number OID_NUMERIC masked)
         | JBool b \<Rightarrow>
             (case apply_scalar e mk spec OID_BOOL (if b then lit ''true'' else lit ''false'') of
                Inl err \<Rightarrow> Inl err
              | Inr None \<Rightarrow> Inr JNull
              | Inr (Some masked) \<Rightarrow> reparse e is_boolean OID_BOOL masked)
         | _ \<Rightarrow> Inr JNull))"

definition mask_json_leaf ::
  "mask_env \<Rightarrow> masker \<Rightarrow> mask_spec \<Rightarrow> mask_spec option \<Rightarrow> json_value \<Rightarrow> mask_error + json_value" where
  "mask_json_leaf e mk spec pol v =
     (case pol of
        Some p \<Rightarrow> mask_json_value e mk p v
      | None \<Rightarrow>
          if unlisted spec = ShapeOnly then
            Inr (case v of JString _ \<Rightarrow> JString [] | JNumber _ \<Rightarrow> JNumber (str ''0'')
                         | JBool _ \<Rightarrow> JBool False | _ \<Rightarrow> JNull)
          else if unlisted spec = PassThrough then Inr v
          else Inr JNull)"

definition key_segment :: "rstring \<Rightarrow> json_path_segment" where
  "key_segment k = \<lparr>seg_value = k, navigation = ObjectKey\<rparr>"

definition index_segment :: "nat \<Rightarrow> json_path_segment" where
  "index_segment i = \<lparr>seg_value = digits_of 10 i, navigation = ArrayIndex\<rparr>"

fun mask_json_node ::
  "mask_env \<Rightarrow> masker \<Rightarrow> mask_spec \<Rightarrow> json_path \<Rightarrow> mask_spec option \<Rightarrow> json_value \<Rightarrow> mask_error + json_value"
  and mask_json_members ::
  "mask_env \<Rightarrow> masker \<Rightarrow> mask_spec \<Rightarrow> json_path \<Rightarrow> mask_spec option \<Rightarrow> (rstring \<times> json_value) list \<Rightarrow>
     mask_error + (rstring \<times> json_value) list"
  and mask_json_items ::
  "mask_env \<Rightarrow> masker \<Rightarrow> mask_spec \<Rightarrow> json_path \<Rightarrow> mask_spec option \<Rightarrow> nat \<Rightarrow> json_value list \<Rightarrow>
     mask_error + json_value list"
where
  "mask_json_node e mk spec path inherited (JObject kvs) =
     (case mask_json_members e mk spec path (policy_at_or_inherited spec path inherited) kvs of
        Inl err \<Rightarrow> Inl err | Inr kvs' \<Rightarrow> Inr (JObject kvs'))"
| "mask_json_node e mk spec path inherited (JArray vs) =
     (case mask_json_items e mk spec path (policy_at_or_inherited spec path inherited) 0 vs of
        Inl err \<Rightarrow> Inl err | Inr vs' \<Rightarrow> Inr (JArray vs'))"
| "mask_json_node e mk spec path inherited v =
     mask_json_leaf e mk spec (policy_at_or_inherited spec path inherited) v"
| "mask_json_members e mk spec path pol [] = Inr []"
| "mask_json_members e mk spec path pol ((k, v) # kvs) =
     (case mask_json_node e mk spec (path @ [key_segment k]) pol v of
        Inl err \<Rightarrow> Inl err
      | Inr v' \<Rightarrow>
          (case mask_json_members e mk spec path pol kvs of
             Inl err \<Rightarrow> Inl err | Inr kvs' \<Rightarrow> Inr ((k, v') # kvs')))"
| "mask_json_items e mk spec path pol i [] = Inr []"
| "mask_json_items e mk spec path pol i (v # vs) =
     (case mask_json_node e mk spec (path @ [index_segment i]) pol v of
        Inl err \<Rightarrow> Inl err
      | Inr v' \<Rightarrow>
          (case mask_json_items e mk spec path pol (Suc i) vs of
             Inl err \<Rightarrow> Inl err | Inr vs' \<Rightarrow> Inr (v' # vs')))"

definition mask_json :: "mask_env \<Rightarrow> masker \<Rightarrow> json_walker" where
  "mask_json e mk spec proj oid fmt bs =
     (let wrapped = (oid = OID_JSONB \<and> fmt = FORMAT_BINARY); undecodable = Undecodable oid fmt
      in case (if wrapped then (case bs of b # payload \<Rightarrow> if b = 1 then Some payload else None | [] \<Rightarrow> None)
               else Some bs) of
           None \<Rightarrow> Inl undecodable
         | Some payload \<Rightarrow>
             if length payload > json_max_bytes spec
             then Inl (JsonLimitExceeded LimitBytes (json_max_bytes spec))
             else if json_nesting_exceeds payload (json_max_depth spec)
             then Inl (JsonLimitExceeded LimitDepth (json_max_depth spec))
             else (case json_from_slice e payload of
                     None \<Rightarrow> Inl undecodable
                   | Some v \<Rightarrow>
                       (let path = (case proj of Some p \<Rightarrow> p | None \<Rightarrow> [])
                        in case mask_json_node e mk spec path (policy_along spec path) v of
                             Inl err \<Rightarrow> Inl err
                           | Inr v' \<Rightarrow>
                               (case json_to_vec e v' of
                                  None \<Rightarrow> Inl undecodable
                                | Some encoded \<Rightarrow> Inr (if wrapped then 1 # encoded else encoded)))))"

definition apply_planned ::
  "mask_env \<Rightarrow> masker \<Rightarrow> mask_spec \<Rightarrow> primed_mac option \<Rightarrow> json_projection option \<Rightarrow>
     u32 \<Rightarrow> i16 \<Rightarrow> bytes option \<Rightarrow> mask_error + bytes option" where
  "apply_planned e mk = apply_with (mask_json e mk) e mk"

definition apply_primed ::
  "mask_env \<Rightarrow> masker \<Rightarrow> mask_spec \<Rightarrow> primed_mac option \<Rightarrow> u32 \<Rightarrow> i16 \<Rightarrow> bytes option \<Rightarrow>
     mask_error + bytes option" where
  "apply_primed e mk spec pr oid fmt v = apply_planned e mk spec pr None oid fmt v"

definition apply_mask ::
  "mask_env \<Rightarrow> masker \<Rightarrow> mask_spec \<Rightarrow> u32 \<Rightarrow> i16 \<Rightarrow> bytes option \<Rightarrow> mask_error + bytes option" where
  "apply_mask e mk spec oid fmt v = apply_primed e mk spec None oid fmt v"

end
