(* ===== verification/Catalog.thy ===== *)
theory Catalog
  imports Json_Mask "HOL-Library.List_Lexorder"
begin

text \<open>
  The catalog (\<open>catalog.rs\<close>, \<open>catalog/json.rs\<close>): mask parameters and rules and how they fold into a
  classification per role, the checks that refuse a configuration, the snapshot that maps live
  columns to classifications with the name-based questions the policy asks of it, the diff and the
  installation of snapshots, and the closure of opaque views. What a statement mentions comes from
  the SQL analyser and is an argument. A \<open>HashSet\<close> is a list without duplicates.
\<close>

section \<open>Classifications\<close>

definition restrictiveness :: "mask \<Rightarrow> nat" where
  "restrictiveness m =
     (case m of
        MNone \<Rightarrow> 0
      | Scrub \<Rightarrow> 1 | Json \<Rightarrow> 1
      | Partial \<Rightarrow> 2 | Inner \<Rightarrow> 2 | Outer \<Rightarrow> 2 | Range \<Rightarrow> 2
      | DateMonth \<Rightarrow> 3 | IpPrefix \<Rightarrow> 3 | NumericBucket \<Rightarrow> 3
      | DateYear \<Rightarrow> 4
      | Pseudonym \<Rightarrow> 5
      | Hash \<Rightarrow> 6
      | Redact \<Rightarrow> 7
      | MNull \<Rightarrow> 8)"

record classification =
  default :: mask_spec
  by_role :: "(rstring, mask_spec) hmap"

definition tighter :: "mask_spec \<Rightarrow> mask_spec option \<Rightarrow> mask_spec option" where
  "tighter spec chosen =
     (case chosen of
        Some current \<Rightarrow>
          if restrictiveness (kind current) \<ge> restrictiveness (kind spec) then Some current else Some spec
      | None \<Rightarrow> Some spec)"

definition for_roles :: "classification \<Rightarrow> rstring list \<Rightarrow> mask_spec" where
  "for_roles c roles =
     (let chosen = fold (\<lambda>role chosen.
            case hget (by_role c) role of Some spec \<Rightarrow> tighter spec chosen | None \<Rightarrow> chosen)
            (sort roles) None
      in case chosen of Some spec \<Rightarrow> spec | None \<Rightarrow> default c)"

section \<open>Rules and parameters\<close>

datatype mask_params =
    MaskParams (p_keep: "u16 option") (p_start: "u16 option") (p_end: "u16 option")
      (p_bucket: "i64 option") (p_keep_domain: "bool option") (p_domain: "rstring option")
      (p_json_unlisted: "json_unlisted option") (p_json_max_bytes: "nat option")
      (p_json_max_depth: "nat option") (p_json: "json_field_rule list option")
      (p_json_keys: "json_key_rule list option")
  and json_field_rule =
    JsonFieldRule (fr_pointer: rstring) (fr_mask: mask) (fr_params: mask_params)
  and json_key_rule =
    JsonKeyRule (kr_key: rstring) (kr_mask: mask) (kr_params: mask_params)

definition no_params :: mask_params where
  "no_params = MaskParams None None None None None None None None None None None"

datatype catalog_error =
    JsonParamsOnly | BadPointer rstring pointer_error
  | UnknownType rstring | NeedsMask
  | BucketTooSmall i64 | EmptyRange u16 u16 | OuterKeepsNothing
  | JsonMaxBytes | JsonMaxDepth nat | RecursiveJson rstring | DuplicatePointer rstring
  | AmbiguousPointer rstring | DuplicateKey rstring
  | ClientTlsWithoutCert | CaWithoutVerify | ShortPseudonymKey nat | DuplicateRule rstring rstring
  | BurstWithoutRate | BadMetricsListen rstring

definition or_keep :: "'a option \<Rightarrow> 'a \<Rightarrow> 'a" where
  "or_keep r x = (case r of Some y \<Rightarrow> y | None \<Rightarrow> x)"

text \<open>The scalar parameters of \<open>apply_to\<close>, each overriding when present.\<close>

fun apply_scalars :: "mask_params \<Rightarrow> mask_spec \<Rightarrow> mask_spec" where
  "apply_scalars (MaskParams pk ps pe pb pkd pd pu pmb pmd _ _)
      (MaskSpec k kp s e b kd d j t ks kps u mb md) =
     MaskSpec k (or_keep pk kp) (or_keep ps s) (or_keep pe e) (or_keep pb b) (or_keep pkd kd)
       (case pd of Some x \<Rightarrow> Some x | None \<Rightarrow> d) j t ks kps (or_keep pu u) (or_keep pmb mb) (or_keep pmd md)"

fun apply_to :: "mask_params \<Rightarrow> mask_spec \<Rightarrow> catalog_error + mask_spec"
  and compile_fields :: "json_field_rule list \<Rightarrow> catalog_error + json_field_spec list"
  and compile_field :: "json_field_rule \<Rightarrow> catalog_error + json_field_spec"
  and compile_keys :: "json_key_rule list \<Rightarrow> catalog_error + json_key_spec list"
  and compile_key :: "json_key_rule \<Rightarrow> catalog_error + json_key_spec"
where
  "apply_to (MaskParams pk ps pe pb pkd pd pu pmb pmd pj pjk) spec =
     (if (pu \<noteq> None \<or> pmb \<noteq> None \<or> pmd \<noteq> None \<or> pj \<noteq> None \<or> pjk \<noteq> None) \<and> kind spec \<noteq> Json
      then Inl JsonParamsOnly
      else
        (let spec1 = apply_scalars (MaskParams pk ps pe pb pkd pd pu pmb pmd pj pjk) spec
         in if pj = None \<and> pjk = None then Inr spec1
            else (case (case pj of Some fs \<Rightarrow> compile_fields fs | None \<Rightarrow> Inr (json spec1)) of
                    Inl e \<Rightarrow> Inl e
                  | Inr compiled \<Rightarrow>
                      (case (case pjk of Some ks \<Rightarrow> compile_keys ks | None \<Rightarrow> Inr (json_keys spec1)) of
                         Inl e \<Rightarrow> Inl e
                       | Inr compiled_keys \<Rightarrow> Inr (set_json_policies compiled compiled_keys spec1)))))"
| "compile_fields [] = Inr []"
| "compile_fields (r # rs) =
     (case compile_field r of
        Inl e \<Rightarrow> Inl e
      | Inr f \<Rightarrow> (case compile_fields rs of Inl e \<Rightarrow> Inl e | Inr fs \<Rightarrow> Inr (f # fs)))"
| "compile_field (JsonFieldRule ptr m ps) =
     (case apply_to ps (spec_new m) of
        Inl e \<Rightarrow> Inl e
      | Inr fspec \<Rightarrow>
          (case json_field_spec_new ptr fspec of
             Inl e \<Rightarrow> Inl (BadPointer ptr e)
           | Inr f \<Rightarrow> Inr f))"
| "compile_keys [] = Inr []"
| "compile_keys (r # rs) =
     (case compile_key r of
        Inl e \<Rightarrow> Inl e
      | Inr k \<Rightarrow> (case compile_keys rs of Inl e \<Rightarrow> Inl e | Inr ks \<Rightarrow> Inr (k # ks)))"
| "compile_key (JsonKeyRule ky m ps) =
     (case apply_to ps (spec_new m) of
        Inl e \<Rightarrow> Inl e
      | Inr spec \<Rightarrow> Inr (JsonKeySpec ky spec))"

record semantic_type =
  st_name :: rstring
  st_mask :: mask
  st_params :: mask_params
  st_by_role :: "(rstring, mask) hmap"

record column_rule =
  cr_relation :: rstring
  cr_column :: rstring
  cr_semantic_type :: "rstring option"
  cr_mask :: "mask option"
  cr_params :: mask_params
  cr_by_role :: "(rstring, mask) hmap"

definition rule_key_of :: "column_rule \<Rightarrow> rstring \<times> rstring" where
  "rule_key_of r = (cr_relation r, cr_column r)"

definition display :: "column_rule \<Rightarrow> rstring" where
  "display r = cr_relation r @ 46 # cr_column r"

section \<open>Validation of a specification\<close>

text \<open>\<open>validate_spec\<close> for every kind but \<open>json\<close>, whose tables are checked by \<open>validate_json_spec\<close>.\<close>

definition validate_scalar_spec :: "mask_spec \<Rightarrow> catalog_error + unit" where
  "validate_scalar_spec spec =
     (if kind spec = NumericBucket \<and> sint (bucket spec) < 2 then Inl (BucketTooSmall (bucket spec))
      else if kind spec = Range \<and> range_end spec \<le> range_start spec
      then Inl (EmptyRange (range_start spec) (range_end spec))
      else if kind spec = Outer \<and> keep spec = 0 then Inl OuterKeepsNothing
      else Inr ())"

fun validate_fields :: "json_field_spec list \<Rightarrow> json_field_spec list \<Rightarrow> catalog_error + unit" where
  "validate_fields earlier [] = Inr ()"
| "validate_fields earlier (f # fs) =
     (if kind (field_spec f) = Json then Inl (RecursiveJson (pointer f))
      else (case validate_scalar_spec (field_spec f) of
              Inl e \<Rightarrow> Inl e
            | Inr _ \<Rightarrow>
                if list_ex (\<lambda>g. segments g = segments f) earlier then Inl (DuplicatePointer (pointer f))
                else if list_ex (\<lambda>g. equally_specific_overlap g f) earlier
                then Inl (AmbiguousPointer (pointer f))
                else validate_fields (earlier @ [f]) fs))"

fun validate_keys :: "json_key_spec list \<Rightarrow> json_key_spec list \<Rightarrow> catalog_error + unit" where
  "validate_keys earlier [] = Inr ()"
| "validate_keys earlier (k # ks) =
     (if kind (key_spec k) = Json then Inl (RecursiveJson (rule_key k))
      else (case validate_scalar_spec (key_spec k) of
              Inl e \<Rightarrow> Inl e
            | Inr _ \<Rightarrow>
                if list_ex (\<lambda>g. rule_key g = rule_key k) earlier then Inl (DuplicateKey (rule_key k))
                else validate_keys (earlier @ [k]) ks))"

definition validate_json_spec :: "mask_spec \<Rightarrow> catalog_error + unit" where
  "validate_json_spec spec =
     (if json_max_bytes spec = 0 then Inl JsonMaxBytes
      else if json_max_depth spec = 0 \<or> json_max_depth spec > MAX_JSON_MAX_DEPTH
      then Inl (JsonMaxDepth (json_max_depth spec))
      else (case validate_fields [] (json spec) of
              Inl e \<Rightarrow> Inl e
            | Inr _ \<Rightarrow> validate_keys [] (json_keys spec)))"

definition validate_spec :: "mask_spec \<Rightarrow> catalog_error + unit" where
  "validate_spec spec = (if kind spec = Json then validate_json_spec spec else validate_scalar_spec spec)"

section \<open>From rules to classifications\<close>

definition build_spec :: "semantic_type option \<Rightarrow> column_rule \<Rightarrow> mask \<Rightarrow> catalog_error + mask_spec" where
  "build_spec semantic rule k =
     and_then (case semantic of
                 Some t \<Rightarrow> apply_to (st_params t) (with_domain (Some (st_name t)) (spec_new k))
               | None \<Rightarrow> Inr (spec_new k))
       (apply_to (cr_params rule))"

fun build_roles ::
  "semantic_type option \<Rightarrow> column_rule \<Rightarrow> (rstring \<times> mask) list \<Rightarrow> (rstring, mask_spec) hmap \<Rightarrow>
     catalog_error + (rstring, mask_spec) hmap" where
  "build_roles semantic rule [] acc = Inr acc"
| "build_roles semantic rule ((role, k) # rest) acc =
     and_then (build_spec semantic rule k) (\<lambda>spec. build_roles semantic rule rest (hinsert role spec acc))"

fun validate_all :: "mask_spec list \<Rightarrow> catalog_error + unit" where
  "validate_all [] = Inr ()"
| "validate_all (s # ss) = and_then (validate_spec s) (\<lambda>_. validate_all ss)"

definition classify :: "column_rule \<Rightarrow> (rstring, semantic_type) hmap \<Rightarrow> catalog_error + classification" where
  "classify rule types =
     and_then (case cr_semantic_type rule of
                 Some name \<Rightarrow> (case hget types name of Some t \<Rightarrow> Inr (Some t) | None \<Rightarrow> Inl (UnknownType name))
               | None \<Rightarrow> Inr None) (\<lambda>semantic.
     and_then (case cr_mask rule of
                 Some m \<Rightarrow> Inr m
               | None \<Rightarrow> (case semantic of Some t \<Rightarrow> Inr (st_mask t) | None \<Rightarrow> Inl NeedsMask)) (\<lambda>base_kind.
     and_then (build_roles semantic rule (case semantic of Some t \<Rightarrow> st_by_role t | None \<Rightarrow> []) []) (\<lambda>roles1.
     and_then (build_roles semantic rule (cr_by_role rule) roles1) (\<lambda>roles2.
     and_then (build_spec semantic rule base_kind) (\<lambda>def.
     and_then (validate_spec def) (\<lambda>_.
     and_then (validate_all (map snd roles2)) (\<lambda>_.
       Inr \<lparr>default = def, by_role = roles2\<rparr>)))))))"

end
