(* ===== verification/Snapshot.thy ===== *)
theory Snapshot
  imports Catalog
begin

text \<open>
  The catalog's live side (\<open>catalog.rs\<close>): configuration checks, the snapshot and the questions asked
  of it by OID and by name, the diff between snapshots, the catalog's resolve, reload and refresh
  with their retry over concurrent DDL, and the closure of opaque views. The database query that
  resolves a snapshot and the two answers of the SQL analyser (\<open>provenance_is_trustworthy\<close>,
  \<open>referenced_identifiers\<close>) are arguments.
\<close>

section \<open>Configuration\<close>

datatype summaries = SummariesAllow | SummariesRefuse
datatype posture = PostureDefault | Hostile
datatype lineage_mode = LineageAllow | LineageRefuse
datatype system_catalogs = SystemAllow | SystemRefuse
datatype unclassified = UnclassifiedMasked | UnclassifiedAllow
datatype unclassified_mask = TypeAware | StrictNull
datatype opaque = OpaqueReject | OpaqueMask
datatype backend_tls = TlsDisable | TlsRequire | VerifyFull

record role =
  role_name :: rstring
  members :: "rstring list"

record config =
  listen :: rstring
  backend :: rstring
  catalog_dsn :: rstring
  pseudonym_key :: rstring
  cfg_unclassified :: unclassified
  cfg_unclassified_mask :: unclassified_mask
  cfg_opaque :: opaque
  column :: "column_rule list"
  columns :: "column_rule list"
  cfg_semantic_type :: "semantic_type list"
  cfg_role :: "role list"
  tls_cert :: "rstring option"
  tls_key :: "rstring option"
  require_client_tls :: "bool option"
  cfg_backend_tls :: backend_tls
  backend_ca :: "rstring option"
  catalog_refresh_seconds :: u64
  catalog_refresh_min_seconds :: u64
  cfg_summaries :: summaries
  cfg_posture :: posture
  cfg_system_catalogs :: system_catalogs
  cfg_lineage :: lineage_mode
  metrics_listen :: "rstring option"
  rate_limit_per_minute :: u32
  rate_limit_burst :: u32
  max_notices_per_exchange :: u32

definition to_ascii_lowercase :: "rstring \<Rightarrow> rstring" where
  "to_ascii_lowercase s = map (\<lambda>c. if 65 \<le> c \<and> c \<le> 90 then c + 32 else c) s"

definition column_rules :: "config \<Rightarrow> column_rule list" where
  "column_rules c = column c @ columns c"

definition effective_summaries :: "config \<Rightarrow> summaries" where
  "effective_summaries c = (if cfg_posture c = Hostile then SummariesRefuse else cfg_summaries c)"

definition effective_rate_limit_burst :: "config \<Rightarrow> u32" where
  "effective_rate_limit_burst c =
     (if rate_limit_burst c = 0 then rate_limit_per_minute c else rate_limit_burst c)"

definition client_tls_required :: "config \<Rightarrow> bool" where
  "client_tls_required c = (case require_client_tls c of Some b \<Rightarrow> b | None \<Rightarrow> tls_cert c \<noteq> None)"

definition validate_client_tls :: "config \<Rightarrow> catalog_error + unit" where
  "validate_client_tls c =
     (if require_client_tls c = Some True \<and> tls_cert c = None then Inl ClientTlsWithoutCert else Inr ())"

definition validate_backend_tls :: "config \<Rightarrow> catalog_error + unit" where
  "validate_backend_tls c =
     (if backend_ca c \<noteq> None \<and> cfg_backend_tls c \<noteq> VerifyFull then Inl CaWithoutVerify else Inr ())"

definition validate_pseudonym_key :: "config \<Rightarrow> catalog_error + unit" where
  "validate_pseudonym_key c =
     (let key_len = length (as_bytes (pseudonym_key c))
      in if key_len < 16 then Inl (ShortPseudonymKey key_len) else Inr ())"

definition folded_key :: "column_rule \<Rightarrow> rstring \<times> rstring" where
  "folded_key r = (to_ascii_lowercase (cr_relation r), to_ascii_lowercase (cr_column r))"

fun check_unique_rules :: "(rstring \<times> rstring) list \<Rightarrow> column_rule list \<Rightarrow> catalog_error + unit" where
  "check_unique_rules seen [] = Inr ()"
| "check_unique_rules seen (r # rs) =
     (if folded_key r \<in> set seen then Inl (DuplicateRule (cr_relation r) (cr_column r))
      else check_unique_rules (folded_key r # seen) rs)"

definition validate_unique_column_rules :: "config \<Rightarrow> catalog_error + unit" where
  "validate_unique_column_rules c = check_unique_rules [] (column_rules c)"

definition validate_rate_limit :: "config \<Rightarrow> catalog_error + unit" where
  "validate_rate_limit c =
     (if rate_limit_per_minute c > 0 \<and> rate_limit_burst c = 0 then Inr ()
      else if rate_limit_per_minute c = 0 \<and> rate_limit_burst c > 0 then Inl BurstWithoutRate
      else Inr ())"

text \<open>\<open>SocketAddr::from_str\<close>: an address and a decimal port, the IPv6 form in brackets.\<close>

definition read_port :: "rstring \<Rightarrow> (nat \<times> rstring) option" where
  "read_port s = read_number 10 0xFFFF (length s) True s"

definition read_socket_v4 :: "rstring \<Rightarrow> bool" where
  "read_socket_v4 s =
     (case read_ipv4_addr s of
        Some (_, r) \<Rightarrow>
          (case read_given_char 58 r of
             Some r1 \<Rightarrow> (case read_port r1 of Some (_, []) \<Rightarrow> True | _ \<Rightarrow> False)
           | None \<Rightarrow> False)
      | None \<Rightarrow> False)"

definition read_scope_id :: "rstring \<Rightarrow> rstring" where
  "read_scope_id s =
     (case read_given_char 37 s of
        Some r \<Rightarrow> (case read_number 10 0xFFFFFFFF (length r) True r of Some (_, r') \<Rightarrow> r' | None \<Rightarrow> s)
      | None \<Rightarrow> s)"

definition read_socket_v6 :: "rstring \<Rightarrow> bool" where
  "read_socket_v6 s =
     (case read_given_char 91 s of
        Some r \<Rightarrow>
          (case read_ipv6_addr r of
             Some (_, r1) \<Rightarrow>
               (case read_given_char 93 (read_scope_id r1) of
                  Some r2 \<Rightarrow>
                    (case read_given_char 58 r2 of
                       Some r3 \<Rightarrow> (case read_port r3 of Some (_, []) \<Rightarrow> True | _ \<Rightarrow> False)
                     | None \<Rightarrow> False)
                | None \<Rightarrow> False)
           | None \<Rightarrow> False)
      | None \<Rightarrow> False)"

definition socket_addr_parses :: "rstring \<Rightarrow> bool" where
  "socket_addr_parses s \<longleftrightarrow> read_socket_v4 s \<or> read_socket_v6 s"

definition validate_metrics_listen :: "config \<Rightarrow> catalog_error + unit" where
  "validate_metrics_listen c =
     (case metrics_listen c of
        None \<Rightarrow> Inr ()
      | Some addr \<Rightarrow> if socket_addr_parses addr then Inr () else Inl (BadMetricsListen addr))"

definition validate :: "config \<Rightarrow> catalog_error + unit" where
  "validate c =
     and_then (validate_client_tls c) (\<lambda>_.
     and_then (validate_backend_tls c) (\<lambda>_.
     and_then (validate_pseudonym_key c) (\<lambda>_.
     and_then (validate_unique_column_rules c) (\<lambda>_.
     and_then (validate_rate_limit c) (\<lambda>_. validate_metrics_listen c)))))"

section \<open>Snapshots\<close>

type_synonym column_id = "u32 \<times> i16"

record snapshot =
  by_column :: "(column_id, classification) hmap"
  names :: "(column_id, rstring) hmap"
  all_columns :: "(column_id, rstring) hmap"
  column_not_null :: "(column_id, bool) hmap"
  relations :: "u32 list"
  unresolved :: "rstring list"
  relation_columns :: "(rstring, rstring list) hmap"
  by_name :: "(rstring \<times> rstring, classification) hmap"
  system_relations :: "u32 list"
  unique_keys :: "rstring list list"
  opaque_view_names :: "rstring list"

definition snapshot_default :: snapshot where
  "snapshot_default =
     \<lparr>by_column = [], names = [], all_columns = [], column_not_null = [], relations = [],
      unresolved = [], relation_columns = [], by_name = [], system_relations = [], unique_keys = [],
      opaque_view_names = []\<rparr>"

definition relation_columns_of :: "snapshot \<Rightarrow> rstring \<Rightarrow> rstring list option" where
  "relation_columns_of s relation = hget (relation_columns s) (to_ascii_lowercase relation)"

definition lookup_by_name :: "snapshot \<Rightarrow> rstring \<Rightarrow> rstring \<Rightarrow> classification option" where
  "lookup_by_name s relation col =
     hget (by_name s) (to_ascii_lowercase relation, to_ascii_lowercase col)"

definition lookup :: "snapshot \<Rightarrow> u32 \<Rightarrow> i16 \<Rightarrow> classification option" where
  "lookup s oid att = hget (by_column s) (oid, att)"

definition name_of :: "snapshot \<Rightarrow> u32 \<Rightarrow> i16 \<Rightarrow> rstring option" where
  "name_of s oid att =
     (case hget (all_columns s) (oid, att) of Some n \<Rightarrow> Some n | None \<Rightarrow> hget (names s) (oid, att))"

definition is_not_null :: "snapshot \<Rightarrow> u32 \<Rightarrow> i16 \<Rightarrow> bool option" where
  "is_not_null s oid att = hget (column_not_null s) (oid, att)"

definition knows_relation :: "snapshot \<Rightarrow> u32 \<Rightarrow> bool" where
  "knows_relation s oid \<longleftrightarrow> oid \<in> set (relations s)"

definition is_system_relation :: "snapshot \<Rightarrow> u32 \<Rightarrow> bool" where
  "is_system_relation s oid \<longleftrightarrow> oid \<in> set (system_relations s)"

definition has_system_relations :: "snapshot \<Rightarrow> bool" where
  "has_system_relations s \<longleftrightarrow> system_relations s \<noteq> []"

text \<open>\<open>rsplit_once('.')\<close>: the part after the last dot, when there is one.\<close>

definition after_last_dot :: "rstring \<Rightarrow> rstring option" where
  "after_last_dot s = (if 46 \<in> set s then Some (rev (takeWhile (\<lambda>c. c \<noteq> 46) (rev s))) else None)"

definition is_opaque_view :: "snapshot \<Rightarrow> rstring option \<Rightarrow> rstring \<Rightarrow> bool" where
  "is_opaque_view s schema relation =
     (let rel = to_ascii_lowercase relation
      in case schema of
           Some sch \<Rightarrow> to_ascii_lowercase sch @ 46 # rel \<in> set (opaque_view_names s)
         | None \<Rightarrow> list_ex (\<lambda>known. after_last_dot known = Some rel) (opaque_view_names s))"

definition relation_is_opaque_view :: "snapshot \<Rightarrow> rstring \<Rightarrow> bool" where
  "relation_is_opaque_view s qualified =
     (let q = to_ascii_lowercase qualified
      in if q \<in> set (opaque_view_names s) then True
         else is_opaque_view s None (case after_last_dot q of Some n \<Rightarrow> n | None \<Rightarrow> q))"

definition grouping_covers_a_unique_key :: "snapshot \<Rightarrow> rstring list \<Rightarrow> bool" where
  "grouping_covers_a_unique_key s grouped \<longleftrightarrow>
     list_ex (\<lambda>ky. list_all (\<lambda>c. c \<in> set grouped) ky) (unique_keys s)"

text \<open>
  The lexical backstops. An analysed statement contributes its identifiers (\<open>None\<close> when it could
  not be read) and whether it parses.
\<close>

definition references_masked_column :: "snapshot \<Rightarrow> rstring list option \<Rightarrow> rstring list \<Rightarrow> bool" where
  "references_masked_column s identifiers roles =
     (case identifiers of
        None \<Rightarrow> True
      | Some ids \<Rightarrow>
          list_ex (\<lambda>ident. list_ex (\<lambda>(relation, cols).
            if ident \<notin> set cols then False
            else (case lookup_by_name s relation ident of
                    Some c \<Rightarrow> \<not> is_passthrough (for_roles c roles)
                  | None \<Rightarrow>
                      (let bare = (case after_last_dot relation of Some n \<Rightarrow> n | None \<Rightarrow> relation)
                       in bare \<in> set ids))) (relation_columns s)) ids)"

definition ENGINE_INTERNAL_SCHEMA_TOKENS :: "rstring list" where
  "ENGINE_INTERNAL_SCHEMA_TOKENS = [str ''crdb_internal'']"

definition mentions_user_relation :: "snapshot \<Rightarrow> rstring list option \<Rightarrow> bool" where
  "mentions_user_relation s identifiers =
     (case identifiers of
        None \<Rightarrow> True
      | Some ids \<Rightarrow>
          list_ex (\<lambda>ident. ident \<in> set ENGINE_INTERNAL_SCHEMA_TOKENS \<or>
            list_ex (\<lambda>(relation, _). after_last_dot relation = Some ident) (relation_columns s)) ids)"

definition touches_opaque_view :: "snapshot \<Rightarrow> bool \<Rightarrow> rstring list option \<Rightarrow> bool" where
  "touches_opaque_view s parseable identifiers =
     (if opaque_view_names s = [] then False
      else if \<not> parseable then True
      else (case identifiers of
              None \<Rightarrow> True
            | Some ids \<Rightarrow> list_ex (\<lambda>ident. is_opaque_view s None ident) ids))"

definition masked_bare_names_for_roles :: "snapshot \<Rightarrow> rstring list \<Rightarrow> rstring list" where
  "masked_bare_names_for_roles s roles =
     (let masked = map (\<lambda>((_, col), _). col)
            (filter (\<lambda>(_, c). \<not> is_passthrough (for_roles c roles)) (by_name s));
          passthrough = map (\<lambda>((_, col), _). col)
            (filter (\<lambda>(_, c). is_passthrough (for_roles c roles)) (by_name s))
      in masked @ concat (map (\<lambda>(relation, cols).
           filter (\<lambda>col. hget (by_name s) (relation, col) = None \<and> col \<notin> set passthrough) cols)
           (relation_columns s)))"

section \<open>Opaque views\<close>

definition unsafe_definition :: "(rstring \<Rightarrow> bool) \<Rightarrow> rstring option \<Rightarrow> bool" where
  "unsafe_definition trustworthy def =
     (case def of Some sql \<Rightarrow> if trim sql \<noteq> [] then \<not> trustworthy sql else True | None \<Rightarrow> True)"

definition touches_opaque :: "(rstring \<Rightarrow> rstring list option) \<Rightarrow> rstring list \<Rightarrow> rstring option \<Rightarrow> bool" where
  "touches_opaque identifiers opaque def =
     (case (case def of Some sql \<Rightarrow> identifiers sql | None \<Rightarrow> None) of
        None \<Rightarrow> True
      | Some ids \<Rightarrow> list_ex (\<lambda>i. list_ex (\<lambda>known. after_last_dot known = Some i) opaque) ids)"

text \<open>One pass over the definitions; a view found opaque counts for the rest of the pass.\<close>

fun opaque_pass ::
  "(rstring \<Rightarrow> rstring list option) \<Rightarrow> (rstring \<times> rstring option) list \<Rightarrow> rstring list \<Rightarrow> rstring list" where
  "opaque_pass identifiers [] opaque = opaque"
| "opaque_pass identifiers ((name, def) # defs) opaque =
     opaque_pass identifiers defs
       (if name \<notin> set opaque \<and> touches_opaque identifiers opaque def then name # opaque else opaque)"

definition unmarked :: "(rstring \<times> rstring option) list \<Rightarrow> rstring list \<Rightarrow> nat" where
  "unmarked defs opaque = card (fst ` set defs - set opaque)"

lemma opaque_pass_grows: "set opaque \<subseteq> set (opaque_pass identifiers defs opaque)"
  by (induction identifiers defs opaque rule: opaque_pass.induct) auto

lemma opaque_pass_bound: "set (opaque_pass identifiers defs opaque) \<subseteq> set opaque \<union> fst ` set defs"
  by (induction identifiers defs opaque rule: opaque_pass.induct) (auto split: if_splits)

lemma opaque_pass_progress:
  assumes "set (opaque_pass identifiers defs opaque) \<noteq> set opaque"
  shows "unmarked defs (opaque_pass identifiers defs opaque) < unmarked defs opaque"
  unfolding unmarked_def
proof (rule psubset_card_mono)
  show "fst ` set defs - set (opaque_pass identifiers defs opaque) \<subset> fst ` set defs - set opaque"
    using assms opaque_pass_grows [of opaque identifiers defs] opaque_pass_bound [of identifiers defs opaque]
    by blast
qed simp

function opaque_loop ::
  "(rstring \<Rightarrow> rstring list option) \<Rightarrow> (rstring \<times> rstring option) list \<Rightarrow> rstring list \<Rightarrow> rstring list" where
  "opaque_loop identifiers defs opaque =
     (let next = opaque_pass identifiers defs opaque
      in if set next = set opaque then opaque else opaque_loop identifiers defs next)"
  by pat_completeness auto
termination
  by (relation "measure (\<lambda>(_, defs, opaque). unmarked defs opaque)") (auto simp: opaque_pass_progress)

declare opaque_loop.simps [simp del]

definition opaque_views ::
  "(rstring \<Rightarrow> bool) \<Rightarrow> (rstring \<Rightarrow> rstring list option) \<Rightarrow> (rstring, rstring option) hmap \<Rightarrow> rstring list" where
  "opaque_views trustworthy identifiers defs =
     opaque_loop identifiers defs (map fst (filter (\<lambda>(_, def). unsafe_definition trustworthy def) defs))"

end
