(* ===== verification/Catalog_Live.thy ===== *)
theory Catalog_Live
  imports Snapshot "HOL-Library.Product_Lexorder"
begin

text \<open>
  The catalog as a running object (\<open>catalog.rs\<close>): resolving the rules against \<open>pg_class\<close> with a
  bounded retry over concurrent DDL, the diff between two snapshots, and the first resolution, the
  reload and the refresh of the live catalog. The connection and its query results are a
  \<open>pg_client\<close> the definitions take as an argument; a database that changes between attempts is a
  function of the attempt's number.
\<close>

section \<open>The catalog connection string\<close>

definition verify_part :: "rstring \<Rightarrow> bool" where
  "verify_part part \<longleftrightarrow> part = str ''sslmode=verify-full'' \<or> part = str ''sslmode=verify-ca''"

definition join_with :: "nat \<Rightarrow> rstring list \<Rightarrow> rstring" where
  "join_with c parts = (case parts of [] \<Rightarrow> [] | p # ps \<Rightarrow> p @ concat (map (\<lambda>q. c # q) ps))"

text \<open>The second component is whether the caller logs the note that the spelling changed.\<close>

definition sanitize_catalog_dsn :: "rstring \<Rightarrow> rstring \<times> bool" where
  "sanitize_catalog_dsn dsn =
     (case split_once 63 dsn of
        None \<Rightarrow> (dsn, False)
      | Some (base, query) \<Rightarrow>
          (let parts = split_char 38 query
           in if list_ex verify_part parts
              then (base @ 63 # join_with 38
                     (map (\<lambda>p. if verify_part p then str ''sslmode=require'' else p) parts), True)
              else (dsn, False)))"

definition catalog_dsn_verifies_server :: "rstring \<Rightarrow> bool" where
  "catalog_dsn_verifies_server dsn =
     (case split_once 63 dsn of None \<Rightarrow> False | Some (_, query) \<Rightarrow> list_ex verify_part (split_char 38 query))"

section \<open>Resolving a snapshot\<close>

text \<open>The answers of the five queries, each of which may fail with an error's text.\<close>

record pg_client =
  system_oids :: "rstring + int list"
  user_columns :: "rstring + (rstring \<times> rstring \<times> int \<times> i16 \<times> bool) list"
  view_definitions :: "rstring + (rstring \<times> rstring option) list"
  unique_key_columns :: "rstring + rstring option list"
  classified_columns :: "rstring list \<Rightarrow> rstring + (rstring \<times> rstring \<times> int \<times> i16) list"

datatype resolve_error = DatabaseError rstring | RuleError catalog_error | Unresolved "rstring list"

definition database :: "rstring + 'a \<Rightarrow> resolve_error + 'a" where
  "database r = (case r of Inl t \<Rightarrow> Inl (DatabaseError t) | Inr x \<Rightarrow> Inr x)"

definition rules_ok :: "catalog_error + 'a \<Rightarrow> resolve_error + 'a" where
  "rules_ok r = (case r of Inl e \<Rightarrow> Inl (RuleError e) | Inr x \<Rightarrow> Inr x)"

definition load_column :: "rstring \<times> rstring \<times> int \<times> i16 \<times> bool \<Rightarrow> snapshot \<Rightarrow> snapshot" where
  "load_column row s =
     (case row of (relation, col, oid, attnum, not_null) \<Rightarrow>
        s\<lparr>all_columns := hinsert (word_of_int oid, attnum) (relation @ 46 # col) (all_columns s),
          column_not_null := hinsert (word_of_int oid, attnum) not_null (column_not_null s),
          relation_columns :=
            (let r = to_ascii_lowercase relation;
                 known = (case hget (relation_columns s) r of Some cs \<Rightarrow> cs | None \<Rightarrow> [])
             in hinsert r (known @ [to_ascii_lowercase col]) (relation_columns s))\<rparr>)"

definition load_views :: "(rstring \<times> rstring option) list \<Rightarrow> (rstring, rstring option) hmap" where
  "load_views rows = fold (\<lambda>(relation, def). hinsert (to_ascii_lowercase relation) def) rows []"

definition load_unique_keys :: "rstring option list \<Rightarrow> rstring list list" where
  "load_unique_keys rows =
     map (\<lambda>cols. map (\<lambda>c. to_ascii_lowercase (trim c)) (split_char 44 cols)) (concat (map opt_list rows))"

definition rule_relations :: "column_rule list \<Rightarrow> rstring list" where
  "rule_relations rules = remdups (sort (map cr_relation rules))"

definition set_insert :: "'a \<Rightarrow> 'a list \<Rightarrow> 'a list" where
  "set_insert x xs = (if x \<in> set xs then xs else x # xs)"

definition place_rule ::
  "(rstring, semantic_type) hmap \<Rightarrow> (rstring \<times> rstring, column_id) hmap \<Rightarrow> column_rule \<Rightarrow> snapshot \<Rightarrow>
     catalog_error + snapshot" where
  "place_rule types resolved rule s =
     (case hget resolved (rule_key_of rule) of
        None \<Rightarrow> Inr (s\<lparr>unresolved := unresolved s @ [display rule]\<rparr>)
      | Some at \<Rightarrow>
          and_then (classify rule types) (\<lambda>c.
            Inr (s\<lparr>by_column := hinsert at c (by_column s),
                   names := hinsert at (display rule) (names s),
                   relations := set_insert (fst at) (relations s),
                   by_name := hinsert (folded_key rule) c (by_name s)\<rparr>)))"

fun place_rules ::
  "(rstring, semantic_type) hmap \<Rightarrow> (rstring \<times> rstring, column_id) hmap \<Rightarrow> column_rule list \<Rightarrow> snapshot \<Rightarrow>
     catalog_error + snapshot" where
  "place_rules types resolved [] s = Inr s"
| "place_rules types resolved (r # rs) s =
     and_then (place_rule types resolved r s) (place_rules types resolved rs)"

record analyser =
  trustworthy :: "rstring \<Rightarrow> bool"
  identifiers :: "rstring \<Rightarrow> rstring list option"

definition resolve_snapshot ::
  "analyser \<Rightarrow> (backend_tls \<Rightarrow> rstring option \<Rightarrow> rstring \<Rightarrow> rstring + pg_client) \<Rightarrow>
   column_rule list \<Rightarrow> (rstring, semantic_type) hmap \<Rightarrow> rstring \<Rightarrow> rstring option \<Rightarrow> resolve_error + snapshot" where
  "resolve_snapshot an connect rules types dsn ca =
     and_then (database (connect (if catalog_dsn_verifies_server dsn then VerifyFull else TlsRequire) ca
                (fst (sanitize_catalog_dsn dsn)))) (\<lambda>client.
     and_then (database (system_oids client)) (\<lambda>oids.
     and_then (database (user_columns client)) (\<lambda>cols.
     and_then (database (view_definitions client)) (\<lambda>views.
     and_then (database (unique_key_columns client)) (\<lambda>uniq.
       let base = (fold load_column cols snapshot_default)
             \<lparr>system_relations := fold set_insert (map word_of_int oids) [],
              opaque_view_names := opaque_views (trustworthy an) (identifiers an) (load_views views),
              unique_keys := load_unique_keys uniq\<rparr>
       in if rules = [] then Inr base
          else and_then (database (classified_columns client (rule_relations rules))) (\<lambda>rows.
                 rules_ok (place_rules types
                   (fold (\<lambda>(relation, col, oid, attnum). hinsert (relation, col) (word_of_int oid, attnum)) rows [])
                   rules base)))))))"

definition contains_text :: "rstring \<Rightarrow> rstring \<Rightarrow> bool" where
  "contains_text text pat \<longleftrightarrow>
     list_ex (\<lambda>k. take (length pat) (drop k text) = pat) [0 ..< length text + 1]"

definition is_concurrent_ddl_race :: "rstring \<Rightarrow> bool" where
  "is_concurrent_ddl_race text \<longleftrightarrow>
     contains_text text (str ''could not open relation with OID'') \<or>
     contains_text text (str ''cache lookup failed for relation'')"

definition BACKOFF_MS :: "nat list" where
  "BACKOFF_MS = [100, 200, 400]"

text \<open>
  The retry loop. \<open>attempt k\<close> is the outcome of the \<open>k\<close>-th resolution and \<open>text_of\<close> renders an error
  the way \<open>format!("{err:#}")\<close> does.
\<close>

fun retry :: "(resolve_error \<Rightarrow> rstring) \<Rightarrow> (nat \<Rightarrow> resolve_error + 'a) \<Rightarrow> nat \<Rightarrow> nat list \<Rightarrow> resolve_error + 'a" where
  "retry text_of attempt k backoff =
     (case attempt k of
        Inr s \<Rightarrow> Inr s
      | Inl e \<Rightarrow>
          (case backoff of
             _ # rest \<Rightarrow>
               if is_concurrent_ddl_race (text_of e) then retry text_of attempt (Suc k) rest else Inl e
           | [] \<Rightarrow> Inl e))"

declare retry.simps [simp del]

record world =
  analysis :: analyser
  connection :: "nat \<Rightarrow> backend_tls \<Rightarrow> rstring option \<Rightarrow> rstring \<Rightarrow> rstring + pg_client"
  error_text :: "resolve_error \<Rightarrow> rstring"

definition resolve_snapshot_retrying ::
  "world \<Rightarrow> column_rule list \<Rightarrow> (rstring, semantic_type) hmap \<Rightarrow> rstring \<Rightarrow> rstring option \<Rightarrow>
     resolve_error + snapshot" where
  "resolve_snapshot_retrying w rules types dsn ca =
     retry (error_text w) (\<lambda>k. resolve_snapshot (analysis w) (connection w k) rules types dsn ca) 0 BACKOFF_MS"

section \<open>The diff between snapshots\<close>

datatype coverage_change =
    Moved (moved_column: rstring) (moved_before: column_id) (moved_after: column_id)
  | Lost (lost_column: rstring) (lost_before: column_id)
  | Restored (restored_column: rstring) (restored_after: column_id)

definition display_index :: "(column_id, rstring) hmap \<Rightarrow> (rstring, column_id) hmap" where
  "display_index ns = fold (\<lambda>(k, name). hinsert name k) ns []"

definition coverage_change_of ::
  "(rstring, column_id) hmap \<Rightarrow> (rstring, column_id) hmap \<Rightarrow> rstring \<Rightarrow> coverage_change option" where
  "coverage_change_of before after col =
     (case (hget before col, hget after col) of
        (Some b, Some a) \<Rightarrow> if b \<noteq> a then Some (Moved col b a) else None
      | (Some b, None) \<Rightarrow> Some (Lost col b)
      | (None, Some a) \<Rightarrow> Some (Restored col a)
      | (None, None) \<Rightarrow> None)"

definition coverage_changes :: "column_rule list \<Rightarrow> snapshot \<Rightarrow> snapshot \<Rightarrow> coverage_change list" where
  "coverage_changes rules previous next =
     (let before = display_index (names previous); after = display_index (names next)
      in concat (map (\<lambda>rule. opt_list (coverage_change_of before after (display rule))) rules))"

section \<open>The live catalog\<close>

record catalog_spec =
  spec_rules :: "column_rule list"
  spec_types :: "(rstring, semantic_type) hmap"

record catalog =
  cat_spec :: catalog_spec
  cat_dsn :: rstring
  cat_backend_ca :: "rstring option"
  cat_snapshot :: snapshot
  refresh_wanted :: bool
  refreshes :: u64
  failed_refreshes :: u64
  interval_secs :: u64
  min_interval_secs :: u64

definition types_of :: "semantic_type list \<Rightarrow> (rstring, semantic_type) hmap" where
  "types_of ts = fold (\<lambda>t. hinsert (st_name t) t) ts []"

definition catalog_default :: catalog where
  "catalog_default =
     \<lparr>cat_spec = \<lparr>spec_rules = [], spec_types = []\<rparr>, cat_dsn = [], cat_backend_ca = None,
      cat_snapshot = snapshot_default, refresh_wanted = False, refreshes = 0, failed_refreshes = 0,
      interval_secs = 30, min_interval_secs = 5\<rparr>"

definition catalog_resolve ::
  "world \<Rightarrow> column_rule list \<Rightarrow> semantic_type list \<Rightarrow> rstring \<Rightarrow> rstring option \<Rightarrow> resolve_error + catalog" where
  "catalog_resolve w rules types dsn ca =
     and_then (resolve_snapshot_retrying w rules (types_of types) dsn ca) (\<lambda>resolved.
       if unresolved resolved \<noteq> [] then Inl (Unresolved (unresolved resolved))
       else Inr (catalog_default
              \<lparr>cat_spec := \<lparr>spec_rules = rules, spec_types = types_of types\<rparr>,
               cat_dsn := dsn, cat_backend_ca := ca, cat_snapshot := resolved\<rparr>))"

definition catalog_generation :: "catalog \<Rightarrow> u64" where
  "catalog_generation c = refreshes c"

definition note_unknown_relation :: "catalog \<Rightarrow> catalog" where
  "note_unknown_relation c = c\<lparr>refresh_wanted := True\<rparr>"

definition spec_matches :: "catalog \<Rightarrow> column_rule list \<Rightarrow> semantic_type list \<Rightarrow> bool" where
  "spec_matches c rules types =
     (let current = cat_spec c
      in if length (spec_rules current) \<noteq> length rules \<or> length (spec_types current) \<noteq> length types then False
         else if sort_key rule_key_of (spec_rules current) \<noteq> sort_key rule_key_of rules then False
         else list_all (\<lambda>t. hget (spec_types current) (st_name t) = Some t) types)"

text \<open>The diff is logged; the state change is the swap and the generation.\<close>

definition install_snapshot :: "catalog_spec \<Rightarrow> snapshot \<Rightarrow> catalog \<Rightarrow> coverage_change list \<times> catalog" where
  "install_snapshot spec next c =
     (coverage_changes (spec_rules spec) (cat_snapshot c) next,
      c\<lparr>cat_snapshot := next, refreshes := refreshes c + 1\<rparr>)"

definition replace_spec_locked ::
  "world \<Rightarrow> column_rule list \<Rightarrow> (rstring, semantic_type) hmap \<Rightarrow> catalog \<Rightarrow> (resolve_error + coverage_change list) \<times> catalog" where
  "replace_spec_locked w rules types c =
     (case resolve_snapshot_retrying w rules types (cat_dsn c) (cat_backend_ca c) of
        Inl e \<Rightarrow> (Inl e, c\<lparr>failed_refreshes := failed_refreshes c + 1\<rparr>)
      | Inr next \<Rightarrow>
          (let spec = \<lparr>spec_rules = rules, spec_types = types\<rparr>;
               (log, c1) = install_snapshot spec next c
           in (Inr log, c1\<lparr>cat_spec := spec\<rparr>)))"

definition set_refresh_schedule :: "u64 \<Rightarrow> u64 \<Rightarrow> catalog \<Rightarrow> catalog" where
  "set_refresh_schedule interval min_interval c =
     c\<lparr>interval_secs := interval, min_interval_secs := min_interval,
       refresh_wanted := refresh_wanted c \<or> interval_secs c \<noteq> interval \<or> min_interval_secs c \<noteq> min_interval\<rparr>"

definition refresh :: "world \<Rightarrow> catalog \<Rightarrow> (resolve_error + coverage_change list) \<times> catalog" where
  "refresh w c =
     (let spec = cat_spec c
      in case resolve_snapshot_retrying w (spec_rules spec) (spec_types spec) (cat_dsn c) (cat_backend_ca c) of
           Inl e \<Rightarrow> (Inl e, c\<lparr>failed_refreshes := failed_refreshes c + 1\<rparr>)
         | Inr next \<Rightarrow> (let (log, c1) = install_snapshot spec next c in (Inr log, c1)))"

section \<open>The background refresher\<close>

text \<open>
  One round of \<open>run_refresher\<close>, with times in seconds. A round starts at \<open>now\<close> and ends the wait either
  with the timer or with a notification, which is held back until the floor since the last refresh has
  passed; with an interval of 0 there is no timer. Which of the two wins is the argument \<open>wake\<close>.
\<close>

datatype wake = TimerFired | NotifiedAt nat

definition wake_possible :: "nat \<Rightarrow> nat \<Rightarrow> wake \<Rightarrow> bool" where
  "wake_possible interval now wake =
     (case wake of
        TimerFired \<Rightarrow> interval \<noteq> 0
      | NotifiedAt t \<Rightarrow> now \<le> t \<and> (interval = 0 \<or> t \<le> now + interval))"

definition refresh_at :: "nat \<Rightarrow> nat \<Rightarrow> nat \<Rightarrow> nat \<Rightarrow> wake \<Rightarrow> nat" where
  "refresh_at interval min_interval before now wake =
     (case wake of
        TimerFired \<Rightarrow> now + interval
      | NotifiedAt t \<Rightarrow> if t - before < min_interval then t + (min_interval - (t - before)) else t)"

record refresher =
  rf_last :: nat
  rf_now :: nat
  rf_catalog :: catalog

text \<open>A notification is consumed by the wait it ends; the refresh takes \<open>took\<close> seconds, and its outcome is ignored.\<close>

definition refresher_round :: "(nat \<Rightarrow> world) \<Rightarrow> wake \<times> nat \<Rightarrow> refresher \<Rightarrow> refresher" where
  "refresher_round w = (\<lambda>(wake, took) r.
     (let c = rf_catalog r;
          t = refresh_at (unat (interval_secs c)) (unat (min_interval_secs c)) (rf_last r) (rf_now r) wake;
          c1 = (case wake of TimerFired \<Rightarrow> c | NotifiedAt _ \<Rightarrow> c\<lparr>refresh_wanted := False\<rparr>)
      in \<lparr>rf_last = t, rf_now = t + took, rf_catalog = snd (refresh (w t) c1)\<rparr>))"

end
