(* ===== verification/Metrics.thy ===== *)
theory Metrics
  imports Snapshot
begin

text \<open>
  The rejection counters of \<open>metrics.rs\<close>: the causes in the order of \<open>Cause::ALL\<close>, the bucket of an
  opaque field, and the atomics a session updates. The Prometheus exporter sees the same events and
  is not part of the state.
\<close>

section \<open>Causes\<close>

datatype cause =
    OpaqueNamedLikeColumn | OpaqueAnonymous | OpaqueAggregate | OpaqueFunction | MaskTypeMismatch
  | NullabilityMismatch | NoActivePlan | CopyStream | FunctionCallMessage | UnknownBackendMessage
  | Malformed | ChannelBinding | PlaintextRefused | HostileMaskedUse | RateLimited | NoticeFlood
  | WriteRefused | SqlPrepareCursor | UntrustedFunction | LeakyCatalog

definition cause_ALL :: "cause list" where
  "cause_ALL =
     [OpaqueNamedLikeColumn, OpaqueAnonymous, OpaqueAggregate, OpaqueFunction, MaskTypeMismatch,
      NullabilityMismatch, NoActivePlan, CopyStream, FunctionCallMessage, UnknownBackendMessage,
      Malformed, ChannelBinding, PlaintextRefused, HostileMaskedUse, RateLimited, NoticeFlood,
      WriteRefused, SqlPrepareCursor, UntrustedFunction, LeakyCatalog]"

fun label :: "cause \<Rightarrow> rstring" where
  "label OpaqueNamedLikeColumn = str ''opaque_named_like_column''"
| "label OpaqueAnonymous = str ''opaque_anonymous''"
| "label OpaqueAggregate = str ''opaque_aggregate''"
| "label OpaqueFunction = str ''opaque_function''"
| "label MaskTypeMismatch = str ''mask_type_mismatch''"
| "label NullabilityMismatch = str ''nullability_mismatch''"
| "label NoActivePlan = str ''no_active_plan''"
| "label CopyStream = str ''copy_stream''"
| "label FunctionCallMessage = str ''function_call_message''"
| "label UnknownBackendMessage = str ''unknown_backend_message''"
| "label Malformed = str ''malformed''"
| "label ChannelBinding = str ''channel_binding''"
| "label PlaintextRefused = str ''plaintext_refused''"
| "label HostileMaskedUse = str ''hostile_masked_use''"
| "label RateLimited = str ''rate_limited''"
| "label NoticeFlood = str ''notice_flood''"
| "label WriteRefused = str ''write_refused''"
| "label SqlPrepareCursor = str ''sql_prepare_cursor''"
| "label UntrustedFunction = str ''untrusted_function''"
| "label LeakyCatalog = str ''leaky_catalog''"

fun position_of :: "'a \<Rightarrow> 'a list \<Rightarrow> nat option" where
  "position_of x [] = None"
| "position_of x (y # ys) = (if x = y then Some 0 else map_option Suc (position_of x ys))"

definition cause_index :: "cause \<Rightarrow> nat" where
  "cause_index c = (case position_of c cause_ALL of Some i \<Rightarrow> i | None \<Rightarrow> 0)"

definition AGGREGATES :: "rstring list" where
  "AGGREGATES = map str [''count'', ''sum'', ''avg'', ''min'', ''max'', ''string_agg'', ''array_agg'',
     ''json_agg'', ''jsonb_agg'', ''bool_and'', ''bool_or'', ''every'']"

text \<open>\<open>rsplit('.').next()\<close>: the part after the last dot, or all of it.\<close>

definition last_part :: "rstring \<Rightarrow> rstring" where
  "last_part n = (case after_last_dot n of Some r \<Rightarrow> r | None \<Rightarrow> n)"

definition classified_column_names :: "snapshot \<Rightarrow> rstring list" where
  "classified_column_names s = map (\<lambda>(_, n). last_part n) (names s)"

definition classify_opaque :: "rstring \<Rightarrow> snapshot \<Rightarrow> cause" where
  "classify_opaque field_name s =
     (if field_name = str ''?column?'' then OpaqueAnonymous
      else if to_ascii_lowercase field_name \<in> set AGGREGATES then OpaqueAggregate
      else if field_name \<in> set (classified_column_names s) then OpaqueNamedLikeColumn
      else OpaqueFunction)"

section \<open>Counters\<close>

record metrics =
  counters :: "u64 list"
  plaintext_sessions :: u64
  result_sets_masked :: u64
  fields_masked :: u64
  fields_rescued :: u64

definition metrics_default :: metrics where
  "metrics_default =
     \<lparr>counters = replicate (length cause_ALL) 0, plaintext_sessions = 0, result_sets_masked = 0,
      fields_masked = 0, fields_rescued = 0\<rparr>"

definition record_cause :: "cause \<Rightarrow> metrics \<Rightarrow> metrics" where
  "record_cause c m =
     (if cause_index c < length (counters m)
      then m\<lparr>counters := (counters m)[cause_index c := counters m ! cause_index c + 1]\<rparr> else m)"

definition record_rescued :: "metrics \<Rightarrow> metrics" where
  "record_rescued m = m\<lparr>fields_rescued := fields_rescued m + 1\<rparr>"

definition record_plaintext_session :: "metrics \<Rightarrow> metrics" where
  "record_plaintext_session m = m\<lparr>plaintext_sessions := plaintext_sessions m + 1\<rparr>"

definition record_masked_result_set :: "u64 \<Rightarrow> metrics \<Rightarrow> metrics" where
  "record_masked_result_set n m =
     m\<lparr>result_sets_masked := result_sets_masked m + 1, fields_masked := fields_masked m + n\<rparr>"

definition total_rejections :: "metrics \<Rightarrow> u64" where
  "total_rejections m = sum_list (counters m)"

definition count_of :: "cause \<Rightarrow> metrics \<Rightarrow> u64" where
  "count_of c m = (if cause_index c < length (counters m) then counters m ! cause_index c else 0)"

section \<open>Every cause has its own counter\<close>

lemma position_of_nth: "position_of x xs = Some i \<Longrightarrow> i < length xs \<and> xs ! i = x"
  by (induction xs arbitrary: i) (auto split: if_splits)

lemma cause_index_bound [simp]: "cause_index c < length cause_ALL"
  by (cases c) (simp_all add: cause_index_def cause_ALL_def)

lemma cause_ALL_nth_index: "cause_ALL ! cause_index c = c"
  by (cases c) (simp_all add: cause_index_def cause_ALL_def)

lemma cause_index_inj: "cause_index c = cause_index d \<longleftrightarrow> c = d"
  by (metis cause_ALL_nth_index)

lemma length_counters_record [simp]: "length (counters (record_cause c m)) = length (counters m)"
  by (simp add: record_cause_def)

lemma count_of_record:
  assumes "length (counters m) = length cause_ALL"
  shows "count_of d (record_cause c m) = (if d = c then count_of d m + 1 else count_of d m)"
proof -
  have "cause_index e < length (counters m)" for e
    by (simp add: assms)
  then show ?thesis
    by (simp add: count_of_def record_cause_def cause_index_inj nth_list_update)
qed

lemma sum_list_update_add:
  "i < length xs \<Longrightarrow> sum_list (xs[i := xs ! i + d]) = sum_list xs + (d :: 'a::comm_ring_1)"
  by (induction xs arbitrary: i) (auto simp: algebra_simps split: nat.splits)

lemma total_rejections_record:
  assumes "length (counters m) = length cause_ALL"
  shows "total_rejections (record_cause c m) = total_rejections m + 1"
proof -
  have "cause_index c < length (counters m)"
    by (simp add: assms)
  then show ?thesis
    by (simp add: total_rejections_def record_cause_def sum_list_update_add)
qed

end
