(* ===== verification/Policy.thy ===== *)
theory Policy
  imports Catalog_Live Metrics Plan_State
begin

text \<open>
  Classification policy for described result sets (\<open>policy.rs\<close>, \<open>policy/json_extract.rs\<close>,
  \<open>rate_limit.rs\<close>): the reloadable settings, the reload with its two generation bumps, the
  attribution of summaries and JSON extracts to one catalog column, and the decision
  \<open>plan_for_with\<close> that gives every output field of a \<open>RowDescription\<close> its mask or refuses the result
  set. What the statement analyser says of the SQL is an argument, and so are the TLS acceptor, the
  file and the rate limiter's clock.
\<close>

section \<open>Settings\<close>

text \<open>
  A rate limiter is its two numbers and the principals charged so far, in order; whether the next
  statement is within budget is the \<open>governor\<close> crate's answer.
\<close>

record principal_rate_limit =
  per_minute :: u32
  burst :: u32
  charged :: "rstring list"

datatype policy_error =
    ConfigInvalid catalog_error | TlsPairIncomplete | TlsFailed rstring
  | ZeroRate | ZeroBurst | CatalogFailed resolve_error | ReadFailed rstring | ParseFailed rstring

definition rate_limit_new :: "u32 \<Rightarrow> u32 \<Rightarrow> policy_error + principal_rate_limit" where
  "rate_limit_new pm b =
     (if pm = 0 then Inl ZeroRate else if b = 0 then Inl ZeroBurst
      else Inr \<lparr>per_minute = pm, burst = b, charged = []\<rparr>)"

definition try_acquire ::
  "(principal_rate_limit \<Rightarrow> rstring \<Rightarrow> bool) \<Rightarrow> rstring \<Rightarrow> principal_rate_limit \<Rightarrow> bool \<times> principal_rate_limit" where
  "try_acquire check_key user lim = (check_key lim user, lim\<lparr>charged := charged lim @ [user]\<rparr>)"

record process_identity =
  pi_listen :: rstring
  pi_backend :: rstring
  pi_catalog_dsn :: rstring
  pi_backend_ca :: "rstring option"
  pi_metrics_listen :: "rstring option"

definition identity_from_config :: "config \<Rightarrow> process_identity" where
  "identity_from_config c =
     \<lparr>pi_listen = listen c, pi_backend = backend c, pi_catalog_dsn = catalog_dsn c,
      pi_backend_ca = backend_ca c, pi_metrics_listen = metrics_listen c\<rparr>"

definition mismatches :: "process_identity \<Rightarrow> config \<Rightarrow> rstring list" where
  "mismatches i c =
     (if listen c \<noteq> pi_listen i then [str ''listen''] else []) @
     (if backend c \<noteq> pi_backend i then [str ''backend''] else []) @
     (if catalog_dsn c \<noteq> pi_catalog_dsn i then [str ''catalog_dsn''] else []) @
     (if backend_ca c \<noteq> pi_backend_ca i then [str ''backend_ca''] else []) @
     (if metrics_listen c \<noteq> pi_metrics_listen i then [str ''metrics_listen''] else [])"

record reload_report =
  unchanged :: bool
  catalog_re_resolved :: bool
  restart_required :: "rstring list"

record live_policy =
  lp_unclassified :: unclassified
  lp_unclassified_mask :: unclassified_mask
  lp_opaque :: opaque
  lp_summaries :: summaries
  lp_posture :: posture
  lp_system_catalogs :: system_catalogs
  lp_lineage :: lineage_mode
  lp_roles :: "(rstring, rstring list) hmap"
  lp_require_client_tls :: bool
  lp_backend_tls :: backend_tls
  lp_backend_ca :: "rstring option"
  lp_rate_limit :: "principal_rate_limit option"
  lp_max_notices :: "u32 option"
  lp_tls_cert :: "rstring option"
  lp_tls_key :: "rstring option"

text \<open>The acceptor \<open>load_acceptor\<close> builds from two PEM files, as the bytes it was built from.\<close>

type_synonym tls_acceptor = bytes

record policy =
  pol_catalog :: catalog
  pol_masker :: masker
  pol_live :: live_policy
  pol_tls :: "tls_acceptor option"
  pol_metrics :: metrics
  identity :: process_identity
  epoch :: u64
  reloads :: u64
  failed_reloads :: u64
  last_file_sha :: "bytes option"

text \<open>Invert the role declarations into principal to roles.\<close>

definition add_member :: "rstring \<Rightarrow> rstring \<Rightarrow> (rstring, rstring list) hmap \<Rightarrow> (rstring, rstring list) hmap" where
  "add_member name member out =
     hinsert member (set_insert name (case hget out member of Some rs \<Rightarrow> rs | None \<Rightarrow> [])) out"

definition roles_by_principal :: "role list \<Rightarrow> (rstring, rstring list) hmap" where
  "roles_by_principal roles = fold (\<lambda>r. fold (add_member (role_name r)) (members r)) roles []"

definition live_from_config :: "config \<Rightarrow> principal_rate_limit option \<Rightarrow> policy_error + live_policy" where
  "live_from_config c previous_rate =
     and_then
       (if rate_limit_per_minute c = 0 then Inr None
        else (let b = effective_rate_limit_burst c;
                  fresh = (\<lambda>_. and_then (rate_limit_new (rate_limit_per_minute c) b) (\<lambda>l. Inr (Some l)))
              in case previous_rate of
                   Some prev \<Rightarrow>
                     if per_minute prev = rate_limit_per_minute c \<and> burst prev = b then Inr (Some prev)
                     else fresh ()
                 | None \<Rightarrow> fresh ()))
       (\<lambda>rate. Inr
          \<lparr>lp_unclassified = cfg_unclassified c, lp_unclassified_mask = cfg_unclassified_mask c,
           lp_opaque = cfg_opaque c, lp_summaries = effective_summaries c, lp_posture = cfg_posture c,
           lp_system_catalogs = cfg_system_catalogs c, lp_lineage = cfg_lineage c,
           lp_roles = roles_by_principal (cfg_role c),
           lp_require_client_tls = client_tls_required c, lp_backend_tls = cfg_backend_tls c,
           lp_backend_ca = backend_ca c, lp_rate_limit = rate,
           lp_max_notices =
             (if max_notices_per_exchange c = 0 then None else Some (max_notices_per_exchange c)),
           lp_tls_cert = tls_cert c, lp_tls_key = tls_key c\<rparr>)"

definition tls_from_paths ::
  "(rstring \<Rightarrow> rstring \<Rightarrow> rstring + tls_acceptor) \<Rightarrow> rstring option \<Rightarrow> rstring option \<Rightarrow>
     policy_error + tls_acceptor option" where
  "tls_from_paths load_acceptor cert key =
     (case (cert, key) of
        (Some c, Some k) \<Rightarrow> (case load_acceptor c k of Inl e \<Rightarrow> Inl (TlsFailed e) | Inr a \<Rightarrow> Inr (Some a))
      | (None, None) \<Rightarrow> Inr None
      | _ \<Rightarrow> Inl TlsPairIncomplete)"

definition tls_from_config ::
  "(rstring \<Rightarrow> rstring \<Rightarrow> rstring + tls_acceptor) \<Rightarrow> config \<Rightarrow> policy_error + tls_acceptor option" where
  "tls_from_config load_acceptor c = tls_from_paths load_acceptor (tls_cert c) (tls_key c)"

definition covers_roles :: "(rstring, rstring list) hmap \<Rightarrow> (rstring, rstring list) hmap \<Rightarrow> bool" where
  "covers_roles a b =
     list_all (\<lambda>(p, rs). case hget b p of Some rs' \<Rightarrow> set rs = set rs' | None \<Rightarrow> False) a"

definition rate_differs :: "principal_rate_limit option \<Rightarrow> principal_rate_limit option \<Rightarrow> bool" where
  "rate_differs a b =
     (case (a, b) of
        (None, None) \<Rightarrow> False
      | (Some x, Some y) \<Rightarrow> per_minute x \<noteq> per_minute y \<or> burst x \<noteq> burst y
      | _ \<Rightarrow> True)"

definition live_differs :: "live_policy \<Rightarrow> live_policy \<Rightarrow> bool" where
  "live_differs a b \<longleftrightarrow>
     lp_unclassified a \<noteq> lp_unclassified b \<or> lp_unclassified_mask a \<noteq> lp_unclassified_mask b \<or>
     lp_opaque a \<noteq> lp_opaque b \<or> lp_summaries a \<noteq> lp_summaries b \<or> lp_posture a \<noteq> lp_posture b \<or>
     lp_system_catalogs a \<noteq> lp_system_catalogs b \<or> lp_lineage a \<noteq> lp_lineage b \<or>
     \<not> (covers_roles (lp_roles a) (lp_roles b) \<and> covers_roles (lp_roles b) (lp_roles a)) \<or>
     lp_require_client_tls a \<noteq> lp_require_client_tls b \<or> lp_backend_tls a \<noteq> lp_backend_tls b \<or>
     lp_backend_ca a \<noteq> lp_backend_ca b \<or> lp_max_notices a \<noteq> lp_max_notices b \<or>
     lp_tls_cert a \<noteq> lp_tls_cert b \<or> lp_tls_key a \<noteq> lp_tls_key b \<or>
     rate_differs (lp_rate_limit a) (lp_rate_limit b)"

section \<open>Reload\<close>

definition policy_from_config ::
  "(rstring \<Rightarrow> rstring \<Rightarrow> rstring + tls_acceptor) \<Rightarrow> config \<Rightarrow> catalog \<Rightarrow> policy_error + policy" where
  "policy_from_config load_acceptor c cat =
     and_then (case validate c of Inl e \<Rightarrow> Inl (ConfigInvalid e) | Inr u \<Rightarrow> Inr u) (\<lambda>_.
     and_then (live_from_config c None) (\<lambda>live.
     and_then (tls_from_config load_acceptor c) (\<lambda>tls.
       Inr \<lparr>pol_catalog = set_refresh_schedule (catalog_refresh_seconds c) (catalog_refresh_min_seconds c) cat,
            pol_masker = masker_new (as_bytes (pseudonym_key c)), pol_live = live, pol_tls = tls,
            pol_metrics = metrics_default, identity = identity_from_config c, epoch = 0, reloads = 0,
            failed_reloads = 0, last_file_sha = None\<rparr>)))"

definition policy_generation :: "policy \<Rightarrow> u64" where
  "policy_generation p = catalog_generation (pol_catalog p) + epoch p"

definition roles_of :: "policy \<Rightarrow> rstring \<Rightarrow> rstring list" where
  "roles_of p user = (case hget (lp_roles (pol_live p)) user of Some rs \<Rightarrow> rs | None \<Rightarrow> [])"

text \<open>\<open>PolicyChange::begin\<close> and its \<open>Drop\<close> are the same atomic increment.\<close>

definition bump_epoch :: "policy \<Rightarrow> policy" where
  "bump_epoch p = p\<lparr>epoch := epoch p + 1\<rparr>"

definition bump_if :: "bool \<Rightarrow> policy \<Rightarrow> policy" where
  "bump_if b p = (if b then bump_epoch p else p)"

text \<open>
  \<open>apply_config_locked\<close> gives its result and the policies a session can observe while it runs, one
  per store, oldest first; the last one is the policy it leaves.
\<close>

definition install_settings :: "config \<Rightarrow> live_policy \<Rightarrow> tls_acceptor option \<Rightarrow> bool \<Rightarrow> policy \<Rightarrow> policy list" where
  "install_settings c live tls key_changed p1 =
     (let p2 = p1\<lparr>pol_catalog :=
            set_refresh_schedule (catalog_refresh_seconds c) (catalog_refresh_min_seconds c) (pol_catalog p1)\<rparr>;
          p3 = (if key_changed then p2\<lparr>pol_masker := masker_new (as_bytes (pseudonym_key c))\<rparr> else p2);
          p4 = p3\<lparr>pol_live := live\<rparr>;
          p5 = p4\<lparr>pol_tls := tls\<rparr>
      in [p2, p3, p4, p5])"

definition apply_config_locked ::
  "world \<Rightarrow> (rstring \<Rightarrow> rstring \<Rightarrow> rstring + tls_acceptor) \<Rightarrow> config \<Rightarrow> policy \<Rightarrow>
     (policy_error + reload_report) \<times> policy list" where
  "apply_config_locked w load_acceptor c p =
     (case validate c of
        Inl e \<Rightarrow> (Inl (ConfigInvalid e), [p])
      | Inr _ \<Rightarrow>
     (case tls_from_config load_acceptor c of
        Inl e \<Rightarrow> (Inl e, [p])
      | Inr tls \<Rightarrow>
     (case live_from_config c (lp_rate_limit (pol_live p)) of
        Inl e \<Rightarrow> (Inl e, [p])
      | Inr live0 \<Rightarrow>
          (let live = (if backend_ca c \<noteq> pi_backend_ca (identity p)
                       then live0\<lparr>lp_backend_ca := pi_backend_ca (identity p)\<rparr> else live0);
               rules = column_rules c;
               re_resolved = (\<not> spec_matches (pol_catalog p) rules (cfg_semantic_type c));
               key_changed = (masker_key (pol_masker p) \<noteq> as_bytes (pseudonym_key c));
               bump = (re_resolved \<or> live_differs (pol_live p) live \<or> key_changed);
               p0 = bump_if bump p;
               report = \<lparr>unchanged = False, catalog_re_resolved = re_resolved,
                         restart_required = mismatches (identity p) c\<rparr>
           in if re_resolved
              then (case replace_spec_locked w rules (types_of (cfg_semantic_type c)) (pol_catalog p0) of
                      (Inl e, cat) \<Rightarrow>
                        (let p1 = p0\<lparr>pol_catalog := cat\<rparr>
                         in (Inl (CatalogFailed e), [p, p0, p1, bump_if bump p1]))
                    | (Inr log, cat) \<Rightarrow>
                        (let swapped = p0\<lparr>pol_catalog := (pol_catalog p0)\<lparr>cat_snapshot := cat_snapshot cat\<rparr>\<rparr>;
                             p1 = p0\<lparr>pol_catalog := cat\<rparr>;
                             ps = install_settings c live tls key_changed p1
                         in (Inr report, [p, p0, swapped, p1] @ ps @ [bump_if bump (last ps)])))
              else (let ps = install_settings c live tls key_changed p0
                    in (Inr report, [p, p0] @ ps @ [bump_if bump (last ps)]))))))"

definition note_reload :: "bool \<Rightarrow> policy \<Rightarrow> policy" where
  "note_reload ok p =
     (if ok then p\<lparr>reloads := reloads p + 1\<rparr> else p\<lparr>failed_reloads := failed_reloads p + 1\<rparr>)"

definition apply_config ::
  "world \<Rightarrow> (rstring \<Rightarrow> rstring \<Rightarrow> rstring + tls_acceptor) \<Rightarrow> config \<Rightarrow> policy \<Rightarrow>
     (policy_error + reload_report) \<times> policy" where
  "apply_config w load_acceptor c p =
     (case apply_config_locked w load_acceptor c p of
        (Inr report, ps) \<Rightarrow> (Inr report, note_reload True (last ps))
      | (Inl e, ps) \<Rightarrow> (Inl e, note_reload False (last ps)))"

definition refresh_tls_from_live_paths ::
  "(rstring \<Rightarrow> rstring \<Rightarrow> rstring + tls_acceptor) \<Rightarrow> policy \<Rightarrow> policy_error + policy" where
  "refresh_tls_from_live_paths load_acceptor p =
     and_then (tls_from_paths load_acceptor (lp_tls_cert (pol_live p)) (lp_tls_key (pol_live p)))
       (\<lambda>tls. Inr (p\<lparr>pol_tls := tls\<rparr>))"

text \<open>The file's text (or why it could not be read), its digest and its parse are arguments.\<close>

definition reload_from_path ::
  "world \<Rightarrow> (rstring \<Rightarrow> rstring \<Rightarrow> rstring + tls_acceptor) \<Rightarrow> (bytes \<Rightarrow> bytes) \<Rightarrow> (rstring \<Rightarrow> rstring + config) \<Rightarrow>
   rstring + rstring \<Rightarrow> policy \<Rightarrow> (policy_error + reload_report) \<times> policy" where
  "reload_from_path w load_acceptor sha256 from_toml file p =
     (case file of
        Inl e \<Rightarrow> (Inl (ReadFailed e), note_reload False p)
      | Inr text \<Rightarrow>
          (let sha = sha256 (as_bytes text)
           in if last_file_sha p = Some sha
              then (case refresh_tls_from_live_paths load_acceptor p of
                      Inl e \<Rightarrow> (Inl e, note_reload False p)
                    | Inr p1 \<Rightarrow>
                        (Inr \<lparr>unchanged = True, catalog_re_resolved = False, restart_required = []\<rparr>,
                         note_reload True p1))
              else (case from_toml text of
                      Inl e \<Rightarrow> (Inl (ParseFailed e), note_reload False p)
                    | Inr c \<Rightarrow>
                        (case apply_config_locked w load_acceptor c p of
                           (Inr report, ps) \<Rightarrow>
                             (Inr (report\<lparr>unchanged := False\<rparr>),
                              note_reload True ((last ps)\<lparr>last_file_sha := Some sha\<rparr>))
                         | (Inl e, ps) \<Rightarrow> (Inl e, note_reload False (last ps))))))"

text \<open>The loop on \<open>SIGHUP\<close> (\<open>main.rs\<close>): what the file holds at each signal is the list.\<close>

definition config_reload_loop ::
  "world \<Rightarrow> (rstring \<Rightarrow> rstring \<Rightarrow> rstring + tls_acceptor) \<Rightarrow> (bytes \<Rightarrow> bytes) \<Rightarrow> (rstring \<Rightarrow> rstring + config) \<Rightarrow>
   (rstring + rstring) list \<Rightarrow> policy \<Rightarrow> policy" where
  "config_reload_loop w load_acceptor sha256 from_toml files p =
     fold (\<lambda>file p. snd (reload_from_path w load_acceptor sha256 from_toml file p)) files p"

end
