(* ===== verification/Planning.thy ===== *)
theory Planning
  imports Policy
begin

text \<open>
  The decision of \<open>policy.rs\<close> for one described result set: the policy of a summary or a JSON extract,
  attributed to exactly one schema-qualified catalog column, and \<open>plan_for_with\<close>, which gives every
  output field a mask its wire type supports or refuses the result set with the words the client
  sees and the bucket the counters see.
\<close>

section \<open>What the statement analyser reports\<close>

datatype safety = Releasable | Summary | JsonExtractField | Unknown
datatype verdict = Release | Blocked rstring | UnresolvedVerdict

datatype summary_argument = BareColumn rstring | Unattributable

record summary_resolution =
  sr_relations :: "(rstring \<times> rstring) list"
  sr_fields :: "summary_argument list"

datatype json_extract_column =
    Bare rstring
  | Named rstring rstring
  | Qualified rstring rstring rstring

fun column_name :: "json_extract_column \<Rightarrow> rstring" where
  "column_name (Bare n) = n"
| "column_name (Named _ n) = n"
| "column_name (Qualified _ _ n) = n"

record json_extract =
  je_column :: json_extract_column
  je_path :: json_projection
  as_text :: bool

datatype json_extract_argument = Extract json_extract | UnattributableExtract

record qualified_from =
  qf_schema :: rstring
  relname :: rstring
  qf_alias :: "rstring option"

record json_extract_resolution =
  jr_relations :: "qualified_from list"
  jr_fields :: "json_extract_argument list"

definition qualified_name :: "qualified_from \<Rightarrow> rstring" where
  "qualified_name q = qf_schema q @ 46 # relname q"

section \<open>Expression policies\<close>

datatype expression_policy =
    NotApplicable | OpaqueExpr | Released
  | Masked mask_spec "json_projection option"

definition get :: "'a list \<Rightarrow> nat \<Rightarrow> 'a option" where
  "get xs i = (if i < length xs then Some (xs ! i) else None)"

definition qualify_relation :: "rstring \<times> rstring \<Rightarrow> rstring option" where
  "qualify_relation r = (case r of (schema, rel) \<Rightarrow> if schema = [] then None else Some (schema @ 46 # rel))"

text \<open>The loop over the FROM relations: \<open>None\<close> when one cannot be ruled out, else the owners found.\<close>

fun summary_owners :: "snapshot \<Rightarrow> rstring \<Rightarrow> (rstring \<times> rstring) list \<Rightarrow> rstring list option" where
  "summary_owners s col [] = Some []"
| "summary_owners s col (r # rs) =
     (case qualify_relation r of
        None \<Rightarrow> None
      | Some qualified \<Rightarrow>
          (case relation_columns_of s qualified of
             None \<Rightarrow> None
           | Some cols \<Rightarrow>
               (case summary_owners s col rs of
                  None \<Rightarrow> None
                | Some owners \<Rightarrow> Some (if col \<in> set cols then qualified # owners else owners))))"

definition policy_of_spec :: "mask_spec \<Rightarrow> expression_policy" where
  "policy_of_spec spec = (if is_passthrough spec then Released else Masked spec None)"

definition resolve_summary_source ::
  "snapshot \<Rightarrow> (rstring \<times> rstring) list \<Rightarrow> summary_argument \<Rightarrow> rstring list \<Rightarrow> expression_policy" where
  "resolve_summary_source s rels argument roles =
     (case argument of
        Unattributable \<Rightarrow> OpaqueExpr
      | BareColumn col \<Rightarrow>
          (case summary_owners s col rels of
             Some [qualified] \<Rightarrow>
               (case lookup_by_name s qualified col of
                  None \<Rightarrow> OpaqueExpr
                | Some c \<Rightarrow> policy_of_spec (for_roles c roles))
           | _ \<Rightarrow> OpaqueExpr))"

definition resolve_summary_policies ::
  "summary_resolution option \<Rightarrow> nat \<Rightarrow> safety list \<Rightarrow> snapshot \<Rightarrow> rstring list \<Rightarrow> expression_policy list" where
  "resolve_summary_policies resolution n safe s roles =
     map (\<lambda>i. if get safe i \<noteq> Some Summary then NotApplicable
              else (case resolution of
                      None \<Rightarrow> OpaqueExpr
                    | Some r \<Rightarrow>
                        (case get (sr_fields r) i of
                           None \<Rightarrow> OpaqueExpr
                         | Some argument \<Rightarrow> resolve_summary_source s (sr_relations r) argument roles)))
       [0 ..< n]"

definition owns :: "snapshot \<Rightarrow> json_extract_column \<Rightarrow> qualified_from \<Rightarrow> bool" where
  "owns s col rel =
     (case col of
        Bare name \<Rightarrow>
          lookup_by_name s (qualified_name rel) name \<noteq> None \<or>
          (case relation_columns_of s (qualified_name rel) of Some cols \<Rightarrow> name \<in> set cols | None \<Rightarrow> False)
      | Named r _ \<Rightarrow> qf_alias rel = Some r \<or> relname rel = r
      | Qualified sch r _ \<Rightarrow> qf_schema rel = sch \<and> relname rel = r)"

definition unique_extract_owner ::
  "snapshot \<Rightarrow> qualified_from list \<Rightarrow> json_extract_column \<Rightarrow> qualified_from option" where
  "unique_extract_owner s rels col =
     (case filter (owns s col) rels of [only] \<Rightarrow> Some only | _ \<Rightarrow> None)"

definition resolve_json_extract_source ::
  "snapshot \<Rightarrow> qualified_from list \<Rightarrow> json_extract_argument \<Rightarrow> rstring list \<Rightarrow> expression_policy" where
  "resolve_json_extract_source s rels argument roles =
     (case argument of
        UnattributableExtract \<Rightarrow> OpaqueExpr
      | Extract x \<Rightarrow>
          (case unique_extract_owner s rels (je_column x) of
             None \<Rightarrow> OpaqueExpr
           | Some owner \<Rightarrow>
               (case lookup_by_name s (qualified_name owner) (column_name (je_column x)) of
                  None \<Rightarrow> OpaqueExpr
                | Some c \<Rightarrow>
                    (let spec = for_roles c roles;
                         path = map (\<lambda>g. (seg_value g, navigation g)) (je_path x)
                     in if is_passthrough spec then Released
                        else if as_text x
                        then (case json_text_extract_spec spec path of
                                Some t \<Rightarrow> Masked t None | None \<Rightarrow> OpaqueExpr)
                        else (case json_document_projection spec path of
                                Some pr \<Rightarrow> Masked spec (Some pr) | None \<Rightarrow> OpaqueExpr)))))"

definition resolve_json_extract_policies ::
  "json_extract_resolution option \<Rightarrow> nat \<Rightarrow> safety list \<Rightarrow> snapshot \<Rightarrow> rstring list \<Rightarrow> expression_policy list" where
  "resolve_json_extract_policies resolution n safe s roles =
     map (\<lambda>i. if get safe i \<noteq> Some JsonExtractField then NotApplicable
              else (case resolution of
                      None \<Rightarrow> OpaqueExpr
                    | Some r \<Rightarrow>
                        (case get (jr_fields r) i of
                           None \<Rightarrow> OpaqueExpr
                         | Some argument \<Rightarrow> resolve_json_extract_source s (jr_relations r) argument roles)))
       [0 ..< n]"

definition or_opaque :: "expression_policy option \<Rightarrow> expression_policy" where
  "or_opaque p = (case p of Some e \<Rightarrow> e | None \<Rightarrow> OpaqueExpr)"

definition resolve_expression_policies ::
  "summary_resolution option \<Rightarrow> json_extract_resolution option \<Rightarrow> nat \<Rightarrow> safety list \<Rightarrow> snapshot \<Rightarrow>
     rstring list \<Rightarrow> expression_policy list" where
  "resolve_expression_policies sums extracts n safe s roles =
     (let summary = resolve_summary_policies sums n safe s roles;
          extract = resolve_json_extract_policies extracts n safe s roles
      in map (\<lambda>i. case get safe i of
                    Some Summary \<Rightarrow> or_opaque (get summary i)
                  | Some JsonExtractField \<Rightarrow> or_opaque (get extract i)
                  | _ \<Rightarrow> NotApplicable) [0 ..< n])"

section \<open>Rejections\<close>

record rejection =
  rj_message :: rstring
  hint :: "rstring option"
  rj_cause :: cause

fun mask_debug :: "mask \<Rightarrow> rstring" where
  "mask_debug MNone = str ''None''"
| "mask_debug MNull = str ''Null''"
| "mask_debug Redact = str ''Redact''"
| "mask_debug Partial = str ''Partial''"
| "mask_debug Inner = str ''Inner''"
| "mask_debug Outer = str ''Outer''"
| "mask_debug Range = str ''Range''"
| "mask_debug Hash = str ''Hash''"
| "mask_debug Pseudonym = str ''Pseudonym''"
| "mask_debug DateYear = str ''DateYear''"
| "mask_debug DateMonth = str ''DateMonth''"
| "mask_debug NumericBucket = str ''NumericBucket''"
| "mask_debug Scrub = str ''Scrub''"
| "mask_debug IpPrefix = str ''IpPrefix''"
| "mask_debug Json = str ''Json''"

definition use_null_otherwise :: rstring where
  "use_null_otherwise = str '' Use mask = '' @ [34] @ str ''null'' @ [34]"

definition unsupported_hint :: "mask_spec \<Rightarrow> rstring" where
  "unsupported_hint spec =
     (case kind spec of
        NumericBucket \<Rightarrow>
          str ''numeric-bucket handles int2/int4/int8/float4/float8, and numeric only in text format.'' @
          use_null_otherwise @ str '' otherwise.''
      | DateYear \<Rightarrow>
          str ''date-year/date-month handle date, timestamp and timestamptz.'' @
          use_null_otherwise @ str '' otherwise.''
      | DateMonth \<Rightarrow>
          str ''date-year/date-month handle date, timestamp and timestamptz.'' @
          use_null_otherwise @ str '' otherwise.''
      | IpPrefix \<Rightarrow>
          str ''ip-prefix handles text columns, and inet/cidr only in text format.'' @
          use_null_otherwise @ str '' otherwise.''
      | Pseudonym \<Rightarrow>
          str ''pseudonym handles text-family types and uuid.'' @ use_null_otherwise @ str '' otherwise.''
      | Json \<Rightarrow>
          str ''json handles PostgreSQL json and jsonb columns.'' @ use_null_otherwise @ str '' otherwise.''
      | _ \<Rightarrow>
          str ''This mask rewrites values as text.'' @ use_null_otherwise @ str '' for non-text types.'')"

section \<open>The decision\<close>

record field_analysis =
  fa_safety :: "safety list"
  fa_lineage :: "verdict list"
  fa_expression :: "expression_policy list"
  trust_provenance :: bool

definition expression_policy_for :: "field_analysis \<Rightarrow> nat \<Rightarrow> expression_policy" where
  "expression_policy_for a i =
     (if get (fa_safety a) i \<notin> {Some Summary, Some JsonExtractField} then NotApplicable
      else or_opaque (get (fa_expression a) i))"

definition plan_opaque_field ::
  "snapshot \<Rightarrow> field_description \<Rightarrow> verdict option \<Rightarrow> opaque \<Rightarrow> rejection + mask_spec" where
  "plan_opaque_field s f v mode =
     (if mode = OpaqueMask then Inr (spec_new MNull)
      else (case v of
              Some (Blocked source) \<Rightarrow> Inl
                \<lparr>rj_message = str ''pgmask: output column '' @ [34] @ fd_name f @ [34] @
                   str '' derives from '' @ source @ str '', which is masked'',
                 hint = Some (str ''An expression over a masked column cannot be masked after the fact. Select a released column, a supported summary, or a literal JSON extract whose pointer policy can be applied to the result.''),
                 rj_cause = classify_opaque (fd_name f) s\<rparr>
            | _ \<Rightarrow> Inl
                \<lparr>rj_message = str ''pgmask: output column '' @ [34] @ fd_name f @ [34] @
                   str '' has no column provenance, so it cannot be classified'',
                 hint = Some (str ''Select the underlying column directly. Expressions, set operations (UNION/INTERSECT/EXCEPT), recursive CTEs and SETOF-returning functions erase provenance. Rescued expressions need one syntax-verified, catalog-attributed source.''),
                 rj_cause = classify_opaque (fd_name f) s\<rparr>))"

definition rescue :: "policy \<Rightarrow> policy" where
  "rescue p = p\<lparr>pol_metrics := record_rescued (pol_metrics p)\<rparr>"

definition nudge :: "policy \<Rightarrow> policy" where
  "nudge p = p\<lparr>pol_catalog := note_unknown_relation (pol_catalog p)\<rparr>"

text \<open>
  The specification of one field: the mask, the projection of a JSON document extract, and whether
  the type-aware fallback chose it.
\<close>

type_synonym choice = "mask_spec \<times> json_projection option \<times> bool"

definition choose_opaque ::
  "live_policy \<Rightarrow> snapshot \<Rightarrow> field_analysis \<Rightarrow> nat \<Rightarrow> field_description \<Rightarrow> policy \<Rightarrow> policy \<times> (rejection + choice)" where
  "choose_opaque live s a i f p =
     (if get (fa_safety a) i = Some Releasable then (rescue p, Inr (spec_new MNone, None, False))
      else if get (fa_lineage a) i = Some Release then (rescue p, Inr (spec_new MNone, None, False))
      else (case expression_policy_for a i of
              Released \<Rightarrow> (rescue p, Inr (spec_new MNone, None, False))
            | Masked spec pr \<Rightarrow> (p, Inr (spec, pr, False))
            | _ \<Rightarrow> (p, and_then (plan_opaque_field s f (get (fa_lineage a) i) (lp_opaque live))
                         (\<lambda>spec. Inr (spec, None, False)))))"

definition choose_column ::
  "live_policy \<Rightarrow> snapshot \<Rightarrow> rstring list \<Rightarrow> field_description \<Rightarrow> policy \<Rightarrow> policy \<times> choice" where
  "choose_column live s roles f p =
     (case lookup s (table_oid f) (column_id f) of
        Some c \<Rightarrow> (p, for_roles c roles, None, False)
      | None \<Rightarrow>
          (nudge p,
           case (lp_unclassified live, lp_unclassified_mask live) of
             (UnclassifiedMasked, TypeAware) \<Rightarrow>
               (for_unclassified (type_oid f) (format f) (type_mod f)
                  (name_of s (table_oid f) (column_id f)), None, True)
           | (UnclassifiedMasked, StrictNull) \<Rightarrow> (spec_new MNull, None, False)
           | (UnclassifiedAllow, _) \<Rightarrow> (spec_new MNone, None, False)))"

definition choose_spec ::
  "live_policy \<Rightarrow> snapshot \<Rightarrow> rstring list \<Rightarrow> field_analysis \<Rightarrow> nat \<Rightarrow> field_description \<Rightarrow> policy \<Rightarrow>
     policy \<times> (rejection + choice)" where
  "choose_spec live s roles a i f p =
     (if \<not> has_provenance f \<or> \<not> trust_provenance a then choose_opaque live s a i f p
      else (case choose_column live s roles f p of (p', ch) \<Rightarrow> (p', Inr ch)))"

definition display_name :: "snapshot \<Rightarrow> field_description \<Rightarrow> rstring" where
  "display_name s f = (case name_of s (table_oid f) (column_id f) of Some n \<Rightarrow> n | None \<Rightarrow> fd_name f)"

definition finish_field ::
  "snapshot \<Rightarrow> masker \<Rightarrow> field_description \<Rightarrow> choice \<Rightarrow> rejection + field_plan" where
  "finish_field s mk f ch =
     (case ch of (spec, projection, type_aware) \<Rightarrow>
        (let not_null = (is_not_null s (table_oid f) (column_id f) = Some True)
         in if type_aware \<and> not_null \<and> kind spec = MNull
            then Inl \<lparr>rj_message = str ''pgmask: automatic mask for '' @ display_name s f @
                        str '' would return NULL for a NOT NULL column'',
                      hint = Some (str ''Classify the column with a compatible non-NULL mask, make the source column nullable, or explicitly choose unclassified_mask = '' @ [34] @ str ''null'' @ [34] @ str ''.''),
                      rj_cause = NullabilityMismatch\<rparr>
            else if \<not> supports spec (type_oid f) (format f)
            then Inl \<lparr>rj_message = str ''pgmask: mask '' @ mask_debug (kind spec) @ str '' on '' @
                        display_name s f @ str '' cannot be applied to type OID '' @
                        int_to_string (uint (type_oid f)) @ str '' in '' @
                        (if format f = 1 then str ''binary'' else str ''text'') @ str '' format'',
                      hint = Some (unsupported_hint spec), rj_cause = MaskTypeMismatch\<rparr>
            else Inr \<lparr>fp_spec = spec, json_projection = projection, fp_type_oid = type_oid f,
                      fp_format = format f, lenient = type_aware \<and> \<not> not_null,
                      primed = prime mk spec\<rparr>))"

fun plan_fields ::
  "live_policy \<Rightarrow> snapshot \<Rightarrow> rstring list \<Rightarrow> field_analysis \<Rightarrow> nat \<Rightarrow> field_description list \<Rightarrow> policy \<Rightarrow>
     policy \<times> (rejection + plan)" where
  "plan_fields live s roles a i [] p = (p, Inr [])"
| "plan_fields live s roles a i (f # fs) p =
     (case choose_spec live s roles a i f p of
        (p1, Inl rj) \<Rightarrow> (p1, Inl rj)
      | (p1, Inr ch) \<Rightarrow>
          (case finish_field s (pol_masker p) f ch of
             Inl rj \<Rightarrow> (p1, Inl rj)
           | Inr fp \<Rightarrow>
               (case plan_fields live s roles a (Suc i) fs p1 of
                  (p2, Inl rj) \<Rightarrow> (p2, Inl rj)
                | (p2, Inr rest) \<Rightarrow> (p2, Inr (fp # rest)))))"

definition plan_for_with ::
  "live_policy \<Rightarrow> snapshot \<Rightarrow> field_description list \<Rightarrow> rstring list \<Rightarrow> field_analysis \<Rightarrow> policy \<Rightarrow>
     policy \<times> (rejection + plan)" where
  "plan_for_with live s fds roles a p = plan_fields live s roles a 0 fds p"

end
