(* ===== verification/Session.thy ===== *)
theory Session
  imports Planning
begin

text \<open>
  The per-connection state machine of \<open>session.rs\<close>: the session's state, the two handlers that turn
  one message from the client or the backend into bytes for the other side, the plan a
  \<open>RowDescription\<close> arms, and the masking of a \<open>DataRow\<close>. The statement analyser's answers are an
  \<open>inspection\<close>, the third-party functions of the masks a \<open>mask_env\<close>, and the rate limiter's clock a
  function; the policy is shared with other sessions and may be replaced between two messages.
\<close>

section \<open>Vetted output\<close>

datatype vetted = Control bytes | MaskedRow bytes | UnmaskedRow bytes | Synthetic bytes

fun vetted_bytes :: "vetted \<Rightarrow> bytes" where
  "vetted_bytes (Control b) = b"
| "vetted_bytes (MaskedRow b) = b"
| "vetted_bytes (UnmaskedRow b) = b"
| "vetted_bytes (Synthetic b) = b"

text \<open>The client buffer keeps its frames apart; the socket sees them concatenated.\<close>

record batch =
  to_client :: "vetted list"
  to_backend :: bytes
  close :: bool

definition batch_default :: batch where
  "batch_default = \<lparr>to_client = [], to_backend = [], close = False\<rparr>"

definition client_bytes :: "batch \<Rightarrow> bytes" where
  "client_bytes out = concat (map vetted_bytes (to_client out))"

definition put_client :: "vetted \<Rightarrow> batch \<Rightarrow> batch" where
  "put_client v out = out\<lparr>to_client := to_client out @ [v]\<rparr>"

definition put_backend :: "bytes \<Rightarrow> batch \<Rightarrow> batch" where
  "put_backend b out = out\<lparr>to_backend := to_backend out @ b\<rparr>"

definition closing :: "batch \<Rightarrow> batch" where
  "closing out = out\<lparr>close := True\<rparr>"

section \<open>State\<close>

record session =
  sess_policy :: policy
  plans :: plan_state
  suppressing :: "u64 option"
  masked_field_count :: u64
  rejected_result_sets :: u64
  sess_client_tls :: bool
  sess_roles :: "rstring list"
  sess_principal :: rstring
  authenticated :: bool
  txn_status :: u8
  notices_this_exchange :: u32

definition session_new :: "policy \<Rightarrow> session" where
  "session_new p =
     \<lparr>sess_policy = p, plans = plan_state_default, suppressing = None, masked_field_count = 0,
      rejected_result_sets = 0, sess_client_tls = False, sess_roles = [], sess_principal = [],
      authenticated = False, txn_status = 0x49, notices_this_exchange = 0\<rparr>"

definition with_principal :: "rstring \<Rightarrow> session \<Rightarrow> session" where
  "with_principal user s = s\<lparr>sess_principal := user\<rparr>"

definition with_client_tls :: "bool \<Rightarrow> session \<Rightarrow> session" where
  "with_client_tls b s = s\<lparr>sess_client_tls := b\<rparr>"

record inspection =
  is_write_statement :: bool
  is_sql_prepare_or_cursor :: bool
  calls_untrusted_function :: bool
  touches_leaky_system_catalog :: bool
  masked_exceeds_outer_projection :: "rstring list \<Rightarrow> bool"
  hostile_uses_whole_row :: "(rstring, rstring list) hmap \<Rightarrow> bool"
  hostile_join_or_rename_masked :: "(rstring, rstring list) hmap \<Rightarrow> rstring list \<Rightarrow> bool"
  is_parseable :: bool
  in_identifiers :: "rstring list option"
  backstop_identifiers :: "rstring list option"
  reads_only_server_metadata :: bool
  every_relation_is_unambiguous :: bool
  provenance_is_trustworthy :: bool
  group_by_columns :: "rstring list option"
  output_safety :: "nat \<Rightarrow> bool \<Rightarrow> bool \<Rightarrow> safety list"
  in_summary_resolution :: "nat \<Rightarrow> summary_resolution option"
  in_json_extract_resolution :: "nat \<Rightarrow> json_extract_resolution option"
  in_lineage :: "nat \<Rightarrow> snapshot \<Rightarrow> rstring list \<Rightarrow> verdict list"

record session_env =
  se_mask :: mask_env
  inspect :: "rstring \<Rightarrow> inspection"
  check_key :: "principal_rate_limit \<Rightarrow> rstring \<Rightarrow> bool"

type_synonym sb = "session \<times> batch"

section \<open>Refusals\<close>

definition record_in :: "cause \<Rightarrow> session \<Rightarrow> session" where
  "record_in c s =
     s\<lparr>sess_policy := (sess_policy s)\<lparr>pol_metrics := record_cause c (pol_metrics (sess_policy s))\<rparr>\<rparr>"

definition error_message :: "bytes \<Rightarrow> rstring \<Rightarrow> rstring option \<Rightarrow> message" where
  "error_message state text h = build_error state (as_bytes text) (map_option as_bytes h)"

definition put_synthetic :: "message \<Rightarrow> sb \<Rightarrow> sb" where
  "put_synthetic m sb = (case sb of (s, out) \<Rightarrow> (s, put_client (Synthetic (encode m)) out))"

definition reject :: "rejection \<Rightarrow> sb \<Rightarrow> sb" where
  "reject rj sb =
     (case sb of (s, out) \<Rightarrow>
        put_synthetic (error_message SQLSTATE_INSUFFICIENT_PRIVILEGE (rj_message rj) (hint rj))
          (record_in (rj_cause rj)
             (s\<lparr>suppressing := Some (rejection_epoch (plans s)), plans := clear_active (plans s),
                rejected_result_sets := saturating_succ (rejected_result_sets s)\<rparr>), out))"

definition synthetic_ready :: "sb \<Rightarrow> sb" where
  "synthetic_ready sb =
     (case sb of (s, out) \<Rightarrow> put_synthetic (message_new B_READY_FOR_QUERY [txn_status s]) sb)"

definition refuse :: "cause \<Rightarrow> bytes \<Rightarrow> rstring \<Rightarrow> rstring \<Rightarrow> bool \<Rightarrow> sb \<Rightarrow> sb" where
  "refuse c state text h with_ready sb =
     (case sb of (s, out) \<Rightarrow>
        (let sb1 = put_synthetic (error_message state text (Some h)) (record_in c s, out)
         in if with_ready then synthetic_ready sb1 else sb1))"

definition refuse_rate_limited :: "bool \<Rightarrow> sb \<Rightarrow> sb" where
  "refuse_rate_limited = refuse RateLimited SQLSTATE_PROGRAM_LIMIT_EXCEEDED
     (str ''pgmask: statement rate limit exceeded for this user'')
     (str ''Wait and retry, or raise rate_limit_per_minute / rate_limit_burst.'')"

definition refuse_sql_prepare_or_cursor :: "bool \<Rightarrow> sb \<Rightarrow> sb" where
  "refuse_sql_prepare_or_cursor = refuse SqlPrepareCursor SQLSTATE_INSUFFICIENT_PRIVILEGE
     (str ''pgmask: SQL PREPARE, EXECUTE, DEALLOCATE, DECLARE, FETCH, and CLOSE are not permitted'')
     (str ''Use ordinary SELECT, or the extended protocol Parse/Bind/Execute. SELECT ... FETCH FIRST n ROWS is a limit clause and is allowed.'')"

definition refuse_write :: "bool \<Rightarrow> sb \<Rightarrow> sb" where
  "refuse_write = refuse WriteRefused SQLSTATE_INSUFFICIENT_PRIVILEGE
     (str ''pgmask: read-only '' @ [8212] @ str '' writes, DDL, DO, and CALL are not permitted'')
     (str ''pgmask is a masking proxy for SELECT. Mutating SQL and anonymous blocks are refused on every posture.'')"

definition refuse_untrusted_function :: "bool \<Rightarrow> sb \<Rightarrow> sb" where
  "refuse_untrusted_function = refuse UntrustedFunction SQLSTATE_INSUFFICIENT_PRIVILEGE
     (str ''pgmask: only trusted pg_catalog functions may be called'')
     (str ''User-defined and schema-qualified functions can run before their result is masked (timing and side effects). Call only built-ins, or set system_catalogs = '' @ [34] @ str ''allow'' @ [34] @ str '' for metadata-only catalog SQL.'')"

definition refuse_leaky_catalog :: "bool \<Rightarrow> sb \<Rightarrow> sb" where
  "refuse_leaky_catalog = refuse LeakyCatalog SQLSTATE_INSUFFICIENT_PRIVILEGE
     (str ''pgmask: refusing catalog that can carry user data'')
     (str ''pg_stats, pg_statistic, pg_stat_activity, pg_authid and similar hold sampled values, other sessions'' @ [39] @ str '' SQL, or secrets. They are refused on every posture.'')"

definition hostile_text :: rstring where
  "hostile_text = str ''pgmask: posture = '' @ [34] @ str ''hostile'' @ [34] @
     str '' refuses use of a masked column outside a bare SELECT list''"

definition hostile_hint :: rstring where
  "hostile_hint = str ''Masked columns may be projected (and will be masked) and may appear in ORDER BY, but not in WHERE, HAVING, expressions, aggregates, or whole-row casts (t::text). Set posture = '' @ [34] @
     str ''default'' @ [34] @ str '' for the looser analyst threat model.''"

definition refuse_hostile_masked_use :: "bool \<Rightarrow> sb \<Rightarrow> sb" where
  "refuse_hostile_masked_use =
     refuse HostileMaskedUse SQLSTATE_INSUFFICIENT_PRIVILEGE hostile_text hostile_hint"

section \<open>Bookkeeping\<close>

definition note_backend_auth :: "message \<Rightarrow> session \<Rightarrow> session" where
  "note_backend_auth m s =
     (if authenticated s \<or> tag m \<noteq> B_AUTHENTICATION then s
      else if length (body m) < 4 then s
      else if (be_decode (take 4 (body m)) :: i32) \<noteq> 0 then s
      else s\<lparr>authenticated := True, sess_roles := roles_of (sess_policy s) (sess_principal s)\<rparr>)"

definition note_txn_status :: "message \<Rightarrow> session \<Rightarrow> session" where
  "note_txn_status m s =
     (if tag m \<noteq> B_READY_FOR_QUERY then s
      else (case body m of
              status # _ \<Rightarrow> s\<lparr>txn_status := status, notices_this_exchange := 0\<rparr>
            | [] \<Rightarrow> s\<lparr>notices_this_exchange := 0\<rparr>))"

definition set_rate_limit :: "principal_rate_limit \<Rightarrow> session \<Rightarrow> session" where
  "set_rate_limit lim s =
     s\<lparr>sess_policy := (sess_policy s)\<lparr>pol_live := (pol_live (sess_policy s))\<lparr>lp_rate_limit := Some lim\<rparr>\<rparr>\<rparr>"

definition allow_statement :: "session_env \<Rightarrow> session \<Rightarrow> bool \<times> session" where
  "allow_statement e s =
     (case lp_rate_limit (pol_live (sess_policy s)) of
        None \<Rightarrow> (True, s)
      | Some lim \<Rightarrow>
          if \<not> authenticated s \<or> sess_principal s = [] then (True, s)
          else (case try_acquire (check_key e) (sess_principal s) lim of
                  (ok, lim') \<Rightarrow> (ok, set_rate_limit lim' s)))"

definition sync_policy :: "session \<Rightarrow> session" where
  "sync_policy s =
     (case invalidate_if_stale (policy_generation (sess_policy s)) (plans s) of
        (stale, ps) \<Rightarrow>
          (let s1 = s\<lparr>plans := ps\<rparr>
           in if stale \<and> authenticated s1
              then s1\<lparr>sess_roles := roles_of (sess_policy s1) (sess_principal s1)\<rparr> else s1))"

definition handle_notice :: "message \<Rightarrow> sb \<Rightarrow> sb" where
  "handle_notice m sb =
     (case sb of (s0, out) \<Rightarrow>
        (let s = s0\<lparr>notices_this_exchange := saturating_succ (notices_this_exchange s0)\<rparr>;
             forward = (case scrub_notice (body m) of
                          Some scrubbed \<Rightarrow> (s, put_client (Synthetic (encode (message_new (tag m) scrubbed))) out)
                        | None \<Rightarrow> (s, put_client (Control (encode m)) out))
         in case lp_max_notices (pol_live (sess_policy s)) of
              None \<Rightarrow> forward
            | Some mx \<Rightarrow>
                if notices_this_exchange s > mx
                then (if notices_this_exchange s = saturating_succ mx then (record_in NoticeFlood s, out)
                      else (s, out))
                else forward))"

section \<open>Frontend messages\<close>

definition hostile_use :: "inspection \<Rightarrow> snapshot \<Rightarrow> rstring list \<Rightarrow> bool" where
  "hostile_use ins snap rs =
     (let masked = masked_bare_names_for_roles snap rs; rels = relation_columns snap
      in masked_exceeds_outer_projection ins masked \<or> hostile_uses_whole_row ins rels \<or>
         hostile_join_or_rename_masked ins rels masked)"

text \<open>The Boolean is whether the statement was refused.\<close>

definition refuse_frontend_sql :: "session_env \<Rightarrow> rstring \<Rightarrow> bool \<Rightarrow> sb \<Rightarrow> bool \<times> sb" where
  "refuse_frontend_sql e sql with_ready sb =
     (let ins = inspect e sql; s = fst sb
      in if is_write_statement ins then (True, refuse_write with_ready sb)
         else if is_sql_prepare_or_cursor ins then (True, refuse_sql_prepare_or_cursor with_ready sb)
         else if calls_untrusted_function ins then (True, refuse_untrusted_function with_ready sb)
         else if touches_leaky_system_catalog ins then (True, refuse_leaky_catalog with_ready sb)
         else if lp_posture (pol_live (sess_policy s)) = Hostile \<and>
                 hostile_use ins (cat_snapshot (pol_catalog (sess_policy s))) (sess_roles s)
         then (True, refuse_hostile_masked_use with_ready sb)
         else (False, sb))"

definition on_plans :: "(plan_state \<Rightarrow> plan_state) \<Rightarrow> sb \<Rightarrow> sb" where
  "on_plans f sb = (case sb of (s, out) \<Rightarrow> (s\<lparr>plans := f (plans s)\<rparr>, out))"

definition forward_backend :: "message \<Rightarrow> sb \<Rightarrow> sb" where
  "forward_backend m sb = (case sb of (s, out) \<Rightarrow> (s, put_backend (encode m) out))"

definition charge :: "session_env \<Rightarrow> bool \<Rightarrow> (sb \<Rightarrow> sb) \<Rightarrow> sb \<Rightarrow> sb" where
  "charge e with_ready k sb =
     (case sb of (s, out) \<Rightarrow>
        (case allow_statement e s of
           (ok, s1) \<Rightarrow> if ok then k (s1, out) else refuse_rate_limited with_ready (s1, out)))"

definition gate :: "session_env \<Rightarrow> rstring option \<Rightarrow> bool \<Rightarrow> (sb \<Rightarrow> sb) \<Rightarrow> sb \<Rightarrow> sb" where
  "gate e sql with_ready k sb =
     (case sql of
        None \<Rightarrow> k sb
      | Some q \<Rightarrow> (case refuse_frontend_sql e q with_ready sb of (refused, sb1) \<Rightarrow> if refused then sb1 else k sb))"

definition handle_frontend :: "session_env \<Rightarrow> message \<Rightarrow> sb \<Rightarrow> sb" where
  "handle_frontend e m sb0 =
     (let sb = (sync_policy (fst sb0), snd sb0)
      in if tag m = F_FUNCTION_CALL then
           (let (s, out) = put_synthetic (error_message SQLSTATE_INSUFFICIENT_PRIVILEGE
                (str ''pgmask: the legacy FunctionCall protocol message is not permitted'')
                (Some (str ''It returns data without a RowDescription, so it cannot be masked.'')))
                (record_in FunctionCallMessage (fst sb), snd sb)
            in (s, closing out))
         else if tag m = F_QUERY then
           (let sql = parse_simple_query (body m)
            in gate e sql True (charge e True (\<lambda>sb. forward_backend m (on_plans (begin_simple_query sql) sb))) sb)
         else if tag m = F_PARSE then
           (case parse_parse (body m) of
              Some (name, sql) \<Rightarrow>
                gate e (Some sql) False (\<lambda>sb. forward_backend m (on_plans (parse name sql) sb)) sb
            | None \<Rightarrow> forward_backend m sb)
         else if tag m = F_BIND then
           (case parse_bind (body m) of
              Some (portal, statement) \<Rightarrow>
                forward_backend m (on_plans (plan_bind portal statement (parse_bind_result_formats (body m))) sb)
            | None \<Rightarrow> forward_backend m sb)
         else if tag m = F_CLOSE then
           (case parse_close (body m) of
              Some target \<Rightarrow> forward_backend m (on_plans (plan_close target) sb)
            | None \<Rightarrow> forward_backend m sb)
         else if tag m = F_DESCRIBE then
           (case parse_describe (body m) of
              Some target \<Rightarrow> forward_backend m (on_plans (describe target) sb)
            | None \<Rightarrow> forward_backend m sb)
         else if tag m = F_EXECUTE then
           (case parse_execute (body m) of
              Some portal \<Rightarrow>
                gate e (sql_for_portal (plans (fst sb)) portal) False
                  (charge e False (\<lambda>sb. forward_backend m (on_plans (execute portal) sb))) sb
            | None \<Rightarrow> charge e False (forward_backend m) sb)
         else if tag m = F_SYNC then forward_backend m (on_plans sync sb)
         else if tag m = F_TERMINATE then
           (let (s, out) = forward_backend m sb in (s, closing out))
         else forward_backend m sb)"

section \<open>RowDescription\<close>

fun proto_error_text :: "proto_error \<Rightarrow> rstring" where
  "proto_error_text (InvalidMessageLength n) = str ''invalid message length '' @ int_to_string (sint n)"
| "proto_error_text (PeerClosedMidMessage n) =
     str ''peer closed mid-message ('' @ int_to_string (int n) @ str '' bytes buffered)''"
| "proto_error_text (ImplausibleStartupLength n) =
     str ''implausible startup packet length '' @ int_to_string (sint n)"
| "proto_error_text PeerClosedMidStartup = str ''peer closed mid-startup-packet''"
| "proto_error_text TruncatedRowDescription = str ''truncated RowDescription''"
| "proto_error_text NegativeFieldCount = str ''negative RowDescription field count''"
| "proto_error_text BadFieldName = str ''bad field name''"
| "proto_error_text TruncatedField = str ''truncated RowDescription field''"
| "proto_error_text TrailingBytesInRowDescription = str ''trailing bytes in RowDescription''"
| "proto_error_text TruncatedDataRow = str ''truncated DataRow''"
| "proto_error_text NegativeDataRowCount = str ''negative DataRow field count''"
| "proto_error_text TruncatedFieldLength = str ''truncated DataRow field length''"
| "proto_error_text InvalidNegativeFieldLength = str ''invalid negative DataRow field length''"
| "proto_error_text TruncatedFieldBody = str ''truncated DataRow field body''"
| "proto_error_text TrailingBytesInDataRow = str ''trailing bytes in DataRow''"

definition malformed :: "rstring \<Rightarrow> rejection" where
  "malformed text = \<lparr>rj_message = text, hint = None, rj_cause = Malformed\<rparr>"

definition is_system_catalog :: "live_policy \<Rightarrow> snapshot \<Rightarrow> inspection option \<Rightarrow> field_description list \<Rightarrow> bool" where
  "is_system_catalog live snap ins fds =
     (case ins of
        None \<Rightarrow> False
      | Some i \<Rightarrow>
          (let provenanced = filter has_provenance fds
           in lp_system_catalogs live = SystemAllow \<and> reads_only_server_metadata i \<and>
              \<not> mentions_user_relation snap (in_identifiers i) \<and>
              list_all (\<lambda>f. is_system_relation snap (table_oid f)) provenanced \<and>
              (provenanced \<noteq> [] \<or> every_relation_is_unambiguous i)))"

definition singleton_groups :: "snapshot \<Rightarrow> inspection option \<Rightarrow> bool" where
  "singleton_groups snap ins =
     (case ins of
        None \<Rightarrow> False
      | Some i \<Rightarrow>
          (case group_by_columns i of
             Some grouped \<Rightarrow> grouped \<noteq> [] \<and> grouping_covers_a_unique_key snap grouped
           | None \<Rightarrow>
               (case in_identifiers i of
                  Some named \<Rightarrow> grouping_covers_a_unique_key snap named
                | None \<Rightarrow> True)))"

text \<open>Everything the decision for one description is made from.\<close>

definition analyse_fields ::
  "live_policy \<Rightarrow> snapshot \<Rightarrow> rstring list \<Rightarrow> inspection option \<Rightarrow> field_description list \<Rightarrow> field_analysis" where
  "analyse_fields live snap rs ins fds =
     (let n = length fds;
          allow_summaries = (lp_summaries live = SummariesAllow \<and> \<not> singleton_groups snap ins);
          fine_date_trunc = (case ins of None \<Rightarrow> False
             | Some i \<Rightarrow> \<not> references_masked_column snap (backstop_identifiers i) rs);
          safe = (case ins of Some i \<Rightarrow> output_safety i n allow_summaries fine_date_trunc
                  | None \<Rightarrow> replicate n Unknown);
          trusted = (case ins of None \<Rightarrow> False
             | Some i \<Rightarrow> provenance_is_trustworthy i \<and>
                 \<not> touches_opaque_view snap (is_parseable i) (in_identifiers i));
          needs_lineage = (lp_lineage live = LineageAllow \<and>
             list_ex (\<lambda>(f, sf). (\<not> has_provenance f \<or> \<not> trusted) \<and> sf \<noteq> Releasable) (zip fds safe));
          verdicts = (case ins of Some i \<Rightarrow> if needs_lineage then in_lineage i n snap rs else [] | None \<Rightarrow> []);
          policies = resolve_expression_policies
             (case ins of None \<Rightarrow> None | Some i \<Rightarrow> in_summary_resolution i n)
             (case ins of None \<Rightarrow> None | Some i \<Rightarrow> in_json_extract_resolution i n) n safe snap rs
      in \<lparr>fa_safety = safe, fa_lineage = verdicts, fa_expression = policies, trust_provenance = trusted\<rparr>)"

definition passthrough_plan :: "field_description list \<Rightarrow> plan" where
  "passthrough_plan fds =
     map (\<lambda>f. \<lparr>fp_spec = spec_new MNone, json_projection = None, fp_type_oid = type_oid f,
               fp_format = format f, lenient = False, primed = None\<rparr>) fds"

definition masking_fields :: "plan \<Rightarrow> nat" where
  "masking_fields pl = length (filter (\<lambda>fp. \<not> is_passthrough (fp_spec fp)) pl)"

definition note_masked_result :: "plan \<Rightarrow> policy \<Rightarrow> policy" where
  "note_masked_result pl p =
     (if masking_fields pl > 0
      then p\<lparr>pol_metrics := record_masked_result_set (of_nat (masking_fields pl)) (pol_metrics p)\<rparr> else p)"

text \<open>\<open>plan_result\<close> is the decision; \<open>arm_plan\<close> files it, or refuses what answered nothing.\<close>

definition plan_result ::
  "live_policy \<Rightarrow> snapshot \<Rightarrow> rstring list \<Rightarrow> inspection option \<Rightarrow> field_description list \<Rightarrow> policy \<Rightarrow>
     policy \<times> (rejection + plan)" where
  "plan_result live snap rs ins fds p =
     (if is_system_catalog live snap ins fds then (p, Inr (passthrough_plan fds))
      else plan_for_with live snap fds rs (analyse_fields live snap rs ins fds) p)"

definition arm_plan :: "message \<Rightarrow> plan \<Rightarrow> sb \<Rightarrow> sb" where
  "arm_plan m pl sb =
     (case sb of (s0, out) \<Rightarrow>
        (let s = s0\<lparr>sess_policy := note_masked_result pl (sess_policy s0)\<rparr>
         in case finish_description pl (plans s) of
              Inl _ \<Rightarrow> reject
                \<lparr>rj_message = str ''pgmask: RowDescription answered no forwarded Describe or Query'',
                 hint = Some (str ''The backend described a result set the proxy never saw requested, so its shape cannot be trusted.''),
                 rj_cause = Malformed\<rparr> (s, out)
            | Inr ps \<Rightarrow> (s\<lparr>plans := ps\<rparr>, put_client (Control (encode m)) out)))"

definition handle_row_description :: "session_env \<Rightarrow> message \<Rightarrow> sb \<Rightarrow> sb" where
  "handle_row_description e m sb0 =
     (let s = sync_policy (fst sb0); out = snd sb0; live = pol_live (sess_policy s)
      in case parse_row_description (body m) of
           Inl err \<Rightarrow>
             reject (malformed (str ''pgmask: could not parse RowDescription: '' @ proto_error_text err)) (s, out)
         | Inr fds \<Rightarrow>
             (let snap = cat_snapshot (pol_catalog (sess_policy s));
                  ins = map_option (inspect e) (described_sql (plans s));
                  hostile = (case ins of Some i \<Rightarrow> i | None \<Rightarrow> inspect e [])
              in if lp_posture live = Hostile \<and> hostile_use hostile snap (sess_roles s)
                 then reject \<lparr>rj_message = hostile_text, hint = Some hostile_hint, rj_cause = HostileMaskedUse\<rparr>
                        (s\<lparr>plans := discard_description (plans s)\<rparr>, out)
                 else (case plan_result live snap (sess_roles s) ins fds (sess_policy s) of
                         (p, Inl rj) \<Rightarrow>
                           reject rj (s\<lparr>sess_policy := p, plans := discard_description (plans s)\<rparr>, out)
                       | (p, Inr pl) \<Rightarrow> arm_plan m pl (s\<lparr>sess_policy := p\<rparr>, out))))"

section \<open>DataRow\<close>

fun mask_error_text :: "mask_error \<Rightarrow> rstring" where
  "mask_error_text (Unsupported oid fmt k) =
     str ''mask '' @ mask_debug k @ str '' cannot be applied to type OID '' @ int_to_string (uint oid) @
     str '' in '' @ (if fmt = FORMAT_BINARY then str ''binary'' else str ''text'') @ str '' format''"
| "mask_error_text (Undecodable oid fmt) =
     str ''value of type OID '' @ int_to_string (uint oid) @ str '' did not decode in '' @
     (if fmt = FORMAT_BINARY then str ''binary'' else str ''text'') @ str '' format''"
| "mask_error_text (JsonLimitExceeded l n) =
     str ''JSON exceeds configured '' @ (if l = LimitBytes then str ''byte'' else str ''depth'') @
     str '' limit '' @ int_to_string (int n)"

lemma next_field_shrinks: "next_field r = Inr (Some v, r') \<Longrightarrow> length (dr_buf r') < length (dr_buf r)"
  by (auto simp: next_field_def Let_def split: if_splits)

text \<open>Walk an unmasked row to its end, for the framing checks alone.\<close>

function drain :: "data_row_reader \<Rightarrow> proto_error + unit" where
  "drain r =
     (case next_field r of
        Inl err \<Rightarrow> Inl err
      | Inr (None, _) \<Rightarrow> Inr ()
      | Inr (Some _, r') \<Rightarrow> drain r')"
  by pat_completeness auto

termination
  by (relation "measure (\<lambda>r. length (dr_buf r))") (auto dest: next_field_shrinks)

declare drain.simps [simp del]

definition mask_field ::
  "session_env \<Rightarrow> masker \<Rightarrow> field_plan \<Rightarrow> bytes option \<Rightarrow> u64 \<Rightarrow> (rejection + bytes option) \<times> u64" where
  "mask_field e mk fp v n =
     (if is_passthrough (fp_spec fp) then (Inr v, n)
      else (case apply_planned (se_mask e) mk (fp_spec fp) (primed fp) (json_projection fp)
                   (fp_type_oid fp) (fp_format fp) v of
              Inr masked \<Rightarrow> (Inr masked, saturating_succ n)
            | Inl err \<Rightarrow>
                if lenient fp then (Inr None, saturating_succ n)
                else (Inl \<lparr>rj_message = str ''pgmask: '' @ mask_error_text err, hint = None,
                          rj_cause = MaskTypeMismatch\<rparr>, n)))"

definition data_row_malformed :: "proto_error \<Rightarrow> rejection" where
  "data_row_malformed err = malformed (str ''pgmask: could not parse DataRow: '' @ proto_error_text err)"

definition put_masked :: "bytes option \<Rightarrow> bytes" where
  "put_masked v =
     (case v of
        None \<Rightarrow> be_encode 4 (- 1 :: i32)
      | Some b \<Rightarrow> be_encode 4 (i32_saturating_len (length b) 0) @ b)"

text \<open>The fused loop: read, mask, append; the count is the session's counter of masked values.\<close>

fun mask_row ::
  "session_env \<Rightarrow> masker \<Rightarrow> plan \<Rightarrow> data_row_reader \<Rightarrow> bytes \<Rightarrow> u64 \<Rightarrow> (rejection + bytes) \<times> u64" where
  "mask_row e mk [] r frame n =
     (case next_field r of
        Inl err \<Rightarrow> (Inl (data_row_malformed err), n)
      | Inr _ \<Rightarrow> (Inr frame, n))"
| "mask_row e mk (fp # fps) r frame n =
     (case next_field r of
        Inl err \<Rightarrow> (Inl (data_row_malformed err), n)
      | Inr (None, _) \<Rightarrow> (Inl (malformed (str ''pgmask: DataRow ended before its declared field count'')), n)
      | Inr (Some v, r') \<Rightarrow>
          (case mask_field e mk fp v n of
             (Inl rj, n') \<Rightarrow> (Inl rj, n')
           | (Inr masked, n') \<Rightarrow> mask_row e mk fps r' (frame @ put_masked masked) n'))"

definition patch_length :: "bytes \<Rightarrow> bytes" where
  "patch_length frame = take 1 frame @ be_encode 4 (i32_saturating_len (length frame - 1) 0) @ drop 5 frame"

definition row_header :: "plan \<Rightarrow> bytes" where
  "row_header pl = B_DATA_ROW # be_encode 4 (0 :: i32) @ be_encode 2 (of_nat (length pl) :: i16)"

definition handle_data_row :: "session_env \<Rightarrow> message \<Rightarrow> sb \<Rightarrow> sb" where
  "handle_data_row e m sb =
     (case sb of (s, out) \<Rightarrow>
        (case streaming_plan (plans s) of
           None \<Rightarrow> reject
             \<lparr>rj_message = str ''pgmask: received a data row with no described result set'',
              hint = Some (str ''The statement produced rows without a RowDescription, so no masking plan could be built.''),
              rj_cause = NoActivePlan\<rparr> sb
         | Some pl \<Rightarrow>
             (case data_row_reader_new (body m) of
                Inl err \<Rightarrow> reject (data_row_malformed err) sb
              | Inr r \<Rightarrow>
                  if field_count r \<noteq> length pl
                  then reject (malformed (str ''pgmask: row has '' @ int_to_string (int (field_count r)) @
                         str '' fields but the described result set has '' @ int_to_string (int (length pl)))) sb
                  else if list_all (\<lambda>fp. is_passthrough (fp_spec fp)) pl
                  then (case drain r of
                          Inl err \<Rightarrow> reject (data_row_malformed err) sb
                        | Inr _ \<Rightarrow> (s, put_client (UnmaskedRow (encode m)) out))
                  else (case mask_row e (pol_masker (sess_policy s)) pl r (row_header pl) (masked_field_count s) of
                          (Inl rj, n) \<Rightarrow> reject rj (s\<lparr>masked_field_count := n\<rparr>, out)
                        | (Inr frame, n) \<Rightarrow>
                            (s\<lparr>masked_field_count := n\<rparr>, put_client (MaskedRow (patch_length frame)) out)))))"

section \<open>Backend messages\<close>

definition put_control :: "message \<Rightarrow> sb \<Rightarrow> sb" where
  "put_control m sb = (case sb of (s, out) \<Rightarrow> (s, put_client (Control (encode m)) out))"

definition refuse_and_close :: "cause \<Rightarrow> bool \<Rightarrow> rstring \<Rightarrow> rstring option \<Rightarrow> sb \<Rightarrow> sb" where
  "refuse_and_close c counted text h sb =
     (case sb of (s, out) \<Rightarrow>
        (let s1 = (if counted then s\<lparr>rejected_result_sets := saturating_succ (rejected_result_sets s)\<rparr> else s);
             (s2, out2) = put_synthetic (error_message SQLSTATE_INSUFFICIENT_PRIVILEGE text h) (record_in c s1, out)
         in (s2, closing out2)))"

definition handle_authentication :: "message \<Rightarrow> sb \<Rightarrow> sb" where
  "handle_authentication m sb =
     (if \<not> sess_client_tls (fst sb)
      then (case strip_channel_binding (body m) of
              Some filtered \<Rightarrow>
                if sasl_mechanisms filtered = []
                then refuse_and_close ChannelBinding False
                       (str ''pgmask: the server offers only channel-binding SASL mechanisms'')
                       (Some (str ''Enable plain SCRAM-SHA-256 on the server.'')) sb
                else put_synthetic (message_new (tag m) filtered) sb
            | None \<Rightarrow> put_control m sb)
      else refuse_and_close ChannelBinding False
             (str ''pgmask: the server offers SCRAM channel binding, which cannot work through a proxy that terminates TLS'')
             (Some (str ''Set backend_tls = '' @ [34] @ str ''disable'' @ [34] @ str '' so Postgres advertises plain SCRAM-SHA-256, and place pgmask on a trusted segment next to the database. See protocol::sasl_mechanisms for why stripping the mechanism does not work.'')) sb)"

definition handle_described :: "rstring \<Rightarrow> (plan_state \<Rightarrow> unit + plan_state) \<Rightarrow> message \<Rightarrow> sb \<Rightarrow> sb" where
  "handle_described text finish m sb =
     (case sb of (s, out) \<Rightarrow>
        (case finish (plans s) of
           Inl _ \<Rightarrow> reject (malformed text) sb
         | Inr ps \<Rightarrow> put_control m (s\<lparr>plans := ps\<rparr>, out)))"

text \<open>The dispatch on the tag, for a session that is not suppressing.\<close>

definition dispatch_backend :: "session_env \<Rightarrow> message \<Rightarrow> sb \<Rightarrow> sb" where
  "dispatch_backend e m sb =
     (if tag m = B_AUTHENTICATION \<and> list_ex is_plus (sasl_mechanisms (body m)) then handle_authentication m sb
      else if tag m = B_ROW_DESCRIPTION then handle_row_description e m sb
      else if tag m = B_DATA_ROW then handle_data_row e m sb
      else if tag m = B_PARSE_COMPLETE then put_control m (on_plans finish_parse sb)
      else if tag m = B_BIND_COMPLETE then put_control m (on_plans finish_bind sb)
      else if tag m = B_COPY_OUT_RESPONSE \<or> tag m = B_COPY_BOTH_RESPONSE
      then refuse_and_close CopyStream True (str ''pgmask: COPY ... TO is not permitted'')
             (Some (str ''COPY streams rows with no RowDescription, so they cannot be masked. Use a SELECT.'')) sb
      else if tag m = B_PARAMETER_STATUS
      then (if parameter_status_is_safe (body m) then put_control m sb else sb)
      else if tag m = B_NOTIFICATION_RESPONSE then sb
      else if tag m = B_ERROR_RESPONSE
      then (let sb1 = on_plans discard_failed_epoch sb
            in case scrub_error (body m) of
                 Some scrubbed \<Rightarrow> put_synthetic (message_new (tag m) scrubbed) sb1
               | None \<Rightarrow> put_control m sb1)
      else if tag m = B_NOTICE_RESPONSE then handle_notice m sb
      else if tag m = B_NO_DATA
      then handle_described (str ''pgmask: NoData answered no pending Describe'') finish_no_data m sb
      else if tag m = B_COPY_DATA \<or> tag m = B_COPY_DONE
      then refuse_and_close CopyStream True (str ''pgmask: COPY data stream is not permitted'') None sb
      else if tag m = B_COMMAND_COMPLETE then put_control m (on_plans finish_result_set sb)
      else if tag m = B_PORTAL_SUSPENDED then put_control m (on_plans suspend_result sb)
      else if tag m = B_READY_FOR_QUERY
      then put_control m (case body m of status # _ \<Rightarrow> on_plans (ready_for_query status) sb | [] \<Rightarrow> sb)
      else if tag m = B_EMPTY_QUERY_RESPONSE
      then handle_described (str ''pgmask: EmptyQueryResponse answered no forwarded Query'') finish_empty_query m sb
      else if tag m \<in> set BACKEND_CONTROL_TAGS then put_control m sb
      else refuse_and_close UnknownBackendMessage True
             (str ''pgmask: refusing to forward unrecognised backend message '' @ [39, unat (tag m), 39])
             (Some (str ''pgmask fails closed on protocol messages it cannot classify.'')) sb)"

definition handle_backend :: "session_env \<Rightarrow> message \<Rightarrow> sb \<Rightarrow> sb" where
  "handle_backend e m sb0 =
     (let s = note_txn_status m (note_backend_auth m (fst sb0)); out = snd sb0
      in case suppressing s of
           Some suppressed_epoch \<Rightarrow>
             if tag m = B_READY_FOR_QUERY
             then put_control m
                    (s\<lparr>suppressing := None, plans := finish_suppressed_epoch suppressed_epoch (plans s)\<rparr>, out)
             else (s, out)
         | None \<Rightarrow> dispatch_backend e m (s, out))"

end
