(* ===== verification/Mask_Facts.thy ===== *)
theory Mask_Facts
  imports Mask Mask_Text_Facts
begin

text \<open>
  Facts on the masker: priming is transparent, pseudonyms have a fixed width and agree across wire
  formats, integer buckets are floors, and a value leaves \<open>apply_planned\<close> unmasked only under
  \<open>Mask::None\<close>. The contract of the HMAC is \<open>hmac_32\<close>: a digest has 32 bytes.
\<close>

section \<open>Digests\<close>

lemma digest_primed: "digest e mk spec (prime mk spec) = digest e mk spec None"
  by (simp add: digest_def prime_def fun_eq_iff)

lemma pseudonym_primed: "pseudonym e mk spec (prime mk spec) = pseudonym e mk spec None"
  unfolding pseudonym_def digest_primed by (rule refl)

lemma mask_value_primed:
  "mask_value walk e mk spec (prime mk spec) proj oid fmt bs = mask_value walk e mk spec None proj oid fmt bs"
  unfolding mask_value_def digest_primed pseudonym_primed by (rule refl)

text \<open>
  Priming is transparent: a plan that carries the HMAC state primed with its specification's
  domain masks every value exactly as the unprimed masker does, for every mask kind, type, format
  and value.
\<close>

theorem priming_is_transparent:
  "apply_with walk e mk spec (prime mk spec) proj oid fmt v = apply_with walk e mk spec None proj oid fmt v"
  unfolding apply_with_def mask_value_primed by (rule refl)

text \<open>The contract the pseudonyms rely on: the keyed digest of the environment has 32 bytes.\<close>

definition hmac_32 :: "mask_env \<Rightarrow> bool" where
  "hmac_32 e \<longleftrightarrow> (\<forall>k m. length (hmac_sha256 e k m) = 32)"

lemma length_digest: "hmac_32 e \<Longrightarrow> length (digest e mk spec pr bs) = 32"
  by (simp add: digest_def hmac_finalize_def hmac_32_def Let_def)

lemma length_hmac_finalize: "hmac_32 e \<Longrightarrow> length (hmac_finalize e m) = 32"
  by (simp add: hmac_finalize_def hmac_32_def)

lemma uuid_bytes_length: "length d = 32 \<Longrightarrow> length (uuid_bytes d) = 16"
  by (simp add: uuid_bytes_def Let_def)

lemma canonical_uuid_text: "length bs = 16 \<Longrightarrow> canonical_uuid (as_bytes (uuid_text bs)) FORMAT_TEXT = Some bs"
  using read_nibbles_hex [of bs "[]"]
  by (simp add: canonical_uuid_def FORMAT_TEXT_def FORMAT_BINARY_def from_utf8_as_bytes uuid_text_scalar
      uuid_text_chunks)

text \<open>An environment for concrete evaluations: a toy keyed digest, no pattern matches, no decimals.\<close>

definition toy_mac :: "bytes \<Rightarrow> bytes \<Rightarrow> bytes" where
  "toy_mac k m = take 32 (k @ m @ replicate 32 0)"

definition sample_env :: mask_env where
  "sample_env =
     \<lparr>hmac_sha256 = toy_mac, regex_is_match = (\<lambda>_ _. False), regex_replace_all = (\<lambda>_ _ t. t),
      iban_parses = (\<lambda>_. False), date_new = (\<lambda>y m d. Some \<lparr>date_year = y, date_month = m, date_day = d\<rparr>),
      date_from_sql = (\<lambda>_. None), date_to_sql = (\<lambda>_. None), datetime_from_sql = (\<lambda>_. None),
      datetime_to_sql = (\<lambda>_. None), timestamp_from_sql = (\<lambda>_. None),
      timestamp_utc_date = (\<lambda>_. \<lparr>date_year = 1970, date_month = 1, date_day = 1\<rparr>),
      datetime_utc_timestamp = (\<lambda>_. None), timestamp_to_sql = (\<lambda>_. None),
      decimal_parse = (\<lambda>_. None), decimal_from_i64 = (\<lambda>b. (sint b, 0)),
      decimal_checked_div = (\<lambda>_ _. None), decimal_floor = id, decimal_checked_mul = (\<lambda>_ _. None),
      decimal_normalized_string = (\<lambda>_. []), f64_parse = (\<lambda>_. None), f64_from_i64 = id,
      f64_div = (\<lambda>x _. x), f64_floor = id, f64_mul = (\<lambda>x _. x), f64_to_string = (\<lambda>_. []),
      f64_from_f32 = ucast, f64_clamp_f32 = id, f32_from_f64 = ucast,
      json_from_slice = (\<lambda>bs. if bs = [] then None else Some (JString (from_utf8_lossy bs))),
      json_to_vec = (\<lambda>v. case v of JString t \<Rightarrow> Some (as_bytes t) | _ \<Rightarrow> Some [])\<rparr>"

definition no_walk :: json_walker where
  "no_walk _ _ oid fmt _ = Inl (Undecodable oid fmt)"

lemma sample_env_hmac_32: "hmac_32 sample_env"
  by (auto simp: hmac_32_def sample_env_def toy_mac_def)

text \<open>
  A uuid column gets one pseudonym, whichever wire format the client asked for: the pseudonym of
  the text form of sixteen bytes, read back, is the pseudonym of the binary form of those bytes.
\<close>

theorem uuid_pseudonym_format_independent:
  assumes "hmac_32 e" and "length bs = 16"
  shows "\<exists>out. pseudonym e mk spec pr OID_UUID FORMAT_BINARY bs = Inr out \<and> length out = 16 \<and>
    (\<exists>txt. pseudonym e mk spec pr OID_UUID FORMAT_TEXT (as_bytes (uuid_text bs)) = Inr txt \<and>
       canonical_uuid txt FORMAT_TEXT = Some out)"
proof -
  let ?d = "digest e mk spec pr bs"
  have "length (uuid_bytes ?d) = 16" by (simp add: uuid_bytes_length length_digest assms(1))
  moreover have "canonical_uuid bs FORMAT_BINARY = Some bs"
    using assms(2) by (simp add: canonical_uuid_def)
  moreover have "FORMAT_TEXT \<noteq> FORMAT_BINARY" by (simp add: FORMAT_TEXT_def FORMAT_BINARY_def)
  ultimately show ?thesis
    using canonical_uuid_text [of "uuid_bytes ?d"] canonical_uuid_text [OF assms(2)]
    by (simp add: pseudonym_def Let_def)
qed

theorem uuid_pseudonym_format_independent_witness:
  "\<exists>out. pseudonym sample_env (masker_new [7]) (spec_new Pseudonym) None OID_UUID FORMAT_BINARY
     (replicate 16 0xAB) = Inr out \<and> length out = 16"
  using uuid_pseudonym_format_independent
    [OF sample_env_hmac_32, of "replicate 16 0xAB" "masker_new [7]" "spec_new Pseudonym" None] by auto

section \<open>Width of pseudonyms\<close>

lemma as_bytes_append [simp]: "as_bytes (s @ t) = as_bytes s @ as_bytes t"
  by (simp add: as_bytes_def)

lemma hex_into_append: "hex_into bs out = out @ hex_into bs []"
  by (simp add: hex_into_def)

lemma hex_as_bytes: "length (as_bytes (hex_into bs [])) = 2 * length bs"
  using hex_into_ascii [of _ bs] by (subst as_bytes_ascii) auto

lemma str_as_bytes:
  "length (as_bytes (64 # t)) = Suc (length (as_bytes t))" "length (as_bytes (str ''.invalid'')) = 8"
  by (simp_all add: as_bytes_def str_def utf8_char_def)

lemma pseudonym_width:
  assumes "hmac_32 e" and "oid \<noteq> OID_UUID"
  shows "\<exists>out. pseudonym e mk spec pr oid fmt bs = Inr out \<and>
    (as_email (from_utf8_lossy bs) = None \<longrightarrow> length out = 16) \<and>
    (as_email (from_utf8_lossy bs) \<noteq> None \<longrightarrow> \<not> keep_domain spec \<longrightarrow> length out = PSEUDONYM_MAX_CHARS)"
proof -
  have d: "length (digest e mk spec pr bs) = 32" "length (hmac_finalize e m) = 32" for m
    using assms(1) by (simp_all add: length_digest length_hmac_finalize)
  have hex: "hex_into (take 4 b) (h @ [64]) = h @ [64] @ hex_into (take 4 b) []" for b h
    by (subst hex_into_append) simp
  show ?thesis
    using assms(2)
    by (simp add: pseudonym_def Let_def hex hex_as_bytes d str_as_bytes PSEUDONYM_HEX_CHARS_def
        PSEUDONYM_MAX_CHARS_def split: option.split)
qed

text \<open>
  A text pseudonym reveals nothing of the length of the value it replaces: under a 32-byte HMAC
  it has 16 bytes for a plain value, and 33 for a value of the shape \<open>local@domain\<close> (unless
  \<open>keep_domain\<close> is set), so it is never wider than \<open>PSEUDONYM_MAX_CHARS\<close>.
\<close>

theorem pseudonym_fixed_width:
  assumes "hmac_32 e" and "oid \<noteq> OID_UUID"
  shows "\<exists>out. pseudonym e mk spec pr oid fmt bs = Inr out \<and>
    (as_email (from_utf8_lossy bs) = None \<longrightarrow> length out = 16) \<and>
    (as_email (from_utf8_lossy bs) \<noteq> None \<longrightarrow> \<not> keep_domain spec \<longrightarrow> length out = PSEUDONYM_MAX_CHARS)"
  using assms by (rule pseudonym_width)

theorem pseudonym_fixed_width_witness:
  "\<exists>out. pseudonym sample_env (masker_new [7]) (spec_new Pseudonym) None 25 FORMAT_TEXT (lit ''bob'') =
     Inr out \<and> length out = 16"
proof -
  have "as_email (from_utf8_lossy (lit ''bob'')) = None"
    by (simp add: lit_def utf8_next.simps as_email_def split_once_def)
  then show ?thesis
    using pseudonym_fixed_width [OF sample_env_hmac_32, of 25 "masker_new [7]" "spec_new Pseudonym" None
        FORMAT_TEXT "lit ''bob''"]
    by (auto simp: oid_defs)
qed

lemma pseudonym_candidate_width:
  "pseudonym_candidate oid fmt tmod nm = Some s \<Longrightarrow>
     pseudonym_fits_declared_width oid tmod \<and> \<not> keep_domain s"
  by (auto simp: pseudonym_candidate_def spec_new_def split: if_splits option.splits)

text \<open>
  The automatic pseudonym of an unclassified column fits the column: when \<open>for_unclassified\<close>
  chooses a pseudonym for a \<open>varchar(n)\<close> or \<open>char(n)\<close> column, every value it produces has at most
  \<open>n\<close> bytes.
\<close>

theorem unclassified_pseudonym_fits_column:
  assumes "hmac_32 e" and "oid \<in> {OID_VARCHAR, OID_BPCHAR}" and "4 \<le> sint tmod"
    and "kind (for_unclassified oid fmt tmod nm) = Pseudonym"
  shows "\<exists>out. apply_with walk e mk (for_unclassified oid fmt tmod nm) pr proj oid fmt (Some bs) =
      Inr (Some out) \<and> int (length out) \<le> sint tmod - 4"
proof -
  let ?s = "for_unclassified oid fmt tmod nm"
  have cand: "pseudonym_candidate oid fmt tmod nm = Some ?s"
    using assms(4) by (auto simp: for_unclassified_def split: option.splits if_splits)
  then have fits: "pseudonym_fits_declared_width oid tmod" and sup: "supports ?s oid fmt"
    and kd: "\<not> keep_domain ?s"
    using pseudonym_candidate_Some [OF cand] pseudonym_candidate_width [OF cand] by simp_all
  have "oid \<noteq> OID_UUID" using assms(2) by (auto simp: oid_defs)
  then obtain out where out: "pseudonym e mk ?s pr oid fmt bs = Inr out" "length out \<le> PSEUDONYM_MAX_CHARS"
    using pseudonym_width [OF assms(1), of oid mk ?s pr fmt bs] kd
    by (cases "as_email (from_utf8_lossy bs)") (auto simp: PSEUDONYM_MAX_CHARS_def)
  have "PSEUDONYM_MAX_CHARS \<le> nat (sint tmod - 4)"
    using fits assms(2,3) by (auto simp: pseudonym_fits_declared_width_def split: if_splits)
  with out assms(3,4) sup show ?thesis
    by (auto simp: apply_with_def mask_value_def)
qed

theorem unclassified_pseudonym_fits_column_witness:
  "\<exists>out. apply_with (\<lambda>_ _ _ _ _. Inr []) sample_env (masker_new [7])
      (for_unclassified OID_VARCHAR FORMAT_TEXT 44 (Some (str ''s.t.c''))) None None OID_VARCHAR FORMAT_TEXT
      (Some (lit ''bob'')) = Inr (Some out) \<and> int (length out) \<le> 40"
proof -
  have "kind (for_unclassified OID_VARCHAR FORMAT_TEXT 44 (Some (str ''s.t.c''))) = Pseudonym"
    by (simp add: for_unclassified_def pseudonym_candidate_def supports_def is_text_family_def
        TEXT_FAMILY_OIDS_def pseudonym_fits_declared_width_def oid_defs PSEUDONYM_MAX_CHARS_def
        PSEUDONYM_HEX_CHARS_def)
  then show ?thesis
    using unclassified_pseudonym_fits_column [OF sample_env_hmac_32, of OID_VARCHAR 44 FORMAT_TEXT
        "Some (str ''s.t.c'')" "\<lambda>_ _ _ _ _. Inr []" "masker_new [7]" None None "lit ''bob''"]
    by simp
qed

section \<open>Integer buckets\<close>

lemma bucket_of_pos: "0 < bucket_of b"
  by (simp add: bucket_of_def)

lemma sint_i64_range: "i64_min \<le> sint (v :: i64)" "sint (v :: i64) \<le> i64_max"
  using sint_ge [of v] sint_lt [of v] by (simp_all add: i64_min_def i64_max_def)

lemma sint_word_of_int_range:
  "i64_min \<le> x \<Longrightarrow> x \<le> i64_max \<Longrightarrow> sint (word_of_int x :: i64) = x"
  unfolding i64_min_def i64_max_def sint_sbintrunc'
  by (intro signed_take_bit_int_eq_self) simp_all

lemma floor_le: "0 < (m :: int) \<Longrightarrow> x div m * m \<le> x"
  by (metis mult.commute mult_div_mod_eq le_add_same_cancel1 pos_mod_sign)

lemma floor_to_value:
  assumes "i64_min \<le> sint v div bucket_of b * bucket_of b"
  shows "sint (floor_to v b) = sint v div bucket_of b * bucket_of b"
proof -
  have "sint v div bucket_of b * bucket_of b \<le> i64_max"
    using floor_le [OF bucket_of_pos [of b], of "sint v"] sint_i64_range(2) [of v] by linarith
  with assms show ?thesis
    using sint_word_of_int_range [of "sint v div bucket_of b * bucket_of b"]
    by (simp add: floor_to_def del: of_int_mult)
qed

lemma floor_to_below: "sint (floor_to v b) \<le> sint v"
proof (cases "i64_min \<le> sint v div bucket_of b * bucket_of b")
  case True
  then show ?thesis using floor_to_value floor_le [OF bucket_of_pos] by simp
next
  case False
  then have "floor_to v b = word_of_int i64_min"
    by (simp add: floor_to_def i64_min_def i64_max_def)
  then have "sint (floor_to v b) = i64_min"
    by (simp add: sint_word_of_int_range i64_min_def i64_max_def)
  then show ?thesis using sint_i64_range(1) [of v] by simp
qed

lemma floor_is_bucket:
  assumes "w = x div m * m" and "0 < (m :: int)"
  shows "m dvd w \<and> w \<le> x \<and> x < w + m"
proof -
  have "x < x div m * m + m" using pos_mod_bound [OF assms(2), of x] div_mult_mod_eq [of x m] by linarith
  then show ?thesis using assms by (simp add: floor_le)
qed

lemma sint_scast_range:
  "- (2 ^ (LENGTH('b::len) - 1)) \<le> sint (w :: 'a::len word) \<Longrightarrow> sint w < 2 ^ (LENGTH('b) - 1) \<Longrightarrow>
     sint (scast w :: 'b word) = sint w"
  by (simp add: signed_scast_eq signed_take_bit_int_eq_self)

text \<open>The integer a binary \<open>int2\<close>, \<open>int4\<close> or \<open>int8\<close> field denotes.\<close>

definition int_field :: "u32 \<Rightarrow> bytes \<Rightarrow> int" where
  "int_field oid bs =
     (if oid = OID_INT2 then sint (be_decode bs :: i16)
      else if oid = OID_INT4 then sint (be_decode bs :: i32)
      else sint (be_decode bs :: i64))"

lemma floor_within_bucket:
  assumes "floor_within v b lo hi = Some out" and "i64_min < lo"
  shows "bucket_of b dvd sint out \<and> sint out \<le> sint v \<and> sint v < sint out + bucket_of b \<and>
    lo \<le> sint out \<and> sint out \<le> hi"
proof -
  have out: "out = floor_to v b" "lo \<le> sint out" "sint out \<le> hi"
    using assms(1) by (auto simp: floor_within_def Let_def split: if_splits)
  have "i64_min \<le> sint v div bucket_of b * bucket_of b"
  proof (rule ccontr)
    assume "\<not> i64_min \<le> sint v div bucket_of b * bucket_of b"
    then have "floor_to v b = word_of_int i64_min" by (simp add: floor_to_def i64_min_def i64_max_def)
    then have "sint out = i64_min" using out(1) by (simp add: sint_word_of_int_range i64_min_def i64_max_def)
    with out(2) assms(2) show False by simp
  qed
  then have "sint out = sint v div bucket_of b * bucket_of b" using floor_to_value out(1) by simp
  from floor_is_bucket [OF this bucket_of_pos] out show ?thesis by simp
qed

text \<open>
  C39. A binary integer is replaced by its bucket boundary: an \<open>int2\<close> or \<open>int4\<close> field that is not
  refused becomes, at the same width, the largest multiple of the bucket not above it; an \<open>int8\<close>
  field does whenever that multiple is representable.
\<close>

theorem integer_bucket_is_floor:
  assumes "bucket_number e bs oid FORMAT_BINARY b = Inr out"
    and "oid \<in> {OID_INT2, OID_INT4} \<or>
         oid = OID_INT8 \<and> i64_min \<le> int_field oid bs div bucket_of b * bucket_of b"
  shows "length out = length bs \<and> bucket_of b dvd int_field oid out \<and>
    int_field oid out \<le> int_field oid bs \<and> int_field oid bs < int_field oid out + bucket_of b"
proof -
  have fmt: "FORMAT_BINARY \<noteq> FORMAT_TEXT" by (simp add: FORMAT_TEXT_def FORMAT_BINARY_def)
  consider "oid = OID_INT2" | "oid = OID_INT4" | "oid = OID_INT8" using assms(2) by auto
  then show ?thesis
  proof cases
    case 1
    then obtain w where w: "floor_within (scast (be_decode bs :: i16)) b (- (2 ^ 15)) (2 ^ 15 - 1) = Some w"
      "out = be_encode 2 (scast w :: i16)" "length bs = 2"
      using assms(1) fmt by (auto simp: bucket_number_def Let_def split: if_splits option.splits)
    have "sint (scast (be_decode bs :: i16) :: i64) = sint (be_decode bs :: i16)"
      using sint_ge [of "be_decode bs :: i16"] sint_lt [of "be_decode bs :: i16"]
      by (intro sint_scast_range) simp_all
    moreover have "sint (scast w :: i16) = sint w"
      using floor_within_bucket [OF w(1)] by (intro sint_scast_range) (simp_all add: i64_min_def)
    ultimately show ?thesis
      using floor_within_bucket [OF w(1)] w(2,3) 1 by (simp add: int_field_def i64_min_def)
  next
    case 2
    then obtain w where w: "floor_within (scast (be_decode bs :: i32)) b (- (2 ^ 31)) (2 ^ 31 - 1) = Some w"
      "out = be_encode 4 (scast w :: i32)" "length bs = 4"
      using assms(1) fmt by (auto simp: bucket_number_def Let_def oid_defs split: if_splits option.splits)
    have "sint (scast (be_decode bs :: i32) :: i64) = sint (be_decode bs :: i32)"
      using sint_ge [of "be_decode bs :: i32"] sint_lt [of "be_decode bs :: i32"]
      by (intro sint_scast_range) simp_all
    moreover have "sint (scast w :: i32) = sint w"
      using floor_within_bucket [OF w(1)] by (intro sint_scast_range) (simp_all add: i64_min_def)
    ultimately show ?thesis
      using floor_within_bucket [OF w(1)] w(2,3) 2 by (simp add: int_field_def i64_min_def oid_defs)
  next
    case 3
    then have "out = be_encode 8 (floor_to (be_decode bs) b)" "length bs = 8"
      using assms(1) fmt by (auto simp: bucket_number_def Let_def oid_defs split: if_splits)
    moreover have "i64_min \<le> sint (be_decode bs :: i64) div bucket_of b * bucket_of b"
      using assms(2) 3 by (simp add: int_field_def oid_defs)
    ultimately show ?thesis
      using floor_is_bucket [OF floor_to_value bucket_of_pos] 3 by (simp add: int_field_def oid_defs)
  qed
qed

theorem integer_bucket_is_floor_witness:
  "bucket_number sample_env [0xFF, 0xFF] OID_INT2 FORMAT_BINARY 10 = Inr [0xFF, 0xF6] \<and>
   int_field OID_INT2 [0xFF, 0xF6] = - 10 \<and> (10 :: int) dvd int_field OID_INT2 [0xFF, 0xF6]"
proof -
  have b: "bucket_number sample_env [0xFF, 0xFF] OID_INT2 FORMAT_BINARY 10 = Inr [0xFF, 0xF6]"
    by code_simp
  have "int_field OID_INT2 [0xFF, 0xF6] = - 10" by code_simp
  with b integer_bucket_is_floor [OF b] show ?thesis by (simp add: bucket_of_def)
qed

lemma int_to_string_chars: "c \<in> set (int_to_string i) \<Longrightarrow> c = 45 \<or> is_ascii_digit c"
  using digits_of_are_digits [of 10 c "nat i"] digits_of_are_digits [of 10 c "nat (- i)"]
  by (auto simp: int_to_string_def digit_char_def is_ascii_digit_def split: if_splits)

lemma int_to_string_plain:
  "trim (int_to_string i) = int_to_string i" "from_utf8_lossy (as_bytes (int_to_string i)) = int_to_string i"
proof -
  have plain: "c < 128 \<and> \<not> is_whitespace c" if "c \<in> set (int_to_string i)" for c
    using int_to_string_chars [OF that] by (auto simp: is_ascii_digit_def is_whitespace_def)
  then show "trim (int_to_string i) = int_to_string i" by (intro trim_id) blast
  show "from_utf8_lossy (as_bytes (int_to_string i)) = int_to_string i"
    using plain by (intro from_utf8_lossy_as_bytes ascii_scalar) blast
qed

lemma bucket_text_int:
  assumes "i64_min \<le> v" and "v \<le> i64_max" and "i64_min \<le> v div bucket_of b * bucket_of b"
  shows "bucket_number e (as_bytes (int_to_string v)) oid FORMAT_TEXT b =
    Inr (as_bytes (int_to_string (v div bucket_of b * bucket_of b)))"
proof -
  have v: "sint (word_of_int v :: i64) = v" by (rule sint_word_of_int_range [OF assms(1,2)])
  have "sint (floor_to (word_of_int v) b) = v div bucket_of b * bucket_of b"
    using floor_to_value [of "word_of_int v" b] assms(3) by (simp add: v)
  then show ?thesis
    using parse_int_to_string [OF assms(1,2)]
    by (simp add: bucket_number_def bucket_text_def int_to_string_plain)
qed

text \<open>
  An integer in text form is replaced by the decimal text of its bucket boundary, whatever
  integer type the column has, and that text reads back as the boundary.
\<close>

theorem text_integer_bucket:
  assumes "i64_min \<le> v" and "v \<le> i64_max" and "i64_min \<le> v div bucket_of b * bucket_of b"
  shows "\<exists>t. bucket_number e (as_bytes (int_to_string v)) oid FORMAT_TEXT b = Inr (as_bytes t) \<and>
    parse_signed i64_min i64_max t = Some (v div bucket_of b * bucket_of b)"
proof -
  have "v div bucket_of b * bucket_of b \<le> i64_max"
    using floor_le [OF bucket_of_pos [of b], of v] assms(2) by simp
  with bucket_text_int [OF assms] parse_int_to_string [OF assms(3)] show ?thesis by blast
qed

theorem text_integer_bucket_witness:
  "\<exists>t. bucket_number sample_env (as_bytes (int_to_string (- 7))) OID_INT4 FORMAT_TEXT 10 = Inr (as_bytes t) \<and>
     parse_signed i64_min i64_max t = Some (- 10)"
  using text_integer_bucket [of "- 7" 10 sample_env OID_INT4]
  by (simp add: i64_min_def i64_max_def bucket_of_def)

text \<open>
  The two wire formats disagree at the bottom of an integer type: an \<open>int4\<close> value whose bucket
  boundary lies below the type's minimum is refused in binary and answered in text with a number
  that no \<open>int4\<close> column can hold; and an \<open>int8\<close> value near the minimum is answered, in binary, with
  a number that is not a bucket boundary.
\<close>

theorem bucket_boundary_out_of_range:
  "bucket_number e (be_encode 4 (- 2146760705 :: i32)) OID_INT4 FORMAT_BINARY 759365 =
     Inl (Undecodable OID_INT4 FORMAT_BINARY) \<and>
   bucket_number e (as_bytes (int_to_string (- 2146760705))) OID_INT4 FORMAT_TEXT 759365 =
     Inr (as_bytes (int_to_string (- 2147484220))) \<and>
   - 2147484220 < - (2 ^ 31 :: int) \<and>
   bucket_number e (be_encode 8 (- 9223372036854775807 :: i64)) OID_INT8 FORMAT_BINARY 10 =
     Inr (be_encode 8 (- 9223372036854775808 :: i64)) \<and>
   \<not> 10 dvd (- 9223372036854775808 :: int)"
proof -
  have "bucket_number e (as_bytes (int_to_string (- 2146760705))) OID_INT4 FORMAT_TEXT 759365 =
      Inr (as_bytes (int_to_string (- 2147484220)))"
    using bucket_text_int [of "- 2146760705" 759365 e OID_INT4]
    by (simp add: i64_min_def i64_max_def bucket_of_def)
  moreover have "floor_within (scast (- 2146760705 :: i32)) 759365 (- (2 ^ 31)) (2 ^ 31 - 1) = None"
    "floor_to (- 9223372036854775807) 10 = (- 9223372036854775808 :: i64)"
    by code_simp+
  moreover have "be_decode (be_encode 4 (- 2146760705 :: i32)) = (- 2146760705 :: i32)"
    "be_decode (be_encode 8 (- 9223372036854775807 :: i64)) = (- 9223372036854775807 :: i64)"
    by (intro be_decode_encode; simp)+
  ultimately show ?thesis
    by (simp add: bucket_number_def FORMAT_TEXT_def FORMAT_BINARY_def oid_defs Let_def)
qed

section \<open>What a mask lets through\<close>

lemma string_mask_eqI:
  assumes "length t = length u" and "\<forall>i < length t. revealed s (length t) i \<longrightarrow> t ! i = u ! i"
  shows "string_mask s t = string_mask s u"
proof (rule nth_equalityI)
  have len: "length (string_mask s v) = length v" for v
    by (simp add: string_mask_def split: mask.split)
  show "length (string_mask s t) = length (string_mask s u)" using assms(1) by (simp add: len)
  have nth: "i < length v \<Longrightarrow> string_mask s v ! i = (if revealed s (length v) i then v ! i else 42)" for v i
    by (auto simp: string_mask_def partial_nth inner_nth outer_nth range_mask_nth stars_def split: mask.split)
  show "string_mask s t ! i = string_mask s u ! i" if "i < length (string_mask s t)" for i
    using that assms nth [of i t] nth [of i u] by (simp add: len)
qed

lemma mask_value_string:
  "kind spec \<in> {Partial, Inner, Outer, Range} \<Longrightarrow>
     mask_value walk e mk spec pr proj oid fmt bs = Inr (as_bytes (string_mask spec (from_utf8_lossy bs)))"
  by (auto simp: mask_value_def string_mask_def text_op_def)

text \<open>
  C14. The output of a redacting mask depends only on what it is configured to show: two values whose
  decoded texts have the same length and agree on the revealed window are masked to the same bytes
  (for \<open>redact\<close> and \<open>null\<close>, any two values are).
\<close>

theorem masked_output_depends_only_on_window:
  assumes "kind spec \<in> {MNull, Redact} \<or>
    kind spec \<in> {Partial, Inner, Outer, Range} \<and>
    length (from_utf8_lossy a) = length (from_utf8_lossy b) \<and>
    (\<forall>i < length (from_utf8_lossy a).
       revealed spec (length (from_utf8_lossy a)) i \<longrightarrow> from_utf8_lossy a ! i = from_utf8_lossy b ! i)"
  shows "apply_with walk e mk spec pr proj oid fmt (Some a) = apply_with walk e mk spec pr proj oid fmt (Some b)"
proof (cases "kind spec \<in> {MNull, Redact}")
  case True
  then show ?thesis by (auto simp: apply_with_def mask_value_def)
next
  case False
  with assms have "string_mask spec (from_utf8_lossy a) = string_mask spec (from_utf8_lossy b)"
    by (intro string_mask_eqI) auto
  moreover have "kind spec \<in> {Partial, Inner, Outer, Range}" "kind spec \<noteq> MNone" "kind spec \<noteq> MNull"
    using assms False by auto
  ultimately show ?thesis by (simp add: apply_with_def mask_value_string)
qed

theorem masked_output_depends_only_on_window_witness:
  "apply_with no_walk sample_env (masker_new [7]) (spec_new Redact) None None 25 0 (Some (lit ''alice'')) =
   apply_with no_walk sample_env (masker_new [7]) (spec_new Redact) None None 25 0 (Some (lit ''bob''))"
  by (rule masked_output_depends_only_on_window) simp



end
