(* ===== verification/Json_Facts.thy ===== *)
theory Json_Facts
  imports Json_Mask Mask_Facts "HOL-Library.Multiset"
begin

text \<open>
  Facts on JSON masking: the compiled trie answers as a scan of the rule list would, so that the
  order of the rules decides nothing; the document walk keeps the document's structure and masks
  every scalar under the policy of its path; text extracts never flatten a protected subtree.
\<close>

section \<open>The trie against the rule list\<close>

definition segment_matches :: "rstring \<Rightarrow> json_path_segment \<Rightarrow> bool" where
  "segment_matches pat seg \<longleftrightarrow> pat = seg_value seg \<or> pat = STAR \<and> navigation seg = ArrayIndex"

definition pointer_matches :: "rstring list \<Rightarrow> json_path \<Rightarrow> bool" where
  "pointer_matches segs path = list_all2 segment_matches segs path"

fun trie_node :: "json_policy_node \<Rightarrow> rstring list \<Rightarrow> json_policy_node option" where
  "trie_node n [] = Some n"
| "trie_node n (s # ss) = (case hget (children n) s of None \<Rightarrow> None | Some m \<Rightarrow> trie_node m ss)"

definition trie_lookup :: "json_policy_node \<Rightarrow> rstring list \<Rightarrow> trie_policy option" where
  "trie_lookup n segs = (case trie_node n segs of None \<Rightarrow> None | Some m \<Rightarrow> policy m)"

lemma trie_lookup_simps [simp]:
  "trie_lookup n [] = policy n"
  "trie_lookup n (s # ss) = (case hget (children n) s of None \<Rightarrow> None | Some m \<Rightarrow> trie_lookup m ss)"
  by (simp_all add: trie_lookup_def split: option.split)

lemma trie_lookup_empty [simp]: "trie_lookup empty_node segs = None"
  by (cases segs) (simp_all add: empty_node_def)

lemma trie_lookup_insert:
  "trie_lookup (trie_insert segs pol n) segs' = (if segs' = segs then Some pol else trie_lookup n segs')"
proof (induction segs pol n arbitrary: segs' rule: trie_insert.induct)
  case (1 pol p ch)
  then show ?case by (cases segs') auto
next
  case (2 s ss pol p ch)
  show ?case
    by (cases segs') (auto simp: hmap_simps "2.IH" split: option.split)
qed

lemma trie_lookup_compile_from:
  "trie_lookup (fold (\<lambda>f trie. trie_insert (segments f) (field_spec f, wildcard_count f) trie) fs n) segs =
     (case map_of (rev (map (\<lambda>f. (segments f, (field_spec f, wildcard_count f))) fs)) segs of
        Some p \<Rightarrow> Some p | None \<Rightarrow> trie_lookup n segs)"
  by (induction fs arbitrary: n) (auto simp: trie_lookup_insert map_add_def split: option.split)

lemma trie_lookup_compile:
  assumes "distinct (map segments fs)"
  shows "trie_lookup (trie_compile fs) segs = Some p \<longleftrightarrow>
    (\<exists>f \<in> set fs. segments f = segs \<and> p = (field_spec f, wildcard_count f))"
proof -
  let ?m = "rev (map (\<lambda>f. (segments f, (field_spec f, wildcard_count f))) fs)"
  have "distinct (map fst ?m)" using assms by (simp add: rev_map [symmetric] comp_def)
  then have "map_of ?m segs = Some p \<longleftrightarrow> (segs, p) \<in> set ?m" by (rule map_of_eq_Some_iff)
  then show ?thesis
    by (auto simp: trie_compile_def trie_lookup_compile_from split: option.split)
qed

lemma next_from_iff:
  "m \<in> set (next_from seg n) \<longleftrightarrow> (\<exists>s. segment_matches s seg \<and> hget (children n) s = Some m)"
proof -
  have "set (opt_list r) = set_option r" for r :: "json_policy_node option"
    by (cases r) (simp_all add: opt_list_def)
  then show ?thesis by (auto simp: next_from_def segment_matches_def)
qed

lemma next_states_iff:
  "m \<in> set (next_states states seg) \<longleftrightarrow>
     (\<exists>n \<in> set states. \<exists>s. segment_matches s seg \<and> hget (children n) s = Some m)"
  by (simp add: next_states_def next_from_iff)

lemma walk_states_iff:
  "m \<in> set (walk_states states path) \<longleftrightarrow>
     (\<exists>n \<in> set states. \<exists>segs. pointer_matches segs path \<and> trie_node n segs = Some m)"
proof (induction path arbitrary: states)
  case Nil
  then show ?case by (auto simp: pointer_matches_def)
next
  case (Cons seg path)
  have "m \<in> set (walk_states states (seg # path)) \<longleftrightarrow> m \<in> set (walk_states (next_states states seg) path)"
    by (auto simp: Let_def Cons.IH)
  also have "\<dots> \<longleftrightarrow> (\<exists>n \<in> set states. \<exists>segs. pointer_matches segs (seg # path) \<and> trie_node n segs = Some m)"
    unfolding Cons.IH bex_simps next_states_iff Bex_def pointer_matches_def list_all2_Cons2
    by (auto split: option.splits) (metis option.simps(5) trie_node.simps(2))+
  finally show ?case .
qed

lemma map_filter_set: "p \<in> set (List.map_filter f xs) \<longleftrightarrow> (\<exists>x \<in> set xs. f x = Some p)"
  by (force simp: List.map_filter_def image_iff)

lemma policies_at_iff:
  "p \<in> set (List.map_filter policy (states_at root path)) \<longleftrightarrow>
     (\<exists>segs. pointer_matches segs path \<and> trie_lookup root segs = Some p)"
proof -
  have "m \<in> set (states_at root path) \<longleftrightarrow> (\<exists>segs. pointer_matches segs path \<and> trie_node root segs = Some m)" for m
    by (simp add: states_at_def walk_states_iff)
  moreover have "trie_lookup root segs = Some p \<longleftrightarrow> (\<exists>m. trie_node root segs = Some m \<and> policy m = Some p)" for segs
    by (auto simp: trie_lookup_def split: option.splits)
  ultimately show ?thesis unfolding map_filter_set by blast
qed

lemma min_by_wildcards_None: "min_by_wildcards ps = None \<longleftrightarrow> ps = []"
  by (cases ps) (auto split: option.split)

lemma min_by_wildcards_Some:
  "min_by_wildcards ps = Some p \<Longrightarrow> p \<in> set ps \<and> (\<forall>q \<in> set ps. snd p \<le> snd q)"
proof (induction ps arbitrary: p)
  case (Cons x xs)
  then show ?case
    using min_by_wildcards_None [of xs] by (fastforce split: option.splits if_splits)
qed simp

text \<open>The rules that match a path, as a scan of the list finds them.\<close>

definition matching_rules :: "json_field_spec list \<Rightarrow> json_path \<Rightarrow> json_field_spec list" where
  "matching_rules fs path = filter (\<lambda>f. pointer_matches (segments f) path) fs"

lemma policies_of_compile:
  assumes "distinct (map segments fs)"
  shows "p \<in> set (List.map_filter policy (states_at (trie_compile fs) path)) \<longleftrightarrow>
    (\<exists>f \<in> set (matching_rules fs path). p = (field_spec f, wildcard_count f))"
  unfolding policies_at_iff trie_lookup_compile [OF assms] matching_rules_def by auto

lemma policy_at_compile:
  assumes "distinct (map segments fs)"
  shows "(policy_at (trie_compile fs) path = None \<longleftrightarrow> matching_rules fs path = []) \<and>
    (\<forall>spec. policy_at (trie_compile fs) path = Some spec \<longrightarrow>
       (\<exists>f \<in> set (matching_rules fs path). field_spec f = spec \<and>
          (\<forall>g \<in> set (matching_rules fs path). wildcard_count f \<le> wildcard_count g)))"
proof -
  let ?ps = "List.map_filter policy (states_at (trie_compile fs) path)"
  note ps = policies_of_compile [OF assms, of _ path]
  have "?ps = [] \<longleftrightarrow> matching_rules fs path = []"
    using ps by (metis all_not_in_conv set_empty)
  moreover have "\<exists>f \<in> set (matching_rules fs path). field_spec f = spec \<and>
      (\<forall>g \<in> set (matching_rules fs path). wildcard_count f \<le> wildcard_count g)"
    if "min_by_wildcards ?ps = Some (spec, w)" for spec w
  proof -
    from min_by_wildcards_Some [OF that] have m: "(spec, w) \<in> set ?ps" "\<forall>q \<in> set ?ps. w \<le> snd q" by auto
    from m(1) obtain f where f: "f \<in> set (matching_rules fs path)" "(spec, w) = (field_spec f, wildcard_count f)"
      using ps by blast
    have "wildcard_count f \<le> wildcard_count g" if "g \<in> set (matching_rules fs path)" for g
      using m(2) f(2) ps [of "(field_spec g, wildcard_count g)"] that by auto
    with f show ?thesis by blast
  qed
  ultimately show ?thesis
    by (auto simp: policy_at_def min_by_wildcards_None)
qed

text \<open>
  C31. Looking a path up in the compiled trie gives what a scan of the rule list gives: no policy
  exactly when no pointer matches the path, and otherwise the mask of a matching pointer with the
  fewest wildcards.
\<close>

theorem trie_agrees_with_rule_list:
  assumes "distinct (map segments fs)"
  shows "(policy_at (trie_compile fs) path = None \<longleftrightarrow> matching_rules fs path = []) \<and>
    (\<forall>spec. policy_at (trie_compile fs) path = Some spec \<longrightarrow>
       (\<exists>f \<in> set (matching_rules fs path). field_spec f = spec \<and>
          (\<forall>g \<in> set (matching_rules fs path). wildcard_count f \<le> wildcard_count g)))"
  by (rule policy_at_compile [OF assms])

theorem trie_agrees_with_rule_list_witness:
  "policy_at (trie_compile [JsonFieldSpec (str ''/a'') [str ''a''] (spec_new Redact)]) [key_segment (str ''b'')] = None"
proof -
  let ?fs = "[JsonFieldSpec (str ''/a'') [str ''a''] (spec_new Redact)]"
  have "matching_rules ?fs [key_segment (str ''b'')] = []"
    by (simp add: matching_rules_def pointer_matches_def segment_matches_def key_segment_def STAR_def str_def)
  then show ?thesis using trie_agrees_with_rule_list [of ?fs "[key_segment (str ''b'')]"] by simp
qed

lemma matching_overlap:
  assumes "pointer_matches (segments f) path" and "pointer_matches (segments g) path"
  shows "patterns_overlap f g"
proof -
  have len: "length (segments f) = length path" "length (segments g) = length path"
    using assms by (auto simp: pointer_matches_def dest: list_all2_lengthD)
  have "segments f ! i = segments g ! i \<or> segments f ! i = STAR \<or> segments g ! i = STAR" if "i < length path" for i
    using assms that unfolding pointer_matches_def list_all2_conv_all_nth segment_matches_def by metis
  with len show ?thesis
    by (auto simp: patterns_overlap_def list_all_length)
qed

text \<open>
  Configuration order never decides a disclosure: for two tables with the same pointer rules in
  different orders, without duplicate pointers and without two equally specific overlapping ones
  (the tables the catalog accepts), every path has the same policy.
\<close>

theorem rule_order_is_irrelevant:
  assumes "distinct (map segments fs)" and "distinct (map segments gs)" and "set fs = set gs"
    and "\<forall>f \<in> set fs. \<forall>g \<in> set fs. f \<noteq> g \<longrightarrow> \<not> equally_specific_overlap f g"
  shows "policy_at (trie_compile fs) path = policy_at (trie_compile gs) path"
proof -
  have same: "set (matching_rules fs path) = set (matching_rules gs path)"
    using assms(3) by (simp add: matching_rules_def)
  note f = policy_at_compile [OF assms(1), of path] and g = policy_at_compile [OF assms(2), of path]
  show ?thesis
  proof (cases "policy_at (trie_compile fs) path")
    case None
    with f g same show ?thesis by (metis set_empty)
  next
    case (Some a)
    then have "matching_rules fs path \<noteq> []" using f by (metis option.distinct(1))
    then have "matching_rules gs path \<noteq> []" using same by (metis set_empty)
    then obtain b where b: "policy_at (trie_compile gs) path = Some b" using g by blast
    from f Some obtain r where r: "r \<in> set (matching_rules fs path)" "field_spec r = a"
      "\<forall>q \<in> set (matching_rules fs path). wildcard_count r \<le> wildcard_count q" by blast
    from g b obtain q where q: "q \<in> set (matching_rules fs path)" "field_spec q = b"
      "\<forall>p \<in> set (matching_rules fs path). wildcard_count q \<le> wildcard_count p" using same by auto
    have "wildcard_count r = wildcard_count q" using r q by (simp add: order_antisym)
    moreover have "patterns_overlap r q" "r \<in> set fs" "q \<in> set fs"
      using r(1) q(1) matching_overlap [of r path q] by (auto simp: matching_rules_def)
    ultimately have "r = q" using assms(4) by (auto simp: equally_specific_overlap_def)
    with r(2) q(2) Some b show ?thesis by simp
  qed
qed

theorem rule_order_is_irrelevant_witness:
  "policy_at (trie_compile [JsonFieldSpec (str ''/a'') [str ''a''] (spec_new Redact),
      JsonFieldSpec (str ''/b'') [str ''b''] (spec_new MNull)]) [key_segment (str ''b'')] =
   policy_at (trie_compile [JsonFieldSpec (str ''/b'') [str ''b''] (spec_new MNull),
      JsonFieldSpec (str ''/a'') [str ''a''] (spec_new Redact)]) [key_segment (str ''b'')]"
  by (rule rule_order_is_irrelevant)
    (auto simp: equally_specific_overlap_def patterns_overlap_def STAR_def str_def)

section \<open>The walk\<close>

text \<open>The value at a relative path inside a document.\<close>

fun value_at :: "json_value \<Rightarrow> json_path \<Rightarrow> json_value option" where
  "value_at v [] = Some v"
| "value_at (JObject kvs) (seg # path) =
     (if navigation seg \<noteq> ObjectKey then None
      else (case map_of kvs (seg_value seg) of None \<Rightarrow> None | Some v \<Rightarrow> value_at v path))"
| "value_at (JArray vs) (seg # path) =
     (if navigation seg \<noteq> ArrayIndex then None
      else (case value_of 10 0 (seg_value seg) of
              None \<Rightarrow> None
            | Some i \<Rightarrow>
                if i < length vs \<and> seg_value seg = digits_of 10 i then value_at (vs ! i) path else None))"
| "value_at _ (seg # path) = None"

definition is_container :: "json_value \<Rightarrow> bool" where
  "is_container v = (case v of JArray _ \<Rightarrow> True | JObject _ \<Rightarrow> True | _ \<Rightarrow> False)"

text \<open>A document's structure: its keys and array lengths, every scalar blanked.\<close>

fun shape :: "json_value \<Rightarrow> json_value" where
  "shape (JObject kvs) = JObject (map (\<lambda>(k, v). (k, shape v)) kvs)"
| "shape (JArray vs) = JArray (map shape vs)"
| "shape _ = JNull"

lemma shape_scalar: "\<not> is_container v \<Longrightarrow> shape v = JNull"
  by (cases v) (simp_all add: is_container_def)

lemma mask_json_value_scalar:
  "mask_json_value e mk spec v = Inr v' \<Longrightarrow> \<not> is_container v \<Longrightarrow> \<not> is_container v'"
  by (cases v)
    (auto simp: mask_json_value_def is_container_def reparse_def is_number_def is_boolean_def
      split: if_splits sum.splits option.splits json_value.splits)

lemma mask_json_leaf_scalar:
  "mask_json_leaf e mk spec pol v = Inr v' \<Longrightarrow> \<not> is_container v \<Longrightarrow> \<not> is_container v'"
  using mask_json_value_scalar
  by (cases v; cases pol) (auto simp: mask_json_leaf_def is_container_def split: if_splits)

lemma mask_json_node_leaf:
  "\<not> is_container v \<Longrightarrow>
     mask_json_node e mk spec path inh v = mask_json_leaf e mk spec (policy_at_or_inherited spec path inh) v"
  by (cases v) (simp_all add: is_container_def)

lemma mask_json_shape:
  "mask_json_node e mk spec path inh v = Inr v' \<Longrightarrow> shape v' = shape v"
  "mask_json_members e mk spec path pol kvs = Inr kvs' \<Longrightarrow>
     map (\<lambda>(k, v). (k, shape v)) kvs' = map (\<lambda>(k, v). (k, shape v)) kvs"
  "mask_json_items e mk spec path pol i vs = Inr vs' \<Longrightarrow> map shape vs' = map shape vs"
proof (induction e mk spec path inh v and e mk spec path pol kvs and e mk spec path pol i vs
    arbitrary: v' and kvs' and vs' rule: mask_json_node_mask_json_members_mask_json_items.induct)
qed (auto split: sum.splits dest: mask_json_leaf_scalar simp: is_container_def shape_scalar)

lemma mask_json_members_get:
  "mask_json_members e mk spec path pol kvs = Inr kvs' \<Longrightarrow> map_of kvs k = Some v \<Longrightarrow>
     \<exists>v'. map_of kvs' k = Some v' \<and> mask_json_node e mk spec (path @ [key_segment k]) pol v = Inr v'"
  by (induction kvs arbitrary: kvs') (auto split: sum.splits if_splits)

lemma mask_json_items_get:
  "mask_json_items e mk spec path pol n vs = Inr vs' \<Longrightarrow>
     length vs' = length vs \<and>
     (\<forall>i < length vs. mask_json_node e mk spec (path @ [index_segment (n + i)]) pol (vs ! i) = Inr (vs' ! i))"
proof (induction vs arbitrary: n vs')
  case (Cons v vs)
  then show ?case
    by (fastforce simp: nth_Cons split: sum.splits nat.splits)
qed simp

lemma mask_json_value_at:
  "mask_json_node e mk spec path inh v = Inr v' \<Longrightarrow> value_at v q = Some leaf \<Longrightarrow> \<not> is_container leaf \<Longrightarrow>
     \<exists>leaf'. value_at v' q = Some leaf' \<and>
       mask_json_leaf e mk spec (policy_along_from spec path (policy_at_or_inherited spec path inh) q) leaf = Inr leaf'"
proof (induction q arbitrary: path inh v v')
  case Nil
  then show ?case by (simp add: mask_json_node_leaf)
next
  case (Cons seg q)
  show ?case
  proof (cases v)
    case (JObject kvs)
    then obtain x where x: "navigation seg = ObjectKey" "map_of kvs (seg_value seg) = Some x" "value_at x q = Some leaf"
      using Cons.prems(2) by (auto split: if_splits option.splits)
    then have seg: "seg = key_segment (seg_value seg)" by (simp add: key_segment_def)
    obtain kvs' where kvs': "v' = JObject kvs'"
      "mask_json_members e mk spec path (policy_at_or_inherited spec path inh) kvs = Inr kvs'"
      using Cons.prems(1) JObject by (auto split: sum.splits)
    obtain x' where x': "map_of kvs' (seg_value seg) = Some x'"
      "mask_json_node e mk spec (path @ [key_segment (seg_value seg)]) (policy_at_or_inherited spec path inh) x = Inr x'"
      using mask_json_members_get [OF kvs'(2) x(2)] by blast
    from Cons.IH [OF x'(2) x(3) Cons.prems(3)] x x' kvs'(1) seg show ?thesis by simp
  next
    case (JArray vs)
    then obtain i where i: "navigation seg = ArrayIndex" "value_of 10 0 (seg_value seg) = Some i"
      "i < length vs" "seg_value seg = digits_of 10 i" "value_at (vs ! i) q = Some leaf"
      using Cons.prems(2) by (auto split: if_splits option.splits)
    then have seg: "seg = index_segment i" by (simp add: index_segment_def)
    obtain vs' where vs': "v' = JArray vs'"
      "mask_json_items e mk spec path (policy_at_or_inherited spec path inh) 0 vs = Inr vs'"
      using Cons.prems(1) JArray by (auto split: sum.splits)
    from mask_json_items_get [OF vs'(2)] i(3)
    have "length vs' = length vs" and
      x: "mask_json_node e mk spec (path @ [index_segment i]) (policy_at_or_inherited spec path inh) (vs ! i) = Inr (vs' ! i)"
      by simp_all
    with Cons.IH [OF x i(5) Cons.prems(3)] i vs'(1) seg show ?thesis by simp
  qed (use Cons.prems in simp_all)
qed

lemma policy_along_append:
  "policy_along_from spec w inh (p @ q) = policy_along_from spec (w @ p) (policy_along_from spec w inh p) q"
  by (induction p arbitrary: w inh) simp_all

lemma policy_at_or_inherited_idem:
  "policy_at_or_inherited spec path (policy_at_or_inherited spec path inh) = policy_at_or_inherited spec path inh"
  by (simp add: policy_at_or_inherited_def split: option.split)

lemma policy_at_root: "policy_at n [] = map_option fst (policy n)"
  by (cases "policy n") (simp_all add: policy_at_def states_at_def List.map_filter_def)

lemma policy_along_settled:
  assumes "policy (json_trie spec) = None"
  shows "policy_at_or_inherited spec path (policy_along spec path) = policy_along spec path"
proof (cases path rule: rev_cases)
  case Nil
  then show ?thesis
    using assms by (simp add: policy_along_def policy_at_or_inherited_def policy_at_root key_policy_at_def last_segment_def)
next
  case (snoc p x)
  then show ?thesis
    by (simp add: policy_along_def policy_along_append policy_at_or_inherited_idem)
qed



section \<open>Text extracts\<close>

lemma trie_lookup_append:
  "trie_lookup n (a @ b) = (case trie_node n a of None \<Rightarrow> None | Some m \<Rightarrow> trie_lookup m b)"
  by (induction a arbitrary: n) (auto split: option.split)

lemma json_tables_set [simp]:
  "json_trie (set_json_policies fs ks base) = trie_compile fs"
  "json_keys (set_json_policies fs ks base) = ks"
  "kind (set_json_policies fs ks base) = kind base"
  by (cases base; simp)+



section \<open>Pointers\<close>

text \<open>The escaping that RFC 6901 prescribes.\<close>

fun encode_segment :: "rstring \<Rightarrow> rstring" where
  "encode_segment [] = []"
| "encode_segment (c # cs) =
     (if c = 126 then [126, 48] else if c = 47 then [126, 49] else [c]) @ encode_segment cs"

lemma decode_encode_segment: "decode_segment (encode_segment s) = Some s"
  by (induction s) auto

lemma encode_segment_no_slash: "47 \<notin> set (encode_segment s)"
  by (induction s) auto

lemma split_encoded:
  "split_char 47 (encode_segment s @ concat (map (\<lambda>s. 47 # encode_segment s) ss)) =
     encode_segment s # map encode_segment ss"
  by (induction ss arbitrary: s)
    (simp_all add: split_char_single split_char_join encode_segment_no_slash)

lemma decode_encode_segments: "decode_segments (map encode_segment ss) = Some ss"
  by (induction ss) (simp_all add: decode_encode_segment)

text \<open>
  JSON Pointers parse to the path they write: for every nonempty path of keys (any characters,
  \<open>/\<close> and \<open>~\<close> included), the pointer that escapes it is accepted and yields exactly that path.
\<close>

theorem json_pointer_round_trip:
  assumes "segs \<noteq> []"
  shows "json_field_spec_new (concat (map (\<lambda>s. 47 # encode_segment s) segs)) spec =
    Inr (JsonFieldSpec (concat (map (\<lambda>s. 47 # encode_segment s) segs)) segs spec)"
proof -
  obtain s ss where "segs = s # ss" using assms by (cases segs) auto
  then show ?thesis
    using decode_encode_segments [of "s # ss"]
    by (simp add: json_field_spec_new_def split_encoded)
qed

theorem json_pointer_round_trip_witness:
  "json_field_spec_new (str ''/a~1b'') (spec_new Redact) =
     Inr (JsonFieldSpec (str ''/a~1b'') [str ''a/b''] (spec_new Redact))"
  using json_pointer_round_trip [of "[str ''a/b'']" "spec_new Redact"] by (simp add: str_def)

end
