(* ===== verification/Catalog_Facts.thy ===== *)
theory Catalog_Facts
  imports Catalog_Live Json_Facts
begin

text \<open>
  Correctness of the catalog: which mask a principal's roles select, what an accepted configuration
  guarantees, the fixed point of opaque views, the bounded retry, the diff that reports lost
  coverage, and the coverage of a catalog that resolved at start.
\<close>

section \<open>Masks by role\<close>

definition matched_specs :: "classification \<Rightarrow> rstring list \<Rightarrow> mask_spec set" where
  "matched_specs c roles = {spec. \<exists>r \<in> set roles. hget (by_role c) r = Some spec}"

abbreviation role_choice :: "classification \<Rightarrow> rstring \<Rightarrow> mask_spec option \<Rightarrow> mask_spec option" where
  "role_choice c role chosen \<equiv> (case hget (by_role c) role of Some spec \<Rightarrow> tighter spec chosen | None \<Rightarrow> chosen)"

abbreviation rank :: "mask_spec \<Rightarrow> nat" where
  "rank spec \<equiv> restrictiveness (kind spec)"

definition is_tightest :: "mask_spec set \<Rightarrow> mask_spec option \<Rightarrow> bool" where
  "is_tightest S chosen =
     (case chosen of None \<Rightarrow> S = {} | Some spec \<Rightarrow> spec \<in> S \<and> (\<forall>t \<in> S. rank t \<le> rank spec))"

lemma is_tightest_tighter: "is_tightest S chosen \<Longrightarrow> is_tightest (insert spec S) (tighter spec chosen)"
  by (auto simp: is_tightest_def tighter_def split: option.splits)

lemma is_tightest_fold:
  "is_tightest S chosen \<Longrightarrow> is_tightest (S \<union> matched_specs c roles) (fold (role_choice c) roles chosen)"
proof (induction roles arbitrary: S chosen)
  case Nil
  then show ?case by (simp add: matched_specs_def)
next
  case (Cons r roles)
  show ?case
  proof (cases "hget (by_role c) r")
    case None
    then have "matched_specs c (r # roles) = matched_specs c roles" by (auto simp: matched_specs_def)
    with Cons None show ?thesis by simp
  next
    case (Some spec)
    then have "S \<union> matched_specs c (r # roles) = insert spec S \<union> matched_specs c roles"
      by (auto simp: matched_specs_def)
    with Cons.IH [OF is_tightest_tighter [OF Cons.prems]] Some show ?thesis by simp
  qed
qed

lemma for_roles_tightest:
  "(matched_specs c roles = {} \<longrightarrow> for_roles c roles = default c) \<and>
   (matched_specs c roles \<noteq> {} \<longrightarrow> for_roles c roles \<in> matched_specs c roles) \<and>
   (\<forall>t \<in> matched_specs c roles. rank t \<le> rank (for_roles c roles))"
proof -
  have same: "matched_specs c (sort roles) = matched_specs c roles"
    by (simp add: matched_specs_def)
  show ?thesis
    using is_tightest_fold [of "{}" None c "sort roles"] unfolding same
    by (auto simp: is_tightest_def for_roles_def Let_def split: option.splits)
qed

lemma for_roles_set_cong:
  assumes "distinct roles" and "distinct roles'" and "set roles = set roles'"
  shows "for_roles c roles = for_roles c roles'"
proof -
  have "sort roles = sort roles'"
    by (metis assms distinct_remdups_id sorted_list_of_set_sort_remdups)
  then show ?thesis by (simp add: for_roles_def)
qed

text \<open>
  C17. A principal gets the most restrictive mask among those of its roles, the default when none of
  its roles is named, and the choice does not depend on the order the roles are listed in: gaining a
  role that has an entry of its own never selects a looser mask than another matched role's.
\<close>

theorem roles_select_tightest_mask:
  assumes "distinct roles" and "distinct roles'" and "set roles' = set roles"
  shows "for_roles c roles' = for_roles c roles \<and>
         (matched_specs c roles = {} \<longrightarrow> for_roles c roles = default c) \<and>
         (matched_specs c roles \<noteq> {} \<longrightarrow> for_roles c roles \<in> matched_specs c roles) \<and>
         (\<forall>t \<in> matched_specs c roles. restrictiveness (kind t) \<le> restrictiveness (kind (for_roles c roles)))"
  using for_roles_tightest [of c roles] for_roles_set_cong [of roles' roles c] assms by simp

definition sample_classification :: classification where
  "sample_classification =
     \<lparr>default = spec_new MNull, by_role = [(str ''support'', spec_new Partial), (str ''admin'', spec_new MNone)]\<rparr>"

theorem roles_select_tightest_mask_witness:
  "for_roles sample_classification [str ''admin'', str ''support''] =
     for_roles sample_classification [str ''support'', str ''admin''] \<and>
   restrictiveness Partial \<le>
     restrictiveness (kind (for_roles sample_classification [str ''support'', str ''admin'']))"
proof -
  have "spec_new Partial \<in> matched_specs sample_classification [str ''support'', str ''admin'']"
    by (simp add: matched_specs_def sample_classification_def)
  then show ?thesis
    using roles_select_tightest_mask [of "[str ''support'', str ''admin'']" "[str ''admin'', str ''support'']"
        sample_classification]
    by (fastforce simp: str_def)
qed

section \<open>Accepted JSON tables\<close>

lemma equally_specific_overlap_sym: "equally_specific_overlap f g = equally_specific_overlap g f"
  by (auto simp: equally_specific_overlap_def patterns_overlap_def list_all_length)

lemma validate_fields_ok:
  "validate_fields earlier fs = Inr () \<Longrightarrow>
     distinct (map segments fs) \<and> segments ` set fs \<inter> segments ` set earlier = {} \<and>
     (\<forall>f \<in> set fs. \<forall>g \<in> set (earlier @ fs). f \<noteq> g \<longrightarrow> \<not> equally_specific_overlap f g) \<and>
     (\<forall>f \<in> set fs. kind (field_spec f) \<noteq> Json)"
proof (induction earlier fs rule: validate_fields.induct)
  case (1 earlier)
  then show ?case by simp
next
  case (2 earlier f fs)
  from "2.prems" have ok: "validate_scalar_spec (field_spec f) = Inr ()" "kind (field_spec f) \<noteq> Json"
    "segments f \<notin> segments ` set earlier" "\<forall>g \<in> set earlier. \<not> equally_specific_overlap g f"
    "validate_fields (earlier @ [f]) fs = Inr ()"
    by (auto simp: list_ex_iff split: if_splits sum.splits)
  have fresh: "\<not> list_ex (\<lambda>g. segments g = segments f) earlier"
    "\<not> list_ex (\<lambda>g. equally_specific_overlap g f) earlier"
    using ok(3,4) by (force simp: list_ex_iff image_iff)+
  from "2.IH" [OF ok(2) ok(1) fresh ok(5)] have ih: "distinct (map segments fs)"
    "segments ` set fs \<inter> segments ` set (earlier @ [f]) = {}"
    "\<forall>g \<in> set fs. \<forall>h \<in> set ((earlier @ [f]) @ fs). g \<noteq> h \<longrightarrow> \<not> equally_specific_overlap g h"
    "\<forall>g \<in> set fs. kind (field_spec g) \<noteq> Json"
    by blast+
  from ih(3) have "\<forall>g \<in> set fs. g \<noteq> f \<longrightarrow> \<not> equally_specific_overlap g f" by auto
  then have "\<not> equally_specific_overlap f h" if "h \<in> set (earlier @ f # fs)" "f \<noteq> h" for h
    using that ok(4) equally_specific_overlap_sym [of f h] by auto
  with ok ih show ?case by auto
qed

text \<open>
  Two JSON tables the catalog accepts that hold the same pointer rules, in whatever order the
  configuration lists them, give every path of every document the same policy.
\<close>

theorem accepted_rule_order_is_irrelevant:
  assumes "validate_json_spec s = Inr ()" and "validate_json_spec t = Inr ()" and "set (json s) = set (json t)"
  shows "policy_at (trie_compile (json s)) path = policy_at (trie_compile (json t)) path"
proof -
  have "validate_fields [] (json s) = Inr ()" "validate_fields [] (json t) = Inr ()"
    using assms(1,2) by (auto simp: validate_json_spec_def split: if_splits sum.splits)
  from validate_fields_ok [OF this(1)] validate_fields_ok [OF this(2)] show ?thesis
    using assms(3) by (intro rule_order_is_irrelevant) auto
qed

theorem accepted_rule_order_is_irrelevant_witness:
  "policy_at (trie_compile (json (set_json_policies [JsonFieldSpec (str ''/a'') [str ''a''] (spec_new Redact),
      JsonFieldSpec (str ''/b'') [str ''b''] (spec_new MNull)] [] (spec_new Json)))) [key_segment (str ''b'')] =
   policy_at (trie_compile (json (set_json_policies [JsonFieldSpec (str ''/b'') [str ''b''] (spec_new MNull),
      JsonFieldSpec (str ''/a'') [str ''a''] (spec_new Redact)] [] (spec_new Json)))) [key_segment (str ''b'')]"
  by (rule accepted_rule_order_is_irrelevant)
    (auto simp: validate_json_spec_def validate_scalar_spec_def spec_new_def
      DEFAULT_JSON_MAX_BYTES_def DEFAULT_JSON_MAX_DEPTH_def MAX_JSON_MAX_DEPTH_def
      equally_specific_overlap_def patterns_overlap_def STAR_def str_def)

section \<open>Accepted configurations\<close>

lemma check_unique_rules_iff:
  "check_unique_rules seen rules = Inr () \<longleftrightarrow>
     distinct (map folded_key rules) \<and> folded_key ` set rules \<inter> set seen = {}"
  by (induction seen rules rule: check_unique_rules.induct) auto

lemma validate_unique_iff: "validate_unique_column_rules c = Inr () \<longleftrightarrow> distinct (map folded_key (column_rules c))"
  by (simp add: validate_unique_column_rules_def check_unique_rules_iff)

lemma and_then_Inr_iff: "and_then r f = Inr y \<longleftrightarrow> (\<exists>x. r = Inr x \<and> f x = Inr y)"
  by (cases r) simp_all

text \<open>
  C34. A configuration is accepted exactly when client TLS is not required without a certificate, a
  private CA is only given with full verification, the pseudonym key has at least 16 bytes, no two
  rules of either form name the same column up to ASCII case, no burst is set without a rate, and
  the metrics address parses.
\<close>

theorem config_accepted_iff:
  "validate c = Inr () \<longleftrightarrow>
     \<not> (require_client_tls c = Some True \<and> tls_cert c = None) \<and>
     (backend_ca c = None \<or> cfg_backend_tls c = VerifyFull) \<and>
     16 \<le> length (as_bytes (pseudonym_key c)) \<and>
     distinct (map folded_key (column c @ columns c)) \<and>
     \<not> (rate_limit_burst c \<noteq> 0 \<and> rate_limit_per_minute c = 0) \<and>
     (case metrics_listen c of None \<Rightarrow> True | Some addr \<Rightarrow> socket_addr_parses addr)"
proof -
  have tls: "validate_client_tls c = Inr () \<longleftrightarrow> \<not> (require_client_tls c = Some True \<and> tls_cert c = None)"
    by (simp add: validate_client_tls_def)
  have ca: "validate_backend_tls c = Inr () \<longleftrightarrow> backend_ca c = None \<or> cfg_backend_tls c = VerifyFull"
    by (auto simp: validate_backend_tls_def)
  have key: "validate_pseudonym_key c = Inr () \<longleftrightarrow> 16 \<le> length (as_bytes (pseudonym_key c))"
    by (simp add: validate_pseudonym_key_def Let_def not_less)
  have rate: "validate_rate_limit c = Inr () \<longleftrightarrow> \<not> (rate_limit_burst c \<noteq> 0 \<and> rate_limit_per_minute c = 0)"
    by (auto simp: validate_rate_limit_def word_gt_0)
  have metrics: "validate_metrics_listen c = Inr () \<longleftrightarrow>
      (case metrics_listen c of None \<Rightarrow> True | Some addr \<Rightarrow> socket_addr_parses addr)"
    by (auto simp: validate_metrics_listen_def split: option.splits)
  show ?thesis
    unfolding validate_def and_then_Inr_iff old.unit.exhaust
    using tls ca key rate metrics validate_unique_iff [of c] by (auto simp: column_rules_def)
qed

section \<open>Opaque views\<close>

text \<open>A set of views that no definition outside it can reach.\<close>

definition opacity_closed ::
  "(rstring \<Rightarrow> bool) \<Rightarrow> (rstring \<Rightarrow> rstring list option) \<Rightarrow> (rstring, rstring option) hmap \<Rightarrow> rstring list \<Rightarrow> bool" where
  "opacity_closed trusted ids defs X \<longleftrightarrow>
     (\<forall>(name, def) \<in> set defs. unsafe_definition trusted def \<or> touches_opaque ids X def \<longrightarrow> name \<in> set X)"

lemma touches_opaque_mono:
  "set X \<subseteq> set Y \<Longrightarrow> touches_opaque ids X def \<Longrightarrow> touches_opaque ids Y def"
  by (cases def) (auto simp: touches_opaque_def list_ex_iff split: option.splits)

lemma opaque_pass_closed:
  "set (opaque_pass ids defs X) = set X \<Longrightarrow> (name, def) \<in> set defs \<Longrightarrow> touches_opaque ids X def \<Longrightarrow> name \<in> set X"
proof (induction ids defs X rule: opaque_pass.induct)
  case (1 ids X)
  then show ?case by simp
next
  case (2 ids n d defs X)
  let ?X = "if n \<notin> set X \<and> touches_opaque ids X d then n # X else X"
  have grow: "set X \<subseteq> set ?X" "set ?X \<subseteq> set (opaque_pass ids defs ?X)"
    using opaque_pass_grows by auto
  with "2.prems"(1) have same: "set ?X = set X" "?X = X" by (auto split: if_splits)
  then have "n \<in> set X \<or> \<not> touches_opaque ids X d" by (auto split: if_splits)
  moreover have "set (opaque_pass ids defs ?X) = set ?X" using "2.prems"(1) same by simp
  ultimately show ?case using "2.IH" "2.prems" same by auto
qed

lemma opaque_pass_least:
  "opacity_closed trusted ids defs0 C \<Longrightarrow> set defs \<subseteq> set defs0 \<Longrightarrow> set X \<subseteq> set C \<Longrightarrow>
     set (opaque_pass ids defs X) \<subseteq> set C"
proof (induction ids defs X rule: opaque_pass.induct)
  case (1 ids X)
  then show ?case by simp
next
  case (2 ids n d defs X)
  have "n \<in> set C" if "touches_opaque ids X d"
  proof -
    have "touches_opaque ids C d" using that "2.prems"(3) touches_opaque_mono by blast
    moreover have "(n, d) \<in> set defs0" using "2.prems"(2) by simp
    ultimately show ?thesis using "2.prems"(1) by (auto simp: opacity_closed_def)
  qed
  with 2 show ?case by auto
qed

lemma opaque_loop_grows: "set X \<subseteq> set (opaque_loop ids defs X)"
proof (induction ids defs X rule: opaque_loop.induct)
  case (1 ids defs X)
  with opaque_pass_grows [of X ids defs] show ?case
    by (subst opaque_loop.simps) (auto simp: Let_def)
qed

lemma opaque_loop_closed:
  "(name, def) \<in> set defs \<Longrightarrow> touches_opaque ids (opaque_loop ids defs X) def \<Longrightarrow>
     name \<in> set (opaque_loop ids defs X)"
proof (induction ids defs X rule: opaque_loop.induct)
  case (1 ids defs X)
  show ?case
  proof (cases "set (opaque_pass ids defs X) = set X")
    case True
    then have "opaque_loop ids defs X = X" by (subst opaque_loop.simps) (simp add: Let_def)
    with 1 opaque_pass_closed [OF True] show ?thesis by metis
  next
    case False
    then have "opaque_loop ids defs X = opaque_loop ids defs (opaque_pass ids defs X)"
      by (subst opaque_loop.simps) (simp add: Let_def)
    with 1 False show ?thesis by metis
  qed
qed

lemma opaque_loop_least:
  "opacity_closed trusted ids defs C \<Longrightarrow> set X \<subseteq> set C \<Longrightarrow> set (opaque_loop ids defs X) \<subseteq> set C"
proof (induction ids defs X rule: opaque_loop.induct)
  case (1 ids defs X)
  then show ?case
    using opaque_pass_least [of trusted ids defs C defs X]
    by (subst opaque_loop.simps) (auto simp: Let_def)
qed

text \<open>
  C18. The opaque views are the least set that contains every view whose definition is missing, empty
  or untrustworthy and every view whose definition cannot be read or names, by its bare name in any
  schema, a view of the set: opacity passes through any number of layers, and no view is opaque
  without such a reason. The loop that computes it ends on every input.
\<close>

theorem opaque_views_are_least_closed_set:
  "opacity_closed trusted ids defs (opaque_views trusted ids defs) \<and>
   (\<forall>C. opacity_closed trusted ids defs C \<longrightarrow> set (opaque_views trusted ids defs) \<subseteq> set C)"
proof
  let ?base = "map fst (filter (\<lambda>(_, def). unsafe_definition trusted def) defs)"
  show "opacity_closed trusted ids defs (opaque_views trusted ids defs)"
    unfolding opacity_closed_def opaque_views_def
    using opaque_loop_grows [of ?base ids defs] opaque_loop_closed [of _ _ defs ids ?base] by fastforce
  have "set ?base \<subseteq> set C" if "opacity_closed trusted ids defs C" for C
    using that by (fastforce simp: opacity_closed_def)
  then show "\<forall>C. opacity_closed trusted ids defs C \<longrightarrow> set (opaque_views trusted ids defs) \<subseteq> set C"
    unfolding opaque_views_def using opaque_loop_least by blast
qed

theorem opaque_views_are_least_closed_set_witness:
  "set (opaque_views (\<lambda>_. True) (\<lambda>_. Some []) [(str ''s.v'', Some (str ''x''))]) \<subseteq> set []"
proof -
  have "opacity_closed (\<lambda>_. True) (\<lambda>_. Some []) [(str ''s.v'', Some (str ''x''))] []"
    by (simp add: opacity_closed_def unsafe_definition_def touches_opaque_def str_def trim_def
        trim_start_def is_whitespace_def)
  then show ?thesis using opaque_views_are_least_closed_set by blast
qed

section \<open>Retry over concurrent DDL\<close>

definition races :: "(resolve_error \<Rightarrow> rstring) \<Rightarrow> resolve_error + 'a \<Rightarrow> bool" where
  "races text_of r = (case r of Inl e \<Rightarrow> is_concurrent_ddl_race (text_of e) | Inr _ \<Rightarrow> False)"

lemma retry_outcome:
  "\<exists>j \<le> length backoff. retry text_of attempt k backoff = attempt (k + j) \<and>
     (\<forall>i < j. races text_of (attempt (k + i))) \<and>
     (races text_of (attempt (k + j)) \<longrightarrow> j = length backoff)"
proof (induction text_of attempt k backoff rule: retry.induct)
  case (1 text_of attempt k backoff)
  show ?case
  proof (cases "attempt k")
    case (Inr s)
    then show ?thesis by (intro exI [of _ 0]) (simp add: retry.simps races_def)
  next
    case (Inl e)
    note fail = this
    show ?thesis
    proof (cases backoff)
      case Nil
      with fail show ?thesis by (intro exI [of _ 0]) (simp add: retry.simps)
    next
      case (Cons d rest)
      show ?thesis
      proof (cases "is_concurrent_ddl_race (text_of e)")
        case False
        with fail Cons show ?thesis by (intro exI [of _ 0]) (simp add: retry.simps races_def)
      next
        case True
        from "1.IH" [OF fail Cons True] obtain j where j: "j \<le> length rest"
          "retry text_of attempt (Suc k) rest = attempt (Suc k + j)"
          "\<forall>i < j. races text_of (attempt (Suc k + i))"
          "races text_of (attempt (Suc k + j)) \<longrightarrow> j = length rest" by blast
        have "races text_of (attempt (k + i))" if "i < Suc j" for i
          using that fail True j(3) by (cases i) (auto simp: races_def)
        with j fail Cons True show ?thesis
          by (intro exI [of _ "Suc j"]) (simp add: retry.simps [of text_of attempt k])
      qed
    qed
  qed
qed

text \<open>
  C35. Resolving the catalog ends after at most four attempts with the outcome of the first attempt
  that did not race a concurrent schema change, and with the last attempt's error when all four did:
  an error that is not such a race is never retried, and a race is never reported early.
\<close>

theorem resolution_retry_is_bounded:
  "\<exists>j \<le> 3.
     resolve_snapshot_retrying w rules types dsn ca =
       resolve_snapshot (analysis w) (connection w j) rules types dsn ca \<and>
     (\<forall>i < j. races (error_text w) (resolve_snapshot (analysis w) (connection w i) rules types dsn ca)) \<and>
     (races (error_text w) (resolve_snapshot (analysis w) (connection w j) rules types dsn ca) \<longrightarrow> j = 3)"
  using retry_outcome [of BACKOFF_MS "error_text w"
      "\<lambda>k. resolve_snapshot (analysis w) (connection w k) rules types dsn ca" 0]
  by (simp add: resolve_snapshot_retrying_def BACKOFF_MS_def numeral_3_eq_3)

definition racing_world :: world where
  "racing_world = \<lparr>analysis = \<lparr>trustworthy = \<lambda>_. True, identifiers = \<lambda>_. Some []\<rparr>,
     connection = (\<lambda>_ _ _ _. Inl (str ''could not open relation with OID'')),
     error_text = (\<lambda>e. case e of DatabaseError t \<Rightarrow> t | _ \<Rightarrow> [])\<rparr>"

theorem resolution_retry_is_bounded_witness:
  "resolve_snapshot_retrying racing_world [] [] [] None =
     Inl (DatabaseError (str ''could not open relation with OID''))"
proof -
  have "resolve_snapshot (analysis racing_world) (connection racing_world j) [] [] [] None =
      Inl (DatabaseError (str ''could not open relation with OID''))" for j
    by (simp add: resolve_snapshot_def racing_world_def database_def)
  with resolution_retry_is_bounded [of racing_world "[]" "[]" "[]" None] show ?thesis by auto
qed

section \<open>Coverage\<close>

lemma set_opt_list: "set (opt_list r) = set_option r"
  by (cases r) (simp_all add: opt_list_def)

lemma rules_ok_Inr: "rules_ok r = Inr x \<longleftrightarrow> r = Inr x"
  by (cases r) (simp_all add: rules_ok_def)

lemma hget_fold_values:
  "hget (fold (\<lambda>(k, name). hinsert name k) ns acc) d = None \<longleftrightarrow> d \<notin> snd ` set ns \<and> hget acc d = None"
  by (induction ns arbitrary: acc) (auto simp: hmap_simps split: if_splits)

lemma display_index_known: "hget (display_index ns) d = None \<longleftrightarrow> d \<notin> snd ` set ns"
  unfolding display_index_def hget_fold_values by simp

text \<open>
  A snapshot that drops a classified column is never installed silently: the diff reports the
  column as lost exactly when a rule displays under that name, the previous snapshot classified it
  and the next one does not, and as restored in the opposite case.
\<close>

theorem coverage_loss_is_reported:
  "((\<exists>b. Lost d b \<in> set (coverage_changes rules previous next)) \<longleftrightarrow>
      d \<in> display ` set rules \<and> d \<in> snd ` set (names previous) \<and> d \<notin> snd ` set (names next)) \<and>
   ((\<exists>a. Restored d a \<in> set (coverage_changes rules previous next)) \<longleftrightarrow>
      d \<in> display ` set rules \<and> d \<notin> snd ` set (names previous) \<and> d \<in> snd ` set (names next))"
proof -
  have entry: "x \<in> set (coverage_changes rules previous next) \<longleftrightarrow>
      (\<exists>r \<in> set rules. coverage_change_of (display_index (names previous)) (display_index (names next)) (display r) = Some x)" for x
    by (simp add: coverage_changes_def Let_def set_opt_list)
  have lost: "(\<exists>b. coverage_change_of B A e = Some (Lost d b)) \<longleftrightarrow> e = d \<and> hget B d \<noteq> None \<and> hget A d = None"
    and restored: "(\<exists>a. coverage_change_of B A e = Some (Restored d a)) \<longleftrightarrow> e = d \<and> hget B d = None \<and> hget A d \<noteq> None"
    for B A e
    by (auto simp: coverage_change_of_def split: option.splits if_splits)
  let ?B = "display_index (names previous)" and ?A = "display_index (names next)"
  have "(\<exists>b. Lost d b \<in> set (coverage_changes rules previous next)) \<longleftrightarrow>
      (\<exists>r \<in> set rules. \<exists>b. coverage_change_of ?B ?A (display r) = Some (Lost d b))"
    and "(\<exists>a. Restored d a \<in> set (coverage_changes rules previous next)) \<longleftrightarrow>
      (\<exists>r \<in> set rules. \<exists>a. coverage_change_of ?B ?A (display r) = Some (Restored d a))"
    unfolding entry by blast+
  then show ?thesis
    unfolding lost restored display_index_known by blast
qed

text \<open>Placing the rules: which entries of the name index they leave.\<close>

lemma place_rule_by_name:
  assumes "place_rule types resolved r s = Inr s'"
  shows "unresolved s' = (if hget resolved (rule_key_of r) = None then unresolved s @ [display r] else unresolved s) \<and>
         (hget resolved (rule_key_of r) \<noteq> None \<longrightarrow>
            (\<exists>c. classify r types = Inr c \<and> by_name s' = hinsert (folded_key r) c (by_name s)))"
  using assms by (auto simp: place_rule_def and_then_Inr_iff split: option.splits)

lemma place_rules_by_name:
  assumes "place_rules types resolved rules s = Inr s'" and "distinct (map folded_key rules)" and "unresolved s' = []"
  shows "(\<forall>r \<in> set rules. \<exists>c. classify r types = Inr c \<and> hget (by_name s') (folded_key r) = Some c) \<and>
         (\<forall>k. k \<notin> folded_key ` set rules \<longrightarrow> hget (by_name s') k = hget (by_name s) k) \<and> unresolved s = []"
  using assms
proof (induction rules arbitrary: s)
  case Nil
  then show ?case by simp
next
  case (Cons r rules)
  from Cons.prems(1) obtain t where t: "place_rule types resolved r s = Inr t"
    "place_rules types resolved rules t = Inr s'" by (auto simp: and_then_Inr_iff)
  from Cons.IH [OF t(2)] Cons.prems have ih:
    "\<forall>q \<in> set rules. \<exists>c. classify q types = Inr c \<and> hget (by_name s') (folded_key q) = Some c"
    "\<forall>k. k \<notin> folded_key ` set rules \<longrightarrow> hget (by_name s') k = hget (by_name t) k" "unresolved t = []"
    by auto
  from place_rule_by_name [OF t(1)] ih(3) have placed: "hget resolved (rule_key_of r) \<noteq> None" "unresolved s = []"
    by (auto split: if_splits)
  with place_rule_by_name [OF t(1)] obtain c where c: "classify r types = Inr c"
    "by_name t = hinsert (folded_key r) c (by_name s)" by blast
  have "folded_key r \<notin> folded_key ` set rules" using Cons.prems(2) by auto
  then have "hget (by_name s') (folded_key r) = Some c" using ih(2) [THEN spec, of "folded_key r"] c(2) by (simp add: hmap_simps)
  with ih c placed show ?case by (auto simp: hmap_simps)
qed

lemma resolve_snapshot_places:
  assumes "resolve_snapshot an conn rules types dsn ca = Inr s"
  shows "rules = [] \<or> (\<exists>resolved base. place_rules types resolved rules base = Inr s)"
  using assms
  by (auto simp: resolve_snapshot_def and_then_Inr_iff Let_def rules_ok_Inr split: if_splits)

text \<open>
  C33. A catalog that resolves at start covers every rule: each configured column is classified, and
  the snapshot answers its name with exactly the classification its rule folds to. A rule that names
  a missing column refuses the start.
\<close>

theorem resolved_catalog_covers_every_rule:
  assumes "catalog_resolve w rules types dsn ca = Inr cat" and "distinct (map folded_key rules)"
    and "r \<in> set rules"
  shows "\<exists>c. classify r (types_of types) = Inr c \<and>
             lookup_by_name (cat_snapshot cat) (cr_relation r) (cr_column r) = Some c"
proof -
  from assms(1) obtain s where s: "resolve_snapshot_retrying w rules (types_of types) dsn ca = Inr s"
    "unresolved s = []" "cat_snapshot cat = s"
    by (auto simp: catalog_resolve_def and_then_Inr_iff split: if_splits)
  from retry_outcome [of BACKOFF_MS "error_text w"
      "\<lambda>k. resolve_snapshot (analysis w) (connection w k) rules (types_of types) dsn ca" 0] s(1)
  obtain j where "resolve_snapshot (analysis w) (connection w j) rules (types_of types) dsn ca = Inr s"
    by (auto simp: resolve_snapshot_retrying_def)
  from resolve_snapshot_places [OF this] assms(3) obtain resolved base
    where "place_rules (types_of types) resolved rules base = Inr s" by auto
  from place_rules_by_name [OF this assms(2) s(2)] assms(3) s(3) show ?thesis
    by (auto simp: lookup_by_name_def folded_key_def)
qed

definition sample_rule :: column_rule where
  "sample_rule = \<lparr>cr_relation = str ''s.t'', cr_column = str ''c'', cr_semantic_type = None,
     cr_mask = Some MNull, cr_params = no_params, cr_by_role = []\<rparr>"

definition sample_world :: world where
  "sample_world = \<lparr>analysis = \<lparr>trustworthy = \<lambda>_. True, identifiers = \<lambda>_. Some []\<rparr>,
     connection = (\<lambda>_ _ _ _. Inr \<lparr>system_oids = Inr [], user_columns = Inr [], view_definitions = Inr [],
       unique_key_columns = Inr [],
       classified_columns = \<lambda>_. Inr [(str ''s.t'', str ''c'', 16384, 1)]\<rparr>),
     error_text = (\<lambda>_. [])\<rparr>"

lemma classify_sample_rule: "classify sample_rule [] = Inr \<lparr>default = spec_new MNull, by_role = []\<rparr>"
  by (simp add: classify_def sample_rule_def build_spec_def no_params_def spec_new_def or_keep_def
      validate_spec_def validate_scalar_spec_def)

lemma sample_world_resolves: "\<exists>cat. catalog_resolve sample_world [sample_rule] [] [] None = Inr cat"
proof -
  have "\<exists>s. resolve_snapshot (analysis sample_world) (connection sample_world 0) [sample_rule] [] [] None = Inr s \<and>
      unresolved s = []"
    using classify_sample_rule
    by (simp add: resolve_snapshot_def sample_world_def database_def Let_def rules_ok_def place_rule_def
        rule_key_of_def sample_rule_def snapshot_default_def)
  then show ?thesis
    by (auto simp: catalog_resolve_def resolve_snapshot_retrying_def types_of_def retry.simps BACKOFF_MS_def)
qed

theorem resolved_catalog_covers_every_rule_witness:
  "\<exists>cat. catalog_resolve sample_world [sample_rule] [] [] None = Inr cat \<and>
     lookup_by_name (cat_snapshot cat) (str ''s.t'') (str ''c'') =
       Some \<lparr>default = spec_new MNull, by_role = []\<rparr>"
proof -
  obtain cat where cat: "catalog_resolve sample_world [sample_rule] [] [] None = Inr cat"
    using sample_world_resolves by blast
  with resolved_catalog_covers_every_rule [OF cat, of sample_rule] classify_sample_rule show ?thesis
    by (auto simp: types_of_def sample_rule_def)
qed

section \<open>The refresher's pace\<close>

lemma refresh_keeps_schedule:
  "interval_secs (snd (refresh w c)) = interval_secs c" "min_interval_secs (snd (refresh w c)) = min_interval_secs c"
  by (auto simp: refresh_def install_snapshot_def Let_def split: sum.split prod.split)

text \<open>
  Two refreshes never start closer together than the floor, unless the timer itself is set below it; and a
  refresh starts within the interval, or, woken by a notification, at once or when the floor has passed.
\<close>

lemma refresher_keeps_its_pace:
  fixes w :: "nat \<Rightarrow> world" and took :: nat
  assumes "rf_last r \<le> rf_now r" and "wake_possible (unat (interval_secs (rf_catalog r))) (rf_now r) wake"
  defines "r' \<equiv> refresher_round w (wake, took) r" and "i \<equiv> unat (interval_secs (rf_catalog r))"
    and "f \<equiv> unat (min_interval_secs (rf_catalog r))"
  shows "rf_last r' \<le> rf_now r'" and "rf_now r \<le> rf_last r'"
    and "i = 0 \<or> f \<le> i \<Longrightarrow> rf_last r + f \<le> rf_last r'"
    and "i \<noteq> 0 \<Longrightarrow> rf_last r' \<le> max (rf_now r + i) (rf_last r + f)"
    and "interval_secs (rf_catalog r') = interval_secs (rf_catalog r)"
  using assms by (auto simp: refresher_round_def refresh_at_def wake_possible_def Let_def refresh_keeps_schedule
      split: wake.splits)

end
