(* ===== verification/Policy_Facts.thy ===== *)
theory Policy_Facts
  imports Planning Catalog_Facts
begin

text \<open>
  Correctness of the policy: roles are exactly the declared memberships, a reload outdates every
  plan made before it finished or changes nothing a plan depends on, a failed reload keeps the
  policy in force, and the decision for a result set fails closed.
\<close>

section \<open>A sample policy\<close>

definition sample_config :: config where
  "sample_config = \<lparr>listen = [], backend = [], catalog_dsn = [], pseudonym_key = str ''0123456789abcdef'',
     cfg_unclassified = UnclassifiedMasked, cfg_unclassified_mask = TypeAware, cfg_opaque = OpaqueReject,
     column = [], columns = [], cfg_semantic_type = [],
     cfg_role = [\<lparr>role_name = str ''support'', members = [str ''alice'']\<rparr>],
     tls_cert = None, tls_key = None, require_client_tls = None, cfg_backend_tls = TlsDisable,
     backend_ca = None, catalog_refresh_seconds = 30, catalog_refresh_min_seconds = 5,
     cfg_summaries = SummariesAllow, cfg_posture = PostureDefault, cfg_system_catalogs = SystemRefuse,
     cfg_lineage = LineageRefuse, metrics_listen = None, rate_limit_per_minute = 0, rate_limit_burst = 0,
     max_notices_per_exchange = 0\<rparr>"

definition sample_live :: live_policy where
  "sample_live = \<lparr>lp_unclassified = UnclassifiedMasked, lp_unclassified_mask = TypeAware,
     lp_opaque = OpaqueReject, lp_summaries = SummariesAllow, lp_posture = PostureDefault,
     lp_system_catalogs = SystemRefuse, lp_lineage = LineageRefuse,
     lp_roles = [(str ''alice'', [str ''support''])], lp_require_client_tls = False,
     lp_backend_tls = TlsDisable, lp_backend_ca = None, lp_rate_limit = None, lp_max_notices = None,
     lp_tls_cert = None, lp_tls_key = None\<rparr>"

definition sample_policy :: policy where
  "sample_policy = \<lparr>pol_catalog = catalog_default, pol_masker = masker_new (as_bytes (str ''0123456789abcdef'')),
     pol_live = sample_live, pol_tls = None, pol_metrics = metrics_default,
     identity = identity_from_config sample_config, epoch = 0, reloads = 0, failed_reloads = 0,
     last_file_sha = None\<rparr>"

lemma sample_config_valid: "validate sample_config = Inr ()"
  by (simp add: validate_def validate_client_tls_def validate_backend_tls_def validate_pseudonym_key_def
      validate_unique_column_rules_def column_rules_def validate_rate_limit_def validate_metrics_listen_def
      sample_config_def as_bytes_def utf8_char_def str_def)

lemma sample_policy_from_config: "policy_from_config (\<lambda>_ _. Inl []) sample_config catalog_default = Inr sample_policy"
proof -
  have "live_from_config sample_config None = Inr sample_live"
    by (simp add: live_from_config_def sample_config_def sample_live_def effective_summaries_def
        client_tls_required_def roles_by_principal_def add_member_def set_insert_def)
  then show ?thesis
    by (simp add: policy_from_config_def sample_config_valid tls_from_config_def tls_from_paths_def)
      (simp add: sample_policy_def sample_config_def set_refresh_schedule_def catalog_default_def)
qed

section \<open>Roles\<close>

definition held :: "(rstring, rstring list) hmap \<Rightarrow> rstring \<Rightarrow> rstring set" where
  "held m user = (case hget m user of Some rs \<Rightarrow> set rs | None \<Rightarrow> {})"

lemma set_roles_of: "set (roles_of p user) = held (lp_roles (pol_live p)) user"
  by (cases "hget (lp_roles (pol_live p)) user") (simp_all add: roles_of_def held_def)

lemma held_add_member: "held (add_member name m out) user = held out user \<union> (if user = m then {name} else {})"
  by (cases "hget out m") (auto simp: held_def add_member_def hmap_simps set_insert_def)

lemma held_add_members:
  "held (fold (add_member name) ms out) user = held out user \<union> (if user \<in> set ms then {name} else {})"
  by (induction ms arbitrary: out) (auto simp: held_add_member)

lemma held_fold_roles:
  "held (fold (\<lambda>r. fold (add_member (role_name r)) (members r)) roles out) user =
     held out user \<union> {role_name r | r. r \<in> set roles \<and> user \<in> set (members r)}"
  by (induction roles arbitrary: out) (auto simp: held_add_members)

lemma live_from_config_roles: "live_from_config c prev = Inr live \<Longrightarrow> lp_roles live = roles_by_principal (cfg_role c)"
  by (auto simp: live_from_config_def and_then_Inr_iff)

text \<open>
  The roles a verified principal holds under a policy are exactly the roles of its configuration
  that list the principal as a member; a principal no role lists holds none.
\<close>

theorem roles_are_declared_memberships:
  assumes "policy_from_config load_acceptor c cat = Inr p"
  shows "set (roles_of p user) = {role_name r | r. r \<in> set (cfg_role c) \<and> user \<in> set (members r)}"
proof -
  have "lp_roles (pol_live p) = roles_by_principal (cfg_role c)"
    using assms live_from_config_roles by (auto simp: policy_from_config_def and_then_Inr_iff)
  then show ?thesis
    by (simp add: set_roles_of roles_by_principal_def held_fold_roles) (simp add: held_def)
qed

theorem roles_are_declared_memberships_witness:
  "set (roles_of sample_policy (str ''alice'')) = {str ''support''} \<and> set (roles_of sample_policy (str ''bob'')) = {}"
  using roles_are_declared_memberships [OF sample_policy_from_config, of "str ''alice''"]
    roles_are_declared_memberships [OF sample_policy_from_config, of "str ''bob''"]
  by (auto simp: sample_config_def str_def)

section \<open>Reload\<close>

lemma install_settings_gen:
  "q \<in> set (install_settings c live tls kc p) \<Longrightarrow> policy_generation q = policy_generation p"
  by (auto simp: install_settings_def Let_def policy_generation_def catalog_generation_def
      set_refresh_schedule_def split: if_splits)

lemma install_settings_nonempty [simp]: "install_settings c live tls kc p \<noteq> []"
  by (simp add: install_settings_def Let_def)

lemma install_settings_frame:
  "q \<in> set (install_settings c live tls False p) \<Longrightarrow>
     pol_masker q = pol_masker p \<and> cat_snapshot (pol_catalog q) = cat_snapshot (pol_catalog p) \<and>
     pol_live q \<in> {pol_live p, live}"
  by (auto simp: install_settings_def Let_def set_refresh_schedule_def)

lemma generation_bump [simp]:
  "policy_generation (bump_if True p) = policy_generation p + 1"
  "policy_generation (bump_if False p) = policy_generation p"
  by (simp_all add: bump_if_def bump_epoch_def policy_generation_def)

lemma generation_replaced:
  assumes "replace_spec_locked w rules types (pol_catalog p) = (r, cat)"
  shows "policy_generation (p\<lparr>pol_catalog := cat\<rparr>) = policy_generation p + (if isl r then 0 else 1)"
  using assms by (auto simp: replace_spec_locked_def install_snapshot_def Let_def policy_generation_def
      catalog_generation_def split: sum.splits)

definition outdated :: "policy list \<Rightarrow> bool" where
  "outdated ps \<longleftrightarrow> (\<forall>q \<in> set (butlast ps). policy_generation q \<noteq> policy_generation (last ps))"

definition plans_stay_right :: "policy \<Rightarrow> policy list \<Rightarrow> bool" where
  "plans_stay_right p ps \<longleftrightarrow> (\<forall>q \<in> set ps. pol_masker q = pol_masker p \<and>
     cat_snapshot (pol_catalog q) = cat_snapshot (pol_catalog p) \<and>
     (pol_live q = pol_live p \<or> \<not> live_differs (pol_live p) (pol_live q)))"

lemma outdated_install:
  assumes "\<forall>q \<in> set pre. policy_generation q \<noteq> policy_generation p1 + 1"
  shows "outdated (pre @ install_settings c live tls kc p1 @ [bump_if True (last (install_settings c live tls kc p1))])"
proof -
  have "policy_generation (last (install_settings c live tls kc p1)) = policy_generation p1"
    using install_settings_gen [OF last_in_set [OF install_settings_nonempty]] .
  with assms show ?thesis
    by (auto simp: outdated_def butlast_append dest: install_settings_gen)
qed

lemma plans_stay_right_install:
  assumes "\<not> live_differs (pol_live p) live" and "ps = install_settings c live tls False p"
  shows "plans_stay_right p ([p, p] @ ps @ [last ps])"
proof -
  have last: "last ps \<in> set ps" using assms(2) by (simp add: last_in_set)
  have "pol_masker q = pol_masker p \<and> cat_snapshot (pol_catalog q) = cat_snapshot (pol_catalog p) \<and>
      (pol_live q = pol_live p \<or> \<not> live_differs (pol_live p) (pol_live q))" if "q \<in> set ps" for q
    using that assms install_settings_frame [of q c live tls p] by auto
  with last show ?thesis by (simp add: plans_stay_right_def)
qed

lemma reload_outdates:
  assumes "apply_config_locked w load_acceptor c p = (res, ps)"
  shows "outdated ps \<or> plans_stay_right p ps"
proof (cases "(\<exists>e. validate c = Inl e) \<or> (\<exists>e. tls_from_config load_acceptor c = Inl e) \<or>
    (\<exists>e. live_from_config c (lp_rate_limit (pol_live p)) = Inl e)")
  case True
  with assms have "ps = [p]" by (auto simp: apply_config_locked_def split: sum.splits)
  then show ?thesis by (simp add: plans_stay_right_def)
next
  case False
  then obtain u tls live0 where ok: "validate c = Inr u" "tls_from_config load_acceptor c = Inr tls"
    "live_from_config c (lp_rate_limit (pol_live p)) = Inr live0" by (metis sum.exhaust)
  define live where "live = (if backend_ca c \<noteq> pi_backend_ca (identity p)
    then live0\<lparr>lp_backend_ca := pi_backend_ca (identity p)\<rparr> else live0)"
  define re where "re \<longleftrightarrow> \<not> spec_matches (pol_catalog p) (column_rules c) (cfg_semantic_type c)"
  define kc where "kc \<longleftrightarrow> masker_key (pol_masker p) \<noteq> as_bytes (pseudonym_key c)"
  define bump where "bump \<longleftrightarrow> re \<or> live_differs (pol_live p) live \<or> kc"
  note unfolded = assms [unfolded apply_config_locked_def ok sum.case Let_def,
      folded live_def re_def kc_def, folded bump_def]
  show ?thesis
  proof (cases re)
    case True
    then have [simp]: bump by (simp add: bump_def)
    obtain r cat where rc: "replace_spec_locked w (column_rules c) (types_of (cfg_semantic_type c))
        (pol_catalog (bump_if True p)) = (r, cat)" by fastforce
    note gen = generation_replaced [OF rc]
    show ?thesis
    proof (cases r)
      case (Inl e)
      with unfolded True rc have "ps = [p, bump_if True p, (bump_if True p)\<lparr>pol_catalog := cat\<rparr>,
          bump_if True ((bump_if True p)\<lparr>pol_catalog := cat\<rparr>)]" by simp
      with gen Inl show ?thesis by (simp add: outdated_def)
    next
      case (Inr log)
      define p1 where "p1 = (bump_if True p)\<lparr>pol_catalog := cat\<rparr>"
      define sw where "sw = (bump_if True p)\<lparr>pol_catalog :=
        (pol_catalog (bump_if True p))\<lparr>cat_snapshot := cat_snapshot cat\<rparr>\<rparr>"
      have sw: "policy_generation sw = policy_generation p + 1"
        by (simp add: sw_def policy_generation_def catalog_generation_def bump_if_def bump_epoch_def)
      have p1: "policy_generation p1 = policy_generation p + 2" using gen Inr by (simp add: p1_def)
      from unfolded True rc Inr have ps: "ps = [p, bump_if True p, sw, p1] @ install_settings c live tls kc p1 @
          [bump_if True (last (install_settings c live tls kc p1))]" by (simp add: p1_def sw_def)
      show ?thesis unfolding ps using p1 sw by (intro disjI1 outdated_install) auto
    qed
  next
    case False
    show ?thesis
    proof (cases bump)
      case True
      with unfolded False have ps: "ps = [p, bump_if True p] @ install_settings c live tls kc (bump_if True p) @
          [bump_if True (last (install_settings c live tls kc (bump_if True p)))]" by simp
      show ?thesis unfolding ps by (intro disjI1 outdated_install) auto
    next
      case no_bump: False
      then have "\<not> kc" "\<not> live_differs (pol_live p) live" by (auto simp: bump_def)
      with unfolded False no_bump have "ps = [p, p] @ install_settings c live tls False p @
          [last (install_settings c live tls False p)]" by (simp add: bump_if_def)
      then show ?thesis
        using plans_stay_right_install [OF \<open>\<not> live_differs (pol_live p) live\<close> refl] by metis
    qed
  qed
qed

text \<open>A reload that fails leaves everything a decision reads as it was.\<close>

definition same_decisions :: "policy \<Rightarrow> policy \<Rightarrow> bool" where
  "same_decisions p q \<longleftrightarrow>
     pol_live q = pol_live p \<and> pol_masker q = pol_masker p \<and> pol_tls q = pol_tls p \<and>
     cat_snapshot (pol_catalog q) = cat_snapshot (pol_catalog p) \<and>
     cat_spec (pol_catalog q) = cat_spec (pol_catalog p) \<and>
     identity q = identity p \<and> last_file_sha q = last_file_sha p"

lemma same_decisions_bump [simp]: "same_decisions p (bump_if b q) \<longleftrightarrow> same_decisions p q"
  by (simp add: same_decisions_def bump_if_def bump_epoch_def)

lemma same_decisions_note [simp]: "same_decisions p (note_reload b q) \<longleftrightarrow> same_decisions p q"
  by (simp add: same_decisions_def note_reload_def)

lemma same_decisions_refl [simp]: "same_decisions p p"
  by (simp add: same_decisions_def)

lemma failed_replace_keeps:
  assumes "replace_spec_locked w rules types (pol_catalog q) = (Inl e, cat)" and "same_decisions p q"
  shows "same_decisions p (q\<lparr>pol_catalog := cat\<rparr>)"
  using assms by (auto simp: replace_spec_locked_def Let_def same_decisions_def split: sum.splits prod.splits)

lemma failed_apply_keeps:
  assumes "apply_config_locked w load_acceptor c p = (Inl e, ps)"
  shows "same_decisions p (last ps)"
  using assms
  by (auto simp: apply_config_locked_def Let_def intro!: failed_replace_keeps
      split: sum.splits if_splits prod.splits)

lemma unchanged_file_keeps: "refresh_tls_from_live_paths load_acceptor p = Inr q \<Longrightarrow> policy_generation q = policy_generation p"
  by (auto simp: refresh_tls_from_live_paths_def and_then_Inr_iff policy_generation_def)

text \<open>
  C25. A reload that fails, because the file cannot be read or parsed, the configuration is refused,
  the certificate does not load or the catalog does not resolve, leaves the settings, the pseudonym
  key, the acceptor, the catalog's snapshot and its rules as they were, and counts one failure.
\<close>

theorem failed_reload_keeps_policy:
  assumes "reload_from_path w load_acceptor sha256 from_toml file p = (Inl e, q)"
  shows "pol_live q = pol_live p \<and> pol_masker q = pol_masker p \<and> pol_tls q = pol_tls p \<and>
         cat_snapshot (pol_catalog q) = cat_snapshot (pol_catalog p) \<and>
         cat_spec (pol_catalog q) = cat_spec (pol_catalog p) \<and>
         last_file_sha q = last_file_sha p \<and> reloads q = reloads p \<and>
         failed_reloads q = failed_reloads p + 1"
proof -
  have counts: "reloads (last ps) = reloads p \<and> failed_reloads (last ps) = failed_reloads p"
    if "apply_config_locked w load_acceptor c p = (r, ps)" for c r ps
    using that
    by (auto simp: apply_config_locked_def Let_def bump_if_def bump_epoch_def install_settings_def
        split: sum.splits if_splits prod.splits)
  have "\<exists>r. q = note_reload False r \<and>
      (r = p \<or> (\<exists>c ps. apply_config_locked w load_acceptor c p = (Inl e, ps) \<and> r = last ps))"
    using assms unfolding reload_from_path_def Let_def
    by (auto split: sum.splits if_splits prod.splits)
  then obtain r where r: "q = note_reload False r" "same_decisions p r"
    "reloads r = reloads p \<and> failed_reloads r = failed_reloads p"
    using failed_apply_keeps counts same_decisions_refl by metis
  then show ?thesis by (simp add: same_decisions_def note_reload_def)
qed

theorem failed_reload_keeps_policy_witness:
  "pol_live (snd (reload_from_path racing_world (\<lambda>_ _. Inl []) id (\<lambda>_. Inl []) (Inl (str ''missing'')) sample_policy))
     = sample_live"
proof -
  have "reload_from_path racing_world (\<lambda>_ _. Inl []) id (\<lambda>_. Inl []) (Inl (str ''missing'')) sample_policy =
      (Inl (ReadFailed (str ''missing'')), note_reload False sample_policy)"
    by (simp add: reload_from_path_def)
  from failed_reload_keeps_policy [OF this] this show ?thesis by (simp add: sample_policy_def)
qed

section \<open>The decision fails closed\<close>

text \<open>When a field may be forwarded unmasked.\<close>

definition release_justified ::
  "live_policy \<Rightarrow> snapshot \<Rightarrow> rstring list \<Rightarrow> field_analysis \<Rightarrow> nat \<Rightarrow> field_description \<Rightarrow> bool" where
  "release_justified live s roles a i f =
     (if \<not> has_provenance f \<or> \<not> trust_provenance a
      then get (fa_safety a) i = Some Releasable \<or> get (fa_lineage a) i = Some Release \<or>
           expression_policy_for a i = Released \<or>
           (\<exists>spec pr. expression_policy_for a i = Masked spec pr \<and> is_passthrough spec)
      else (case lookup s (table_oid f) (column_id f) of
              Some c \<Rightarrow> is_passthrough (for_roles c roles)
            | None \<Rightarrow> lp_unclassified live = UnclassifiedAllow))"

definition field_planned ::
  "live_policy \<Rightarrow> snapshot \<Rightarrow> rstring list \<Rightarrow> field_analysis \<Rightarrow> masker \<Rightarrow> nat \<Rightarrow> field_description \<Rightarrow> field_plan \<Rightarrow> bool" where
  "field_planned live s roles a mk i f fp \<longleftrightarrow>
     supports (fp_spec fp) (type_oid f) (format f) \<and> fp_type_oid fp = type_oid f \<and> fp_format fp = format f \<and>
     (is_passthrough (fp_spec fp) \<longrightarrow> release_justified live s roles a i f) \<and>
     (\<forall>c. has_provenance f \<and> trust_provenance a \<and> lookup s (table_oid f) (column_id f) = Some c \<longrightarrow>
        fp_spec fp = for_roles c roles) \<and>
     (lenient fp \<longrightarrow> lookup s (table_oid f) (column_id f) = None \<and>
        is_not_null s (table_oid f) (column_id f) \<noteq> Some True) \<and>
     primed fp = prime mk (fp_spec fp)"

lemma for_unclassified_masks: "\<not> is_passthrough (for_unclassified oid fmt tmod nm)"
  using pseudonym_candidate_Some [of oid fmt tmod nm]
  by (auto simp: for_unclassified_def is_passthrough_def split: option.splits)

lemma plan_opaque_field_masks: "plan_opaque_field s f v mode = Inr spec \<Longrightarrow> spec = spec_new MNull"
  by (auto simp: plan_opaque_field_def split: if_splits option.splits verdict.splits)

lemma choose_spec_masker: "choose_spec live s roles a i f p = (p', r) \<Longrightarrow> pol_masker p' = pol_masker p"
  by (auto simp: choose_spec_def choose_opaque_def choose_column_def rescue_def nudge_def
      split: if_splits expression_policy.splits option.splits prod.splits)

definition choice_ok ::
  "live_policy \<Rightarrow> snapshot \<Rightarrow> rstring list \<Rightarrow> field_analysis \<Rightarrow> nat \<Rightarrow> field_description \<Rightarrow> choice \<Rightarrow> bool" where
  "choice_ok live s roles a i f ch =
     (case ch of (spec, projection, type_aware) \<Rightarrow>
        (is_passthrough spec \<longrightarrow> release_justified live s roles a i f) \<and>
        (\<forall>c. has_provenance f \<and> trust_provenance a \<and> lookup s (table_oid f) (column_id f) = Some c \<longrightarrow>
           spec = for_roles c roles) \<and>
        (type_aware \<longrightarrow> lookup s (table_oid f) (column_id f) = None))"

lemma passthrough_new [simp]: "is_passthrough (spec_new k) \<longleftrightarrow> k = MNone"
  by (simp add: is_passthrough_def)

lemma choose_opaque_ok:
  assumes "choose_opaque live s a i f p = (p', Inr ch)" and "\<not> has_provenance f \<or> \<not> trust_provenance a"
  shows "choice_ok live s roles a i f ch"
  using assms
  by (auto simp: choose_opaque_def choice_ok_def release_justified_def and_then_Inr_iff
      dest!: plan_opaque_field_masks split: if_splits expression_policy.splits)

lemma choose_column_ok:
  assumes "choose_column live s roles f p = (p', ch)" and "has_provenance f" and "trust_provenance a"
  shows "choice_ok live s roles a i f ch"
  using assms
  by (auto simp: choose_column_def choice_ok_def release_justified_def for_unclassified_masks
      split: option.splits prod.splits unclassified.splits unclassified_mask.splits)

lemma choose_spec_ok: "choose_spec live s roles a i f p = (p', Inr ch) \<Longrightarrow> choice_ok live s roles a i f ch"
  using choose_opaque_ok [of live s a i f p p' ch roles] choose_column_ok [of live s roles f p p' ch a i]
  by (auto simp: choose_spec_def split: if_splits prod.splits)

lemma finish_field_ok:
  assumes "finish_field s mk f ch = Inr fp" and "choice_ok live s roles a i f ch"
  shows "field_planned live s roles a mk i f fp"
  using assms
  by (cases ch) (auto simp: finish_field_def choice_ok_def field_planned_def Let_def split: if_splits)

lemma plan_fields_ok:
  "plan_fields live s roles a i fds p = (p', Inr pl) \<Longrightarrow>
     length pl = length fds \<and>
     (\<forall>k < length fds. field_planned live s roles a (pol_masker p) (i + k) (fds ! k) (pl ! k))"
proof (induction live s roles a i fds p arbitrary: p' pl rule: plan_fields.induct)
  case (1 live s roles a i p)
  then show ?case by simp
next
  case (2 live s roles a i f fs p)
  from "2.prems" obtain p1 ch fp rest where step: "choose_spec live s roles a i f p = (p1, Inr ch)"
    "finish_field s (pol_masker p) f ch = Inr fp"
    "plan_fields live s roles a (Suc i) fs p1 = (p', Inr rest)" "pl = fp # rest"
    by (auto split: prod.splits sum.splits)
  have ih: "length rest = length fs \<and>
      (\<forall>k < length fs. field_planned live s roles a (pol_masker p1) (Suc i + k) (fs ! k) (rest ! k))"
    using "2.IH" step by simp
  have "field_planned live s roles a (pol_masker p) i f fp"
    using finish_field_ok [OF step(2) choose_spec_ok [OF step(1)]] .
  with ih step(4) choose_spec_masker [OF step(1)] show ?case
    by (auto simp: less_Suc_eq_0_disj)
qed

text \<open>
  C4. A plan never falls open. When \<open>plan_for_with\<close> accepts a result set, every output field has a
  plan with a mask that the field's type and format support; a classified column reported with
  trusted provenance has exactly the mask its classification gives the principal's roles; and a
  field is forwarded unmasked only when the analysis proved that it carries no column value, every
  source of it is released, its attributed source or JSON path is released, the catalog releases the
  column, or the operator releases unclassified columns. Only the automatic mask of a nullable
  unclassified column may null a value it cannot handle.
\<close>

theorem plan_fails_closed:
  assumes "plan_for_with live s fds roles a p = (p', Inr pl)"
  shows "length pl = length fds \<and>
         (\<forall>k < length fds. field_planned live s roles a (pol_masker p) k (fds ! k) (pl ! k))"
  using plan_fields_ok [of live s roles a 0 fds p p' pl] assms by (simp add: plan_for_with_def)

definition sample_field_description :: "u32 \<Rightarrow> field_description" where
  "sample_field_description oid = \<lparr>fd_name = str ''c'', table_oid = oid, column_id = 1, type_oid = 25,
     type_mod = - 1, format = 0\<rparr>"

definition sample_analysis :: field_analysis where
  "sample_analysis = \<lparr>fa_safety = [Unknown], fa_lineage = [], fa_expression = [], trust_provenance = True\<rparr>"

theorem plan_fails_closed_witness:
  "\<exists>p' pl. plan_for_with sample_live snapshot_default [sample_field_description 16384] [] sample_analysis sample_policy
       = (p', Inr pl) \<and> length pl = 1 \<and> \<not> is_passthrough (fp_spec (pl ! 0))"
proof -
  obtain p' pl where run: "plan_for_with sample_live snapshot_default [sample_field_description 16384] []
      sample_analysis sample_policy = (p', Inr pl)"
    by (simp add: plan_for_with_def choose_spec_def choose_column_def lookup_def snapshot_default_def name_of_def
        is_not_null_def finish_field_def for_unclassified_def supports_def is_text_family_def TEXT_FAMILY_OIDS_def
        oid_defs sample_live_def sample_analysis_def sample_field_description_def has_provenance_def)
  from plan_fails_closed [OF run] have "length pl = 1"
    "is_passthrough (fp_spec (pl ! 0)) \<longrightarrow>
       release_justified sample_live snapshot_default [] sample_analysis 0 (sample_field_description 16384)"
    by (auto simp: field_planned_def)
  with run show ?thesis
    by (auto simp: release_justified_def sample_analysis_def sample_field_description_def has_provenance_def
        lookup_def snapshot_default_def sample_live_def)
qed

section \<open>Attribution\<close>

definition knows_column :: "snapshot \<Rightarrow> rstring \<Rightarrow> rstring \<times> rstring \<Rightarrow> bool" where
  "knows_column s col r =
     (case relation_columns_of s (fst r @ 46 # snd r) of Some cols \<Rightarrow> col \<in> set cols | None \<Rightarrow> False)"

lemma summary_owners_Some:
  "summary_owners s col rels = Some owners \<Longrightarrow>
     (\<forall>r \<in> set rels. fst r \<noteq> [] \<and> relation_columns_of s (fst r @ 46 # snd r) \<noteq> None) \<and>
     owners = map (\<lambda>r. fst r @ 46 # snd r) (filter (knows_column s col) rels)"
proof (induction rels arbitrary: owners)
  case Nil
  then show ?case by simp
next
  case (Cons r rels)
  then show ?case
    by (cases r) (auto simp: qualify_relation_def knows_column_def split: if_splits option.splits)
qed

text \<open>
  An aggregate is served under a column's policy only when the attribution is unique: every
  relation of the FROM clause is schema-qualified and known to the catalog, exactly one of them has
  the aggregated column, and the policy is that column's own mask for the principal's roles.
  Otherwise the field stays opaque.
\<close>

theorem summary_attribution_is_unique:
  assumes "resolve_summary_source s rels argument roles = e" and "e \<noteq> OpaqueExpr"
  shows "\<exists>col r c. argument = BareColumn col \<and>
           (\<forall>q \<in> set rels. fst q \<noteq> [] \<and> relation_columns_of s (fst q @ 46 # snd q) \<noteq> None) \<and>
           filter (knows_column s col) rels = [r] \<and>
           lookup_by_name s (fst r @ 46 # snd r) col = Some c \<and>
           e = (if is_passthrough (for_roles c roles) then Released else Masked (for_roles c roles) None)"
proof -
  from assms obtain col where col: "argument = BareColumn col"
    by (cases argument) (auto simp: resolve_summary_source_def)
  from assms col obtain q where q: "summary_owners s col rels = Some [q]"
    by (auto simp: resolve_summary_source_def split: option.splits list.splits)
  from summary_owners_Some [OF q] obtain r where r: "filter (knows_column s col) rels = [r]" "q = fst r @ 46 # snd r"
    "\<forall>q \<in> set rels. fst q \<noteq> [] \<and> relation_columns_of s (fst q @ 46 # snd q) \<noteq> None"
    by auto
  from assms col q obtain c where "lookup_by_name s q col = Some c" "e = policy_of_spec (for_roles c roles)"
    by (auto simp: resolve_summary_source_def split: option.splits)
  with col r show ?thesis
    by (intro exI [of _ col] exI [of _ r] exI [of _ c]) (simp add: policy_of_spec_def)
qed

definition sample_snapshot :: snapshot where
  "sample_snapshot = snapshot_default\<lparr>relation_columns := [(str ''s.t'', [str ''c''])],
     by_name := [((str ''s.t'', str ''c''), \<lparr>default = spec_new MNull, by_role = []\<rparr>)]\<rparr>"

theorem summary_attribution_is_unique_witness:
  "\<exists>c. lookup_by_name sample_snapshot (str ''s.t'') (str ''c'') = Some c \<and>
     resolve_summary_source sample_snapshot [(str ''s'', str ''t'')] (BareColumn (str ''c'')) [] =
       Masked (for_roles c []) None"
proof -
  have masked: "resolve_summary_source sample_snapshot [(str ''s'', str ''t'')] (BareColumn (str ''c'')) [] =
      Masked (spec_new MNull) None"
    by (simp add: resolve_summary_source_def qualify_relation_def relation_columns_of_def lookup_by_name_def
        sample_snapshot_def snapshot_default_def to_ascii_lowercase_def str_def policy_of_spec_def for_roles_def)
  from summary_attribution_is_unique [OF masked] masked show ?thesis
    by (auto simp: str_def split: if_splits)
qed

end
