(* ===== verification/Protocol_Facts.thy ===== *)
theory Protocol_Facts
  imports Protocol
begin

text \<open>
  What the protocol layer guarantees: a frame written by the proxy is read back by the framing
  layer whatever way the socket splits it, DataRow and RowDescription bodies round-trip, the
  incremental DataRow reader agrees with the one-shot parser, SQL text is decoded exactly, and a
  scrubbed diagnostic carries nothing of the fields SQL can fill.
\<close>

section \<open>Lengths\<close>

lemma sint_of_nat_i32 [wire_simps]: "n < 2 ^ 31 \<Longrightarrow> sint (of_nat n :: i32) = int n"
  by (simp add: signed_of_nat signed_take_bit_int_eq_self)

lemma sint_of_nat_i16 [wire_simps]: "n < 2 ^ 15 \<Longrightarrow> sint (of_nat n :: i16) = int n"
  by (simp add: signed_of_nat signed_take_bit_int_eq_self)

lemma i32_saturating_len_small:
  "n + k \<le> i32_max \<Longrightarrow> i32_saturating_len n k = of_nat (n + k)"
  by (simp add: i32_saturating_len_def i32_max_def)

text \<open>A length word, kept folded so that rewriting does not take the addition apart.\<close>

definition len32 :: "nat \<Rightarrow> bytes" where
  "len32 n = be_encode 4 (of_nat n :: i32)"

lemma length_len32 [simp]: "length (len32 n) = 4"
  by (simp add: len32_def)

lemma len32_bytes:
  assumes "n \<le> i32_max"
  obtains a b c d where "len32 n = [a, b, c, d]" and "sint (be_decode [a, b, c, d] :: i32) = int n"
proof -
  obtain a b c d where abcd: "len32 n = [a, b, c, d]"
    by (simp add: len32_def eval_nat_numeral)
  have "be_decode [a, b, c, d] = (of_nat n :: i32)"
    unfolding abcd [symmetric] len32_def by (rule be_decode_encode) simp
  moreover have "sint (of_nat n :: i32) = int n"
    using assms by (intro sint_of_nat_i32) (simp add: i32_max_def)
  ultimately show thesis using abcd that by metis
qed

section \<open>Framing\<close>

text \<open>A frame as the wire carries it: tag, length word, body.\<close>

definition wf_frame :: "message \<Rightarrow> bool" where
  "wf_frame m \<longleftrightarrow>
     length (body m) + 4 \<le> i32_max \<and> raw m = tag m # len32 (length (body m) + 4) @ body m"

lemma tag_message_new [simp]: "tag (message_new t b) = t"
  by (simp add: message_new_def Let_def)

lemma body_message_new [simp]: "body (message_new t b) = b"
  by (simp add: message_new_def Let_def drop_Cons')

lemma wf_message_new: "length b + 4 \<le> i32_max \<Longrightarrow> wf_frame (message_new t b)"
  by (simp add: wf_frame_def message_new_def Let_def i32_saturating_len_small len32_def
      del: of_nat_add)

lemma try_take_message_header:
  assumes "n + 4 \<le> i32_max"
  shows "try_take_message (t # len32 (n + 4) @ r) =
     (if length r < n then Inr (None, t # len32 (n + 4) @ r)
      else Inr (Some (from_frame t (t # len32 (n + 4) @ take n r)), drop n r))"
proof -
  obtain a b c d where abcd: "len32 (n + 4) = [a, b, c, d]"
    and "sint (be_decode [a, b, c, d] :: i32) = int (n + 4)"
    using assms by (rule len32_bytes)
  then show ?thesis
    by (simp add: try_take_message_def abcd Let_def nat_add_distrib take_Cons' drop_Cons')
qed

lemma try_take_message_frame [wire_simps]:
  assumes "wf_frame m"
  shows "try_take_message (raw m @ rest) = Inr (Some m, rest)"
proof -
  have "from_frame (tag m) (raw m) = m"
    using assms by (cases m) (simp add: wf_frame_def from_frame_def drop_Cons')
  with assms try_take_message_header [of "length (body m)" "tag m" "body m @ rest"]
  show ?thesis by (simp add: wf_frame_def)
qed

lemma try_take_message_prefix:
  assumes "wf_frame m" and "raw m = buf @ later" and "later \<noteq> []"
  shows "try_take_message buf = Inr (None, buf)"
proof (cases "length buf < 5")
  case True
  then show ?thesis
    by (auto simp: try_take_message_def split: list.split)
next
  case False
  let ?h = "tag m # len32 (length (body m) + 4)"
  from assms have raw: "buf @ later = ?h @ body m" by (simp add: wf_frame_def)
  then obtain b' where buf: "buf = ?h @ b'" and b': "b' @ later = body m"
    by (rule append_split_le) (use False in auto)
  have "length b' < length (body m)" using b' assms(3) by (metis length_append length_greater_0_conv less_add_same_cancel1)
  with assms(1) try_take_message_header [of "length (body m)" "tag m" b'] buf
  show ?thesis by (simp add: wf_frame_def)
qed

text \<open>
  One call of \<open>read_message\<close> on a stream that starts with a frame returns that frame and leaves the
  rest of the stream, wherever the chunk boundaries fall.
\<close>

definition stream_of :: "frame_reader \<Rightarrow> bytes list \<Rightarrow> bytes" where
  "stream_of fr chunks = fr_buf fr @ concat chunks"

lemma read_message_frame:
  assumes "wf_frame m" and "[] \<notin> set chunks" and "stream_of fr chunks = raw m @ later"
  shows "\<exists>fr' chunks'. read_message fr chunks = (Inr (Some m), fr', chunks') \<and>
           stream_of fr' chunks' = later \<and> [] \<notin> set chunks' \<and> fr_eof fr' = fr_eof fr"
  using assms
proof (induction chunks arbitrary: fr)
  case Nil
  then show ?case
    by (simp add: read_message.simps [of fr] stream_of_def try_take_message_frame)
next
  case (Cons c cs)
  show ?case
  proof (cases "length (raw m) \<le> length (fr_buf fr)")
    case True
    then obtain r where r: "fr_buf fr = raw m @ r"
      using Cons.prems(3) append_split_le unfolding stream_of_def by metis
    with Cons.prems show ?thesis
      by (simp add: read_message.simps [of fr] stream_of_def try_take_message_frame)
  next
    case False
    then obtain p where p: "raw m = fr_buf fr @ p" "p \<noteq> []"
      using Cons.prems(3) append_split_less unfolding stream_of_def by (metis not_le)
    then have "try_take_message (fr_buf fr) = Inr (None, fr_buf fr)"
      using Cons.prems(1) try_take_message_prefix by blast
    with Cons.prems(2) have "read_message fr (c # cs) = read_message (fr\<lparr>fr_buf := fr_buf fr @ c\<rparr>) cs"
      by (auto simp: read_message.simps [of fr "c # cs"])
    moreover have "stream_of (fr\<lparr>fr_buf := fr_buf fr @ c\<rparr>) cs = raw m @ later"
      using Cons.prems(3) by (simp add: stream_of_def)
    ultimately show ?thesis
      using Cons.IH [of "fr\<lparr>fr_buf := fr_buf fr @ c\<rparr>"] Cons.prems(1,2) by simp
  qed
qed

text \<open>The reads of a whole connection, until the clean end of file.\<close>

fun read_messages :: "nat \<Rightarrow> frame_reader \<Rightarrow> bytes list \<Rightarrow> (proto_error + message option) list" where
  "read_messages 0 fr chunks = []"
| "read_messages (Suc n) fr chunks =
     (case read_message fr chunks of (res, fr', chunks') \<Rightarrow> res # read_messages n fr' chunks')"

lemma read_messages_frames:
  assumes "list_all wf_frame ms" and "[] \<notin> set chunks" and "stream_of fr chunks = concat (map raw ms)"
  shows "read_messages (Suc (length ms)) fr chunks = map (Inr \<circ> Some) ms @ [Inr None]"
  using assms
proof (induction ms arbitrary: fr chunks)
  case Nil
  then have "fr_buf fr = []" and "chunks = []"
    by (simp add: stream_of_def, cases chunks) (auto simp: stream_of_def)
  then show ?case by (simp add: read_message.simps [of fr] try_take_message_def)
next
  case (Cons m ms)
  then obtain fr' chunks' where "read_message fr chunks = (Inr (Some m), fr', chunks')"
      and "stream_of fr' chunks' = concat (map raw ms)" and "[] \<notin> set chunks'"
    using read_message_frame [of m chunks fr "concat (map raw ms)"] by auto
  with Cons show ?case by simp
qed

section \<open>DataRow bodies\<close>

definition wf_value :: "bytes option \<Rightarrow> bool" where
  "wf_value v \<longleftrightarrow> (case v of None \<Rightarrow> True | Some b \<Rightarrow> length b \<le> i32_max)"

lemma put_value_Some: "put_value (Some b) = len32 (length b) @ b"
  by (simp add: put_value_def len32_def)

interpretation data_row_codec: wire_codec put_value parse_data_row_field wf_value
proof
  fix v rest
  assume ok: "wf_value v"
  show "parse_data_row_field (put_value v @ rest) = Inr (v, rest)"
  proof (cases v)
    case None
    then show ?thesis by (simp add: parse_data_row_field_def put_value_def Let_def)
  next
    case (Some b)
    then have "length b \<le> i32_max" using ok by (simp add: wf_value_def)
    then obtain c0 c1 c2 c3 where "len32 (length b) = [c0, c1, c2, c3]"
      and "sint (be_decode [c0, c1, c2, c3] :: i32) = int (length b)"
      by (rule len32_bytes)
    with Some show ?thesis
      by (simp add: parse_data_row_field_def put_value_Some Let_def eval_nat_numeral)
  qed
qed

lemma parse_data_row_encoded:
  assumes "length vs < 2 ^ 15" and "list_all wf_value vs"
  shows "parse_data_row (be_encode 2 (of_nat (length vs) :: i16) @ concat (map put_value vs)) = Inr vs"
proof -
  have "sint (of_nat (length vs) :: i16) = int (length vs)"
    by (rule sint_of_nat_i16) (rule assms(1))
  then show ?thesis
    using data_row_codec.dec_many_enc [OF assms(2), of "[]"]
    by (simp add: parse_data_row_def Let_def)
qed

lemma body_build_data_row:
  "body (build_data_row vs) = be_encode 2 (of_nat (length vs) :: i16) @ concat (map put_value vs)"
  by (simp add: build_data_row_def from_frame_def Let_def drop_Cons')

lemma length_put_value:
  "length (put_value v) = 4 + (case v of None \<Rightarrow> 0 | Some b \<Rightarrow> length b)"
  by (simp add: put_value_def split: option.split)

lemma wf_build_data_row:
  assumes "length (concat (map put_value vs)) + 6 \<le> i32_max"
  shows "wf_frame (build_data_row vs)"
proof -
  have "(\<Sum>v\<leftarrow>vs. 4 + (case v of None \<Rightarrow> 0 | Some b \<Rightarrow> length b)) = length (concat (map put_value vs))"
    by (simp add: length_concat length_put_value comp_def)
  with assms show ?thesis
    unfolding wf_frame_def body_build_data_row
    by (simp add: build_data_row_def from_frame_def i32_saturating_len_small Let_def len32_def add.commute
        del: of_nat_add)
qed

section \<open>The incremental reader\<close>

text \<open>Every \<open>next_field\<close> call of the masking loop, until the validated end of the frame.\<close>

fun drain_reader :: "nat \<Rightarrow> data_row_reader \<Rightarrow> proto_error + bytes option list" where
  "drain_reader 0 r = (case next_field r of Inl e \<Rightarrow> Inl e | Inr _ \<Rightarrow> Inr [])"
| "drain_reader (Suc n) r =
     (case next_field r of
        Inl e \<Rightarrow> Inl e
      | Inr (None, _) \<Rightarrow> Inr []
      | Inr (Some v, r') \<Rightarrow>
          (case drain_reader n r' of Inl e \<Rightarrow> Inl e | Inr vs \<Rightarrow> Inr (v # vs)))"

lemma sint_pred:
  assumes "sint (w :: i16) = int (Suc n)"
  shows "sint (w - 1) = int n"
proof -
  have n: "Suc n < 2 ^ 15" using assms sint_lt [of w] by simp
  then have "sint w = sint (of_nat (Suc n) :: i16)" using assms by (simp only: sint_of_nat_i16)
  then have "w = of_nat (Suc n)" by (rule signed_word_eqI)
  moreover have "n < 2 ^ 15" using n by simp
  ultimately show ?thesis by (simp add: sint_of_nat_i16)
qed

lemma next_field_Suc:
  assumes "sint (remaining_fields r) = int (Suc n)"
  shows "next_field r =
    (case parse_data_row_field (dr_buf r) of
       Inl e \<Rightarrow> Inl e
     | Inr (v, b) \<Rightarrow> Inr (Some v, \<lparr>dr_buf = b, remaining_fields = remaining_fields r - 1\<rparr>))"
proof -
  have "remaining_fields r \<noteq> 0" "sint (remaining_fields r) \<noteq> - (2 ^ 15)" using assms by auto
  then show ?thesis
    by (simp add: next_field_def parse_data_row_field_def Let_def)
qed

lemma drain_reader_dec_many:
  assumes "sint (remaining_fields r) = int n"
  shows "drain_reader n r =
    (case dec_many parse_data_row_field n (dr_buf r) of
       Inl e \<Rightarrow> Inl e
     | Inr (vs, rest) \<Rightarrow> if rest \<noteq> [] then Inl TrailingBytesInDataRow else Inr vs)"
  using assms
proof (induction n arbitrary: r)
  case 0
  then have "remaining_fields r = 0" by (intro signed_word_eqI) simp
  then show ?case by (simp add: next_field_def)
next
  case (Suc n)
  show ?case
  proof (cases "parse_data_row_field (dr_buf r)")
    case (Inl e)
    then show ?thesis by (simp add: next_field_Suc [OF Suc.prems])
  next
    case (Inr vb)
    obtain v b where vb: "vb = (v, b)" by fastforce
    have "sint (remaining_fields r - 1) = int n" by (rule sint_pred [OF Suc.prems])
    with Inr vb Suc.IH [of "\<lparr>dr_buf = b, remaining_fields = remaining_fields r - 1\<rparr>"]
    show ?thesis by (auto simp: next_field_Suc [OF Suc.prems] split: sum.split)
  qed
qed

section \<open>Diagnostics\<close>

text \<open>A well-formed Error/Notice body: tagged C strings, then a terminator.\<close>

type_synonym diag = "(u8 \<times> bytes) list"

definition wf_diag :: "diag \<Rightarrow> bool" where
  "wf_diag fs \<longleftrightarrow> list_all (\<lambda>(f, v). f \<noteq> 0 \<and> 0 \<notin> set v) fs"

definition diag_body :: "diag \<Rightarrow> bytes" where
  "diag_body fs = concat (map (\<lambda>(f, v). put_field f v) fs) @ [0]"

text \<open>The fields SQL can fill: the leaky ones, the message, and the code of an error raised
  inside a function (or of any notice).\<close>

definition secret_field :: "bool \<Rightarrow> u8 \<Rightarrow> bool" where
  "secret_field user f \<longleftrightarrow> f \<in> set LEAKY_FIELDS \<or> f = 0x4D \<or> user \<and> f = 0x43"

definition scrubbed_field :: "bool \<Rightarrow> bool \<Rightarrow> u8 \<times> bytes \<Rightarrow> (u8 \<times> bytes) option" where
  "scrubbed_field notice user fv =
     (if fst fv \<in> set LEAKY_FIELDS then None
      else if fst fv = 0x4D then Some (0x4D, withheld_message notice user)
      else if user \<and> fst fv = 0x43 then Some (0x43, WITHHELD_SQLSTATE)
      else Some (fst fv, as_bytes (from_utf8_lossy (snd fv))))"

lemma read_cstring_field [wire_simps]:
  "0 \<notin> set v \<Longrightarrow> read_cstring (v @ 0 # rest) = Some (from_utf8_lossy v, rest)"
  by (simp add: read_cstring_def read_cstring_bytes_append)

lemma diag_body_Nil [simp]: "diag_body [] = [0]"
  by (simp add: diag_body_def)

lemma diag_body_Cons [simp]: "diag_body ((f, v) # fs) = f # v @ 0 # diag_body fs"
  by (simp add: diag_body_def put_field_def)

lemma has_field_diag: "wf_diag fs \<Longrightarrow> has_field (diag_body fs) w \<longleftrightarrow> w \<in> fst ` set fs"
  by (induction fs) (auto simp: has_field.simps [of "_ # _"] wf_diag_def read_cstring_field)

lemma scrub_loop_step:
  assumes "f \<noteq> 0" and "0 \<notin> set v"
  shows "scrub_loop notice user (f # v @ 0 # r) kept changed =
    scrub_loop notice user r
      (kept @ (case scrubbed_field notice user (f, v) of None \<Rightarrow> [] | Some (g, w) \<Rightarrow> put_field g w))
      (changed \<or> secret_field user f)"
  using assms
  by (auto simp: scrub_loop.simps [of _ _ "f # v @ 0 # r"] read_cstring_field scrubbed_field_def
      secret_field_def)

lemma scrub_loop_diag:
  "wf_diag fs \<Longrightarrow>
   scrub_loop notice user (diag_body fs) kept changed =
     (kept @ concat (map (\<lambda>(f, v). put_field f v) (List.map_filter (scrubbed_field notice user) fs)),
      changed \<or> list_ex (secret_field user \<circ> fst) fs)"
proof (induction fs arbitrary: kept changed)
  case Nil
  then show ?case by (simp add: scrub_loop.simps [of _ _ "[0]"] List.map_filter_simps)
next
  case (Cons fv fs)
  obtain f v where fv: "fv = (f, v)" by fastforce
  with Cons show ?case
    by (auto simp: scrub_loop_step wf_diag_def List.map_filter_simps split: option.split)
qed

definition from_user_sql :: "bool \<Rightarrow> diag \<Rightarrow> bool" where
  "from_user_sql notice fs \<longleftrightarrow> notice \<or> 0x57 \<in> fst ` set fs"

lemma scrub_diagnostic_diag:
  assumes "wf_diag fs"
  shows "scrub_diagnostic (diag_body fs) notice =
    (let user = from_user_sql notice fs
     in if list_ex (secret_field user \<circ> fst) fs
        then Some (diag_body (List.map_filter (scrubbed_field notice user) fs)) else None)"
  by (simp add: scrub_diagnostic_def has_field_diag [OF assms] scrub_loop_diag [OF assms] Let_def
      from_user_sql_def) (simp add: diag_body_def)

text \<open>What the session forwards for a diagnostic body: the rebuilt one, or the original when
  nothing in it had to change.\<close>

definition forwarded_diagnostic :: "bool \<Rightarrow> bytes \<Rightarrow> bytes" where
  "forwarded_diagnostic notice b = (case scrub_diagnostic b notice of Some s \<Rightarrow> s | None \<Rightarrow> b)"

definition agree_on_public :: "bool \<Rightarrow> diag \<Rightarrow> diag \<Rightarrow> bool" where
  "agree_on_public user fs gs \<longleftrightarrow>
     list_all2 (\<lambda>(f, v) (g, w). f = g \<and> (secret_field user f \<or> v = w)) fs gs"

lemma agree_tags: "agree_on_public user fs gs \<Longrightarrow> map fst fs = map fst gs"
  unfolding agree_on_public_def by (induction rule: list_all2_induct) auto

lemma agree_scrubbed:
  "agree_on_public user fs gs \<Longrightarrow>
     List.map_filter (scrubbed_field notice user) fs = List.map_filter (scrubbed_field notice user) gs"
  unfolding agree_on_public_def
  by (induction rule: list_all2_induct)
    (auto simp: List.map_filter_simps scrubbed_field_def secret_field_def)

lemma agree_no_secret:
  "agree_on_public user fs gs \<Longrightarrow> \<not> list_ex (secret_field user \<circ> fst) fs \<Longrightarrow> fs = gs"
  unfolding agree_on_public_def by (induction rule: list_all2_induct) auto

lemma agree_secret:
  "agree_on_public user fs gs \<Longrightarrow>
     list_ex (secret_field user \<circ> fst) fs = list_ex (secret_field user \<circ> fst) gs"
  unfolding agree_on_public_def by (induction rule: list_all2_induct) auto

section \<open>SASL mechanisms\<close>

lemma zero_notin_lossy: "0 \<notin> set bs \<Longrightarrow> 0 \<notin> set (from_utf8_lossy bs)"
proof (induction bs rule: from_utf8_lossy.induct)
  case (2 b bs)
  obtain c rest where cr: "utf8_next (b # bs) = (c, rest)" by fastforce
  have "set rest \<subseteq> set (b # bs)"
    using cr by (auto simp: utf8_next.simps split: if_splits list.splits)
  moreover have "c \<noteq> Some 0"
  proof
    assume "c = Some 0"
    with cr utf8_next_Some have "b # bs = utf8_char 0 @ rest" by simp
    with 2 show False by (simp add: utf8_char_def byte_of_def)
  qed
  ultimately show ?case using 2 cr by (auto split: option.splits)
qed simp

lemma byte_of_nonzero: "0 < n \<Longrightarrow> n < 256 \<Longrightarrow> byte_of n \<noteq> 0"
  by (metis nless_le unat_0 unat_byte_of)

lemma zero_notin_utf8_char:
  assumes "c \<noteq> 0" and "is_scalar c"
  shows "0 \<notin> set (utf8_char c)"
proof -
  have "c < 0x110000" using assms(2) by (auto simp: is_scalar_def)
  then have lead: "c div 262144 < 5" "c < 0x10000 \<longrightarrow> c div 4096 < 16" "c < 0x800 \<longrightarrow> c div 64 < 32"
    using digits64 [of c] by linarith+
  have cont: "0 \<noteq> byte_of (0x80 + n mod 64)" for n
    using byte_of_nonzero [of "0x80 + n mod 64"] by simp
  consider "c < 0x80" | "0x80 \<le> c" "c < 0x800" | "0x800 \<le> c" "c < 0x10000" | "0x10000 \<le> c"
    by linarith
  then show ?thesis
  proof cases
    case 1
    with assms(1) byte_of_nonzero [of c] show ?thesis by (simp add: utf8_char_def)
  next
    case 2
    with lead cont byte_of_nonzero [of "0xC0 + c div 64"] show ?thesis by (simp add: utf8_char_def)
  next
    case 3
    with lead cont byte_of_nonzero [of "0xE0 + c div 4096"] show ?thesis by (simp add: utf8_char_def)
  next
    case 4
    with lead cont byte_of_nonzero [of "0xF0 + c div 262144"] show ?thesis by (simp add: utf8_char_def)
  qed
qed

lemma zero_notin_as_bytes:
  "0 \<notin> set s \<Longrightarrow> list_all is_scalar s \<Longrightarrow> 0 \<notin> set (as_bytes s)"
  by (induction s) (simp_all add: as_bytes_def zero_notin_utf8_char)

text \<open>A mechanism name as the reader produces it: nonempty, without NUL, well-formed text.\<close>

definition wf_name :: "rstring \<Rightarrow> bool" where
  "wf_name m \<longleftrightarrow> m \<noteq> [] \<and> 0 \<notin> set m \<and> list_all is_scalar m"

lemma mechanisms_loop_wf: "list_all wf_name (mechanisms_loop buf)"
proof (induction buf rule: mechanisms_loop.induct)
  case (1 buf)
  show ?case
  proof (cases "read_cstring_bytes buf")
    case None
    then show ?thesis by (simp add: mechanisms_loop.simps [of buf] read_cstring_def)
  next
    case (Some vr)
    obtain v rest where vr: "vr = (v, rest)" by fastforce
    then have "wf_name (from_utf8_lossy v)" if "from_utf8_lossy v \<noteq> []"
      using Some that read_cstring_bytes_Some zero_notin_lossy from_utf8_lossy_scalar
      by (metis wf_name_def)
    with 1 Some vr show ?thesis
      by (simp add: mechanisms_loop.simps [of buf] read_cstring_def)
  qed
qed

lemma mechanisms_loop_encoded:
  "list_all wf_name ms \<Longrightarrow>
     mechanisms_loop (concat (map (\<lambda>m. as_bytes m @ [0]) ms) @ [0]) = ms"
proof (induction ms)
  case Nil
  then show ?case by (simp add: mechanisms_loop.simps [of "[0]"] read_cstring_def read_cstring_bytes_def)
next
  case (Cons m ms)
  then have "read_cstring (as_bytes m @ 0 # concat (map (\<lambda>m. as_bytes m @ [0]) ms) @ [0])
      = Some (m, concat (map (\<lambda>m. as_bytes m @ [0]) ms) @ [0])"
    by (simp add: read_cstring_field wf_name_def zero_notin_as_bytes from_utf8_lossy_as_bytes)
  with Cons show ?case
    by (simp add: mechanisms_loop.simps [of "as_bytes m @ _"] wf_name_def)
qed

lemma sasl_mechanisms_wf: "list_all wf_name (sasl_mechanisms b)"
  by (simp add: sasl_mechanisms_def mechanisms_loop_wf)

lemma sasl_mechanisms_encoded:
  "list_all wf_name ms \<Longrightarrow>
     sasl_mechanisms (be_encode 4 AUTH_SASL @ concat (map (\<lambda>m. as_bytes m @ [0]) ms) @ [0]) = ms"
  by (simp add: sasl_mechanisms_def mechanisms_loop_encoded)

lemma strip_channel_binding_Some:
  assumes "strip_channel_binding b = Some out"
  shows "sasl_mechanisms out = filter (\<lambda>m. \<not> is_plus m) (sasl_mechanisms b)"
proof -
  have "list_all wf_name (filter (\<lambda>m. \<not> is_plus m) (sasl_mechanisms b))"
    using sasl_mechanisms_wf [of b] by (auto simp: list_all_iff)
  with assms show ?thesis
    by (auto simp: strip_channel_binding_def Let_def sasl_mechanisms_encoded split: if_splits)
qed

section \<open>RowDescription bodies\<close>

text \<open>The backend's encoding of one field; the type size is sent and ignored.\<close>

definition wf_field :: "field_description \<Rightarrow> bool" where
  "wf_field f \<longleftrightarrow> 0 \<notin> set (fd_name f) \<and> list_all is_scalar (fd_name f)"

definition field_body :: "field_description \<times> i16 \<Rightarrow> bytes" where
  "field_body fs =
     (let f = fst fs
      in as_bytes (fd_name f) @ 0 # be_encode 4 (table_oid f) @ be_encode 2 (column_id f)
         @ be_encode 4 (type_oid f) @ be_encode 2 (snd fs) @ be_encode 4 (type_mod f)
         @ be_encode 2 (format f))"

lemma parse_field_description_body:
  assumes "wf_field (fst fs)"
  shows "parse_field_description (field_body fs @ rest) = Inr (fst fs, rest)"
proof -
  have "0 \<notin> set (as_bytes (fd_name (fst fs)))"
    using assms zero_notin_as_bytes by (simp add: wf_field_def)
  then show ?thesis
    using assms
    by (simp add: parse_field_description_def field_body_def Let_def read_cstring_field
        from_utf8_lossy_as_bytes wf_field_def)
qed

lemma dec_many_fields:
  "list_all (wf_field \<circ> fst) xs \<Longrightarrow>
     dec_many parse_field_description (length xs) (concat (map field_body xs) @ rest) = Inr (map fst xs, rest)"
  by (induction xs) (simp_all add: parse_field_description_body)

section \<open>Bind bodies\<close>

definition bind_body ::
  "bytes \<Rightarrow> bytes \<Rightarrow> i16 list \<Rightarrow> bytes option list \<Rightarrow> i16 list \<Rightarrow> bytes" where
  "bind_body portal statement param_formats params result_formats =
     portal @ 0 # statement @ 0 #
     be_encode 2 (of_nat (length param_formats) :: i16) @ concat (map (be_encode 2) param_formats) @
     be_encode 2 (of_nat (length params) :: i16) @ concat (map put_value params) @
     be_encode 2 (of_nat (length result_formats) :: i16) @ concat (map (be_encode 2) result_formats)"

lemma read_i16s_encoded [wire_simps]:
  "read_i16s (length cs) (concat (map (be_encode 2) cs) @ rest) = Some (cs, rest)"
  by (induction cs) (simp_all add: read_int_simps)

lemma read_i32_len32: "read_i32 (len32 n @ rest) = Some (of_nat n, rest)"
  by (simp add: len32_def read_int_simps)

lemma skip_params_encoded [wire_simps]:
  "list_all wf_value ps \<Longrightarrow> skip_params (length ps) (concat (map put_value ps) @ rest) = Some rest"
proof (induction ps)
  case (Cons p ps)
  show ?case
  proof (cases p)
    case None
    with Cons show ?thesis by (simp add: put_value_def read_int_simps)
  next
    case (Some b)
    with Cons have "sint (of_nat (length b) :: i32) = int (length b)"
      by (intro sint_of_nat_i32) (simp add: wf_value_def i32_max_def)
    with Some Cons show ?thesis by (simp add: put_value_Some read_i32_len32)
  qed
qed simp

lemma read_count_i16 [wire_simps]:
  "n < 2 ^ 15 \<Longrightarrow>
     \<exists>c. read_i16 (be_encode 2 (of_nat n :: i16) @ rest) = Some (c, rest) \<and> nat (max (sint c) 0) = n"
  by (simp add: read_int_simps sint_of_nat_i16)

section \<open>Properties\<close>

text \<open>
  C28. A stream of well-formed frames, delivered in any nonempty chunks, is read back by
  \<open>read_message\<close> as exactly those messages, followed by a clean end of file.
\<close>

theorem frames_read_back:
  assumes "list_all wf_frame ms" and "[] \<notin> set chunks" and "concat chunks = concat (map raw ms)"
  shows "read_messages (Suc (length ms)) frame_reader_new chunks = map (Inr \<circ> Some) ms @ [Inr None]"
  by (rule read_messages_frames) (use assms in \<open>simp_all add: stream_of_def frame_reader_new_def\<close>)

theorem frames_read_back_witness:
  "read_messages 2 frame_reader_new [[0x5A, 0], [0, 0], [5, 0x49]]
     = [Inr (Some (message_new 0x5A [0x49])), Inr None]"
proof -
  have "list_all wf_frame [message_new 0x5A [0x49]]"
    by (simp add: wf_message_new i32_max_def)
  moreover have "concat [[0x5A, 0], [0, 0], [5, 0x49]] = concat (map raw [message_new 0x5A [0x49]])"
    by (simp add: message_new_def Let_def i32_saturating_len_def i32_max_def be_encode_bytes)
  ultimately show ?thesis
    using frames_read_back [of "[message_new 0x5A [0x49]]" "[[0x5A, 0], [0, 0], [5, 0x49]]"]
    by (simp add: numeral_2_eq_2)
qed

text \<open>
  A DataRow frame the proxy builds is a well-formed frame whose body parses back to the
  values it was built from, as long as the row fits the protocol's 16-bit field count and 32-bit
  lengths.
\<close>

theorem data_row_round_trip:
  assumes "length vs < 2 ^ 15" and "length (concat (map put_value vs)) + 6 \<le> i32_max"
  shows "try_take_message (encode (build_data_row vs) @ rest) = Inr (Some (build_data_row vs), rest) \<and>
    parse_data_row (body (build_data_row vs)) = Inr vs"
proof
  show "try_take_message (encode (build_data_row vs) @ rest) = Inr (Some (build_data_row vs), rest)"
    unfolding encode_def by (rule try_take_message_frame [OF wf_build_data_row [OF assms(2)]])
  have "wf_value v" if "v \<in> set vs" for v
  proof -
    have "length (put_value v) \<le> length (concat (map put_value vs))"
      unfolding length_concat using that by (intro member_le_sum_list) simp_all
    with assms(2) show ?thesis by (cases v) (simp_all add: wf_value_def length_put_value)
  qed
  then have "list_all wf_value vs" by (simp add: list_all_iff)
  then show "parse_data_row (body (build_data_row vs)) = Inr vs"
    unfolding body_build_data_row by (rule parse_data_row_encoded [OF assms(1)])
qed

theorem data_row_round_trip_witness:
  "parse_data_row (body (build_data_row [Some [0x61, 0x62], None])) = Inr [Some [0x61, 0x62], None]"
  using data_row_round_trip [of "[Some [0x61, 0x62], None]" "[]"]
  by (simp add: length_put_value i32_max_def)

text \<open>
  Draining the incremental \<open>DataRowReader\<close> over a body accepts exactly the rows
  \<open>parse_data_row\<close> accepts, with the same values and the same error otherwise.
\<close>

theorem reader_agrees_with_parser:
  "(case data_row_reader_new b of Inl e \<Rightarrow> Inl e | Inr r \<Rightarrow> drain_reader (field_count r) r)
     = parse_data_row b"
proof (cases "length b < 2 \<or> sint (be_decode (take 2 b) :: i16) < 0")
  case True
  then show ?thesis by (auto simp: data_row_reader_new_def parse_data_row_def Let_def)
next
  case False
  let ?r = "\<lparr>dr_buf = drop 2 b, remaining_fields = be_decode (take 2 b)\<rparr>"
  have new: "data_row_reader_new b = Inr ?r"
    using False by (simp add: data_row_reader_new_def Let_def)
  have "drain_reader (field_count ?r) ?r = parse_data_row b"
    by (subst drain_reader_dec_many) (use False in \<open>simp_all add: field_count_def parse_data_row_def Let_def\<close>)
  with new show ?thesis by simp
qed

text \<open>
  A RowDescription as the backend encodes it is parsed to its fields: names, provenance
  (table OID and column number), type OID, type modifier and format, in order.
\<close>

theorem row_description_round_trip:
  assumes "length xs < 2 ^ 15" and "list_all (wf_field \<circ> fst) xs"
  shows "parse_row_description (be_encode 2 (of_nat (length xs) :: i16) @ concat (map field_body xs))
    = Inr (map fst xs)"
proof -
  have "sint (of_nat (length xs) :: i16) = int (length xs)"
    by (rule sint_of_nat_i16) (rule assms(1))
  then show ?thesis
    using dec_many_fields [OF assms(2), of "[]"] by (simp add: parse_row_description_def Let_def)
qed

theorem row_description_round_trip_witness:
  "let f = \<lparr>fd_name = [0x69, 0x64], table_oid = 16384, column_id = 1, type_oid = 23,
             type_mod = - 1, format = 0\<rparr>
   in parse_row_description (be_encode 2 (1 :: i16) @ field_body (f, 4)) = Inr [f]"
  using row_description_round_trip [of "[(\<lparr>fd_name = [0x69, 0x64], table_oid = 16384, column_id = 1,
      type_oid = 23, type_mod = - 1, format = 0\<rparr>, 4)]"]
  by (simp add: wf_field_def is_scalar_def)

text \<open>
  The Bind parsers recover the portal, the statement and the result-format codes from a Bind
  message, past any parameter formats and any parameter values (NULLs included).
\<close>

theorem bind_round_trip:
  assumes "0 \<notin> set portal" and "0 \<notin> set statement" and "list_all wf_value params"
    and "length pfs < 2 ^ 15" and "length params < 2 ^ 15" and "length rfs < 2 ^ 15"
  shows "parse_bind (bind_body portal statement pfs params rfs) = Some (portal, statement) \<and>
    parse_bind_result_formats (bind_body portal statement pfs params rfs) = Some rfs"
  using assms read_i16s_encoded [of rfs "[]"]
  by (simp add: parse_bind_def parse_bind_result_formats_def bind_body_def read_cstring_bytes_append
      read_int_simps sint_of_nat_i16 read_i16s_encoded skip_params_encoded)

theorem bind_round_trip_witness:
  "parse_bind (bind_body [0x70] [0x73] [1] [Some [0x41], None] [1, 0]) = Some ([0x70], [0x73]) \<and>
   parse_bind_result_formats (bind_body [0x70] [0x73] [1] [Some [0x41], None] [1, 0]) = Some [1, 0]"
  using bind_round_trip [of "[0x70]" "[0x73]" "[Some [0x41], None]" "[1]" "[1, 0]"]
  by (simp add: wf_value_def i32_max_def)

text \<open>
  The SQL text \<open>parse_parse\<close> hands to the analysis is byte for byte the text the forwarded
  Parse message carries: no replacement character and no truncation can separate the statement
  the proxy judges from the statement the backend runs.
\<close>

theorem sql_decoded_exactly:
  assumes "parse_parse b = Some (name, sql)"
  shows "\<exists>rest. b = name @ 0 # as_bytes sql @ 0 # rest \<and> 0 \<notin> set name \<and> 0 \<notin> set (as_bytes sql)"
proof -
  from assms obtain r where name: "read_cstring_bytes b = Some (name, r)"
    and "\<exists>rest. read_utf8_cstring r = Some (Some sql, rest)"
    by (auto simp: parse_parse_def split: option.splits)
  then obtain v rest where "read_cstring_bytes r = Some (v, rest)" and v: "from_utf8 v = Some sql"
    by (auto simp: read_utf8_cstring_def)
  then show ?thesis
    using read_cstring_bytes_Some [OF name] read_cstring_bytes_Some [of r v rest] from_utf8_Some [OF v]
    by auto
qed

theorem sql_decoded_exactly_witness:
  "\<exists>rest. [0x73, 0, 0x31, 0, 0, 0] = [0x73] @ 0 # as_bytes [0x31] @ 0 # rest \<and>
     0 \<notin> set [0x73 :: u8] \<and> 0 \<notin> set (as_bytes [0x31])"
proof (rule sql_decoded_exactly)
  show "parse_parse [0x73, 0, 0x31, 0, 0, 0] = Some ([0x73], [0x31])"
    by (simp add: parse_parse_def read_utf8_cstring_def read_cstring_bytes_def utf8_next.simps)
qed

text \<open>
  On a well-formed Error or Notice body the scrubber drops every leaky field, replaces the
  message by fixed text, replaces the SQLSTATE when SQL could have chosen it (any notice, or an
  error with a CONTEXT field), keeps the other fields, and reports "unchanged" only when no such
  field is present.
\<close>

theorem scrub_diagnostic_fields:
  assumes "wf_diag fs"
  shows "scrub_diagnostic (diag_body fs) notice =
    (let user = notice \<or> 0x57 \<in> fst ` set fs
     in if list_ex (\<lambda>fv. secret_field user (fst fv)) fs
        then Some (diag_body (List.map_filter (scrubbed_field notice user) fs)) else None)"
  using scrub_diagnostic_diag [OF assms, of notice] by (simp add: from_user_sql_def comp_def)

theorem scrub_diagnostic_fields_witness:
  "scrub_diagnostic (diag_body [(0x43, [0x32]), (0x44, [0x61])]) False = Some (diag_body [(0x43, [0x32])])"
  using scrub_diagnostic_fields [of "[(0x43, [0x32]), (0x44, [0x61])]" False]
  by (simp add: wf_diag_def secret_field_def scrubbed_field_def LEAKY_FIELDS_def List.map_filter_simps
      utf8_next.simps as_bytes_def utf8_char_def byte_of_def)

text \<open>
  C30. Diagnostics cannot carry values: two bodies with the same field tags that agree on the
  fields SQL cannot fill are forwarded as the same bytes, for errors and for notices alike.
\<close>

theorem diagnostics_noninterference:
  assumes "wf_diag fs" and "wf_diag gs" and "agree_on_public (from_user_sql notice fs) fs gs"
  shows "forwarded_diagnostic notice (diag_body fs) = forwarded_diagnostic notice (diag_body gs)"
proof -
  have "from_user_sql notice fs = from_user_sql notice gs"
    using agree_tags [OF assms(3)] unfolding from_user_sql_def by (metis list.set_map)
  then show ?thesis
    using agree_scrubbed [OF assms(3)] agree_secret [OF assms(3)] agree_no_secret [OF assms(3)]
    by (auto simp: forwarded_diagnostic_def scrub_diagnostic_diag [OF assms(1)]
        scrub_diagnostic_diag [OF assms(2)] Let_def)
qed

theorem diagnostics_noninterference_witness:
  "forwarded_diagnostic False (diag_body [(0x4D, [0x61]), (0x44, [0x62])])
     = forwarded_diagnostic False (diag_body [(0x4D, [0x7A]), (0x44, [])])"
  by (rule diagnostics_noninterference)
    (simp_all add: wf_diag_def agree_on_public_def secret_field_def LEAKY_FIELDS_def)

text \<open>
  When channel binding is stripped from an AuthenticationSASL message, the rewritten message
  offers exactly the server's other mechanisms in the server's order, and none that needs
  channel binding.
\<close>

theorem strip_channel_binding_offers:
  assumes "strip_channel_binding b = Some out"
  shows "sasl_mechanisms out = filter (\<lambda>m. \<not> is_plus m) (sasl_mechanisms b) \<and>
    \<not> list_ex is_plus (sasl_mechanisms out) \<and> list_ex is_plus (sasl_mechanisms b)"
  using assms strip_channel_binding_Some [OF assms]
  by (auto simp: list_ex_iff strip_channel_binding_def Let_def split: if_splits)

theorem strip_channel_binding_offers_witness:
  "let ms = [str ''S'', str ''S-PLUS''];
       b = be_encode 4 AUTH_SASL @ concat (map (\<lambda>m. as_bytes m @ [0]) ms) @ [0];
       out = be_encode 4 AUTH_SASL @ (as_bytes (str ''S'') @ [0]) @ [0]
   in strip_channel_binding b = Some out \<and> sasl_mechanisms out = [str ''S'']"
proof -
  let ?ms = "[str ''S'', str ''S-PLUS'']"
  let ?b = "be_encode 4 AUTH_SASL @ concat (map (\<lambda>m. as_bytes m @ [0]) ?ms) @ [0]"
  let ?out = "be_encode 4 AUTH_SASL @ (as_bytes (str ''S'') @ [0]) @ [0]"
  have wf: "list_all wf_name ?ms" by (simp add: wf_name_def is_scalar_def str_def)
  have ms: "sasl_mechanisms ?b = ?ms" by (rule sasl_mechanisms_encoded [OF wf])
  have plus: "\<not> is_plus (str ''S'')" "is_plus (str ''S-PLUS'')"
    by (simp_all add: is_plus_def ends_with_def str_def)
  have strip: "strip_channel_binding ?b = Some ?out"
    unfolding strip_channel_binding_def ms Let_def by (simp add: plus)
  from strip_channel_binding_offers [OF strip] ms plus have "sasl_mechanisms ?out = [str ''S'']" by simp
  with strip show ?thesis by (simp add: Let_def)
qed

section \<open>Startup packets\<close>

lemma try_take_startup_prefix:
  assumes "try_take_startup (a @ b) = Inr (Some p, rest)"
  shows "try_take_startup a = Inr (None, a) \<or> (\<exists>r. try_take_startup a = Inr (Some p, r) \<and> rest = r @ b)"
proof (cases "length a < 8")
  case True
  then show ?thesis by (simp add: try_take_startup_def)
next
  case False
  define len where "len = (be_decode (take 4 a) :: i32)"
  have same: "be_decode (take 4 (a @ b)) = len" using False by (simp add: len_def)
  from assms False have len: "8 \<le> sint len" "sint len \<le> 1048576" "nat (sint len) \<le> length (a @ b)"
    unfolding len_def by (auto simp: try_take_startup_def Let_def split: if_splits)
  show ?thesis
  proof (cases "length a < nat (sint len)")
    case True
    then show ?thesis using False len by (simp add: try_take_startup_def Let_def len_def)
  next
    case whole: False
    then show ?thesis
      using assms False len unfolding len_def by (auto simp: try_take_startup_def Let_def not_less)
  qed
qed

text \<open>A startup packet is read whole whatever pieces it arrives in, and nothing behind it is touched.\<close>

lemma read_startup_reads_packet:
  assumes "try_take_startup (stream_of fr chunks) = Inr (Some p, rest)" and "[] \<notin> set chunks"
  shows "\<exists>fr' chunks'. read_startup fr chunks = (Inr (Some p), fr', chunks') \<and> stream_of fr' chunks' = rest \<and>
    [] \<notin> set chunks' \<and> fr_eof fr' = fr_eof fr"
  using assms
proof (induction chunks arbitrary: fr)
  case Nil
  then show ?case by (simp add: read_startup.simps [of fr] stream_of_def)
next
  case (Cons c cs)
  from try_take_startup_prefix [of "fr_buf fr" "c @ concat cs" p rest] Cons.prems(1)
  consider "try_take_startup (fr_buf fr) = Inr (None, fr_buf fr)"
    | r where "try_take_startup (fr_buf fr) = Inr (Some p, r)" "rest = r @ c @ concat cs"
    by (auto simp: stream_of_def)
  then show ?case
  proof cases
    case 1
    have "stream_of (fr\<lparr>fr_buf := fr_buf fr @ c\<rparr>) cs = stream_of fr (c # cs)" by (simp add: stream_of_def)
    then show ?thesis
      using 1 Cons.IH [of "fr\<lparr>fr_buf := fr_buf fr @ c\<rparr>"] Cons.prems by (auto simp: read_startup.simps [of fr])
  next
    case 2
    then show ?thesis using Cons.prems(2) by (auto simp: read_startup.simps [of fr] stream_of_def)
  qed
qed

end
