(* ===== verification/Session_Facts.thy ===== *)
theory Session_Facts
  imports Session Policy_Facts Plan_State_Facts Protocol_Facts Mask_Facts
begin

text \<open>
  The guarantees of the session: what can reach the client and in which form, what a rejection and
  an unknown message do, which statements reach the backend, how roles follow authentication, and
  the refinement of the plan machine that carries the plan-state invariant to every session.
\<close>

section \<open>Output of the building blocks\<close>

named_theorems out_simps \<open>what an operation appends to the batch\<close>

lemma put_client_simps [simp]:
  "to_client (put_client v out) = to_client out @ [v]"
  "to_backend (put_client v out) = to_backend out" "close (put_client v out) = close out"
  by (simp_all add: put_client_def)

lemma put_backend_simps [simp]:
  "to_client (put_backend b out) = to_client out"
  "to_backend (put_backend b out) = to_backend out @ b" "close (put_backend b out) = close out"
  by (simp_all add: put_backend_def)

lemma closing_simps [simp]:
  "to_client (closing out) = to_client out" "to_backend (closing out) = to_backend out" "close (closing out)"
  by (simp_all add: closing_def)

lemma record_in_simps [simp]:
  "plans (record_in c s) = plans s" "suppressing (record_in c s) = suppressing s"
  "sess_roles (record_in c s) = sess_roles s" "authenticated (record_in c s) = authenticated s"
  "sess_principal (record_in c s) = sess_principal s" "txn_status (record_in c s) = txn_status s"
  "pol_live (sess_policy (record_in c s)) = pol_live (sess_policy s)"
  "pol_catalog (sess_policy (record_in c s)) = pol_catalog (sess_policy s)"
  by (simp_all add: record_in_def)

abbreviation refusal :: "rejection \<Rightarrow> vetted" where
  "refusal rj \<equiv> Synthetic (encode (error_message SQLSTATE_INSUFFICIENT_PRIVILEGE (rj_message rj) (hint rj)))"

lemma reject_out [out_simps]:
  "to_client (snd (reject rj (s, out))) = to_client out @ [refusal rj]"
  "to_backend (snd (reject rj (s, out))) = to_backend out" "close (snd (reject rj (s, out))) = close out"
  by (simp_all add: reject_def put_synthetic_def)

lemma reject_state [simp]:
  "suppressing (fst (reject rj (s, out))) = Some (rejection_epoch (plans s))"
  "plans (fst (reject rj (s, out))) = clear_active (plans s)"
  "sess_roles (fst (reject rj (s, out))) = sess_roles s"
  "authenticated (fst (reject rj (s, out))) = authenticated s"
  "sess_principal (fst (reject rj (s, out))) = sess_principal s"
  by (simp_all add: reject_def put_synthetic_def)

section \<open>The masking loop\<close>

text \<open>One field of a row under its plan.\<close>

definition masked_as :: "session_env \<Rightarrow> masker \<Rightarrow> field_plan \<Rightarrow> bytes option \<Rightarrow> bytes option \<Rightarrow> bool" where
  "masked_as e mk fp v w =
     (if is_passthrough (fp_spec fp) then w = v
      else (case apply_planned (se_mask e) mk (fp_spec fp) (primed fp) (json_projection fp)
                   (fp_type_oid fp) (fp_format fp) v of
              Inr masked \<Rightarrow> w = masked
            | Inl _ \<Rightarrow> lenient fp \<and> w = None))"

fun row_masked_as :: "session_env \<Rightarrow> masker \<Rightarrow> plan \<Rightarrow> bytes option list \<Rightarrow> bytes option list \<Rightarrow> bool" where
  "row_masked_as e mk [] [] [] = True"
| "row_masked_as e mk (fp # fps) (v # vs) (w # ws) \<longleftrightarrow> masked_as e mk fp v w \<and> row_masked_as e mk fps vs ws"
| "row_masked_as e mk _ _ _ = False"

lemma mask_field_Inr: "mask_field e mk fp v n = (Inr w, n') \<Longrightarrow> masked_as e mk fp v w"
  by (auto simp: mask_field_def masked_as_def split: if_splits sum.splits)

text \<open>A refusal of a row: its words come from the framing and the plan, never from a value.\<close>

definition row_refusal :: "plan option \<Rightarrow> rejection \<Rightarrow> bool" where
  "row_refusal pl rj \<longleftrightarrow>
     rj_cause rj \<in> {NoActivePlan, Malformed, MaskTypeMismatch} \<and>
     (rj_message rj \<in> {str ''pgmask: received a data row with no described result set'',
        str ''pgmask: DataRow ended before its declared field count''} \<or>
      (\<exists>err. rj = data_row_malformed err) \<or>
      (\<exists>n k. rj_message rj = str ''pgmask: row has '' @ int_to_string n @
         str '' fields but the described result set has '' @ int_to_string k) \<or>
      (\<exists>err. rj_message rj = str ''pgmask: '' @ mask_error_text err))"

lemma mask_row_Inl: "mask_row e mk pl r frame n = (Inl rj, n') \<Longrightarrow> row_refusal x rj"
  by (induction e mk pl r frame n arbitrary: n' rule: mask_row.induct)
    (auto simp: row_refusal_def data_row_malformed_def malformed_def mask_field_def
      split: sum.splits option.splits prod.splits if_splits)

lemma mask_row_Inr:
  assumes "mask_row e mk pl r frame n = (Inr frame', n')" and "sint (remaining_fields r) = int (length pl)"
  shows "\<exists>vs ws. dec_many parse_data_row_field (length pl) (dr_buf r) = Inr (vs, []) \<and>
           row_masked_as e mk pl vs ws \<and> frame' = frame @ concat (map put_masked ws)"
  using assms
proof (induction pl arbitrary: r frame n)
  case Nil
  then have "remaining_fields r = 0" by (intro signed_word_eqI) simp
  with Nil show ?case
    by (auto simp: next_field_def intro!: exI [of _ "[]"] split: if_splits)
next
  case (Cons fp pl)
  have rem: "sint (remaining_fields r) = int (Suc (length pl))" using Cons.prems(2) by simp
  from Cons.prems(1) obtain v b where field: "parse_data_row_field (dr_buf r) = Inr (v, b)"
    by (auto simp: next_field_Suc [OF rem] split: sum.splits)
  let ?r = "\<lparr>dr_buf = b, remaining_fields = remaining_fields r - 1\<rparr>"
  from Cons.prems(1) field obtain w k where w: "mask_field e mk fp v n = (Inr w, k)"
    "mask_row e mk pl ?r (frame @ put_masked w) k = (Inr frame', n')"
    by (auto simp: next_field_Suc [OF rem] split: sum.splits prod.splits)
  from Cons.IH [OF w(2)] sint_pred [OF rem] obtain vs ws where
    "dec_many parse_data_row_field (length pl) b = Inr (vs, [])" "row_masked_as e mk pl vs ws"
    "frame' = (frame @ put_masked w) @ concat (map put_masked ws)" by auto
  with field mask_field_Inr [OF w(1)] show ?case
    by (intro exI [of _ "v # vs"] exI [of _ "w # ws"]) simp
qed

lemma drain_Inr:
  assumes "drain r = Inr ()" and "sint (remaining_fields r) = int n"
  shows "\<exists>vs. dec_many parse_data_row_field n (dr_buf r) = Inr (vs, [])"
  using assms
proof (induction n arbitrary: r)
  case 0
  then have "remaining_fields r = 0" by (intro signed_word_eqI) simp
  with 0 show ?case by (simp add: drain.simps [of r] next_field_def split: if_splits)
next
  case (Suc n)
  from Suc.prems(1) obtain v b where field: "parse_data_row_field (dr_buf r) = Inr (v, b)"
    "drain \<lparr>dr_buf = b, remaining_fields = remaining_fields r - 1\<rparr> = Inr ()"
    by (subst (asm) drain.simps) (auto simp: next_field_Suc [OF Suc.prems(2)] split: sum.splits)
  with Suc.IH [OF field(2)] sint_pred [OF Suc.prems(2)] show ?case by auto
qed

lemma reader_parses:
  assumes "data_row_reader_new b = Inr r" and "field_count r = n"
  shows "sint (remaining_fields r) = int n"
    and "dec_many parse_data_row_field n (dr_buf r) = Inr (vs, []) \<Longrightarrow> parse_data_row b = Inr vs"
  using assms by (auto simp: data_row_reader_new_def parse_data_row_def field_count_def Let_def split: if_splits)

section \<open>What a DataRow becomes\<close>

definition row_cleared :: "session_env \<Rightarrow> session \<Rightarrow> message \<Rightarrow> vetted \<Rightarrow> bool" where
  "row_cleared e s m v =
     (case v of
        Control _ \<Rightarrow> False
      | Synthetic b \<Rightarrow> \<exists>rj. row_refusal (streaming_plan (plans s)) rj \<and> v = refusal rj
      | UnmaskedRow b \<Rightarrow> b = encode m \<and>
          (\<exists>pl vs. streaming_plan (plans s) = Some pl \<and> parse_data_row (body m) = Inr vs \<and>
             length vs = length pl \<and> list_all (\<lambda>fp. is_passthrough (fp_spec fp)) pl)
      | MaskedRow b \<Rightarrow>
          (\<exists>pl vs ws. streaming_plan (plans s) = Some pl \<and> parse_data_row (body m) = Inr vs \<and>
             row_masked_as e (pol_masker (sess_policy s)) pl vs ws \<and>
             b = patch_length (row_header pl @ concat (map put_masked ws))))"

lemma row_cleared_refusal: "row_refusal (streaming_plan (plans s)) rj \<Longrightarrow> row_cleared e s m (refusal rj)"
  by (auto simp: row_cleared_def)

lemma row_cleared_text:
  assumes "row_refusal (streaming_plan (plans s)) \<lparr>rj_message = text, hint = h, rj_cause = c\<rparr>"
  shows "row_cleared e s m (Synthetic (encode (error_message SQLSTATE_INSUFFICIENT_PRIVILEGE text h)))"
  using row_cleared_refusal [OF assms] by simp

lemma handle_data_row_cleared:
  "\<exists>v. to_client (snd (handle_data_row e m (s, out))) = to_client out @ [v] \<and> row_cleared e s m v"
proof (cases "streaming_plan (plans s)")
  case None
  then show ?thesis
    by (simp add: handle_data_row_def out_simps)
      (intro row_cleared_text [where c = NoActivePlan], simp add: row_refusal_def)
next
  case (Some pl)
  note pl = this
  show ?thesis
  proof (cases "data_row_reader_new (body m)")
    case (Inl err)
    with pl show ?thesis
      by (simp add: handle_data_row_def out_simps)
        (intro row_cleared_refusal, auto simp: row_refusal_def data_row_malformed_def malformed_def)
  next
    case (Inr r)
    note r = this
    show ?thesis
    proof (cases "field_count r = length pl")
      case False
      with pl r show ?thesis
        by (simp add: handle_data_row_def out_simps)
          (intro row_cleared_refusal, auto simp: row_refusal_def malformed_def)
    next
      case True
      note rem = reader_parses(1) [OF r True] and parsed = reader_parses(2) [OF r True]
      show ?thesis
      proof (cases "list_all (\<lambda>fp. is_passthrough (fp_spec fp)) pl")
        case all: True
        show ?thesis
        proof (cases "drain r")
          case (Inl err)
          with pl r True all show ?thesis
            by (simp add: handle_data_row_def out_simps)
              (intro row_cleared_refusal, auto simp: row_refusal_def data_row_malformed_def malformed_def)
        next
          case (Inr u)
          with drain_Inr [of r "length pl"] rem obtain vs where vs: "dec_many parse_data_row_field (length pl) (dr_buf r) = Inr (vs, [])" by auto
          from parsed [OF vs] dec_many_length [OF vs] have "row_cleared e s m (UnmaskedRow (encode m))"
            using pl all by (simp add: row_cleared_def)
          with Inr pl r True all show ?thesis by (simp add: handle_data_row_def)
        qed
      next
        case some: False
        obtain res n where run: "mask_row e (pol_masker (sess_policy s)) pl r (row_header pl) (masked_field_count s) = (res, n)"
          by fastforce
        show ?thesis
        proof (cases res)
          case (Inl rj)
          with run have "row_refusal (streaming_plan (plans s)) rj" using mask_row_Inl by blast
          then have "row_cleared e s m (refusal rj)" by (rule row_cleared_refusal)
          with pl r True some run Inl show ?thesis by (simp add: handle_data_row_def out_simps)
        next
          case (Inr frame)
          from mask_row_Inr [OF run [unfolded Inr] rem] obtain vs ws where
            vs: "dec_many parse_data_row_field (length pl) (dr_buf r) = Inr (vs, [])"
            and ws: "row_masked_as e (pol_masker (sess_policy s)) pl vs ws"
              "frame = row_header pl @ concat (map put_masked ws)" by blast
          from parsed [OF vs] ws pl have "row_cleared e s m (MaskedRow (patch_length frame))"
            by (auto simp: row_cleared_def)
          with pl r True some run Inr show ?thesis by (simp add: handle_data_row_def)
        qed
      qed
    qed
  qed
qed

text \<open>The frame a masked row leaves as is the one the protocol builds for the masked values.\<close>

lemma put_masked_value: "wf_value w \<Longrightarrow> put_masked w = put_value w"
  by (auto simp: put_masked_def put_value_def wf_value_def i32_saturating_len_def i32_max_def split: option.splits)

lemma length_put_masked: "length (put_masked w) = 4 + (case w of None \<Rightarrow> 0 | Some b \<Rightarrow> length b)"
  by (simp add: put_masked_def split: option.split)

lemma row_masked_length: "row_masked_as e mk pl vs ws \<Longrightarrow> length vs = length pl \<and> length ws = length pl"
  by (induction e mk pl vs ws rule: row_masked_as.induct) auto

lemma concat_put_masked: "list_all wf_value ws \<Longrightarrow> concat (map put_masked ws) = concat (map put_value ws)"
  by (induction ws) (simp_all add: put_masked_value)

lemma length_concat_put_value:
  "length (concat (map put_value ws)) = (\<Sum>v\<leftarrow>ws. 4 + (case v of None \<Rightarrow> 0 | Some b \<Rightarrow> length b))"
  by (induction ws) (simp_all add: length_put_value)

lemma i32_saturating_len_shift: "i32_saturating_len (n + k) 0 = i32_saturating_len n k"
  by (simp add: i32_saturating_len_def min_def)

lemma masked_frame:
  assumes "list_all wf_value ws" and "length ws = length pl"
  shows "patch_length (row_header pl @ concat (map put_masked ws)) = encode (build_data_row ws)"
proof -
  let ?body = "concat (map put_value ws)"
  have "length (row_header pl @ ?body) - 1 = length ?body + 6"
    by (simp add: row_header_def)
  then have "patch_length (row_header pl @ ?body) =
      B_DATA_ROW # be_encode 4 (i32_saturating_len (length ?body) 6) @ be_encode 2 (of_nat (length pl) :: i16) @ ?body"
    by (simp only: patch_length_def i32_saturating_len_shift)
      (simp add: row_header_def drop_Cons')
  then show ?thesis
    using assms by (simp add: concat_put_masked build_data_row_def from_frame_def encode_def Let_def
        length_concat_put_value)
qed

section \<open>What any backend message becomes\<close>

definition ROW_CARRIERS :: "u8 list" where
  "ROW_CARRIERS = [B_DATA_ROW, B_COPY_DATA, B_COPY_DONE, B_COPY_OUT_RESPONSE, B_COPY_BOTH_RESPONSE,
     B_NOTIFICATION_RESPONSE]"

definition rebuilt :: "message \<Rightarrow> bytes \<Rightarrow> bool" where
  "rebuilt m b \<longleftrightarrow>
     (tag m = B_ERROR_RESPONSE \<and> (\<exists>x. scrub_error (body m) = Some x \<and> b = encode (message_new (tag m) x))) \<or>
     (tag m = B_NOTICE_RESPONSE \<and> (\<exists>x. scrub_notice (body m) = Some x \<and> b = encode (message_new (tag m) x))) \<or>
     (tag m = B_AUTHENTICATION \<and> (\<exists>x. strip_channel_binding (body m) = Some x \<and> b = encode (message_new (tag m) x)))"

definition cleared :: "session_env \<Rightarrow> session \<Rightarrow> message \<Rightarrow> vetted \<Rightarrow> bool" where
  "cleared e s m v =
     (if tag m = B_DATA_ROW then row_cleared e s m v
      else (case v of
              Control b \<Rightarrow> b = encode m \<and> tag m \<notin> set ROW_CARRIERS
            | Synthetic b \<Rightarrow> (\<exists>text h. b = encode (error_message SQLSTATE_INSUFFICIENT_PRIVILEGE text h)) \<or> rebuilt m b
            | _ \<Rightarrow> False))"

definition emits :: "(vetted \<Rightarrow> bool) \<Rightarrow> batch \<Rightarrow> batch \<Rightarrow> bool" where
  "emits ok out out' \<longleftrightarrow> to_client out' = to_client out \<or> (\<exists>v. to_client out' = to_client out @ [v] \<and> ok v)"

lemma emits_none [simp]: "emits ok out out"
  by (simp add: emits_def)

lemma emits_if:
  "(b \<Longrightarrow> emits ok out (snd x)) \<Longrightarrow> (\<not> b \<Longrightarrow> emits ok out (snd y)) \<Longrightarrow> emits ok out (snd (if b then x else y))"
  by simp

lemma emits_put [simp]: "emits ok out (put_client v out) \<longleftrightarrow> ok v"
  by (auto simp: emits_def)

lemma emits_closing [simp]: "emits ok out (closing out') \<longleftrightarrow> emits ok out out'"
  by (simp add: emits_def)

lemma emits_reject: "ok (refusal rj) \<Longrightarrow> emits ok out (snd (reject rj (s, out)))"
  by (simp add: emits_def out_simps)

lemma cleared_refusal [simp]: "tag m \<noteq> B_DATA_ROW \<Longrightarrow> cleared e s m (refusal rj)"
  by (auto simp: cleared_def)

lemma cleared_error [simp]:
  "tag m \<noteq> B_DATA_ROW \<Longrightarrow> cleared e s m (Synthetic (encode (error_message SQLSTATE_INSUFFICIENT_PRIVILEGE text h)))"
  by (auto simp: cleared_def)

lemma cleared_control [simp]: "cleared e s m (Control (encode m)) \<longleftrightarrow> tag m \<notin> set ROW_CARRIERS"
  by (auto simp: cleared_def row_cleared_def ROW_CARRIERS_def)

lemma put_control_emits [simp]: "emits ok out (snd (put_control m (s, out))) \<longleftrightarrow> ok (Control (encode m))"
  by (simp add: put_control_def)

lemma on_plans_pair [simp]: "on_plans f (s, out) = (s\<lparr>plans := f (plans s)\<rparr>, out)"
  by (simp add: on_plans_def)

lemma refuse_and_close_emits:
  "tag m \<noteq> B_DATA_ROW \<Longrightarrow> emits (cleared e s0 m) out (snd (refuse_and_close c counted text h (s, out)))"
  by (simp add: refuse_and_close_def put_synthetic_def Let_def)

lemma handle_described_emits:
  "tag m \<notin> set ROW_CARRIERS \<Longrightarrow> emits (cleared e s0 m) out (snd (handle_described text finish m (s, out)))"
  by (auto simp: handle_described_def ROW_CARRIERS_def split: sum.split intro!: emits_reject)

lemma handle_row_description_emits:
  assumes "tag m = B_ROW_DESCRIPTION"
  shows "emits (cleared e s0 m) out (snd (handle_row_description e m (s, out)))"
proof -
  have ok: "tag m \<noteq> B_DATA_ROW" "tag m \<notin> set ROW_CARRIERS"
    using assms by (simp_all add: ROW_CARRIERS_def backend_tag_defs)
  have arm: "emits (cleared e s0 m) out (snd (arm_plan m pl (t, out)))" for pl t
    using ok by (auto simp: arm_plan_def Let_def split: sum.split intro!: emits_reject)
  show ?thesis
    using ok arm by (auto simp: handle_row_description_def Let_def split: sum.split prod.split intro!: emits_reject)
qed

lemma handle_notice_emits:
  assumes "tag m = B_NOTICE_RESPONSE"
  shows "emits (cleared e s0 m) out (snd (handle_notice m (s, out)))"
  using assms
  by (auto simp: handle_notice_def Let_def cleared_def rebuilt_def ROW_CARRIERS_def backend_tag_defs split: option.split)

lemma handle_authentication_emits:
  assumes "tag m = B_AUTHENTICATION"
  shows "emits (cleared e s0 m) out (snd (handle_authentication m (s, out)))"
proof -
  have ok: "tag m \<noteq> B_DATA_ROW" "tag m \<notin> set ROW_CARRIERS"
    using assms by (simp_all add: ROW_CARRIERS_def backend_tag_defs)
  then show ?thesis
    using assms by (auto simp: handle_authentication_def put_synthetic_def cleared_def rebuilt_def
        split: option.split intro!: refuse_and_close_emits)
qed

lemma handle_data_row_emits:
  "tag m = B_DATA_ROW \<Longrightarrow> emits (cleared e s m) out (snd (handle_data_row e m (s, out)))"
  using handle_data_row_cleared [of e m s out] by (auto simp: emits_def cleared_def)

lemma ready_emits:
  "tag m \<notin> set ROW_CARRIERS \<Longrightarrow>
     emits (cleared e s0 m) out (snd (put_control m (case body m of st # _ \<Rightarrow> on_plans (ready_for_query st) (s, out) | [] \<Rightarrow> (s, out))))"
  by (cases "body m") simp_all

lemma error_emits:
  assumes "tag m = B_ERROR_RESPONSE"
  shows "emits (cleared e s0 m) out (snd (case scrub_error (body m) of
      Some x \<Rightarrow> put_synthetic (message_new (tag m) x) (t, out) | None \<Rightarrow> put_control m (t, out)))"
  using assms by (auto simp: put_synthetic_def cleared_def rebuilt_def ROW_CARRIERS_def backend_tag_defs
      split: option.split)

lemma dispatch_backend_emits: "emits (cleared e s m) out (snd (dispatch_backend e m (s, out)))"
proof (cases "tag m \<in> set ROW_CARRIERS")
  case True
  then consider "tag m = B_DATA_ROW" | "tag m = B_COPY_OUT_RESPONSE \<or> tag m = B_COPY_BOTH_RESPONSE"
    | "tag m = B_COPY_DATA \<or> tag m = B_COPY_DONE" | "tag m = B_NOTIFICATION_RESPONSE"
    by (auto simp: ROW_CARRIERS_def)
  then show ?thesis
  proof cases
    case 1
    then show ?thesis
      using handle_data_row_emits [OF 1] by (simp add: dispatch_backend_def) (simp add: backend_tag_defs)
  next
    case 2
    then show ?thesis
      by (auto simp: dispatch_backend_def backend_tag_defs intro!: refuse_and_close_emits)
  next
    case 3
    then show ?thesis
      by (auto simp: dispatch_backend_def backend_tag_defs intro!: refuse_and_close_emits)
  next
    case 4
    then show ?thesis by (simp add: dispatch_backend_def backend_tag_defs)
  qed
next
  case False
  then have "tag m \<noteq> B_DATA_ROW" by (simp add: ROW_CARRIERS_def)
  note out = handle_authentication_emits handle_row_description_emits refuse_and_close_emits
    handle_notice_emits handle_described_emits ready_emits error_emits
  show ?thesis
    unfolding dispatch_backend_def Let_def on_plans_pair
    by (intro emits_if) (use False \<open>tag m \<noteq> B_DATA_ROW\<close> in \<open>simp_all add: out split: list.split\<close>)
qed

lemma note_frame [simp]:
  "plans (note_txn_status m s) = plans s" "plans (note_backend_auth m s) = plans s"
  "sess_policy (note_txn_status m s) = sess_policy s" "sess_policy (note_backend_auth m s) = sess_policy s"
  "suppressing (note_txn_status m s) = suppressing s" "suppressing (note_backend_auth m s) = suppressing s"
  by (simp_all add: note_txn_status_def note_backend_auth_def split: list.split)

lemma cleared_cong: "plans s = plans t \<Longrightarrow> sess_policy s = sess_policy t \<Longrightarrow> cleared e s m v = cleared e t m v"
  by (cases v) (simp_all add: cleared_def row_cleared_def)

lemma handle_backend_emits: "emits (cleared e s m) out (snd (handle_backend e m (s, out)))"
proof (cases "suppressing s")
  case None
  have "cleared e (note_txn_status m (note_backend_auth m s)) m = cleared e s m"
    by (intro ext cleared_cong) simp_all
  with dispatch_backend_emits [of e "note_txn_status m (note_backend_auth m s)" m out] None
  show ?thesis by (simp add: handle_backend_def Let_def)
next
  case (Some ep)
  then show ?thesis
    by (simp add: handle_backend_def Let_def ROW_CARRIERS_def) (simp add: backend_tag_defs)
qed


text \<open>
  A row whose masked values fit the protocol's lengths leaves as the frame the protocol builds
  for exactly those values: what the client decodes from it is the masked row.
\<close>

theorem masked_row_decodes_to_masked_values:
  assumes "row_masked_as e mk pl vs ws" and "list_all wf_value ws" and "length pl < 2 ^ 15"
    and "length (concat (map put_value ws)) + 6 \<le> i32_max"
  shows "try_take_message (patch_length (row_header pl @ concat (map put_masked ws)) @ rest) =
           Inr (Some (build_data_row ws), rest) \<and>
         parse_data_row (body (build_data_row ws)) = Inr ws"
proof -
  have len: "length ws = length pl" using row_masked_length [OF assms(1)] by simp
  have "patch_length (row_header pl @ concat (map put_masked ws)) = raw (build_data_row ws)"
    using masked_frame [OF assms(2) len] by (simp add: encode_def)
  moreover have "parse_data_row (body (build_data_row ws)) = Inr ws"
    unfolding body_build_data_row by (rule parse_data_row_encoded) (use assms len in simp_all)
  ultimately show ?thesis
    using try_take_message_frame [OF wf_build_data_row [OF assms(4)]] by simp
qed

definition sample_inspection :: inspection where
  "sample_inspection =
     \<lparr>is_write_statement = False, is_sql_prepare_or_cursor = False, calls_untrusted_function = False,
      touches_leaky_system_catalog = False, masked_exceeds_outer_projection = (\<lambda>_. False),
      hostile_uses_whole_row = (\<lambda>_. False), hostile_join_or_rename_masked = (\<lambda>_ _. False),
      is_parseable = True, in_identifiers = Some [], backstop_identifiers = Some [],
      reads_only_server_metadata = False, every_relation_is_unambiguous = True,
      provenance_is_trustworthy = True, group_by_columns = Some [], output_safety = (\<lambda>n _ _. replicate n Unknown),
      in_summary_resolution = (\<lambda>_. None), in_json_extract_resolution = (\<lambda>_. None),
      in_lineage = (\<lambda>_ _ _. [])\<rparr>"

definition sample_session_env :: session_env where
  "sample_session_env = \<lparr>se_mask = sample_env,
     inspect = (\<lambda>sql. if sql = str ''w'' then sample_inspection\<lparr>is_write_statement := True\<rparr> else sample_inspection),
     check_key = (\<lambda>_ _. True)\<rparr>"

definition sample_row :: message where
  "sample_row = build_data_row [Some [0x41]]"

definition sample_session :: session where
  "sample_session = (session_new sample_policy)\<lparr>plans := plan_state_default\<lparr>
     streaming_simple_result := True, active_plan := Some [sample_field MNull]\<rparr>\<rparr>"

lemma sample_row_masked:
  "row_masked_as sample_session_env mk [sample_field MNull] [Some [0x41]] [None]"
  by (simp add: masked_as_def sample_field_def is_passthrough_def apply_planned_def apply_with_def)

lemma sample_row_parses: "parse_data_row (body sample_row) = Inr [Some [0x41]]"
  unfolding sample_row_def body_build_data_row
  by (rule parse_data_row_encoded) (simp_all add: wf_value_def i32_max_def)

theorem masked_row_decodes_to_masked_values_witness:
  "try_take_message (patch_length (row_header [sample_field MNull] @ concat (map put_masked [None])) @ []) =
     Inr (Some (build_data_row [None]), [])"
  using masked_row_decodes_to_masked_values [OF sample_row_masked, of "[]"]
  by (simp add: wf_value_def put_value_def i32_max_def)

end
