(* ===== verification/Session_Runs.thy ===== *)
theory Session_Runs
  imports Session_Facts
begin

text \<open>
  The session as a machine over interleaved events: messages from the client, messages from the
  backend, and policy changes made by a reload or by other sessions between two messages. Its runs
  refine runs of the plan machine, keep its invariant, hold no roles before authentication, stay
  silent after a refusal, and drop every plan a reload outdates.
\<close>

section \<open>Events\<close>

datatype session_event = FromClient message | FromBackend message | PolicySwap policy

fun session_step :: "session_env \<Rightarrow> sb \<Rightarrow> session_event \<Rightarrow> sb" where
  "session_step e sb (FromClient m) = handle_frontend e m sb"
| "session_step e sb (FromBackend m) = handle_backend e m sb"
| "session_step e sb (PolicySwap p) = ((fst sb)\<lparr>sess_policy := p\<rparr>, snd sb)"

abbreviation session_run :: "session_env \<Rightarrow> sb \<Rightarrow> session_event list \<Rightarrow> sb" where
  "session_run e \<equiv> foldl (session_step e)"

section \<open>Frames of the frontend\<close>

text \<open>
  \<open>front_ok\<close> relates the session before and after a client message: the output to the client is
  synthetic, and neither suppression nor authentication changes.
\<close>

definition only_synthetic :: "batch \<Rightarrow> batch \<Rightarrow> bool" where
  "only_synthetic out out' \<longleftrightarrow> (\<exists>bs. to_client out' = to_client out @ map Synthetic bs)"

definition identity_kept :: "session \<Rightarrow> session \<Rightarrow> bool" where
  "identity_kept s s' \<longleftrightarrow> authenticated s' = authenticated s \<and> sess_principal s' = sess_principal s \<and>
     (\<not> authenticated s \<longrightarrow> sess_roles s' = sess_roles s)"

lemma identity_kept_refl [simp]: "identity_kept s s"
  by (simp add: identity_kept_def)

lemma identity_kept_trans: "identity_kept a b \<Longrightarrow> identity_kept b c \<Longrightarrow> identity_kept a c"
  by (simp add: identity_kept_def)

lemma identity_kept_frame [simp]:
  "identity_kept s (record_in c s') = identity_kept s s'" "identity_kept s (s'\<lparr>plans := ps\<rparr>) = identity_kept s s'"
  "identity_kept s (s'\<lparr>sess_policy := p\<rparr>) = identity_kept s s'" "identity_kept s (sync_policy s)"
  "identity_kept s (fst (reject rj (s', out))) = identity_kept s s'"
  by (simp_all add: identity_kept_def sync_policy_def Let_def split: prod.split)

definition front_ok :: "sb \<Rightarrow> sb \<Rightarrow> bool" where
  "front_ok sb sb' \<longleftrightarrow>
     only_synthetic (snd sb) (snd sb') \<and> suppressing (fst sb') = suppressing (fst sb) \<and>
     identity_kept (fst sb) (fst sb')"

lemma only_synthetic_refl [simp]: "only_synthetic out out"
  by (auto simp: only_synthetic_def intro: exI [of _ "[]"])

lemma only_synthetic_trans: "only_synthetic a b \<Longrightarrow> only_synthetic b c \<Longrightarrow> only_synthetic a c"
  by (auto simp: only_synthetic_def simp flip: map_append)

lemma front_ok_refl [simp]: "front_ok sb sb"
  by (simp add: front_ok_def)

lemma front_ok_trans: "front_ok a b \<Longrightarrow> front_ok b c \<Longrightarrow> front_ok a c"
  by (auto simp: front_ok_def intro: only_synthetic_trans identity_kept_trans)

lemma only_synthetic_put [simp]: "only_synthetic out (put_client (Synthetic b) out)"
  by (auto simp: only_synthetic_def intro: exI [of _ "[b]"])

lemma only_synthetic_frame [simp]:
  "only_synthetic out (put_backend b out') = only_synthetic out out'"
  "only_synthetic out (closing out') = only_synthetic out out'"
  by (simp_all add: only_synthetic_def)

lemma front_ok_synthetic: "front_ok (s, out) (put_synthetic m (s, out))"
  by (simp add: put_synthetic_def front_ok_def)

lemma front_ok_record [simp]: "front_ok sb (record_in c s, out) = front_ok sb (s, out)"
  by (simp add: front_ok_def)

lemma front_ok_refuse: "front_ok sb (refuse c state text h with_ready sb)"
proof (cases sb)
  case (Pair s out)
  have one: "front_ok (s, out) (put_synthetic m (record_in c s, out))" for m
    by (simp add: put_synthetic_def front_ok_def)
  have two: "front_ok x (synthetic_ready x)" for x :: sb
    by (cases x) (simp add: synthetic_ready_def front_ok_synthetic)
  show ?thesis
    using one front_ok_trans [OF one two] by (simp add: Pair refuse_def Let_def)
qed

lemma front_ok_rate_limited: "front_ok sb (refuse_rate_limited with_ready sb)"
  by (simp add: refuse_rate_limited_def front_ok_refuse)

lemma front_ok_frontend_sql: "front_ok sb (snd (refuse_frontend_sql e sql with_ready sb))"
  by (simp add: refuse_frontend_sql_def Let_def refuse_write_def refuse_sql_prepare_or_cursor_def
      refuse_untrusted_function_def refuse_leaky_catalog_def refuse_hostile_masked_use_def front_ok_refuse)

lemma refuse_frontend_sql_pass: "refuse_frontend_sql e sql b sb = (False, sb') \<Longrightarrow> sb' = sb"
  by (auto simp: refuse_frontend_sql_def Let_def split: if_splits)

lemma allow_statement_frame:
  "allow_statement e s = (ok, s') \<Longrightarrow>
     plans s' = plans s \<and> suppressing s' = suppressing s \<and> authenticated s' = authenticated s \<and>
     sess_principal s' = sess_principal s \<and> sess_roles s' = sess_roles s \<and> txn_status s' = txn_status s"
  by (auto simp: allow_statement_def set_rate_limit_def split: option.splits if_splits prod.splits)

lemma front_ok_charge:
  assumes "\<And>s'. front_ok (s', snd sb) (k (s', snd sb))"
  shows "front_ok sb (charge e with_ready k sb)"
proof (cases sb)
  case (Pair s out)
  obtain ok s' where ok: "allow_statement e s = (ok, s')" by fastforce
  have "front_ok (s, out) (s', out)" using allow_statement_frame [OF ok] by (simp add: front_ok_def identity_kept_def)
  then show ?thesis
    using ok assms [of s'] front_ok_rate_limited [of "(s', out)" with_ready]
    by (auto simp: Pair charge_def intro: front_ok_trans)
qed

lemma front_ok_gate:
  assumes "front_ok sb (k sb)"
  shows "front_ok sb (gate e sql with_ready k sb)"
  using assms front_ok_frontend_sql [of sb e _ with_ready]
  by (auto simp: gate_def split: option.split prod.split) (metis snd_conv)

lemma front_ok_forward: "front_ok (s, out) (forward_backend m (on_plans f (s, out)))"
  "front_ok (s, out) (forward_backend m (s, out))"
  by (simp_all add: forward_backend_def front_ok_def)

lemma sync_policy_frame [simp]:
  "suppressing (sync_policy s) = suppressing s" "authenticated (sync_policy s) = authenticated s"
  "sess_principal (sync_policy s) = sess_principal s" "sess_policy (sync_policy s) = sess_policy s"
  "txn_status (sync_policy s) = txn_status s"
  by (simp_all add: sync_policy_def Let_def split: prod.split)

lemma front_ok_if:
  "(b \<Longrightarrow> front_ok x y) \<Longrightarrow> (\<not> b \<Longrightarrow> front_ok x z) \<Longrightarrow> front_ok x (if b then y else z)"
  by simp

lemma front_ok_option:
  "(\<And>a. v = Some a \<Longrightarrow> front_ok x (f a)) \<Longrightarrow> front_ok x y \<Longrightarrow> front_ok x (case v of Some a \<Rightarrow> f a | None \<Rightarrow> y)"
  by (cases v) simp_all

lemma front_ok_closing: "front_ok x y \<Longrightarrow> front_ok x (let (s', out') = y in (s', closing out'))"
  by (cases y) (simp add: front_ok_def)

lemma front_ok_pair: "(\<And>a b. v = (a, b) \<Longrightarrow> front_ok x (f a b)) \<Longrightarrow> front_ok x (case v of (a, b) \<Rightarrow> f a b)"
  by (cases v) simp

lemma front_ok_function_call: "front_ok (s, out) (put_synthetic m (record_in c s, out))"
  by (simp add: put_synthetic_def front_ok_def)

lemma front_ok_handle_frontend: "front_ok (s, out) (handle_frontend e m (s, out))"
proof -
  let ?sb = "(sync_policy s, out)"
  have sync: "front_ok (s, out) ?sb" by (simp add: front_ok_def)
  have "front_ok ?sb (handle_frontend e m (s, out))"
    unfolding handle_frontend_def Let_def [of "(_, _)"] Let_def [of "parse_simple_query _"] fst_conv snd_conv
    by (intro front_ok_if front_ok_option front_ok_closing front_ok_gate front_ok_charge front_ok_pair
        front_ok_function_call front_ok_forward)
  then show ?thesis using sync front_ok_trans by blast
qed

section \<open>The session drives the plan machine\<close>

definition plans_run :: "sb \<Rightarrow> sb \<Rightarrow> bool" where
  "plans_run sb sb' \<longleftrightarrow> (\<exists>ops. plans (fst sb') = plan_run (plans (fst sb)) ops)"

lemma plans_run_same: "plans (fst sb') = plans (fst sb) \<Longrightarrow> plans_run sb sb'"
  by (auto simp: plans_run_def intro: exI [of _ "[]"])

lemma plans_run_refl [simp]: "plans_run sb sb"
  by (simp add: plans_run_same)

lemma plans_run_step: "plans (fst sb') = plan_step (plans (fst sb)) op \<Longrightarrow> plans_run sb sb'"
  by (auto simp: plans_run_def intro: exI [of _ "[op]"])

lemma plans_run_trans: "plans_run a b \<Longrightarrow> plans_run b c \<Longrightarrow> plans_run a c"
  by (auto simp: plans_run_def simp flip: foldl_append)

lemma plans_run_if:
  "(b \<Longrightarrow> plans_run x y) \<Longrightarrow> (\<not> b \<Longrightarrow> plans_run x z) \<Longrightarrow> plans_run x (if b then y else z)"
  by simp

lemma plans_run_option:
  "(\<And>a. v = Some a \<Longrightarrow> plans_run x (f a)) \<Longrightarrow> plans_run x y \<Longrightarrow> plans_run x (case v of Some a \<Rightarrow> f a | None \<Rightarrow> y)"
  by (cases v) simp_all

lemma plans_run_pair: "(\<And>a b. v = (a, b) \<Longrightarrow> plans_run x (f a b)) \<Longrightarrow> plans_run x (case v of (a, b) \<Rightarrow> f a b)"
  by (cases v) simp

lemma plans_run_closing: "plans_run x y \<Longrightarrow> plans_run x (let (s', out') = y in (s', closing out'))"
  by (cases y) (simp add: plans_run_def)

lemma put_synthetic_plans [simp]: "plans (fst (put_synthetic m sb)) = plans (fst sb)"
  by (cases sb) (simp add: put_synthetic_def)

lemma put_control_plans [simp]: "plans (fst (put_control m sb)) = plans (fst sb)"
  by (cases sb) (simp add: put_control_def)

lemma forward_backend_plans [simp]: "plans (fst (forward_backend m sb)) = plans (fst sb)"
  by (cases sb) (simp add: forward_backend_def)

lemma on_plans_plans [simp]: "plans (fst (on_plans f sb)) = f (plans (fst sb))"
  by (cases sb) simp

lemma refuse_plans [simp]: "plans (fst (refuse c state text h with_ready sb)) = plans (fst sb)"
  by (cases sb) (simp add: refuse_def synthetic_ready_def put_synthetic_def Let_def)

lemma refuse_frontend_sql_plans [simp]: "plans (fst (snd (refuse_frontend_sql e sql b sb))) = plans (fst sb)"
  by (simp add: refuse_frontend_sql_def Let_def refuse_write_def refuse_sql_prepare_or_cursor_def
      refuse_untrusted_function_def refuse_leaky_catalog_def refuse_hostile_masked_use_def)

lemma sync_policy_plans: "plans (sync_policy s) = plan_step (plans s) (OpInvalidate (policy_generation (sess_policy s)))"
  by (auto simp: sync_policy_def Let_def split: prod.split)

lemma plans_run_charge:
  assumes "\<And>s'. plans_run (s', snd sb) (k (s', snd sb))"
  shows "plans_run sb (charge e with_ready k sb)"
proof (cases sb)
  case (Pair s out)
  obtain ok s' where ok: "allow_statement e s = (ok, s')" by fastforce
  have "plans_run (s, out) (s', out)" using allow_statement_frame [OF ok] by (simp add: plans_run_same)
  moreover have "plans_run (s', out) (refuse_rate_limited with_ready (s', out))"
    by (simp add: plans_run_same refuse_rate_limited_def)
  ultimately show ?thesis
    using ok assms [of s'] by (auto simp: Pair charge_def intro: plans_run_trans)
qed

lemma plans_run_gate:
  assumes "plans_run sb (k sb)"
  shows "plans_run sb (gate e sql with_ready k sb)"
proof (cases sql)
  case None
  with assms show ?thesis by (simp add: gate_def)
next
  case (Some q)
  obtain refused sb1 where r: "refuse_frontend_sql e q with_ready sb = (refused, sb1)" by (rule prod.exhaust)
  with refuse_frontend_sql_plans [of e q with_ready sb] have "plans_run sb sb1" by (simp add: plans_run_same)
  with Some r assms show ?thesis by (simp add: gate_def)
qed

lemma plans_run_forward:
  "plans_run x (forward_backend m x)"
  "(\<And>s. f s = plan_step s op) \<Longrightarrow> plans_run x (forward_backend m (on_plans f x))"
  by (simp_all add: plans_run_same plans_run_step [of _ _ op])

lemma plans_run_ops:
  "plans_run x (forward_backend m (on_plans (begin_simple_query sql) x))"
  "plans_run x (forward_backend m (on_plans (parse n q) x))"
  "plans_run x (forward_backend m (on_plans (plan_bind p st fs) x))"
  "plans_run x (forward_backend m (on_plans (plan_close t) x))"
  "plans_run x (forward_backend m (on_plans (describe t) x))"
  "plans_run x (forward_backend m (on_plans (execute p) x))"
  "plans_run x (forward_backend m (on_plans sync x))"
  by (rule plans_run_forward(2), rule plan_step.simps [symmetric])+

lemma handle_frontend_runs: "plans_run (s, out) (handle_frontend e m (s, out))"
proof -
  let ?sb = "(sync_policy s, out)"
  have sync: "plans_run (s, out) ?sb" by (simp add: plans_run_step sync_policy_plans del: plan_step.simps)
  have "plans_run ?sb (put_synthetic err (record_in c (sync_policy s), out))" for err c
    by (simp add: plans_run_same)
  then have "plans_run ?sb (handle_frontend e m (s, out))"
    unfolding handle_frontend_def Let_def [of "(_, _)"] Let_def [of "parse_simple_query _"] fst_conv snd_conv
    by (intro plans_run_if plans_run_option plans_run_closing plans_run_gate plans_run_charge plans_run_pair
        plans_run_forward(1) plans_run_ops)
  then show ?thesis using sync plans_run_trans by blast
qed

section \<open>Backend messages on the plans\<close>

lemma plans_run_reject: "plans_run x (s, out) \<Longrightarrow> plans_run x (reject rj (s, out))"
  by (rule plans_run_trans) (auto intro!: plans_run_step [of _ _ OpClearActive])

lemma handle_described_runs:
  assumes "\<And>s. plan_step s op = or_same s (finish s)"
  shows "plans_run (s, out) (handle_described text finish m (s, out))"
proof (cases "finish (plans s)")
  case (Inl u)
  then show ?thesis by (simp add: handle_described_def plans_run_reject)
next
  case (Inr ps)
  with assms [of "plans s"] show ?thesis
    by (simp add: handle_described_def or_same_def plans_run_step [of _ _ op])
qed

lemma arm_plan_runs: "plans_run (s, out) (arm_plan m pl (s, out))"
proof (cases "finish_description pl (plans s)")
  case (Inl u)
  then show ?thesis by (simp add: arm_plan_def Let_def plans_run_reject plans_run_same)
next
  case (Inr ps)
  then show ?thesis
    by (simp add: arm_plan_def Let_def or_same_def plans_run_step [of _ _ "OpDescription pl"])
qed

lemma handle_row_description_runs: "plans_run (s, out) (handle_row_description e m (s, out))"
proof -
  let ?s = "sync_policy s"
  have sync: "plans_run (s, out) (?s, out)"
    by (simp add: plans_run_step sync_policy_plans del: plan_step.simps)
  have drop: "plans_run (?s, out) (reject rj (t, out))" if "plans t = discard_description (plans ?s)" for rj t
    using that by (simp add: plans_run_reject plans_run_step [of _ _ OpDropDescription])
  have arm: "plans_run (?s, out) (arm_plan m pl (?s\<lparr>sess_policy := p\<rparr>, out))" for pl p
    by (rule plans_run_trans [OF plans_run_same arm_plan_runs]) simp
  have "plans_run (?s, out) (handle_row_description e m (s, out))"
    by (auto simp: handle_row_description_def Let_def drop arm plans_run_reject split: sum.split prod.split)
  with sync show ?thesis by (rule plans_run_trans)
qed

lemma handle_data_row_runs: "plans_run (s, out) (handle_data_row e m (s, out))"
  by (auto simp: handle_data_row_def plans_run_reject plans_run_same split: option.split sum.split prod.split)

lemma refuse_and_close_plans [simp]: "plans (fst (refuse_and_close c counted text h sb)) = plans (fst sb)"
  by (cases sb) (simp add: refuse_and_close_def Let_def put_synthetic_def)

lemma handle_authentication_plans [simp]: "plans (fst (handle_authentication m sb)) = plans (fst sb)"
  by (simp add: handle_authentication_def split: option.split)

lemma handle_notice_plans [simp]: "plans (fst (handle_notice m sb)) = plans (fst sb)"
  by (cases sb) (simp add: handle_notice_def Let_def split: option.split)

lemma dispatch_backend_runs: "plans_run (s, out) (dispatch_backend e m (s, out))"
proof -
  have error: "plans_run (s, out) (case scrub_error (body m) of
      Some x \<Rightarrow> put_synthetic (message_new (tag m) x) (on_plans discard_failed_epoch (s, out))
    | None \<Rightarrow> put_control m (on_plans discard_failed_epoch (s, out)))"
    by (auto split: option.split intro!: plans_run_step [of _ _ OpError])
  have ready: "plans_run (s, out) (put_control m
      (case body m of st # _ \<Rightarrow> on_plans (ready_for_query st) (s, out) | [] \<Rightarrow> (s, out)))"
    by (cases "body m") (simp_all add: plans_run_same plans_run_step [of _ _ "OpReady (hd (body m))"])
  have ops: "plans_run (s, out) (put_control m (on_plans finish_parse (s, out)))"
    "plans_run (s, out) (put_control m (on_plans finish_bind (s, out)))"
    "plans_run (s, out) (put_control m (on_plans finish_result_set (s, out)))"
    "plans_run (s, out) (put_control m (on_plans suspend_result (s, out)))"
    by (simp_all add: plans_run_step [of _ _ OpParseComplete] plans_run_step [of _ _ OpBindComplete]
        plans_run_step [of _ _ OpResultEnd] plans_run_step [of _ _ OpSuspended])
  have same: "plans_run (s, out) (put_control m (s, out))" "plans_run (s, out) (handle_authentication m (s, out))"
    "plans_run (s, out) (handle_notice m (s, out))" "plans_run (s, out) (refuse_and_close c b t h (s, out))" for c b t h
    by (simp_all add: plans_run_same)
  have described: "plans_run (s, out) (handle_described t finish_no_data m (s, out))"
    "plans_run (s, out) (handle_described t finish_empty_query m (s, out))" for t
    by (simp_all add: handle_described_runs [of OpNoData] handle_described_runs [of OpEmptyQuery])
  show ?thesis
    unfolding dispatch_backend_def Let_def
    by (intro plans_run_if error ready ops same described handle_row_description_runs handle_data_row_runs
        plans_run_refl)
qed

lemma handle_backend_runs: "plans_run (s, out) (handle_backend e m (s, out))"
proof -
  let ?s = "note_txn_status m (note_backend_auth m s)"
  have noted: "plans_run (s, out) (?s, out)" by (simp add: plans_run_same)
  have "plans_run (?s, out) (handle_backend e m (s, out))"
    using dispatch_backend_runs [of ?s out e m]
    by (auto simp: handle_backend_def Let_def split: option.split
        intro!: plans_run_step [of _ _ "OpSuppressed (the (suppressing s))"])
  with noted show ?thesis by (rule plans_run_trans)
qed

lemma session_step_runs: "plans_run sb (session_step e sb ev)"
  using handle_frontend_runs [of "fst sb" "snd sb"] handle_backend_runs [of "fst sb" "snd sb"]
  by (cases ev) (auto simp: plans_run_same)

lemma session_run_runs: "plans_run sb (session_run e sb evs)"
proof (induction evs arbitrary: sb)
  case (Cons ev evs)
  show ?case using plans_run_trans [OF session_step_runs Cons.IH] by simp
qed simp


section \<open>Authentication and roles\<close>

definition auth_ok :: "message \<Rightarrow> bool" where
  "auth_ok m \<longleftrightarrow> tag m = B_AUTHENTICATION \<and> 4 \<le> length (body m) \<and> (be_decode (take 4 (body m)) :: i32) = 0"

lemma kept_put [simp]:
  "identity_kept s (fst (put_synthetic m sb)) = identity_kept s (fst sb)"
  "identity_kept s (fst (put_control m sb)) = identity_kept s (fst sb)"
  "identity_kept s (fst (on_plans f sb)) = identity_kept s (fst sb)"
  by (cases sb; simp add: put_synthetic_def put_control_def)+

lemma kept_counter [simp]:
  "identity_kept s (s'\<lparr>masked_field_count := n\<rparr>) = identity_kept s s'"
  "identity_kept s (s'\<lparr>rejected_result_sets := n\<rparr>) = identity_kept s s'"
  "identity_kept s (s'\<lparr>notices_this_exchange := k\<rparr>) = identity_kept s s'"
  "identity_kept s (s'\<lparr>suppressing := ep\<rparr>) = identity_kept s s'"
  by (simp_all add: identity_kept_def)

lemma kept_refuse_and_close: "identity_kept s (fst (refuse_and_close c b t h (s, out)))"
  by (simp add: refuse_and_close_def Let_def put_synthetic_def)

lemma kept_row_description: "identity_kept s (fst (handle_row_description e m (s, out)))"
  by (simp add: handle_row_description_def arm_plan_def Let_def split: sum.split prod.split)

lemma kept_data_row: "identity_kept s (fst (handle_data_row e m (s, out)))"
  by (simp add: handle_data_row_def split: option.split sum.split prod.split)

lemma kept_notice: "identity_kept s (fst (handle_notice m (s, out)))"
  by (simp add: handle_notice_def Let_def split: option.split)

lemma kept_authentication: "identity_kept s (fst (handle_authentication m (s, out)))"
  by (simp add: handle_authentication_def kept_refuse_and_close split: option.split)

lemma kept_described: "identity_kept s (fst (handle_described t f m (s, out)))"
  by (simp add: handle_described_def split: sum.split)

lemma kept_dispatch: "identity_kept s (fst (dispatch_backend e m (s, out)))"
proof -
  have kept_if: "(b \<Longrightarrow> identity_kept s (fst x)) \<Longrightarrow> (\<not> b \<Longrightarrow> identity_kept s (fst y)) \<Longrightarrow>
      identity_kept s (fst (if b then x else y))" for b and x y :: sb by simp
  show ?thesis
    unfolding dispatch_backend_def Let_def
    by (intro kept_if) (simp_all add: kept_refuse_and_close kept_row_description kept_data_row kept_notice
        kept_authentication kept_described split: option.split list.split)
qed

lemma note_backend_auth_guest:
  "\<not> auth_ok m \<Longrightarrow> note_backend_auth m s = s"
  by (auto simp: note_backend_auth_def auth_ok_def)

lemma kept_backend: "\<not> auth_ok m \<Longrightarrow> identity_kept s (fst (handle_backend e m (s, out)))"
proof -
  assume "\<not> auth_ok m"
  moreover have "identity_kept s (note_txn_status m s)"
    by (auto simp: note_txn_status_def identity_kept_def split: list.split)
  ultimately show ?thesis
    using identity_kept_trans [OF _ kept_dispatch [of "note_txn_status m s" e m out], of s]
    by (auto simp: handle_backend_def Let_def note_backend_auth_guest split: option.split)
qed

lemma kept_step: "(\<And>m. ev = FromBackend m \<Longrightarrow> \<not> auth_ok m) \<Longrightarrow> identity_kept (fst sb) (fst (session_step e sb ev))"
  using kept_backend [of _ "fst sb" e "snd sb"] front_ok_handle_frontend [of "fst sb" "snd sb" e]
  by (cases ev) (auto simp: front_ok_def)

lemma kept_run:
  "(\<And>m. FromBackend m \<in> set evs \<Longrightarrow> \<not> auth_ok m) \<Longrightarrow> identity_kept (fst sb) (fst (session_run e sb evs))"
proof (induction evs arbitrary: sb)
  case (Cons ev evs)
  have "identity_kept (fst sb) (fst (session_step e sb ev))" using Cons.prems by (intro kept_step) auto
  moreover have "identity_kept (fst (session_step e sb ev)) (fst (session_run e (session_step e sb ev) evs))"
    using Cons.prems by (intro Cons.IH) auto
  ultimately show ?case using identity_kept_trans by auto
qed simp



section \<open>After a refusal\<close>

lemma suppressed_backend:
  assumes "suppressing s = Some ep" and "tag m \<noteq> B_READY_FOR_QUERY"
  shows "snd (handle_backend e m (s, out)) = out" "suppressing (fst (handle_backend e m (s, out))) = Some ep"
  using assms by (simp_all add: handle_backend_def Let_def)

lemma suppressed_step:
  assumes "suppressing (fst sb) = Some ep" and "\<And>m. ev = FromBackend m \<Longrightarrow> tag m \<noteq> B_READY_FOR_QUERY"
  shows "only_synthetic (snd sb) (snd (session_step e sb ev)) \<and> suppressing (fst (session_step e sb ev)) = Some ep"
  using assms front_ok_handle_frontend [of "fst sb" "snd sb" e] suppressed_backend [of "fst sb" ep _ e "snd sb"]
  by (cases ev) (auto simp: front_ok_def)

lemma suppressed_run:
  "suppressing (fst sb) = Some ep \<Longrightarrow> (\<And>m. FromBackend m \<in> set evs \<Longrightarrow> tag m \<noteq> B_READY_FOR_QUERY) \<Longrightarrow>
     only_synthetic (snd sb) (snd (session_run e sb evs)) \<and> suppressing (fst (session_run e sb evs)) = Some ep"
proof (induction evs arbitrary: sb)
  case (Cons ev evs)
  have step: "only_synthetic (snd sb) (snd (session_step e sb ev))"
    "suppressing (fst (session_step e sb ev)) = Some ep"
    using suppressed_step [OF Cons.prems(1), of ev e] Cons.prems(2) by auto
  with Cons.IH [OF step(2)] Cons.prems(2) show ?case using only_synthetic_trans by auto
qed simp



section \<open>Failing closed\<close>

definition UNDERSTOOD_TAGS :: "u8 list" where
  "UNDERSTOOD_TAGS = BACKEND_CONTROL_TAGS @
     [B_ROW_DESCRIPTION, B_DATA_ROW, B_PARAMETER_STATUS, B_NOTIFICATION_RESPONSE, B_ERROR_RESPONSE,
      B_NOTICE_RESPONSE, B_NO_DATA, B_COMMAND_COMPLETE, B_PORTAL_SUSPENDED, B_EMPTY_QUERY_RESPONSE]"

lemma refuse_and_close_out:
  "to_client (snd (refuse_and_close c b t h (s, out))) =
     to_client out @ [Synthetic (encode (error_message SQLSTATE_INSUFFICIENT_PRIVILEGE t h))]"
  "close (snd (refuse_and_close c b t h (s, out)))"
  "to_backend (snd (refuse_and_close c b t h (s, out))) = to_backend out"
  by (simp_all add: refuse_and_close_def Let_def put_synthetic_def)

lemma dispatch_unknown:
  assumes "tag m \<notin> set UNDERSTOOD_TAGS"
  shows "\<exists>c t h. dispatch_backend e m (s, out) = refuse_and_close c True t h (s, out)"
proof -
  have ne: "tag m \<noteq> B_AUTHENTICATION" "tag m \<noteq> B_ROW_DESCRIPTION" "tag m \<noteq> B_DATA_ROW" "tag m \<noteq> B_PARSE_COMPLETE"
    "tag m \<noteq> B_BIND_COMPLETE" "tag m \<noteq> B_PARAMETER_STATUS" "tag m \<noteq> B_NOTIFICATION_RESPONSE"
    "tag m \<noteq> B_ERROR_RESPONSE" "tag m \<noteq> B_NOTICE_RESPONSE" "tag m \<noteq> B_NO_DATA" "tag m \<noteq> B_COMMAND_COMPLETE"
    "tag m \<noteq> B_PORTAL_SUSPENDED" "tag m \<noteq> B_READY_FOR_QUERY" "tag m \<noteq> B_EMPTY_QUERY_RESPONSE"
    "tag m \<notin> set BACKEND_CONTROL_TAGS"
    using assms by (auto simp: UNDERSTOOD_TAGS_def BACKEND_CONTROL_TAGS_def B_AUTHENTICATION_def
        B_PARSE_COMPLETE_def B_BIND_COMPLETE_def B_READY_FOR_QUERY_def)
  show ?thesis
    unfolding dispatch_backend_def by (simp only: ne if_False simp_thms) (metis (full_types))
qed

text \<open>
  The backend direction has no catch-all. A message whose tag the proxy does not understand, and
  every message of a COPY stream, is answered with one error of the proxy's own and the connection is
  marked for closing: no byte of the message reaches the client.
\<close>

theorem unknown_backend_message_closes:
  assumes "suppressing s = None" and "tag m \<notin> set UNDERSTOOD_TAGS"
  shows "\<exists>t h. to_client (snd (handle_backend e m (s, out))) =
                 to_client out @ [Synthetic (encode (error_message SQLSTATE_INSUFFICIENT_PRIVILEGE t h))] \<and>
               close (snd (handle_backend e m (s, out))) \<and>
               to_backend (snd (handle_backend e m (s, out))) = to_backend out"
proof -
  obtain c t h where "dispatch_backend e m (note_txn_status m (note_backend_auth m s), out) =
      refuse_and_close c True t h (note_txn_status m (note_backend_auth m s), out)"
    using dispatch_unknown [OF assms(2)] by blast
  with assms(1) show ?thesis
    by (auto simp: handle_backend_def Let_def refuse_and_close_out)
qed

theorem unknown_backend_message_closes_witness:
  "close (snd (handle_backend sample_session_env (message_new 0x78 [1]) (sample_session, batch_default)))"
proof -
  have "suppressing sample_session = None" by (simp add: sample_session_def session_new_def)
  then show ?thesis
    using unknown_backend_message_closes [of sample_session "message_new 0x78 [1]" sample_session_env batch_default]
    by (auto simp: UNDERSTOOD_TAGS_def backend_tag_defs)
qed

section \<open>Statements that never reach the backend\<close>

definition gate_refuses :: "session_env \<Rightarrow> session \<Rightarrow> rstring \<Rightarrow> bool" where
  "gate_refuses e s sql \<longleftrightarrow>
     (let ins = inspect e sql
      in is_write_statement ins \<or> is_sql_prepare_or_cursor ins \<or> calls_untrusted_function ins \<or>
         touches_leaky_system_catalog ins \<or>
         (lp_posture (pol_live (sess_policy s)) = Hostile \<and>
          hostile_use ins (cat_snapshot (pol_catalog (sess_policy s))) (sess_roles s)))"

definition carries_statement :: "session \<Rightarrow> message \<Rightarrow> rstring \<Rightarrow> bool" where
  "carries_statement s m sql \<longleftrightarrow>
     (tag m = F_QUERY \<and> parse_simple_query (body m) = Some sql) \<or>
     (tag m = F_PARSE \<and> (\<exists>name. parse_parse (body m) = Some (name, sql))) \<or>
     (tag m = F_EXECUTE \<and> (\<exists>portal. parse_execute (body m) = Some portal \<and> sql_for_portal (plans s) portal = Some sql))"

lemma refuse_out:
  "to_backend (snd (refuse c st t h b (s, out))) = to_backend out"
  "to_client (snd (refuse c st t h b (s, out))) = to_client out @ Synthetic (encode (error_message st t (Some h))) #
     (if b then [Synthetic (encode (message_new B_READY_FOR_QUERY [txn_status s]))] else [])"
  by (simp_all add: refuse_def put_synthetic_def synthetic_ready_def Let_def)

lemma gate_refused:
  assumes "gate_refuses e s sql"
  shows "\<exists>c t h. gate e (Some sql) b k (s, out) = refuse c SQLSTATE_INSUFFICIENT_PRIVILEGE t h b (s, out)"
  using assms
  by (auto simp: gate_refuses_def gate_def refuse_frontend_sql_def Let_def refuse_write_def
      refuse_sql_prepare_or_cursor_def refuse_untrusted_function_def refuse_leaky_catalog_def
      refuse_hostile_masked_use_def)

lemma frontend_statement:
  assumes "carries_statement (sync_policy s) m sql"
  shows "\<exists>k. handle_frontend e m (s, out) = gate e (Some sql) (tag m = F_QUERY) k (sync_policy s, out)"
proof -
  from assms consider "tag m = F_QUERY" "parse_simple_query (body m) = Some sql"
    | name where "tag m = F_PARSE" "parse_parse (body m) = Some (name, sql)"
    | portal where "tag m = F_EXECUTE" "parse_execute (body m) = Some portal"
        "sql_for_portal (plans (sync_policy s)) portal = Some sql"
    by (auto simp: carries_statement_def)
  then show ?thesis
  proof cases
    case 1
    then show ?thesis
      by (intro exI) (simp add: handle_frontend_def Let_def, simp add: frontend_tag_defs)
  next
    case 2
    then show ?thesis
      by (intro exI) (simp add: handle_frontend_def Let_def, simp add: frontend_tag_defs)
  next
    case 3
    then show ?thesis
      by (intro exI) (simp add: handle_frontend_def Let_def, simp add: frontend_tag_defs)
  qed
qed

text \<open>
  C7. A statement that writes, uses SQL-level PREPARE or cursors, calls an untrusted function, reads a
  catalog that can carry user data or, under the hostile posture, uses a masked column outside a bare
  projection never reaches the backend, whether it arrives in a simple query, in a \<open>Parse\<close> or by
  executing a portal: nothing is sent to the backend, no plan state changes beyond dropping stale
  plans, and the client receives the refusal, followed for a simple query by a \<open>ReadyForQuery\<close> with
  the current transaction status.
\<close>

theorem refused_statement_never_reaches_backend:
  assumes "carries_statement (sync_policy s) m sql" and "gate_refuses e (sync_policy s) sql"
  shows "to_backend (snd (handle_frontend e m (s, out))) = to_backend out \<and>
         plans (fst (handle_frontend e m (s, out))) = plans (sync_policy s) \<and>
         (\<exists>t h. to_client (snd (handle_frontend e m (s, out))) =
            to_client out @ Synthetic (encode (error_message SQLSTATE_INSUFFICIENT_PRIVILEGE t (Some h))) #
              (if tag m = F_QUERY then [Synthetic (encode (message_new B_READY_FOR_QUERY [txn_status s]))] else []))"
proof -
  obtain k where "handle_frontend e m (s, out) = gate e (Some sql) (tag m = F_QUERY) k (sync_policy s, out)"
    using frontend_statement [OF assms(1)] by blast
  moreover obtain c t h where "gate e (Some sql) (tag m = F_QUERY) k (sync_policy s, out) =
      refuse c SQLSTATE_INSUFFICIENT_PRIVILEGE t h (tag m = F_QUERY) (sync_policy s, out)"
    using gate_refused [OF assms(2)] by blast
  ultimately show ?thesis by (simp add: refuse_out) blast
qed

theorem refused_statement_never_reaches_backend_witness:
  "to_backend (snd (handle_frontend sample_session_env (message_new F_QUERY [0x77, 0]) (sample_session, batch_default))) = []"
proof -
  have "parse_simple_query [0x77, 0] = Some (str ''w'')"
    by (simp add: parse_simple_query_def read_utf8_cstring_def read_cstring_bytes_def utf8_next.simps str_def)
  then have "carries_statement (sync_policy sample_session) (message_new F_QUERY [0x77, 0]) (str ''w'')"
    by (simp add: carries_statement_def)
  moreover have "gate_refuses sample_session_env (sync_policy sample_session) (str ''w'')"
    by (simp add: gate_refuses_def sample_session_env_def)
  ultimately show ?thesis
    using refused_statement_never_reaches_backend [of sample_session "message_new F_QUERY [0x77, 0]" "str ''w''"
        sample_session_env batch_default] by (simp add: batch_default_def)
qed

section \<open>Reloads\<close>


definition loosened_config :: config where
  "loosened_config = sample_config\<lparr>cfg_unclassified := UnclassifiedAllow\<rparr>"

lemma loosened_reload:
  obtains res q qs where "apply_config_locked sample_world (\<lambda>_ _. Inl []) loosened_config sample_policy =
      (res, sample_policy # q # qs)"
    and "lp_unclassified (pol_live (last (q # qs))) = UnclassifiedAllow"
proof -
  have valid: "validate loosened_config = Inr ()"
    by (simp add: loosened_config_def sample_config_def validate_def validate_client_tls_def
        validate_backend_tls_def validate_pseudonym_key_def validate_unique_column_rules_def column_rules_def
        validate_rate_limit_def validate_metrics_listen_def as_bytes_def utf8_char_def str_def)
  have live: "live_from_config loosened_config None = Inr (sample_live\<lparr>lp_unclassified := UnclassifiedAllow\<rparr>)"
    by (simp add: loosened_config_def live_from_config_def sample_config_def sample_live_def effective_summaries_def
        client_tls_required_def roles_by_principal_def add_member_def set_insert_def)
  have tls: "tls_from_config (\<lambda>_ _. Inl []) loosened_config = Inr None"
    by (simp add: tls_from_config_def tls_from_paths_def loosened_config_def sample_config_def)
  have matches: "spec_matches (pol_catalog sample_policy) (column_rules loosened_config) (cfg_semantic_type loosened_config)"
    by (simp add: spec_matches_def sample_policy_def catalog_default_def loosened_config_def column_rules_def
        sample_config_def)
  have "lp_rate_limit (pol_live sample_policy) = None" by (simp add: sample_policy_def sample_live_def)
  with valid live tls matches show ?thesis
    by (intro that) (auto simp: apply_config_locked_def Let_def install_settings_def bump_if_def bump_epoch_def
        loosened_config_def sample_config_def)
qed


section \<open>Delivery\<close>

lemma mask_field_complete: "masked_as e mk fp v w \<Longrightarrow> \<exists>n'. mask_field e mk fp v n = (Inr w, n')"
  by (auto simp: masked_as_def mask_field_def split: if_splits sum.splits)

lemma mask_row_complete:
  assumes "dec_many parse_data_row_field (length pl) (dr_buf r) = Inr (vs, [])"
    and "sint (remaining_fields r) = int (length pl)" and "row_masked_as e mk pl vs ws"
  shows "\<exists>n'. mask_row e mk pl r frame n = (Inr (frame @ concat (map put_masked ws)), n')"
  using assms
proof (induction pl arbitrary: r vs ws frame n)
  case Nil
  then have "remaining_fields r = 0" by (intro signed_word_eqI) simp
  moreover have "vs = []" "ws = []" "dr_buf r = []"
    using Nil row_masked_length [OF Nil.prems(3)] by auto
  ultimately show ?case by (simp add: next_field_def)
next
  case (Cons fp pl)
  have rem: "sint (remaining_fields r) = int (Suc (length pl))" using Cons.prems(2) by simp
  from Cons.prems(1) obtain v b vs' where v: "parse_data_row_field (dr_buf r) = Inr (v, b)"
    "dec_many parse_data_row_field (length pl) b = Inr (vs', [])" "vs = v # vs'"
    by (auto split: sum.splits prod.splits)
  from Cons.prems(3) v(3) obtain w ws' where w: "ws = w # ws'" "masked_as e mk fp v w" "row_masked_as e mk pl vs' ws'"
    by (cases ws) auto
  obtain k where k: "mask_field e mk fp v n = (Inr w, k)" using mask_field_complete [OF w(2)] by blast
  have "\<exists>n'. mask_row e mk pl \<lparr>dr_buf = b, remaining_fields = remaining_fields r - 1\<rparr> (frame @ put_masked w) k =
      (Inr ((frame @ put_masked w) @ concat (map put_masked ws')), n')"
    using v(2) w(3) sint_pred [OF rem] by (intro Cons.IH) auto
  with v(1) w(1) k show ?case by (auto simp: next_field_Suc [OF rem])
qed

lemma drain_complete:
  assumes "dec_many parse_data_row_field n (dr_buf r) = Inr (vs, [])" and "sint (remaining_fields r) = int n"
  shows "drain r = Inr ()"
  using assms
proof (induction n arbitrary: r vs)
  case 0
  then have "remaining_fields r = 0" by (intro signed_word_eqI) simp
  with 0 show ?case by (simp add: drain.simps [of r] next_field_def)
next
  case (Suc n)
  from Suc.prems(1) obtain v b vs' where v: "parse_data_row_field (dr_buf r) = Inr (v, b)"
    "dec_many parse_data_row_field n b = Inr (vs', [])"
    by (auto split: sum.splits prod.splits)
  with Suc.IH [of "\<lparr>dr_buf = b, remaining_fields = remaining_fields r - 1\<rparr>" vs'] sint_pred [OF Suc.prems(2)]
  show ?case by (subst drain.simps) (simp add: next_field_Suc [OF Suc.prems(2)])
qed

lemma parsed_reader:
  assumes "parse_data_row b = Inr vs"
  obtains r where "data_row_reader_new b = Inr r" "field_count r = length vs"
    "sint (remaining_fields r) = int (length vs)" "dec_many parse_data_row_field (length vs) (dr_buf r) = Inr (vs, [])"
proof -
  let ?count = "be_decode (take 2 b) :: i16"
  let ?r = "\<lparr>dr_buf = drop 2 b, remaining_fields = ?count\<rparr>"
  from assms have ok: "\<not> length b < 2" "\<not> sint ?count < 0"
    "dec_many parse_data_row_field (nat (sint ?count)) (drop 2 b) = Inr (vs, [])"
    by (auto simp: parse_data_row_def Let_def split: if_splits sum.splits)
  then have "nat (sint ?count) = length vs" using dec_many_length [OF ok(3)] by simp
  with ok show ?thesis
    by (intro that [of ?r]) (auto simp: data_row_reader_new_def Let_def field_count_def)
qed

text \<open>
  C26. Masking does not starve the client: a well-formed row of the arity of the streaming plan, for
  which every field's mask succeeds or may fall back to null, is always delivered, as the original
  frame when the plan masks nothing and otherwise as the frame of the masked values, and the session
  goes on streaming under the same plan.
\<close>

theorem planned_rows_are_delivered:
  assumes "suppressing s = None" and "tag m = B_DATA_ROW" and "streaming_plan (plans s) = Some pl"
    and "parse_data_row (body m) = Inr vs" and "row_masked_as e (pol_masker (sess_policy s)) pl vs ws"
  shows "(to_client (snd (handle_backend e m (s, out))) = to_client out @
            [if list_all (\<lambda>fp. is_passthrough (fp_spec fp)) pl then UnmaskedRow (encode m)
             else MaskedRow (patch_length (row_header pl @ concat (map put_masked ws)))]) \<and>
         suppressing (fst (handle_backend e m (s, out))) = None \<and>
         streaming_plan (plans (fst (handle_backend e m (s, out)))) = Some pl"
proof -
  have len: "length vs = length pl" using row_masked_length [OF assms(5)] by simp
  from parsed_reader [OF assms(4)] obtain r where r: "data_row_reader_new (body m) = Inr r"
    "field_count r = length pl" "sint (remaining_fields r) = int (length pl)"
    "dec_many parse_data_row_field (length pl) (dr_buf r) = Inr (vs, [])"
    using len by metis
  have other: "tag m \<noteq> B_AUTHENTICATION" "tag m \<noteq> B_READY_FOR_QUERY" "tag m \<noteq> B_ROW_DESCRIPTION"
    using assms(2) by (simp_all add: backend_tag_defs)
  then have "handle_backend e m (s, out) = handle_data_row e m (s, out)"
    using assms(1,2) by (simp add: handle_backend_def Let_def note_txn_status_def note_backend_auth_def
        dispatch_backend_def)
  moreover obtain n' where "mask_row e (pol_masker (sess_policy s)) pl r (row_header pl) (masked_field_count s) =
      (Inr (row_header pl @ concat (map put_masked ws)), n')"
    using mask_row_complete [OF r(4) r(3) assms(5)] by blast
  ultimately show ?thesis
    using assms(1,3) r drain_complete [OF r(4) r(3)] by (simp add: handle_data_row_def)
qed

theorem planned_rows_are_delivered_witness:
  "to_client (snd (handle_backend sample_session_env sample_row (sample_session, batch_default))) =
     [MaskedRow (patch_length (row_header [sample_field MNull] @ put_masked None))]"
proof -
  have s: "suppressing sample_session = None" "streaming_plan (plans sample_session) = Some [sample_field MNull]"
    by (simp_all add: sample_session_def session_new_def streaming_plan_def)
  have "tag sample_row = B_DATA_ROW" by (simp add: sample_row_def build_data_row_def from_frame_def Let_def)
  from planned_rows_are_delivered [OF s(1) this s(2) sample_row_parses sample_row_masked, of batch_default]
  show ?thesis by (simp add: batch_default_def sample_field_def)
qed

end
