(* ===== verification/Connection.thy ===== *)
theory Connection
  imports Session_Runs
begin

text \<open>
  One connection (\<open>session.rs\<close>, \<open>handle_connection\<close>): reading startup packets off the socket, the TLS
  negotiation with the client, the refusal of plaintext clients, the principal named at startup, and
  the message pump that feeds the session and flushes its batch. The sockets are the packets and the
  reads they deliver; whether a TLS handshake succeeds is an argument.
\<close>

section \<open>Startup\<close>

datatype startup_error = ImplausibleLength i32 | StartupIo

text \<open>An end of stream inside the length is a client that went away, not an error.\<close>

definition read_startup_packet :: "bytes \<Rightarrow> startup_error + (startup_packet option \<times> bytes)" where
  "read_startup_packet stream =
     (if length stream < 4 then Inr (None, [])
      else (let len = be_decode (take 4 stream) :: i32; rest = drop 4 stream
            in if sint len < 8 \<or> sint len > 1048576 then Inl (ImplausibleLength len)
               else (let body_len = nat (sint len) - 4
                     in if length rest < body_len then Inl StartupIo
                        else Inr (Some \<lparr>code = be_decode (take 4 rest), startup_body = drop 4 (take body_len rest)\<rparr>,
                                  drop body_len rest))))"

text \<open>The session's own reader takes the packets the framing layer takes.\<close>

lemma read_startup_packet_frames:
  "read_startup_packet stream = Inr (Some p, rest) \<longleftrightarrow> try_take_startup stream = Inr (Some p, rest)"
proof (cases "length stream < 4")
  case False
  define len where "len = (be_decode (take 4 stream) :: i32)"
  show ?thesis
  proof (cases "sint len < 8 \<or> sint len > 1048576 \<or> length stream < nat (sint len)")
    case True
    then show ?thesis
      using False by (auto simp: read_startup_packet_def try_take_startup_def Let_def len_def)
  next
    case False
    then have "drop 4 (take (nat (sint len)) stream) = take (nat (sint len) - 4) (drop 4 stream)"
      "8 \<le> length stream" by (auto simp: drop_take)
    then show ?thesis
      using False \<open>\<not> length stream < 4\<close>
      by (auto simp: read_startup_packet_def try_take_startup_def Let_def len_def drop_take min_def)
  qed
qed (simp add: read_startup_packet_def try_take_startup_def)

definition startup_principal :: "startup_packet \<Rightarrow> rstring option" where
  "startup_principal p =
     (case map snd (filter (\<lambda>(k, _). k = str ''user'') (parameters p)) of
        [u] \<Rightarrow> Some u
      | _ \<Rightarrow> None)"

datatype negotiated =
    Startup startup_packet bool bytes
  | ClientGone bytes
  | HandshakeFailed bytes

text \<open>
  The loop over the client's packets: the answers written so far are the last argument, and
  \<open>handshake n\<close> is the outcome of the handshake begun with \<open>n\<close> packets still to come.
\<close>

fun negotiate :: "tls_acceptor option \<Rightarrow> (nat \<Rightarrow> bool) \<Rightarrow> startup_packet list \<Rightarrow> bool \<Rightarrow> bytes \<Rightarrow> negotiated" where
  "negotiate acceptor handshake [] tls replies = ClientGone replies"
| "negotiate acceptor handshake (p # ps) tls replies =
     (if code p = SSL_REQUEST_CODE
      then (case acceptor of
              Some _ \<Rightarrow>
                if handshake (length ps) then negotiate acceptor handshake ps True (replies @ [0x53])
                else HandshakeFailed (replies @ [0x53])
            | None \<Rightarrow> negotiate acceptor handshake ps tls (replies @ [0x4E]))
      else if code p = GSSENC_REQUEST_CODE then negotiate acceptor handshake ps tls (replies @ [0x4E])
      else Startup p tls replies)"

datatype connection_result =
    Dropped
  | PlaintextRejected "message option"
  | Cancelled bytes
  | AmbiguousUser bytes message
  | Opened bytes session

definition record_policy :: "cause \<Rightarrow> policy \<Rightarrow> policy" where
  "record_policy c p = p\<lparr>pol_metrics := record_cause c (pol_metrics p)\<rparr>"

definition open_connection ::
  "(nat \<Rightarrow> bool) \<Rightarrow> startup_packet list \<Rightarrow> policy \<Rightarrow> policy \<times> connection_result" where
  "open_connection handshake packets p =
     (case negotiate (pol_tls p) handshake packets False [] of
        ClientGone _ \<Rightarrow> (p, Dropped)
      | HandshakeFailed _ \<Rightarrow> (p, Dropped)
      | Startup startup tls _ \<Rightarrow>
          if \<not> tls \<and> lp_require_client_tls (pol_live p)
          then (record_policy PlaintextRefused p,
                PlaintextRejected
                  (if code startup \<noteq> CANCEL_REQUEST_CODE
                   then Some (error_message SQLSTATE_INSUFFICIENT_PRIVILEGE
                          (str ''pgmask: this connection is not using TLS'')
                          (Some (str ''pgmask serves masked data, which is not public data. Connect with sslmode=require or stronger. An operator who wants plaintext sessions must set require_client_tls = false.'')))
                   else None))
          else
            (let p1 = (if tls then p else p\<lparr>pol_metrics := record_plaintext_session (pol_metrics p)\<rparr>);
                 forwarded = startup_encode startup
             in if code startup = CANCEL_REQUEST_CODE then (p1, Cancelled forwarded)
                else (case startup_principal startup of
                        None \<Rightarrow> (p1, AmbiguousUser forwarded
                          (error_message SQLSTATE_INSUFFICIENT_PRIVILEGE
                            (str ''pgmask: the startup packet names '' @ [34] @ str ''user'' @ [34] @ str '' more than once'')
                            (Some (str ''pgmask resolves masking policy from the authenticated principal. A packet that names two cannot be resolved to one, so the connection is refused.''))))
                      | Some user \<Rightarrow>
                          (p1, Opened forwarded (with_principal user (with_client_tls tls (session_new p1)))))))"

section \<open>The pump\<close>

text \<open>
  A wake-up of the \<open>select!\<close>: the messages one read delivered, in order, followed by a framing error
  or not; or the end of one stream.
\<close>

datatype wakeup = ClientRead "message list" bool | BackendRead "message list" bool | StreamEnd

fun handle_batch :: "(message \<Rightarrow> sb \<Rightarrow> sb) \<Rightarrow> message list \<Rightarrow> sb \<Rightarrow> sb" where
  "handle_batch h [] sb = sb"
| "handle_batch h (m # ms) sb = (let sb1 = h m sb in if close (snd sb1) then sb1 else handle_batch h ms sb1)"

record pump_state =
  pump_session :: session
  client_written :: "vetted list"
  backend_written :: bytes
  running :: bool

text \<open>The flush writes both buffers and clears them; \<open>close\<close> ends the loop after it.\<close>

definition flush :: "sb \<Rightarrow> pump_state \<Rightarrow> pump_state" where
  "flush sb st =
     (case sb of (s, out) \<Rightarrow>
        st\<lparr>pump_session := s, client_written := client_written st @ to_client out,
           backend_written := backend_written st @ to_backend out, running := \<not> close out\<rparr>)"

definition pump_read :: "(message \<Rightarrow> sb \<Rightarrow> sb) \<Rightarrow> message list \<Rightarrow> bool \<Rightarrow> pump_state \<Rightarrow> pump_state" where
  "pump_read h ms failed st =
     (let sb = handle_batch h ms (pump_session st, batch_default)
      in if failed \<and> \<not> close (snd sb) then st\<lparr>pump_session := fst sb, running := False\<rparr> else flush sb st)"

definition pump_step :: "session_env \<Rightarrow> pump_state \<Rightarrow> wakeup \<Rightarrow> pump_state" where
  "pump_step e st w =
     (if \<not> running st then st
      else (case w of
              ClientRead ms failed \<Rightarrow> pump_read (handle_frontend e) ms failed st
            | BackendRead ms failed \<Rightarrow> pump_read (handle_backend e) ms failed st
            | StreamEnd \<Rightarrow> st\<lparr>running := False\<rparr>))"

definition pump_start :: "session \<Rightarrow> pump_state" where
  "pump_start s = \<lparr>pump_session = s, client_written = [], backend_written = [], running = True\<rparr>"

section \<open>Startup packets\<close>

lemma startup_readers_agree:
  "read_startup_packet stream = Inr (Some q, r) \<longleftrightarrow> try_take_startup stream = Inr (Some q, r)"
proof -
  define n where "n = nat (sint (be_decode (take 4 stream) :: i32))"
  have n: "sint (be_decode (take 4 stream) :: i32) < 8 \<longleftrightarrow> n < 8"
    "sint (be_decode (take 4 stream) :: i32) > 1048576 \<longleftrightarrow> n > 1048576"
    "8 \<le> sint (be_decode (take 4 stream) :: i32) \<longleftrightarrow> 8 \<le> n"
    "sint (be_decode (take 4 stream) :: i32) \<le> 1048576 \<longleftrightarrow> n \<le> 1048576"
    by (auto simp: n_def)
  show ?thesis
  proof (cases "n < 8 \<or> n > 1048576 \<or> length stream < n")
    case True
    then show ?thesis
      by (auto simp: read_startup_packet_def try_take_startup_def Let_def n not_less n_def [symmetric])
  next
    case False
    then have "\<not> length stream < 8" "\<not> length stream < 4" "\<not> length (drop 4 stream) < n - 4" "n - 4 + 4 = n"
      "min 4 (n - 4) = 4" by auto
    moreover have "drop 4 (take n stream) = take (n - 4) (drop 4 stream)" by (simp add: drop_take)
    ultimately show ?thesis
      using False n by (simp add: read_startup_packet_def try_take_startup_def Let_def not_less not_le [symmetric]
          n_def [symmetric] add.commute)
  qed
qed

text \<open>
  The reader that takes one startup packet straight off the socket and the buffered one accept the
  same packets and leave the same bytes behind, and a packet that fits the limit is read back from
  the bytes the proxy forwards for it, so the backend sees the packet the client sent.
\<close>

theorem startup_packet_round_trip:
  assumes "length (startup_body p) \<le> 1048568"
  shows "read_startup_packet (startup_encode p @ rest) = Inr (Some p, rest) \<and>
         try_take_startup (startup_encode p @ rest) = Inr (Some p, rest) \<and>
         (\<forall>stream q r. read_startup_packet stream = Inr (Some q, r) \<longleftrightarrow> try_take_startup stream = Inr (Some q, r))"
proof (intro conjI allI)
  let ?n = "length (startup_body p)"
  have len: "i32_saturating_len ?n 8 = of_nat (?n + 8)"
    using assms by (simp add: i32_saturating_len_small i32_max_def)
  have "?n + 8 < 2 ^ 31" using assms by simp
  then have sint: "sint (of_nat (?n + 8) :: i32) = int (?n + 8)" by (rule sint_of_nat_i32)
  have enc: "startup_encode p = be_encode 4 (of_nat (?n + 8) :: i32) @ be_encode 4 (code p) @ startup_body p"
    by (simp only: startup_encode_def len)
  show "read_startup_packet (startup_encode p @ rest) = Inr (Some p, rest)"
    unfolding enc read_startup_packet_def Let_def using sint assms by (simp del: of_nat_add)
  show "try_take_startup (startup_encode p @ rest) = Inr (Some p, rest)"
    unfolding enc try_take_startup_def Let_def using sint assms by (simp del: of_nat_add)
qed (rule startup_readers_agree)

definition sample_startup :: startup_packet where
  "sample_startup = \<lparr>code = 196608, startup_body = lit ''user'' @ 0 # lit ''alice'' @ [0, 0]\<rparr>"

lemma sample_parameters: "parameters sample_startup = [(str ''user'', str ''alice'')]"
  by (simp add: parameters_def sample_startup_def parameters_loop.simps read_cstring_def read_cstring_bytes_def
      lit_def str_def from_utf8_lossy.simps utf8_next.simps)

theorem startup_packet_round_trip_witness:
  "read_startup_packet (startup_encode sample_startup @ []) = Inr (Some sample_startup, [])"
  using startup_packet_round_trip [of sample_startup "[]"] by (simp add: sample_startup_def lit_def)

section \<open>Opening\<close>

lemma negotiate_startup:
  "negotiate acceptor handshake ps tls replies = Startup q tls' replies' \<Longrightarrow>
     q \<in> set ps \<and> code q \<notin> {SSL_REQUEST_CODE, GSSENC_REQUEST_CODE} \<and>
     (tls' \<longrightarrow> tls \<or> acceptor \<noteq> None \<and> (\<exists>r \<in> set ps. code r = SSL_REQUEST_CODE))"
  by (induction acceptor handshake ps tls replies rule: negotiate.induct) (auto split: if_splits option.splits)

lemma startup_principal_Some:
  "startup_principal p = Some u \<longleftrightarrow> map snd (filter (\<lambda>(k, _). k = str ''user'') (parameters p)) = [u]"
  by (auto simp: startup_principal_def split: list.splits)


lemma sample_opens:
  "\<exists>p' s. open_connection (\<lambda>_. True) [sample_startup] sample_policy = (p', Opened (startup_encode sample_startup) s)"
proof -
  have "startup_principal sample_startup = Some (str ''alice'')"
    by (simp add: startup_principal_def sample_parameters)
  moreover have "code sample_startup \<notin> {SSL_REQUEST_CODE, GSSENC_REQUEST_CODE, CANCEL_REQUEST_CODE}"
    by (simp add: sample_startup_def SSL_REQUEST_CODE_def GSSENC_REQUEST_CODE_def CANCEL_REQUEST_CODE_def)
  ultimately show ?thesis
    by (simp add: open_connection_def sample_policy_def sample_live_def Let_def)
qed


section \<open>The pump writes only cleared frames\<close>

inductive reaches :: "session_env \<Rightarrow> session \<Rightarrow> session \<Rightarrow> bool" for e s0 where
  start: "reaches e s0 s0"
| step: "reaches e s0 s \<Longrightarrow> fst (session_step e (s, out) ev) = t \<Longrightarrow> reaches e s0 t"

lemma reaches_runs: "reaches e s0 s \<Longrightarrow> \<exists>ops. plans s = plan_run (plans s0) ops"
proof (induction rule: reaches.induct)
  case start
  show ?case by (rule exI [of _ "[]"]) simp
next
  case (step s out ev t)
  then obtain ops where "plans s = plan_run (plans s0) ops" by blast
  moreover obtain ops' where "plans t = plan_run (plans s) ops'"
    using session_step_runs [of "(s, out)" e ev] step.hyps by (auto simp: plans_run_def)
  ultimately show ?case by (auto intro: exI [of _ "ops @ ops'"])
qed

definition frame_ok :: "session_env \<Rightarrow> session \<Rightarrow> vetted \<Rightarrow> bool" where
  "frame_ok e s0 v \<longleftrightarrow> (\<exists>b. v = Synthetic b) \<or> (\<exists>s m. reaches e s0 s \<and> plan_inv (plans s) \<and> cleared e s m v)"

definition handler_ok :: "session_env \<Rightarrow> session \<Rightarrow> (message \<Rightarrow> sb \<Rightarrow> sb) \<Rightarrow> bool" where
  "handler_ok e s0 h \<longleftrightarrow>
     (\<forall>m s out. reaches e s0 s \<longrightarrow> reaches e s0 (fst (h m (s, out))) \<and>
        (\<forall>v \<in> set (to_client (snd (h m (s, out)))). v \<in> set (to_client out) \<or> frame_ok e s0 v))"

lemma handler_ok_frontend: "handler_ok e s0 (handle_frontend e)"
proof -
  have "reaches e s0 (fst (handle_frontend e m (s, out)))" if "reaches e s0 s" for m s out
    using reaches.step [OF that, of out "FromClient m"] by simp
  moreover have "v \<in> set (to_client out) \<or> (\<exists>b. v = Synthetic b)"
    if "v \<in> set (to_client (snd (handle_frontend e m (s, out))))" for v m s out
    using front_ok_handle_frontend [of s out e m] that by (auto simp: front_ok_def only_synthetic_def)
  ultimately show ?thesis unfolding handler_ok_def frame_ok_def by blast
qed

lemma handler_ok_backend:
  assumes "plan_inv (plans s0)"
  shows "handler_ok e s0 (handle_backend e)"
proof -
  have "reaches e s0 (fst (handle_backend e m (s, out)))" if "reaches e s0 s" for m s out
    using reaches.step [OF that, of out "FromBackend m"] by simp
  moreover have "plan_inv (plans s)" if "reaches e s0 s" for s
    using reaches_runs [OF that] plan_machine.run_inv [OF assms] by auto
  moreover have "v \<in> set (to_client out) \<or> cleared e s m v"
    if "v \<in> set (to_client (snd (handle_backend e m (s, out))))" for v m s out
    using handle_backend_emits [of e s m out] that by (auto simp: emits_def)
  ultimately show ?thesis unfolding handler_ok_def frame_ok_def by blast
qed

lemma handle_batch_ok:
  assumes "handler_ok e s0 h"
  shows "reaches e s0 s \<Longrightarrow> reaches e s0 (fst (handle_batch h ms (s, out))) \<and>
     (\<forall>v \<in> set (to_client (snd (handle_batch h ms (s, out)))). v \<in> set (to_client out) \<or> frame_ok e s0 v)"
proof (induction ms arbitrary: s out)
  case (Cons m ms)
  obtain s1 out1 where one: "h m (s, out) = (s1, out1)" by fastforce
  from assms Cons.prems one have r1: "reaches e s0 s1"
    "\<forall>v \<in> set (to_client out1). v \<in> set (to_client out) \<or> frame_ok e s0 v"
    unfolding handler_ok_def by (metis fst_conv snd_conv)+
  with Cons.IH [of s1 out1] have "reaches e s0 (fst (handle_batch h ms (s1, out1)))"
    "\<forall>v \<in> set (to_client (snd (handle_batch h ms (s1, out1)))). v \<in> set (to_client out) \<or> frame_ok e s0 v"
    by blast+
  with r1 one show ?case by (simp add: Let_def)
qed simp

definition pump_ok :: "session_env \<Rightarrow> session \<Rightarrow> pump_state \<Rightarrow> bool" where
  "pump_ok e s0 st \<longleftrightarrow> reaches e s0 (pump_session st) \<and> (\<forall>v \<in> set (client_written st). frame_ok e s0 v)"

lemma pump_read_ok:
  assumes "handler_ok e s0 h" and "pump_ok e s0 st"
  shows "pump_ok e s0 (pump_read h ms failed st)"
proof -
  obtain s out where run: "handle_batch h ms (pump_session st, batch_default) = (s, out)" by fastforce
  with handle_batch_ok [OF assms(1), of "pump_session st" ms batch_default] assms(2) show ?thesis
    by (auto simp: pump_ok_def pump_read_def flush_def Let_def batch_default_def)
qed

lemma pump_step_ok:
  assumes "plan_inv (plans s0)" and "pump_ok e s0 st"
  shows "pump_ok e s0 (pump_step e st w)"
  using assms(2) pump_read_ok [OF handler_ok_frontend assms(2)] pump_read_ok [OF handler_ok_backend [OF assms(1)] assms(2)]
  by (cases w) (simp_all add: pump_step_def pump_ok_def)


definition sample_query_end :: "wakeup list" where
  "sample_query_end = [BackendRead [message_new B_READY_FOR_QUERY [0x49]] False]"

lemma dispatch_ready:
  "tag m = B_READY_FOR_QUERY \<Longrightarrow> dispatch_backend e m sb =
     put_control m (case body m of status # _ \<Rightarrow> on_plans (ready_for_query status) sb | [] \<Rightarrow> sb)"
  unfolding dispatch_backend_def by (simp only:) (simp add: backend_tag_defs)


end
