(* ===== verification/Sql_Names.thy ===== *)
theory Sql_Names
  imports Planning
begin

text \<open>
  The view of a parsed statement the analysis works on, and the function names it knows
  (\<open>analysis/names.rs\<close>). The parser is PostgreSQL's own, behind a third-party binding: a node is
  modelled by exactly the kinds and fields the analysis reads, every other kind is an
  \<open>OtherNode\<close> with the kind's name, and the parser itself is an argument of the model.
\<close>

section \<open>Parse trees, as far as they are read\<close>

text \<open>
  An optional child is a \<open>node option\<close>: the parser leaves it out or fills it, so an absent child
  and an empty wrapper are not told apart. An entry of a list may be an empty wrapper. Flags record
  whether an optional part that is never looked into is there.
\<close>

datatype a_const = Sval rstring | Ival int | OtherVal

datatype node =
    AConst "a_const option"
  | ParamRef
  | SqlvalueFunction
  | TypeCast "node option"
  | CollateClause "node option"
  | FuncCall "node option list" "node option list" bool bool bool
  | AExpr "node option list" "node option" "node option"
  | BoolExpr "node option list"
  | NullTest "node option"
  | BooleanTest "node option"
  | CaseExpr "node option" "node option list" "node option"
  | CaseWhen "node option" "node option"
  | CoalesceExpr "node option list"
  | MinMaxExpr "node option list"
  | NullIfExpr "node option list"
  | NamedArgExpr "node option"
  | AIndirection "node option" "node option list"
  | AIndices bool bool "node option"
  | AArrayExpr "node option list"
  | ArrayExpr bool "node option list"
  | StringNode rstring
  | AStar
  | ColumnRef "node option list"
  | ResTarget rstring "node option"
  | GroupingSet "node option list"
  | RowExpr "node option list"
  | RangeVar rstring rstring "alias_clause option"
  | RangeSubselect "node option" "alias_clause option"
  | RangeFunction "node option list" "alias_clause option" "node option list"
  | RangeTableFunc "alias_clause option"
  | RangeTableSample "node option"
  | JsonTable "alias_clause option"
  | ListNode "node option list"
  | JoinExpr bool "node option" "node option" "alias_clause option"
  | CommonTableExpr rstring "node option list" "node option"
  | ColumnDef rstring
  | SortBy "node option"
  | WindowDef "node option list"
  | ExplainStmt "node option"
  | SelectStmt select_stmt
  | OtherNode rstring
and alias_clause = Alias (aliasname: rstring) (colnames: "node option list")
and select_stmt =
    Select (setop_none: bool) (larg: "select_stmt option") (rarg: "select_stmt option")
      (target_list: "node option list") (from_clause: "node option list")
      (group_clause: "node option list") (sort_clause: "node option list")
      (window_clause: "node option list") (values_lists: "node option list")
      (with_ctes: "node option list") (has_into: bool) (has_locking: bool)

text \<open>
  A parse result: the statements' nodes, and the walk of \<open>analysis/walk.rs\<close>, which gives a node and
  everything below it that the walk reaches, in the order it visits them.
\<close>

record parsed =
  stmts :: "node option list"
  walk_tree :: "node \<Rightarrow> node list"

definition visited :: "parsed \<Rightarrow> node list" where
  "visited p = concat (map (\<lambda>s. case s of Some n \<Rightarrow> walk_tree p n | None \<Rightarrow> []) (stmts p))"

section \<open>Names\<close>

definition SIZE_FUNCTIONS :: "rstring list" where
  "SIZE_FUNCTIONS = map str
     [''pg_relation_size'', ''pg_table_size'', ''pg_indexes_size'', ''pg_total_relation_size'',
      ''pg_database_size'', ''pg_tablespace_size'']"

definition CONTEXT_FUNCTIONS :: "rstring list" where
  "CONTEXT_FUNCTIONS = map str
     [''now'', ''current_database'', ''current_catalog'', ''current_schema'', ''current_user'',
      ''session_user'', ''user'', ''version'', ''clock_timestamp'', ''statement_timestamp'',
      ''transaction_timestamp'', ''pg_backend_pid'']"

definition REDUCING_AGGREGATES :: "rstring list" where
  "REDUCING_AGGREGATES = map str
     [''count'', ''sum'', ''avg'', ''stddev'', ''stddev_pop'', ''stddev_samp'', ''variance'',
      ''var_pop'', ''var_samp'', ''corr'', ''covar_pop'', ''covar_samp'', ''regr_avgx'',
      ''regr_avgy'', ''regr_count'', ''regr_intercept'', ''regr_r2'', ''regr_slope'',
      ''regr_sxx'', ''regr_sxy'', ''regr_syy'', ''bool_and'', ''bool_or'', ''every'']"

definition NON_VALUE_REDUCING_AGGREGATES :: "rstring list" where
  "NON_VALUE_REDUCING_AGGREGATES = map str
     [''count'', ''regr_count'']"

definition RANKING_WINDOWS :: "rstring list" where
  "RANKING_WINDOWS = map str
     [''row_number'', ''rank'', ''dense_rank'', ''percent_rank'', ''cume_dist'', ''ntile'']"

definition GENERATORS_IN_FROM :: "rstring list" where
  "GENERATORS_IN_FROM = map str
     [''generate_series'', ''generate_subscripts'', ''unnest'', ''pg_options_to_table'',
      ''aclexplode'', ''pg_get_keywords'']"

definition PURE_SCALARS :: "rstring list" where
  "PURE_SCALARS = map str
     [''abs'', ''round'', ''ceil'', ''ceiling'', ''floor'', ''trunc'', ''sign'', ''mod'',
      ''div'', ''power'', ''sqrt'', ''cbrt'', ''exp'', ''ln'', ''log'', ''greatest'',
      ''least'', ''nullif'', ''to_char'', ''to_number'', ''pg_size_pretty'', ''pg_size_bytes'',
      ''pg_column_size'', ''numeric'', ''int4'', ''int8'', ''float8'']"

definition CATALOG_ESCAPE_FUNCTIONS :: "rstring list" where
  "CATALOG_ESCAPE_FUNCTIONS = map str
     [''query_to_xml'', ''query_to_xmlschema'', ''query_to_xml_and_xmlschema'',
      ''table_to_xml'', ''table_to_xmlschema'', ''table_to_xml_and_xmlschema'',
      ''cursor_to_xml'', ''cursor_to_xmlschema'', ''schema_to_xml'', ''schema_to_xmlschema'',
      ''schema_to_xml_and_xmlschema'', ''database_to_xml'', ''database_to_xmlschema'',
      ''database_to_xml_and_xmlschema'', ''dblink'', ''dblink_send_query'',
      ''dblink_get_result'', ''dblink_exec'', ''dblink_connect'', ''dblink_connect_u'',
      ''dblink_disconnect'', ''dblink_open'', ''dblink_fetch'', ''dblink_close'',
      ''dblink_get_connections'', ''dblink_get_pkey'', ''dblink_build_sql_insert'',
      ''dblink_build_sql_update'', ''dblink_build_sql_delete'', ''crosstab'', ''crosstab2'',
      ''crosstab3'', ''crosstab4'', ''connectby'', ''pg_read_file'', ''pg_read_binary_file'',
      ''pg_file_read'', ''pg_logdir_ls'', ''pg_ls_dir'', ''pg_ls_logdir'', ''pg_ls_waldir'',
      ''pg_ls_archive_statusdir'', ''pg_ls_tmpdir'', ''pg_ls_logicalmapdir'',
      ''pg_ls_logicalsnapdir'', ''pg_ls_summariesdir'', ''pg_stat_file'', ''lo_get'',
      ''lo_import'', ''lo_export'', ''lo_open'', ''loread'', ''pg_stat_get_activity'',
      ''pg_stat_get_backend_activity'', ''pg_stat_get_wal_receiver'', ''pg_stat_statements'',
      ''pg_logical_slot_get_changes'', ''pg_logical_slot_peek_changes'',
      ''pg_logical_slot_get_binary_changes'', ''pg_logical_slot_peek_binary_changes'',
      ''pg_get_wal_record_info'', ''pg_get_wal_records_info'',
      ''pg_get_wal_records_info_till_end_of_wal'', ''pg_get_wal_block_info'',
      ''pg_get_wal_funames'']"

definition CATALOG_HELPER_FUNCTIONS :: "rstring list" where
  "CATALOG_HELPER_FUNCTIONS = map str
     [''format_type'', ''pg_get_userbyid'', ''pg_get_indexdef'', ''pg_get_constraintdef'',
      ''pg_get_expr'', ''pg_get_viewdef'', ''pg_get_functiondef'',
      ''pg_get_function_arguments'', ''pg_get_function_result'',
      ''pg_get_function_identity_arguments'', ''pg_get_function_arg_default'',
      ''pg_get_ruledef'', ''pg_get_triggerdef'', ''pg_get_serial_sequence'',
      ''pg_get_partkeydef'', ''pg_get_partition_constraintdef'', ''pg_partition_ancestors'',
      ''pg_get_replica_identity_index'', ''pg_get_statisticsobjdef'',
      ''pg_get_statisticsobjdef_columns'', ''pg_get_statisticsobjdef_expressions'',
      ''pg_get_keywords'', ''pg_get_catalog_foreign_keys'', ''pg_get_multixact_members'',
      ''pg_get_object_address'', ''pg_identify_object'', ''pg_identify_object_as_address'',
      ''pg_describe_object'', ''pg_index_column_has_property'', ''pg_index_has_property'',
      ''pg_indexam_has_property'', ''obj_description'', ''shobj_description'',
      ''col_description'', ''pg_options_to_table'', ''aclexplode'', ''array_to_string'',
      ''string_agg'', ''array_length'', ''cardinality'', ''array_upper'', ''array_lower'',
      ''array_ndims'', ''array_dims'', ''array_append'', ''array_prepend'', ''array_cat'',
      ''array_remove'', ''array_replace'', ''array_position'', ''array_positions'',
      ''string_to_array'', ''pg_typeof'', ''pg_collation_for'',
      ''pg_collation_actual_version'', ''pg_encoding_to_char'', ''pg_char_to_encoding'',
      ''current_setting'', ''current_schemas'', ''to_regclass'', ''to_regtype'',
      ''to_regnamespace'', ''to_regrole'', ''to_regproc'', ''to_regprocedure'', ''to_regoper'',
      ''to_regoperator'', ''to_regcollation'', ''pg_table_is_visible'', ''pg_type_is_visible'',
      ''pg_function_is_visible'', ''pg_operator_is_visible'', ''pg_opclass_is_visible'',
      ''pg_opfamily_is_visible'', ''pg_collation_is_visible'', ''pg_conversion_is_visible'',
      ''pg_ts_config_is_visible'', ''pg_ts_dict_is_visible'', ''pg_ts_parser_is_visible'',
      ''pg_ts_template_is_visible'', ''has_table_privilege'', ''has_schema_privilege'',
      ''has_column_privilege'', ''has_database_privilege'', ''has_sequence_privilege'',
      ''has_function_privilege'', ''has_language_privilege'', ''has_tablespace_privilege'',
      ''has_foreign_data_wrapper_privilege'', ''has_server_privilege'', ''has_type_privilege'',
      ''has_parameter_privilege'', ''pg_has_role'', ''row_to_json'', ''to_json'', ''to_jsonb'',
      ''json_build_object'', ''json_build_array'', ''jsonb_build_object'',
      ''jsonb_build_array'', ''json_agg'', ''jsonb_agg'', ''json_object_agg'',
      ''jsonb_object_agg'', ''array_agg'', ''string_agg'', ''xmlagg'', ''min'', ''max'',
      ''quote_ident'', ''quote_literal'', ''quote_nullable'', ''starts_with'',
      ''pg_postmaster_start_time'', ''pg_conf_load_time'', ''pg_is_in_recovery'',
      ''pg_is_wal_replay_paused'', ''pg_last_wal_receive_lsn'', ''pg_last_wal_replay_lsn'',
      ''pg_last_xact_replay_timestamp'', ''pg_current_wal_lsn'', ''pg_current_wal_insert_lsn'',
      ''pg_current_wal_flush_lsn'', ''pg_walfile_name'', ''pg_walfile_name_offset'',
      ''pg_wal_lsn_diff'', ''pg_relation_filepath'', ''pg_relation_filenode'',
      ''pg_filenode_relation'', ''pg_tablespace_location'', ''pg_tablespace_databases'',
      ''pg_current_logfile'', ''pg_read_all_settings'', ''pg_my_temp_schema'',
      ''pg_is_other_temp_schema'', ''pg_jit_available'', ''pg_listening_channels'',
      ''pg_notification_queue_usage'', ''pg_control_system'', ''pg_control_checkpoint'',
      ''pg_control_recovery'', ''pg_control_init'', ''pg_get_wal_resource_managers'', ''age'',
      ''txid_current'', ''txid_current_if_assigned'', ''txid_current_snapshot'',
      ''txid_snapshot_xmin'', ''txid_snapshot_xmax'', ''txid_snapshot_xip'',
      ''txid_visible_in_snapshot'', ''txid_status'', ''pg_current_xact_id'',
      ''pg_current_xact_id_if_assigned'', ''pg_current_snapshot'', ''pg_snapshot_xmin'',
      ''pg_snapshot_xmax'', ''pg_snapshot_xip'', ''pg_visible_in_snapshot'',
      ''pg_xact_status'', ''pg_sequence_parameters'', ''pg_sequence_last_value'',
      ''pg_get_function_sqlbody'', ''pg_relation_is_updatable'',
      ''pg_relation_is_publishable'', ''pg_column_is_updatable'']"

definition JSON_EXTRACT_FUNCTIONS :: "rstring list" where
  "JSON_EXTRACT_FUNCTIONS = map str
     [''json_extract_path'', ''jsonb_extract_path'', ''json_extract_path_text'',
      ''jsonb_extract_path_text'']"

definition TEXT_FUNCTIONS :: "rstring list" where
  "TEXT_FUNCTIONS = map str
     [''length'', ''char_length'', ''character_length'', ''octet_length'', ''lower'',
      ''upper'', ''initcap'', ''substr'', ''substring'', ''left'', ''right'', ''trim'',
      ''btrim'', ''ltrim'', ''rtrim'', ''replace'', ''translate'', ''overlay'', ''concat'',
      ''concat_ws'', ''format'', ''repeat'', ''reverse'', ''ascii'', ''chr'', ''md5'',
      ''convert'', ''convert_from'', ''convert_to'', ''encode'', ''decode'', ''like_escape'']"

definition string_of :: "node option \<Rightarrow> rstring option" where
  "string_of n = (case n of Some (StringNode s) \<Rightarrow> Some s | _ \<Rightarrow> None)"

definition lower_string :: "node option \<Rightarrow> rstring option" where
  "lower_string n = map_option to_ascii_lowercase (string_of n)"

definition function_name :: "node option list \<Rightarrow> rstring option" where
  "function_name parts =
     (case parts of
        [only] \<Rightarrow> lower_string only
      | [schema, name] \<Rightarrow>
          if lower_string schema = Some (str ''pg_catalog'') then lower_string name else None
      | _ \<Rightarrow> None)"

fun all_some :: "'a option list \<Rightarrow> 'a list option" where
  "all_some [] = Some []"
| "all_some (None # xs) = None"
| "all_some (Some x # xs) = map_option ((#) x) (all_some xs)"

definition func_call_name_parts :: "node option list \<Rightarrow> rstring list option" where
  "func_call_name_parts parts = all_some (map lower_string parts)"

definition is_trusted_function_name :: "rstring \<Rightarrow> bool" where
  "is_trusted_function_name name \<longleftrightarrow>
     name \<in> set CONTEXT_FUNCTIONS \<or> name \<in> set SIZE_FUNCTIONS \<or> name \<in> set REDUCING_AGGREGATES \<or>
     name \<in> set RANKING_WINDOWS \<or> name \<in> set PURE_SCALARS \<or> name \<in> set TEXT_FUNCTIONS \<or>
     name = str ''date_trunc'' \<or> name \<in> set JSON_EXTRACT_FUNCTIONS"

end
