(* ===== verification/Sql_Extract.thy ===== *)
theory Sql_Extract
  imports Sql_Names
begin

text \<open>
  The allowlisted JSON extract shapes of \<open>analysis/json_extract/parse.rs\<close>: which expressions are a
  chain of literal keys over one column. The result is the \<open>json_extract\<close> the planning layer
  attributes to a catalog column.
\<close>

section \<open>Keys\<close>

definition MAX_EXTRACT_DEPTH :: nat where
  "MAX_EXTRACT_DEPTH = 16"

text \<open>Casts and collations around an expression are peeled; an empty wrapper ends in \<open>None\<close>.\<close>

fun peel :: "node \<Rightarrow> node option" where
  "peel (TypeCast a) = (case a of Some n \<Rightarrow> peel n | None \<Rightarrow> None)"
| "peel (CollateClause a) = (case a of Some n \<Rightarrow> peel n | None \<Rightarrow> None)"
| "peel n = Some n"

definition segment :: "rstring \<Rightarrow> json_path_navigation \<Rightarrow> json_path_segment" where
  "segment v nav = \<lparr>seg_value = v, navigation = nav\<rparr>"

definition parse_single_key :: "node \<Rightarrow> json_path_segment option" where
  "parse_single_key n =
     (case n of
        AConst (Some (Sval s)) \<Rightarrow> Some (segment s ObjectKey)
      | AConst (Some (Ival i)) \<Rightarrow> if i < 0 then None else Some (segment (int_to_string i) ArrayIndex)
      | _ \<Rightarrow> None)"

definition as_ambiguous :: "json_path_segment \<Rightarrow> json_path_segment" where
  "as_ambiguous g = g\<lparr>navigation := Ambiguous\<rparr>"

definition parse_subscript_index :: "node \<Rightarrow> json_path_segment option" where
  "parse_subscript_index n =
     (case n of
        AIndices is_slice has_lower upper \<Rightarrow>
          if is_slice \<or> has_lower then None
          else Option.bind upper (\<lambda>u. map_option as_ambiguous (parse_single_key u))
      | _ \<Rightarrow> None)"

definition bind_each :: "('a \<Rightarrow> 'b option) \<Rightarrow> 'a option list \<Rightarrow> 'b list option" where
  "bind_each f xs = all_some (map (\<lambda>x. Option.bind x f) xs)"

fun parse_array_element :: "node \<Rightarrow> json_path_segment option" where
  "parse_array_element (TypeCast a) = (case a of Some n \<Rightarrow> parse_array_element n | None \<Rightarrow> None)"
| "parse_array_element (AConst c) = map_option as_ambiguous (parse_single_key (AConst c))"
| "parse_array_element _ = None"

definition strip_braces :: "rstring \<Rightarrow> rstring option" where
  "strip_braces t =
     (case t of
        c # rest \<Rightarrow> if c = 123 then strip_suffix [125] rest else None
      | [] \<Rightarrow> None)"

definition parse_postgres_array_literal :: "rstring \<Rightarrow> json_path_segment list option" where
  "parse_postgres_array_literal text =
     (case strip_braces (trim text) of
        None \<Rightarrow> None
      | Some inner_text \<Rightarrow>
          if inner_text = [] then None
          else if 34 \<in> set inner_text \<or> 92 \<in> set inner_text \<or> 123 \<in> set inner_text \<or> 125 \<in> set inner_text then None
          else (let parts = map trim (split_char 44 inner_text)
                in if [] \<in> set parts then None else Some (map (\<lambda>p. segment p Ambiguous) parts)))"

fun parse_path_array :: "node \<Rightarrow> json_path_segment list option" where
  "parse_path_array (TypeCast a) = (case a of Some n \<Rightarrow> parse_path_array n | None \<Rightarrow> None)"
| "parse_path_array (AArrayExpr elements) = bind_each parse_array_element elements"
| "parse_path_array (ArrayExpr multidims elements) =
     (if multidims then None else bind_each parse_array_element elements)"
| "parse_path_array (AConst (Some (Sval s))) = parse_postgres_array_literal s"
| "parse_path_array _ = None"

section \<open>Columns and operators\<close>

definition parse_column_ref_fields :: "node option list \<Rightarrow> json_extract_column option" where
  "parse_column_ref_fields parts =
     (case parts of
        [col] \<Rightarrow> map_option Bare (lower_string col)
      | [rel, col] \<Rightarrow>
          Option.bind (lower_string rel) (\<lambda>r. Option.bind (lower_string col) (\<lambda>c. Some (Named r c)))
      | [sch, rel, col] \<Rightarrow>
          Option.bind (lower_string sch) (\<lambda>s. Option.bind (lower_string rel) (\<lambda>r.
            Option.bind (lower_string col) (\<lambda>c. Some (Qualified s r c))))
      | _ \<Rightarrow> None)"

definition parse_column_ref :: "node \<Rightarrow> json_extract_column option" where
  "parse_column_ref n =
     (case peel n of
        Some (ColumnRef parts) \<Rightarrow> parse_column_ref_fields parts
      | _ \<Rightarrow> None)"

definition operator_name :: "node option list \<Rightarrow> rstring option" where
  "operator_name parts =
     (case function_name parts of
        Some n \<Rightarrow> Some n
      | None \<Rightarrow> if parts = [] then None else string_of (last parts))"

definition operator_shape :: "rstring \<Rightarrow> (bool \<times> bool) option" where
  "operator_shape name =
     (if name = str ''->'' then Some (False, False)
      else if name = str ''->>'' then Some (True, False)
      else if name = str ''#>'' then Some (False, True)
      else if name = str ''#>>'' then Some (True, True)
      else None)"

section \<open>Extracts\<close>

text \<open>The keys one level contributes, with what the level returns: the left side, the keys, text or not.\<close>

definition operator_level ::
  "node option list \<Rightarrow> node option \<Rightarrow> node option \<Rightarrow> (node \<times> json_path_segment list \<times> bool) option" where
  "operator_level op_name left right =
     Option.bind (operator_name op_name) (\<lambda>name.
     Option.bind (operator_shape name) (\<lambda>(text, path_is_array).
     Option.bind left (\<lambda>l.
     Option.bind right (\<lambda>r.
     Option.bind (if path_is_array then parse_path_array r else map_option (\<lambda>g. [g]) (parse_single_key r)) (\<lambda>keys.
       if keys = [] then None else Some (l, keys, text))))))"

definition function_key :: "node \<Rightarrow> json_path_segment option" where
  "function_key arg =
     (case peel arg of
        Some (AConst (Some (Sval s))) \<Rightarrow> Some (segment s Ambiguous)
      | _ \<Rightarrow> None)"

definition ends_with :: "rstring \<Rightarrow> rstring \<Rightarrow> bool" where
  "ends_with suffix t \<longleftrightarrow> strip_suffix suffix t \<noteq> None"

definition function_level ::
  "node option list \<Rightarrow> node option list \<Rightarrow> bool \<Rightarrow> bool \<Rightarrow> bool \<Rightarrow> (node \<times> json_path_segment list \<times> bool) option" where
  "function_level fn args star filt over =
     (if over \<or> star \<or> filt then None
      else Option.bind (function_name fn) (\<lambda>name.
        if name \<notin> set JSON_EXTRACT_FUNCTIONS then None
        else (case args of
                [] \<Rightarrow> None
              | first # rest \<Rightarrow>
                  if rest = [] then None
                  else Option.bind (bind_each function_key rest) (\<lambda>keys.
                    Option.bind first (\<lambda>l. Some (l, keys, ends_with (str ''_text'') name))))))"

definition indirection_level ::
  "node option \<Rightarrow> node option list \<Rightarrow> (node \<times> json_path_segment list \<times> bool) option" where
  "indirection_level arg parts =
     Option.bind (bind_each parse_subscript_index parts) (\<lambda>keys.
       if keys = [] then None else Option.bind arg (\<lambda>l. Some (l, keys, False)))"

definition finish_extract ::
  "json_extract option \<Rightarrow> node \<Rightarrow> json_path_segment list \<Rightarrow> bool \<Rightarrow> json_extract option" where
  "finish_extract inner_extract left keys text =
     (case inner_extract of
        Some x \<Rightarrow>
          if as_text x then None
          else Some \<lparr>je_column = je_column x, je_path = je_path x @ keys, as_text = text\<rparr>
      | None \<Rightarrow>
          map_option (\<lambda>col. \<lparr>je_column = col, je_path = keys, as_text = text\<rparr>) (parse_column_ref left))"

text \<open>The depth limit is the recursion's measure.\<close>

function parse_extract :: "nat \<Rightarrow> node \<Rightarrow> json_extract option" where
  "parse_extract depth n =
     (if depth > MAX_EXTRACT_DEPTH then None
      else (case n of
              TypeCast a \<Rightarrow> (case a of Some m \<Rightarrow> parse_extract (Suc depth) m | None \<Rightarrow> None)
            | CollateClause a \<Rightarrow> (case a of Some m \<Rightarrow> parse_extract (Suc depth) m | None \<Rightarrow> None)
            | AExpr op_name left right \<Rightarrow>
                (case operator_level op_name left right of
                   Some (l, keys, text) \<Rightarrow> finish_extract (parse_extract (Suc depth) l) l keys text
                 | None \<Rightarrow> None)
            | FuncCall fn args star filt over \<Rightarrow>
                (case function_level fn args star filt over of
                   Some (l, keys, text) \<Rightarrow> finish_extract (parse_extract (Suc depth) l) l keys text
                 | None \<Rightarrow> None)
            | AIndirection arg parts \<Rightarrow>
                (case indirection_level arg parts of
                   Some (l, keys, text) \<Rightarrow> finish_extract (parse_extract (Suc depth) l) l keys text
                 | None \<Rightarrow> None)
            | _ \<Rightarrow> None))"
  by pat_completeness auto
termination
  by (relation "measure (\<lambda>(depth, n). Suc MAX_EXTRACT_DEPTH - depth)") (simp_all add: not_less Suc_diff_le)

declare parse_extract.simps [simp del]

text \<open>The source column an extract is counted under by the hostile posture.\<close>

definition extract_projection_column :: "node \<Rightarrow> rstring option" where
  "extract_projection_column n = map_option (\<lambda>x. column_name (je_column x)) (parse_extract 0 n)"

definition expr_is_json_extract :: "node \<Rightarrow> bool" where
  "expr_is_json_extract n \<longleftrightarrow> parse_extract 0 n \<noteq> None"

section \<open>The relations of a FROM clause\<close>

fun collect_qualified_from :: "node \<Rightarrow> qualified_from list option" where
  "collect_qualified_from (RangeVar schema rel al) =
     (if schema = [] then None
      else Some [\<lparr>qf_schema = to_ascii_lowercase schema, relname = to_ascii_lowercase rel,
                  qf_alias = map_option (\<lambda>a. to_ascii_lowercase (aliasname a)) al\<rparr>])"
| "collect_qualified_from (JoinExpr _ l r _) =
     (case l of None \<Rightarrow> None
      | Some ln \<Rightarrow>
          (case collect_qualified_from ln of None \<Rightarrow> None
           | Some out \<Rightarrow>
               (case r of None \<Rightarrow> None
                | Some rn \<Rightarrow>
                    (case collect_qualified_from rn of None \<Rightarrow> None | Some others \<Rightarrow> Some (out @ others)))))"
| "collect_qualified_from _ = None"

end
