(* ===== verification/Sql_Safety.thy ===== *)
theory Sql_Safety
  imports Sql_Extract
begin

text \<open>
  The release decision on one statement (\<open>analysis/safety.rs\<close> and the resolution material of
  \<open>analysis/mod.rs\<close>): the allowlist of expressions that carry no stored value, the alignment of
  target-list positions with result fields, the columns a grouping distinguishes rows by, and what
  the planning layer attributes summaries and JSON extracts from.
\<close>

section \<open>The allowlist\<close>

record relaxations =
  rx_summaries :: bool
  fine_date_trunc :: bool

definition COARSE_DATE_UNITS :: "rstring list" where
  "COARSE_DATE_UNITS = map str
     [''day'', ''week'', ''month'', ''quarter'', ''year'', ''decade'', ''century'', ''millennium'']"

definition YEAR_OR_COARSER :: "rstring list" where
  "YEAR_OR_COARSER = map str [''year'', ''decade'', ''century'', ''millennium'']"

definition unit_literal :: "rstring list \<Rightarrow> node option \<Rightarrow> bool" where
  "unit_literal units n =
     (case n of
        Some (AConst (Some (Sval s))) \<Rightarrow> to_ascii_lowercase (trim s) \<in> set units
      | _ \<Rightarrow> False)"

definition date_unit_at_least_a_year :: "node option \<Rightarrow> bool" where
  "date_unit_at_least_a_year = unit_literal YEAR_OR_COARSER"

definition coarse_unit_literal :: "node option \<Rightarrow> bool" where
  "coarse_unit_literal = unit_literal COARSE_DATE_UNITS"

text \<open>What a call releases by its name and shape alone; \<open>None\<close> leaves it to the arguments.\<close>

definition classify_call ::
  "relaxations \<Rightarrow> rstring \<Rightarrow> node option list \<Rightarrow> bool \<Rightarrow> bool \<Rightarrow> bool \<Rightarrow> safety option" where
  "classify_call allow name args star filt over =
     (if \<not> star \<and> args = [] \<and> \<not> filt \<and> \<not> over \<and> name \<in> set CONTEXT_FUNCTIONS then Some Releasable
      else if \<not> over \<and> name \<in> set SIZE_FUNCTIONS then Some Releasable
      else if star \<and> name = str ''count'' then Some Releasable
      else if \<not> rx_summaries allow then Some Unknown
      else if \<not> over \<and> name \<in> set REDUCING_AGGREGATES
      then Some (if name \<in> set NON_VALUE_REDUCING_AGGREGATES then Releasable else Summary)
      else if over \<and> name \<in> set RANKING_WINDOWS then Some Releasable
      else if \<not> over \<and> name = str ''date_trunc'' \<and> length args \<ge> 2
      then Some (if date_unit_at_least_a_year (hd args) \<or> fine_date_trunc allow \<and> coarse_unit_literal (hd args)
                 then Releasable else Unknown)
      else if \<not> over \<and> args \<noteq> [] \<and> name \<in> set PURE_SCALARS then None
      else Some Unknown)"

fun classify_expr :: "relaxations \<Rightarrow> node \<Rightarrow> safety" where
  "classify_expr allow (AConst c) = Releasable"
| "classify_expr allow ParamRef = Releasable"
| "classify_expr allow SqlvalueFunction = Releasable"
| "classify_expr allow (TypeCast a) = (case a of Some n \<Rightarrow> classify_expr allow n | None \<Rightarrow> Unknown)"
| "classify_expr allow (CollateClause a) = (case a of Some n \<Rightarrow> classify_expr allow n | None \<Rightarrow> Unknown)"
| "classify_expr allow (FuncCall fn args star filt over) =
     (if expr_is_json_extract (FuncCall fn args star filt over) then JsonExtractField
      else (case function_name fn of
              None \<Rightarrow> Unknown
            | Some name \<Rightarrow>
                (case classify_call allow name args star filt over of
                   Some s \<Rightarrow> s
                 | None \<Rightarrow>
                     if \<forall>a \<in> set args. (case a of Some n \<Rightarrow> classify_expr allow n = Releasable | None \<Rightarrow> False)
                     then Releasable else Unknown)))"
| "classify_expr allow (AExpr op_name l r) =
     (if expr_is_json_extract (AExpr op_name l r) then JsonExtractField
      else if (case l of Some n \<Rightarrow> classify_expr allow n | None \<Rightarrow> Releasable) = Releasable \<and>
              (case r of Some n \<Rightarrow> classify_expr allow n | None \<Rightarrow> Releasable) = Releasable
      then Releasable else Unknown)"
| "classify_expr allow (CaseExpr arg args defresult) =
     (if (\<forall>a \<in> set args. case a of Some (CaseWhen _ (Some n)) \<Rightarrow> classify_expr allow n = Releasable | _ \<Rightarrow> False) \<and>
         (case defresult of Some n \<Rightarrow> classify_expr allow n = Releasable | None \<Rightarrow> True)
      then Releasable else Unknown)"
| "classify_expr allow (CoalesceExpr args) =
     (if \<forall>a \<in> set args. (case a of Some n \<Rightarrow> classify_expr allow n = Releasable | None \<Rightarrow> False)
      then Releasable else Unknown)"
| "classify_expr allow (AIndirection arg parts) =
     (if expr_is_json_extract (AIndirection arg parts) then JsonExtractField else Unknown)"
| "classify_expr allow _ = Unknown"

section \<open>Positions\<close>

definition unwrap_star_over_subquery :: "select_stmt \<Rightarrow> select_stmt option" where
  "unwrap_star_over_subquery s =
     (if \<not> setop_none s \<or> length (from_clause s) \<noteq> 1 then None
      else (case target_list s of
              [Some (ResTarget _ (Some (ColumnRef [Some AStar])))] \<Rightarrow>
                (case from_clause s of
                   [Some (RangeSubselect (Some (SelectStmt inner_select)) _)] \<Rightarrow> Some inner_select
                 | _ \<Rightarrow> None)
            | _ \<Rightarrow> None))"

lemma unwrap_smaller: "unwrap_star_over_subquery s = Some t \<Longrightarrow> size t < size s"
  by (cases s) (auto simp: unwrap_star_over_subquery_def split: if_splits list.splits option.splits node.splits)

function unwrap_all :: "select_stmt \<Rightarrow> select_stmt" where
  "unwrap_all s = (case unwrap_star_over_subquery s of Some t \<Rightarrow> unwrap_all t | None \<Rightarrow> s)"
  by pat_completeness auto
termination
  by (relation "measure size") (auto dest: unwrap_smaller)

declare unwrap_all.simps [simp del]

definition target_is_star :: "node option \<Rightarrow> bool" where
  "target_is_star n =
     (case n of
        Some (ResTarget _ (Some (ColumnRef parts))) \<Rightarrow> parts \<noteq> [] \<and> last parts = Some AStar
      | _ \<Rightarrow> False)"

definition positions_are_trustworthy :: "select_stmt \<Rightarrow> nat \<Rightarrow> bool" where
  "positions_are_trustworthy s n \<longleftrightarrow>
     setop_none s \<and> larg s = None \<and> rarg s = None \<and> length (target_list s) = n \<and>
     \<not> list_ex target_is_star (target_list s)"

text \<open>The one select a statement is judged by, when it is a single select.\<close>

definition single_statement :: "parsed \<Rightarrow> node option" where
  "single_statement p = (case stmts p of [stmt] \<Rightarrow> stmt | _ \<Rightarrow> None)"

definition judged_select :: "parsed \<Rightarrow> select_stmt option" where
  "judged_select p = (case single_statement p of Some (SelectStmt s) \<Rightarrow> Some (unwrap_all s) | _ \<Rightarrow> None)"

definition target_value :: "node option \<Rightarrow> node option" where
  "target_value entry = (case entry of Some (ResTarget _ v) \<Rightarrow> v | _ \<Rightarrow> None)"

definition classify_target :: "relaxations \<Rightarrow> node option \<Rightarrow> safety" where
  "classify_target allow entry =
     (case target_value entry of Some e \<Rightarrow> classify_expr allow e | None \<Rightarrow> Unknown)"

definition analyze_inspected :: "parsed option \<Rightarrow> nat \<Rightarrow> relaxations \<Rightarrow> safety list" where
  "analyze_inspected p n allow =
     (case Option.bind p judged_select of
        None \<Rightarrow> replicate n Unknown
      | Some s \<Rightarrow>
          if \<not> positions_are_trustworthy s n then replicate n Unknown
          else map (classify_target allow) (target_list s))"

section \<open>Summaries\<close>

function summary_argument_name :: "nat \<Rightarrow> node \<Rightarrow> rstring option" where
  "summary_argument_name depth n =
     (if depth > 8 then None
      else (case n of
              TypeCast a \<Rightarrow> (case a of Some m \<Rightarrow> summary_argument_name (Suc depth) m | None \<Rightarrow> None)
            | CollateClause a \<Rightarrow> (case a of Some m \<Rightarrow> summary_argument_name (Suc depth) m | None \<Rightarrow> None)
            | FuncCall _ args _ _ _ \<Rightarrow>
                (case args of
                   [Some arg] \<Rightarrow>
                     (case peel arg of Some (ColumnRef [only]) \<Rightarrow> lower_string only | _ \<Rightarrow> None)
                 | _ \<Rightarrow> None)
            | _ \<Rightarrow> None))"
  by pat_completeness auto
termination
  by (relation "measure (\<lambda>(depth, n). 9 - depth)") auto

declare summary_argument_name.simps [simp del]

definition plain_range :: "node option \<Rightarrow> (rstring \<times> rstring) option" where
  "plain_range entry =
     (case entry of
        Some (RangeVar schema rel _) \<Rightarrow> if schema = [] then None else Some (schema, rel)
      | _ \<Rightarrow> None)"

definition summary_argument_of :: "node option \<Rightarrow> summary_argument" where
  "summary_argument_of entry =
     (case Option.bind (target_value entry) (summary_argument_name 0) of
        Some c \<Rightarrow> BareColumn c | None \<Rightarrow> Unattributable)"

definition summary_resolution_of :: "parsed option \<Rightarrow> nat \<Rightarrow> summary_resolution option" where
  "summary_resolution_of p n =
     Option.bind (Option.bind p judged_select) (\<lambda>s.
       if \<not> positions_are_trustworthy s n then None
       else Option.bind (all_some (map plain_range (from_clause s))) (\<lambda>rels.
         Some \<lparr>sr_relations = rels, sr_fields = map summary_argument_of (target_list s)\<rparr>))"

definition extract_argument_of :: "node option \<Rightarrow> json_extract_argument" where
  "extract_argument_of entry =
     (case Option.bind (target_value entry) (parse_extract 0) of
        Some x \<Rightarrow> Extract x | None \<Rightarrow> UnattributableExtract)"

definition json_extract_resolution_of :: "parsed option \<Rightarrow> nat \<Rightarrow> json_extract_resolution option" where
  "json_extract_resolution_of p n =
     Option.bind (Option.bind p judged_select) (\<lambda>s.
       if \<not> positions_are_trustworthy s n then None
       else Option.bind (bind_each collect_qualified_from (from_clause s)) (\<lambda>rels.
         Some \<lparr>jr_relations = concat rels, jr_fields = map extract_argument_of (target_list s)\<rparr>))"

section \<open>Groupings\<close>

text \<open>
  The names one grouping item distinguishes rows by; the flag is whether the item is in the position
  where an output alias is resolved.
\<close>

definition aliased :: "rstring \<Rightarrow> node option \<Rightarrow> bool" where
  "aliased name entry =
     (case entry of Some (ResTarget t _) \<Rightarrow> t \<noteq> [] \<and> to_ascii_lowercase t = name | _ \<Rightarrow> False)"

function group_item_columns :: "node option list \<Rightarrow> nat \<Rightarrow> bool \<Rightarrow> node option \<Rightarrow> rstring list option" where
  "group_item_columns targets depth as_element item =
     (if depth > 16 then None
      else (case item of
              Some (ColumnRef parts) \<Rightarrow>
                (case (if parts = [] then None else lower_string (last parts)) of
                   None \<Rightarrow> None
                 | Some name \<Rightarrow>
                     if as_element \<and> length parts = 1
                     then map_option (\<lambda>found. name # concat found)
                            (all_some (map (\<lambda>entry.
                               case target_value entry of
                                 None \<Rightarrow> None
                               | Some v \<Rightarrow> group_item_columns targets (Suc depth) False (Some v))
                              (filter (aliased name) targets)))
                     else Some [name])
            | Some (AConst (Some (Ival v))) \<Rightarrow>
                if list_ex target_is_star targets then None
                else if v < 1 \<or> nat (v - 1) \<ge> length targets then None
                else (case target_value (targets ! nat (v - 1)) of
                        None \<Rightarrow> None
                      | Some e \<Rightarrow> group_item_columns targets (Suc depth) False (Some e))
            | Some (GroupingSet content) \<Rightarrow>
                map_option concat (all_some (map (group_item_columns targets (Suc depth) as_element) content))
            | Some (RowExpr content) \<Rightarrow>
                map_option concat (all_some (map (group_item_columns targets (Suc depth) as_element) content))
            | _ \<Rightarrow> None))"
  by pat_completeness auto
termination
  by (relation "measure (\<lambda>(targets, depth, as_element, item). 17 - depth)") auto

declare group_item_columns.simps [simp del]

text \<open>\<open>Some []\<close> is no grouping, \<open>None\<close> one that cannot be read.\<close>

definition group_by_columns_of :: "parsed option \<Rightarrow> rstring list option" where
  "group_by_columns_of p =
     (case p of
        None \<Rightarrow> None
      | Some q \<Rightarrow>
          (case judged_select q of
             None \<Rightarrow> Some []
           | Some s \<Rightarrow>
               map_option concat (all_some (map (group_item_columns (target_list s) 0 True) (group_clause s)))))"

end
