(* ===== verification/Sql_Hostile.thy ===== *)
theory Sql_Hostile
  imports Sql_Safety
begin

text \<open>
  The hostile posture of \<open>analysis/hostile.rs\<close>: a masked name may be mentioned only as often as the
  outermost target list projects it bare, renaming joins and column aliases over masked relations
  are refused, and so is any reference to a whole row.
\<close>

section \<open>Masked mentions\<close>

definition count_name :: "rstring \<Rightarrow> rstring list \<Rightarrow> nat" where
  "count_name name xs = length (filter (\<lambda>x. x = name) xs)"

text \<open>The name one node mentions: a column by its last part, a string, a column definition.\<close>

definition mentioned_name :: "node \<Rightarrow> rstring option" where
  "mentioned_name n =
     (case n of
        ColumnRef parts \<Rightarrow> if parts = [] then None else lower_string (last parts)
      | StringNode s \<Rightarrow> Some (to_ascii_lowercase s)
      | ColumnDef c \<Rightarrow> Some (to_ascii_lowercase c)
      | _ \<Rightarrow> None)"

definition mentions :: "node list \<Rightarrow> rstring list" where
  "mentions ns = concat (map (\<lambda>n. opt_list (mentioned_name n)) ns)"

fun sort_key_name :: "node \<Rightarrow> rstring option" where
  "sort_key_name (ColumnRef parts) = (if parts = [] then None else lower_string (last parts))"
| "sort_key_name (TypeCast a) = (case a of Some n \<Rightarrow> sort_key_name n | None \<Rightarrow> None)"
| "sort_key_name (CollateClause a) = (case a of Some n \<Rightarrow> sort_key_name n | None \<Rightarrow> None)"
| "sort_key_name _ = None"

definition sort_name :: "node option \<Rightarrow> rstring list" where
  "sort_name n = (case n of Some (SortBy (Some e)) \<Rightarrow> opt_list (sort_key_name e) | _ \<Rightarrow> [])"

text \<open>What one select is credited: its own sort keys and those of its named windows.\<close>

definition order_by_names :: "node \<Rightarrow> rstring list" where
  "order_by_names n =
     (case n of
        SelectStmt s \<Rightarrow>
          concat (map sort_name (sort_clause s)) @
          concat (map (\<lambda>w. case w of Some (WindowDef order) \<Rightarrow> concat (map sort_name order) | _ \<Rightarrow> [])
                   (window_clause s))
      | _ \<Rightarrow> [])"

definition simple_masked_order_by_credits :: "parsed \<Rightarrow> rstring list" where
  "simple_masked_order_by_credits p = concat (map order_by_names (visited p))"

section \<open>The outermost projection\<close>

definition select_stmt_for_outer_projection :: "node option \<Rightarrow> select_stmt option" where
  "select_stmt_for_outer_projection stmt =
     (case stmt of
        Some (SelectStmt s) \<Rightarrow> Some s
      | Some (ExplainStmt (Some (SelectStmt s))) \<Rightarrow> Some s
      | _ \<Rightarrow> None)"

definition bare_column_ref_name :: "node \<Rightarrow> rstring option" where
  "bare_column_ref_name n =
     (case n of
        ColumnRef parts \<Rightarrow> if parts = [] then None else lower_string (last parts)
      | _ \<Rightarrow> None)"

definition projected_name :: "node option \<Rightarrow> rstring list" where
  "projected_name entry =
     (case target_value entry of
        None \<Rightarrow> []
      | Some v \<Rightarrow>
          (case bare_column_ref_name v of
             Some name \<Rightarrow> [name]
           | None \<Rightarrow> opt_list (extract_projection_column v)))"

definition outer_bare_projection_counts :: "parsed \<Rightarrow> rstring list option" where
  "outer_bare_projection_counts p =
     (case stmts p of
        [stmt] \<Rightarrow>
          (case select_stmt_for_outer_projection stmt of
             None \<Rightarrow> None
           | Some s \<Rightarrow> if \<not> setop_none s then None else Some (concat (map projected_name (target_list s))))
      | _ \<Rightarrow> None)"

text \<open>
  A name's mentions are the larger of what the token stream and the tree count; \<open>None\<close> for the
  identifiers is a text that could not be scanned.
\<close>

definition mention_count :: "parsed \<Rightarrow> rstring list \<Rightarrow> rstring \<Rightarrow> nat" where
  "mention_count p idents name = max (count_name name idents) (count_name name (mentions (visited p)))"

definition sql_masked_exceeds_outer_projection ::
  "parsed option \<Rightarrow> rstring list option \<Rightarrow> rstring list \<Rightarrow> bool" where
  "sql_masked_exceeds_outer_projection po idents masked =
     (if masked = [] then False
      else (case po of
              None \<Rightarrow> True
            | Some p \<Rightarrow>
                (case idents of
                   None \<Rightarrow> True
                 | Some ids \<Rightarrow>
                     (let mentioned = filter (\<lambda>name. mention_count p ids name > 0) masked
                      in if mentioned = [] then False
                         else (case outer_bare_projection_counts p of
                                 None \<Rightarrow> True
                               | Some proj \<Rightarrow>
                                   list_ex (\<lambda>name.
                                     mention_count p ids name -
                                       count_name name (simple_masked_order_by_credits p) >
                                     count_name name proj) mentioned)))))"

section \<open>Joins and renames\<close>

definition columns_for_relation :: "(rstring, rstring list) hmap \<Rightarrow> rstring \<Rightarrow> rstring \<Rightarrow> rstring list" where
  "columns_for_relation rels schema rel =
     (let by_rel = (case hget rels rel of
            Some cols \<Rightarrow> cols
          | None \<Rightarrow>
              (case filter (\<lambda>(name, _). name = rel \<or> ends_with (46 # rel) name) rels of
                 (_, cols) # _ \<Rightarrow> cols
               | [] \<Rightarrow> []))
      in if schema \<noteq> []
         then (case hget rels (schema @ 46 # rel) of Some cols \<Rightarrow> cols | None \<Rightarrow> by_rel)
         else by_rel)"

definition range_columns :: "(rstring, rstring list) hmap \<Rightarrow> rstring \<Rightarrow> rstring \<Rightarrow> rstring list" where
  "range_columns rels schema rel = columns_for_relation rels (to_ascii_lowercase schema) (to_ascii_lowercase rel)"

definition any_masked :: "rstring list \<Rightarrow> rstring list \<Rightarrow> bool" where
  "any_masked masked cols = list_ex (\<lambda>c. c \<in> set masked) cols"

definition alias_renames_columns :: "alias_clause option \<Rightarrow> bool" where
  "alias_renames_columns al = (case al of Some a \<Rightarrow> colnames a \<noteq> [] | None \<Rightarrow> False)"

definition is_masked_range :: "(rstring, rstring list) hmap \<Rightarrow> rstring list \<Rightarrow> node \<Rightarrow> bool" where
  "is_masked_range rels masked n =
     (case n of RangeVar schema rel _ \<Rightarrow> any_masked masked (range_columns rels schema rel) | _ \<Rightarrow> False)"

definition subtree_contains_masked_relation ::
  "parsed \<Rightarrow> (rstring, rstring list) hmap \<Rightarrow> rstring list \<Rightarrow> node \<Rightarrow> bool" where
  "subtree_contains_masked_relation p rels masked n = list_ex (is_masked_range rels masked) (walk_tree p n)"

definition target_names_masked :: "parsed \<Rightarrow> rstring list \<Rightarrow> node option \<Rightarrow> bool" where
  "target_names_masked p masked entry =
     (case entry of
        Some (ResTarget name v) \<Rightarrow>
          name \<noteq> [] \<and> to_ascii_lowercase name \<in> set masked \<or>
          (case v of Some e \<Rightarrow> any_masked masked (mentions (walk_tree p e)) | None \<Rightarrow> False)
      | _ \<Rightarrow> False)"

definition select_projects_or_names_masked :: "parsed \<Rightarrow> rstring list \<Rightarrow> node \<Rightarrow> bool" where
  "select_projects_or_names_masked p masked n =
     (case n of SelectStmt s \<Rightarrow> list_ex (target_names_masked p masked) (target_list s) | _ \<Rightarrow> False)"

definition alias_names_masked :: "rstring list \<Rightarrow> alias_clause option \<Rightarrow> bool" where
  "alias_names_masked masked al =
     (case al of
        None \<Rightarrow> False
      | Some a \<Rightarrow> list_ex (\<lambda>c. case lower_string c of Some s \<Rightarrow> s \<in> set masked | None \<Rightarrow> False) (colnames a))"

fun join_side_has_masked_relation ::
  "parsed \<Rightarrow> (rstring, rstring list) hmap \<Rightarrow> rstring list \<Rightarrow> node \<Rightarrow> bool" where
  "join_side_has_masked_relation p rels masked (RangeVar schema rel _) =
     any_masked masked (range_columns rels schema rel)"
| "join_side_has_masked_relation p rels masked (JoinExpr _ l r _) =
     ((case l of Some n \<Rightarrow> join_side_has_masked_relation p rels masked n | None \<Rightarrow> False) \<or>
      (case r of Some n \<Rightarrow> join_side_has_masked_relation p rels masked n | None \<Rightarrow> False))"
| "join_side_has_masked_relation p rels masked (RangeSubselect query al) =
     (alias_names_masked masked al \<or>
      (case query of Some q \<Rightarrow> select_projects_or_names_masked p masked q | None \<Rightarrow> False))"
| "join_side_has_masked_relation p rels masked (RangeFunction _ al _) = alias_names_masked masked al"
| "join_side_has_masked_relation p rels masked _ = False"

definition column_def_name_is_masked :: "rstring list \<Rightarrow> node option \<Rightarrow> bool" where
  "column_def_name_is_masked masked n =
     (case n of Some (ColumnDef c) \<Rightarrow> to_ascii_lowercase c \<in> set masked | _ \<Rightarrow> False)"

definition node_is_join_or_rename ::
  "parsed \<Rightarrow> (rstring, rstring list) hmap \<Rightarrow> rstring list \<Rightarrow> node \<Rightarrow> bool" where
  "node_is_join_or_rename p rels masked n =
     (let below = subtree_contains_masked_relation p rels masked n
      in case n of
           RangeVar schema rel al \<Rightarrow>
             alias_renames_columns al \<and>
             (let cols = range_columns rels schema rel in cols = [] \<or> any_masked masked cols)
         | JoinExpr is_natural l r al \<Rightarrow>
             is_natural \<and>
             ((case l of Some m \<Rightarrow> join_side_has_masked_relation p rels masked m | None \<Rightarrow> False) \<or>
              (case r of Some m \<Rightarrow> join_side_has_masked_relation p rels masked m | None \<Rightarrow> False)) \<or>
             alias_renames_columns al \<and> below
         | RangeSubselect query al \<Rightarrow>
             alias_renames_columns al \<and>
             (below \<or> (case query of Some q \<Rightarrow> select_projects_or_names_masked p masked q | None \<Rightarrow> False))
         | RangeFunction _ al defs \<Rightarrow>
             alias_renames_columns al \<and> below \<or> list_ex (column_def_name_is_masked masked) defs
         | JsonTable al \<Rightarrow> alias_renames_columns al \<and> below
         | RangeTableFunc al \<Rightarrow> alias_renames_columns al \<and> below
         | CommonTableExpr _ renamed query \<Rightarrow>
             renamed \<noteq> [] \<and>
             (case query of Some q \<Rightarrow> subtree_contains_masked_relation p rels masked q | None \<Rightarrow> False)
         | _ \<Rightarrow> False)"

definition sql_hostile_join_or_rename_masked ::
  "parsed option \<Rightarrow> (rstring, rstring list) hmap \<Rightarrow> rstring list \<Rightarrow> bool" where
  "sql_hostile_join_or_rename_masked po rels masked =
     (if masked = [] then False
      else (case po of
              None \<Rightarrow> True
            | Some p \<Rightarrow> list_ex (node_is_join_or_rename p rels masked) (visited p)))"

section \<open>Whole rows\<close>

definition alias_binder :: "alias_clause option \<Rightarrow> rstring list" where
  "alias_binder al =
     (case al of
        Some a \<Rightarrow> if aliasname a = [] then [] else [to_ascii_lowercase (aliasname a)]
      | None \<Rightarrow> [])"

text \<open>The names one node binds a row to, and the qualified relation it makes referable.\<close>

definition row_binders :: "(rstring, rstring list) hmap \<Rightarrow> node \<Rightarrow> rstring list" where
  "row_binders rels n =
     (case n of
        RangeVar schema rel al \<Rightarrow>
          if rel = [] then []
          else filter (\<lambda>b. b \<notin> set (range_columns rels schema rel)) (alias_binder al @ [to_ascii_lowercase rel])
      | RangeSubselect _ al \<Rightarrow> alias_binder al
      | RangeFunction _ al _ \<Rightarrow> alias_binder al
      | JoinExpr _ _ _ al \<Rightarrow> alias_binder al
      | JsonTable al \<Rightarrow> alias_binder al
      | RangeTableFunc al \<Rightarrow> alias_binder al
      | _ \<Rightarrow> [])"

definition qualified_binders :: "node \<Rightarrow> rstring list" where
  "qualified_binders n =
     (case n of
        RangeVar schema rel _ \<Rightarrow>
          if rel = [] \<or> schema = [] then [] else [to_ascii_lowercase schema @ 46 # to_ascii_lowercase rel]
      | _ \<Rightarrow> [])"

definition column_ref_is_whole_row :: "rstring list \<Rightarrow> rstring list \<Rightarrow> node option list \<Rightarrow> bool" where
  "column_ref_is_whole_row row_names qualified parts =
     (case concat (map (\<lambda>f. opt_list (lower_string f)) parts) of
        [name] \<Rightarrow> name \<in> set row_names
      | [schema, rel] \<Rightarrow> schema @ 46 # rel \<in> set qualified
      | _ \<Rightarrow> False)"

definition sql_hostile_uses_whole_row :: "parsed option \<Rightarrow> (rstring, rstring list) hmap \<Rightarrow> bool" where
  "sql_hostile_uses_whole_row po rels =
     (case po of
        None \<Rightarrow> True
      | Some p \<Rightarrow>
          (let row_names = concat (map (row_binders rels) (visited p));
               qualified = concat (map qualified_binders (visited p))
           in list_ex (\<lambda>n. case n of ColumnRef parts \<Rightarrow> column_ref_is_whole_row row_names qualified parts | _ \<Rightarrow> False)
                (visited p)))"

end
