(* ===== verification/Sql_Lineage.thy ===== *)
theory Sql_Lineage
  imports Sql_Hostile
begin

text \<open>
  What lineage may release (\<open>lineage.rs\<close>, \<open>analysis/lineage_shape.rs\<close>): the shape check that every
  column an output derives from is named, following nested selects and CTEs to a fixed depth, and
  the verdict over the third-party analyser's mappings, which are an argument.
\<close>

section \<open>Closed expressions\<close>

text \<open>An expression is closed when all of it is read and every column in it satisfies \<open>col\<close>.\<close>

fun expr_is_closed :: "(node option list \<Rightarrow> bool) \<Rightarrow> node \<Rightarrow> bool" where
  "expr_is_closed col (ColumnRef parts) = col parts"
| "expr_is_closed col (AConst _) = True"
| "expr_is_closed col ParamRef = True"
| "expr_is_closed col SqlvalueFunction = True"
| "expr_is_closed col (TypeCast a) = (case a of Some n \<Rightarrow> expr_is_closed col n | None \<Rightarrow> False)"
| "expr_is_closed col (CollateClause a) = (case a of Some n \<Rightarrow> expr_is_closed col n | None \<Rightarrow> False)"
| "expr_is_closed col (AExpr _ l r) =
     ((case l of Some n \<Rightarrow> expr_is_closed col n | None \<Rightarrow> True) \<and>
      (case r of Some n \<Rightarrow> expr_is_closed col n | None \<Rightarrow> True))"
| "expr_is_closed col (BoolExpr args) = (\<forall>a \<in> set args. case a of Some n \<Rightarrow> expr_is_closed col n | None \<Rightarrow> False)"
| "expr_is_closed col (NullTest a) = (case a of Some n \<Rightarrow> expr_is_closed col n | None \<Rightarrow> False)"
| "expr_is_closed col (BooleanTest a) = (case a of Some n \<Rightarrow> expr_is_closed col n | None \<Rightarrow> False)"
| "expr_is_closed col (FuncCall _ args _ _ over) =
     (\<not> over \<and> (\<forall>a \<in> set args. case a of Some n \<Rightarrow> expr_is_closed col n | None \<Rightarrow> False))"
| "expr_is_closed col (CoalesceExpr args) = (\<forall>a \<in> set args. case a of Some n \<Rightarrow> expr_is_closed col n | None \<Rightarrow> False)"
| "expr_is_closed col (MinMaxExpr args) = (\<forall>a \<in> set args. case a of Some n \<Rightarrow> expr_is_closed col n | None \<Rightarrow> False)"
| "expr_is_closed col (NullIfExpr args) = (\<forall>a \<in> set args. case a of Some n \<Rightarrow> expr_is_closed col n | None \<Rightarrow> False)"
| "expr_is_closed col (RowExpr args) = (\<forall>a \<in> set args. case a of Some n \<Rightarrow> expr_is_closed col n | None \<Rightarrow> False)"
| "expr_is_closed col (NamedArgExpr a) = (case a of Some n \<Rightarrow> expr_is_closed col n | None \<Rightarrow> False)"
| "expr_is_closed col (CaseExpr arg args defresult) =
     ((case arg of Some n \<Rightarrow> expr_is_closed col n | None \<Rightarrow> True) \<and>
      (\<forall>a \<in> set args. case a of Some n \<Rightarrow> expr_is_closed col n | None \<Rightarrow> False) \<and>
      (case defresult of Some n \<Rightarrow> expr_is_closed col n | None \<Rightarrow> True))"
| "expr_is_closed col (CaseWhen e r) =
     ((case e of Some n \<Rightarrow> expr_is_closed col n | None \<Rightarrow> True) \<and>
      (case r of Some n \<Rightarrow> expr_is_closed col n | None \<Rightarrow> True))"
| "expr_is_closed col (AArrayExpr args) = (\<forall>a \<in> set args. case a of Some n \<Rightarrow> expr_is_closed col n | None \<Rightarrow> False)"
| "expr_is_closed col (ArrayExpr _ args) = (\<forall>a \<in> set args. case a of Some n \<Rightarrow> expr_is_closed col n | None \<Rightarrow> False)"
| "expr_is_closed col (ListNode args) = (\<forall>a \<in> set args. case a of Some n \<Rightarrow> expr_is_closed col n | None \<Rightarrow> False)"
| "expr_is_closed col (AIndirection a parts) =
     ((case a of Some n \<Rightarrow> expr_is_closed col n | None \<Rightarrow> False) \<and>
      (\<forall>i \<in> set parts. case i of Some n \<Rightarrow> expr_is_closed col n | None \<Rightarrow> False))"
| "expr_is_closed col _ = False"

definition node_is_closed :: "(node option list \<Rightarrow> bool) \<Rightarrow> node option \<Rightarrow> bool" where
  "node_is_closed col n = (case n of Some e \<Rightarrow> expr_is_closed col e | None \<Rightarrow> False)"

section \<open>Resolving a name\<close>

record cte =
  cte_name :: rstring
  cte_colnames :: "rstring list"
  cte_query :: select_stmt

definition names_from_nodes :: "node option list \<Rightarrow> rstring list option" where
  "names_from_nodes ns = all_some (map lower_string ns)"

definition names_or_none :: "node option list \<Rightarrow> rstring list" where
  "names_or_none ns = (case names_from_nodes ns of Some cs \<Rightarrow> cs | None \<Rightarrow> [])"

definition extend_ctes :: "cte list \<Rightarrow> select_stmt \<Rightarrow> cte list" where
  "extend_ctes parent s =
     fold (\<lambda>n out.
        case n of
          Some (CommonTableExpr name renamed (Some (SelectStmt q))) \<Rightarrow>
            filter (\<lambda>c. cte_name c \<noteq> name) out @
              [\<lparr>cte_name = name, cte_colnames = names_or_none renamed, cte_query = q\<rparr>]
        | _ \<Rightarrow> out) (with_ctes s) parent"

definition column_ref_parts :: "node option list \<Rightarrow> (rstring option \<times> rstring) option" where
  "column_ref_parts parts =
     (case all_some (map lower_string parts) of
        None \<Rightarrow> None
      | Some ps \<Rightarrow>
          (case rev ps of
             [] \<Rightarrow> None
           | [name] \<Rightarrow> Some (None, name)
           | name # qualifier # _ \<Rightarrow> Some (Some qualifier, name)))"

definition res_target_name :: "node option \<Rightarrow> rstring option" where
  "res_target_name entry =
     (case entry of
        Some (ResTarget name v) \<Rightarrow>
          if name \<noteq> [] then Some (to_ascii_lowercase name)
          else (case v of
                  Some (ColumnRef parts) \<Rightarrow> if parts = [] then None else lower_string (last parts)
                | _ \<Rightarrow> None)
      | _ \<Rightarrow> None)"

text \<open>The index of the one output of that name; an explicit column list replaces the targets' names.\<close>

definition output_index :: "select_stmt \<Rightarrow> rstring list \<Rightarrow> rstring \<Rightarrow> nat option" where
  "output_index q names_given name =
     (case position_of name names_given of
        Some i \<Rightarrow> Some i
      | None \<Rightarrow>
          if names_given \<noteq> [] then None
          else (case filter (\<lambda>i. res_target_name (target_list q ! i) = Some name) [0 ..< length (target_list q)] of
                  [i] \<Rightarrow> Some i
                | _ \<Rightarrow> None))"

datatype column_origin = BaseColumn | NestedColumn select_stmt nat | IncompleteOrigin

fun flatten_from :: "node option \<Rightarrow> node option list" where
  "flatten_from (Some (JoinExpr nat_join l r al)) =
     (if alias_renames_columns al then [Some (JoinExpr nat_join l r al)]
      else (case l of Some n \<Rightarrow> flatten_from (Some n) | None \<Rightarrow> []) @
           (case r of Some n \<Rightarrow> flatten_from (Some n) | None \<Rightarrow> []))"
| "flatten_from (Some (RangeTableSample rel)) =
     (case rel of Some n \<Rightarrow> flatten_from (Some n) | None \<Rightarrow> [Some (RangeTableSample rel)])"
| "flatten_from n = [n]"

definition indexed_origin :: "select_stmt \<Rightarrow> rstring list \<Rightarrow> rstring option \<Rightarrow> rstring \<Rightarrow> column_origin option" where
  "indexed_origin q names_given qualifier name =
     (case output_index q names_given name of
        Some i \<Rightarrow> Some (NestedColumn q i)
      | None \<Rightarrow> if qualifier \<noteq> None then Some IncompleteOrigin else None)"

definition named_function_origin :: "alias_clause option \<Rightarrow> rstring option \<Rightarrow> rstring \<Rightarrow> column_origin option" where
  "named_function_origin al qualifier name =
     (case al of
        None \<Rightarrow> None
      | Some a \<Rightarrow>
          (case qualifier of
             Some q \<Rightarrow> if to_ascii_lowercase (aliasname a) \<noteq> q then None else Some IncompleteOrigin
           | None \<Rightarrow> if name \<in> set (names_or_none (colnames a)) then Some IncompleteOrigin else None))"

definition range_var_origin ::
  "cte list \<Rightarrow> rstring option \<Rightarrow> rstring \<Rightarrow> rstring \<Rightarrow> alias_clause option \<Rightarrow> column_origin option" where
  "range_var_origin ctes qualifier name rel_text al =
     (let rel = to_ascii_lowercase rel_text;
          al_name = map_option (\<lambda>a. to_ascii_lowercase (aliasname a)) al;
          item_name = (case al_name of Some a \<Rightarrow> a | None \<Rightarrow> rel)
      in if (case qualifier of Some q \<Rightarrow> item_name \<noteq> q \<and> rel \<noteq> q | None \<Rightarrow> False) then None
         else if alias_renames_columns al then Some IncompleteOrigin
         else (case filter (\<lambda>c. cte_name c = rel \<or> Some (cte_name c) = al_name) (rev ctes) of
                 c # _ \<Rightarrow> indexed_origin (cte_query c) (cte_colnames c) qualifier name
               | [] \<Rightarrow> Some BaseColumn))"

definition classify_from_item :: "cte list \<Rightarrow> rstring option \<Rightarrow> rstring \<Rightarrow> node option \<Rightarrow> column_origin option" where
  "classify_from_item ctes qualifier name item =
     (case item of
        None \<Rightarrow> None
      | Some (RangeSubselect query al) \<Rightarrow>
          (case al of
             None \<Rightarrow> None
           | Some a \<Rightarrow>
               if (case qualifier of Some q \<Rightarrow> to_ascii_lowercase (aliasname a) \<noteq> q | None \<Rightarrow> False) then None
               else (case query of
                       None \<Rightarrow> None
                     | Some (SelectStmt q) \<Rightarrow> indexed_origin q (names_or_none (colnames a)) qualifier name
                     | Some _ \<Rightarrow> Some IncompleteOrigin))
      | Some (RangeVar _ rel al) \<Rightarrow> range_var_origin ctes qualifier name rel al
      | Some (RangeFunction _ al _) \<Rightarrow> named_function_origin al qualifier name
      | Some (RangeTableFunc al) \<Rightarrow> named_function_origin al qualifier name
      | Some _ \<Rightarrow> if qualifier \<noteq> None then Some IncompleteOrigin else None)"

text \<open>The loop over the flattened items: the nested origin so far and whether a base was seen.\<close>

fun resolve_items ::
  "column_origin option list \<Rightarrow> column_origin option \<Rightarrow> bool \<Rightarrow> rstring option \<Rightarrow> column_origin" where
  "resolve_items [] nested saw_base qualifier =
     (case nested of
        Some origin \<Rightarrow> if saw_base \<and> qualifier = None then IncompleteOrigin else origin
      | None \<Rightarrow> BaseColumn)"
| "resolve_items (None # items) nested saw_base qualifier = resolve_items items nested saw_base qualifier"
| "resolve_items (Some IncompleteOrigin # items) nested saw_base qualifier = IncompleteOrigin"
| "resolve_items (Some BaseColumn # items) nested saw_base qualifier = resolve_items items nested True qualifier"
| "resolve_items (Some (NestedColumn q i) # items) nested saw_base qualifier =
     (if nested \<noteq> None then IncompleteOrigin
      else resolve_items items (Some (NestedColumn q i)) saw_base qualifier)"

definition resolve_column :: "select_stmt \<Rightarrow> cte list \<Rightarrow> rstring option \<Rightarrow> rstring \<Rightarrow> column_origin" where
  "resolve_column s ctes qualifier name =
     resolve_items (map (classify_from_item ctes qualifier name) (concat (map flatten_from (from_clause s))))
       None False qualifier"

section \<open>Following a field\<close>

definition FOLLOW_DEPTH :: nat where
  "FOLLOW_DEPTH = 32"

text \<open>The first argument is what is left of \<open>FOLLOW_DEPTH\<close>.\<close>

fun field_is_closed :: "nat \<Rightarrow> cte list \<Rightarrow> select_stmt \<Rightarrow> nat \<Rightarrow> bool" where
  "field_is_closed 0 parent_ctes s0 index = False"
| "field_is_closed (Suc left) parent_ctes s0 index =
     (let s = unwrap_all s0;
          ctes = extend_ctes parent_ctes s;
          col = (\<lambda>parts.
            if Some AStar \<in> set parts then False
            else (case column_ref_parts parts of
                    None \<Rightarrow> False
                  | Some (qualifier, name) \<Rightarrow>
                      (case resolve_column s ctes qualifier name of
                         BaseColumn \<Rightarrow> True
                       | NestedColumn q i \<Rightarrow> field_is_closed left ctes q i
                       | IncompleteOrigin \<Rightarrow> False)))
      in if \<not> setop_none s
         then (case (larg s, rarg s) of
                 (Some l, Some r) \<Rightarrow> field_is_closed left ctes l index \<and> field_is_closed left ctes r index
               | _ \<Rightarrow> False)
         else if values_lists s \<noteq> []
         then list_all (\<lambda>row. case row of
                          Some (ListNode cells) \<Rightarrow> index < length cells \<and> node_is_closed col (cells ! index)
                        | _ \<Rightarrow> False) (values_lists s)
         else if index < length (target_list s)
         then (case target_value (target_list s ! index) of Some e \<Rightarrow> expr_is_closed col e | None \<Rightarrow> False)
         else False)"

definition output_lineage_is_closed :: "parsed option \<Rightarrow> nat \<Rightarrow> bool list" where
  "output_lineage_is_closed po n =
     (case Option.bind po single_statement of
        Some (SelectStmt s) \<Rightarrow> map (field_is_closed FOLLOW_DEPTH [] s) [0 ..< n]
      | _ \<Rightarrow> replicate n False)"

section \<open>The verdict\<close>

text \<open>The analyser's mappings: for each output the sources, concrete or not.\<close>

record table_ref =
  tr_schema :: "rstring option"
  tr_table :: rstring

datatype lineage_source = Concrete table_ref rstring | OtherSource

definition qualify :: "table_ref \<Rightarrow> rstring" where
  "qualify t = (case tr_schema t of Some s \<Rightarrow> s | None \<Rightarrow> str ''public'') @ 46 # tr_table t"

definition catalog_list_columns :: "snapshot \<Rightarrow> table_ref \<Rightarrow> rstring list option" where
  "catalog_list_columns s t = relation_columns_of s (qualify t)"

definition catalog_resolve_column :: "snapshot \<Rightarrow> rstring \<Rightarrow> table_ref list \<Rightarrow> table_ref option" where
  "catalog_resolve_column s col candidates =
     (case filter (\<lambda>t. case relation_columns_of s (qualify t) of
                         Some cs \<Rightarrow> to_ascii_lowercase col \<in> set cs | None \<Rightarrow> False) candidates of
        [only] \<Rightarrow> Some only
      | _ \<Rightarrow> None)"

text \<open>\<open>None\<close>: the source is not resolved; \<open>Some b\<close>: it is, with the first unreleased column so far.\<close>

fun judge_sources ::
  "snapshot \<Rightarrow> rstring list \<Rightarrow> lineage_source list \<Rightarrow> rstring option \<Rightarrow> rstring option option" where
  "judge_sources s roles [] blocked = Some blocked"
| "judge_sources s roles (OtherSource # sources) blocked = None"
| "judge_sources s roles (Concrete t col # sources) blocked =
     (let relation = qualify t; wanted = to_ascii_lowercase col
      in case relation_columns_of s relation of
           None \<Rightarrow> None
         | Some cols \<Rightarrow>
             if wanted \<notin> set cols \<or> relation_is_opaque_view s relation then None
             else judge_sources s roles sources
                    (if (case lookup_by_name s relation wanted of
                           Some c \<Rightarrow> is_passthrough (for_roles c roles) | None \<Rightarrow> False)
                     then blocked
                     else (case blocked of Some b \<Rightarrow> Some b | None \<Rightarrow> Some (relation @ 46 # wanted))))"

definition verdict_of :: "snapshot \<Rightarrow> rstring list \<Rightarrow> bool \<Rightarrow> bool \<Rightarrow> lineage_source list \<Rightarrow> verdict" where
  "verdict_of s roles masked_column_in_statement closed sources =
     (if sources = [] then UnresolvedVerdict
      else (case judge_sources s roles sources None of
              None \<Rightarrow> UnresolvedVerdict
            | Some (Some col) \<Rightarrow> Blocked col
            | Some None \<Rightarrow>
                if masked_column_in_statement \<or> \<not> closed then UnresolvedVerdict else Release))"

text \<open>\<open>None\<close> for the analyser's results is an error; the third argument is \<open>backstop_identifiers\<close>.\<close>

definition lineage_resolve ::
  "lineage_source list list list option \<Rightarrow> parsed option \<Rightarrow> rstring list option \<Rightarrow> nat \<Rightarrow> snapshot \<Rightarrow>
     rstring list \<Rightarrow> verdict list" where
  "lineage_resolve results po backstop n s roles =
     (case results of
        Some [mappings] \<Rightarrow>
          if length mappings \<noteq> n then replicate n UnresolvedVerdict
          else (let masked = references_masked_column s backstop roles;
                    closed = output_lineage_is_closed po n
                in map (\<lambda>i. verdict_of s roles masked (i < length closed \<and> closed ! i) (mappings ! i))
                     [0 ..< length mappings])
      | _ \<Rightarrow> replicate n UnresolvedVerdict)"

end
