(* ===== verification/Catalog_Surface.thy ===== *)
theory Catalog_Surface
  imports Sql_Names
begin

text \<open>
  The classified catalog surface of \<open>analysis/catalog_surface.rs\<close>: the relations of \<open>pg_catalog\<close> and
  \<open>information_schema\<close>, each marked metadata-safe or not, the lookup by binary search, and the
  decision which relations can carry user data.
\<close>

section \<open>The classified relations\<close>

definition VANILLA_PG_CATALOG :: "(rstring \<times> bool) list" where
  "VANILLA_PG_CATALOG = map (map_prod str id)
     [(''pg_aggregate'', True), (''pg_aios'', True), (''pg_am'', True), (''pg_amop'', True),
      (''pg_amproc'', True), (''pg_attrdef'', True), (''pg_attribute'', True),
      (''pg_auth_members'', True), (''pg_authid'', False),
      (''pg_available_extension_versions'', True), (''pg_available_extensions'', True),
      (''pg_backend_memory_contexts'', False), (''pg_cast'', True), (''pg_class'', True),
      (''pg_collation'', True), (''pg_config'', True), (''pg_constraint'', True),
      (''pg_conversion'', True), (''pg_cursors'', False), (''pg_database'', True),
      (''pg_db_role_setting'', True), (''pg_default_acl'', True), (''pg_depend'', True),
      (''pg_description'', True), (''pg_enum'', True), (''pg_event_trigger'', True),
      (''pg_extension'', True), (''pg_file_settings'', False),
      (''pg_foreign_data_wrapper'', False), (''pg_foreign_server'', False),
      (''pg_foreign_table'', True), (''pg_group'', True), (''pg_hba_file_rules'', False),
      (''pg_ident_file_mappings'', False), (''pg_index'', True), (''pg_indexes'', True),
      (''pg_inherits'', True), (''pg_init_privs'', True), (''pg_language'', True),
      (''pg_largeobject'', False), (''pg_largeobject_metadata'', True), (''pg_locks'', True),
      (''pg_matviews'', True), (''pg_namespace'', True), (''pg_opclass'', True),
      (''pg_operator'', True), (''pg_opfamily'', True), (''pg_parameter_acl'', True),
      (''pg_partitioned_table'', True), (''pg_policies'', True), (''pg_policy'', True),
      (''pg_prepared_statements'', False), (''pg_prepared_xacts'', True), (''pg_proc'', True),
      (''pg_publication'', True), (''pg_publication_namespace'', True),
      (''pg_publication_rel'', True), (''pg_publication_tables'', True), (''pg_range'', True),
      (''pg_replication_origin'', True), (''pg_replication_origin_status'', True),
      (''pg_replication_slots'', True), (''pg_rewrite'', True), (''pg_roles'', True),
      (''pg_rules'', True), (''pg_seclabel'', True), (''pg_seclabels'', True),
      (''pg_sequence'', True), (''pg_sequences'', True), (''pg_settings'', True),
      (''pg_shadow'', False), (''pg_shdepend'', True), (''pg_shdescription'', True),
      (''pg_shmem_allocations'', True), (''pg_shmem_allocations_numa'', True),
      (''pg_shseclabel'', True), (''pg_stat_activity'', False),
      (''pg_stat_all_indexes'', True), (''pg_stat_all_tables'', True),
      (''pg_stat_archiver'', True), (''pg_stat_bgwriter'', True),
      (''pg_stat_checkpointer'', True), (''pg_stat_database'', True),
      (''pg_stat_database_conflicts'', True), (''pg_stat_gssapi'', True),
      (''pg_stat_io'', True), (''pg_stat_progress_analyze'', True),
      (''pg_stat_progress_basebackup'', True), (''pg_stat_progress_cluster'', True),
      (''pg_stat_progress_copy'', True), (''pg_stat_progress_create_index'', True),
      (''pg_stat_progress_vacuum'', True), (''pg_stat_recovery_prefetch'', True),
      (''pg_stat_replication'', True), (''pg_stat_replication_slots'', True),
      (''pg_stat_slru'', True), (''pg_stat_ssl'', True), (''pg_stat_subscription'', True),
      (''pg_stat_subscription_stats'', True), (''pg_stat_sys_indexes'', True),
      (''pg_stat_sys_tables'', True), (''pg_stat_user_functions'', True),
      (''pg_stat_user_indexes'', True), (''pg_stat_user_tables'', True),
      (''pg_stat_wal'', True), (''pg_stat_wal_receiver'', False),
      (''pg_stat_xact_all_tables'', True), (''pg_stat_xact_sys_tables'', True),
      (''pg_stat_xact_user_functions'', True), (''pg_stat_xact_user_tables'', True),
      (''pg_statio_all_indexes'', True), (''pg_statio_all_sequences'', True),
      (''pg_statio_all_tables'', True), (''pg_statio_sys_indexes'', True),
      (''pg_statio_sys_sequences'', True), (''pg_statio_sys_tables'', True),
      (''pg_statio_user_indexes'', True), (''pg_statio_user_sequences'', True),
      (''pg_statio_user_tables'', True), (''pg_statistic'', False),
      (''pg_statistic_ext'', True), (''pg_statistic_ext_data'', False), (''pg_stats'', False),
      (''pg_stats_ext'', False), (''pg_stats_ext_exprs'', False), (''pg_subscription'', False),
      (''pg_subscription_rel'', True), (''pg_tables'', True), (''pg_tablespace'', True),
      (''pg_timezone_abbrevs'', True), (''pg_timezone_names'', True), (''pg_transform'', True),
      (''pg_trigger'', True), (''pg_ts_config'', True), (''pg_ts_config_map'', True),
      (''pg_ts_dict'', True), (''pg_ts_parser'', True), (''pg_ts_template'', True),
      (''pg_type'', True), (''pg_user'', False), (''pg_user_mapping'', False),
      (''pg_user_mappings'', False), (''pg_views'', True), (''pg_wait_events'', True)]"

definition VANILLA_INFORMATION_SCHEMA :: "(rstring \<times> bool) list" where
  "VANILLA_INFORMATION_SCHEMA = map (map_prod str id)
     [(''_pg_foreign_data_wrappers'', False), (''_pg_foreign_servers'', False),
      (''_pg_foreign_table_columns'', False), (''_pg_foreign_tables'', False),
      (''_pg_user_mappings'', False), (''administrable_role_authorizations'', True),
      (''applicable_roles'', True), (''attributes'', True), (''character_sets'', True),
      (''check_constraint_routine_usage'', True), (''check_constraints'', True),
      (''collation_character_set_applicability'', True), (''collations'', True),
      (''column_column_usage'', True), (''column_domain_usage'', True),
      (''column_options'', False), (''column_privileges'', True), (''column_udt_usage'', True),
      (''columns'', True), (''constraint_column_usage'', True),
      (''constraint_table_usage'', True), (''data_type_privileges'', True),
      (''domain_constraints'', True), (''domain_udt_usage'', True), (''domains'', True),
      (''element_types'', True), (''enabled_roles'', True),
      (''foreign_data_wrapper_options'', False), (''foreign_data_wrappers'', True),
      (''foreign_server_options'', False), (''foreign_servers'', True),
      (''foreign_table_options'', False), (''foreign_tables'', True),
      (''information_schema_catalog_name'', True), (''key_column_usage'', True),
      (''parameters'', True), (''referential_constraints'', True),
      (''role_column_grants'', True), (''role_routine_grants'', True),
      (''role_table_grants'', True), (''role_udt_grants'', True),
      (''role_usage_grants'', True), (''routine_column_usage'', True),
      (''routine_privileges'', True), (''routine_routine_usage'', True),
      (''routine_sequence_usage'', True), (''routine_table_usage'', True),
      (''routines'', True), (''schemata'', True), (''sequences'', True),
      (''sql_features'', True), (''sql_implementation_info'', True), (''sql_parts'', True),
      (''sql_sizing'', True), (''table_constraints'', True), (''table_privileges'', True),
      (''tables'', True), (''transforms'', True), (''triggered_update_columns'', True),
      (''triggers'', True), (''udt_privileges'', True), (''usage_privileges'', True),
      (''user_defined_types'', True), (''user_mapping_options'', False),
      (''user_mappings'', True), (''view_column_usage'', True), (''view_routine_usage'', True),
      (''view_table_usage'', True), (''views'', True)]"

definition CONTRIB_METADATA_SAFE_PG :: "rstring list" where
  "CONTRIB_METADATA_SAFE_PG = map str
     [''pg_buffercache'', ''pg_stat_statements_info'', ''pg_wait_sampling_current'',
      ''pg_wait_sampling_history'', ''pg_wait_sampling_profile'']"

section \<open>Lookup\<close>

text \<open>\<open>slice::binary_search_by_key\<close> between two bounds, on strings in their byte order.\<close>

function binary_search :: "(rstring \<times> bool) list \<Rightarrow> rstring \<Rightarrow> nat \<Rightarrow> nat \<Rightarrow> nat option" where
  "binary_search t key lo hi =
     (if lo \<ge> hi then None
      else (let mid = lo + (hi - lo) div 2
            in if fst (t ! mid) = key then Some mid
               else if fst (t ! mid) < key then binary_search t key (Suc mid) hi
               else binary_search t key lo mid))"
  by pat_completeness auto
termination
  by (relation "measure (\<lambda>(t, key, lo, hi). hi - lo)") (auto simp: Let_def)

declare binary_search.simps [simp del]

definition lookup_table :: "(rstring \<times> bool) list \<Rightarrow> rstring \<Rightarrow> bool option" where
  "lookup_table t name = map_option (\<lambda>i. snd (t ! i)) (binary_search t name 0 (length t))"

definition vanilla_pg_classification :: "rstring \<Rightarrow> bool option" where
  "vanilla_pg_classification relation = lookup_table VANILLA_PG_CATALOG relation"

definition vanilla_information_schema_classification :: "rstring \<Rightarrow> bool option" where
  "vanilla_information_schema_classification relation = lookup_table VANILLA_INFORMATION_SCHEMA relation"

definition relation_is_metadata_safe_pg :: "rstring \<Rightarrow> bool" where
  "relation_is_metadata_safe_pg relation =
     (case vanilla_pg_classification relation of
        Some safe \<Rightarrow> safe
      | None \<Rightarrow> relation \<in> set CONTRIB_METADATA_SAFE_PG)"

definition relation_is_classified_leaky :: "rstring \<Rightarrow> bool" where
  "relation_is_classified_leaky relation \<longleftrightarrow>
     vanilla_pg_classification relation = Some False \<or>
     vanilla_information_schema_classification relation = Some False"

definition relation_is_metadata_safe_information_schema :: "rstring \<Rightarrow> bool" where
  "relation_is_metadata_safe_information_schema relation =
     (case vanilla_information_schema_classification relation of Some safe \<Rightarrow> safe | None \<Rightarrow> False)"

definition starts_with :: "rstring \<Rightarrow> rstring \<Rightarrow> bool" where
  "starts_with p t \<longleftrightarrow> take (length p) t = p"

definition is_non_catalog_shaped_fork_dump :: "rstring \<Rightarrow> bool" where
  "is_non_catalog_shaped_fork_dump relation \<longleftrightarrow>
     \<not> starts_with (str ''pg_'') relation \<and>
     (starts_with (str ''citus_stat_'') relation \<or> contains_text relation (str ''stat_activity'') \<or>
      contains_text relation (str ''lock_waits'') \<or> contains_text relation (str ''stat_statements''))"

definition range_var_is_leaky_catalog :: "rstring \<Rightarrow> rstring \<Rightarrow> bool" where
  "range_var_is_leaky_catalog schema_text relation_text =
     (let schema = to_ascii_lowercase schema_text; relation = to_ascii_lowercase relation_text
      in if schema = str ''pg_toast'' \<or> starts_with (str ''pg_toast_'') relation then True
         else if starts_with (str ''_pg_'') relation \<and> (schema = [] \<or> schema = str ''information_schema'') then True
         else if is_non_catalog_shaped_fork_dump relation then True
         else if relation_is_classified_leaky relation then True
         else if schema = str ''information_schema'' then \<not> relation_is_metadata_safe_information_schema relation
         else if schema = str ''pg_catalog'' \<or> schema = [] \<and> starts_with (str ''pg_'') relation
         then \<not> relation_is_metadata_safe_pg relation
         else False)"

section \<open>The lookup is the table\<close>

lemma binary_search_finds:
  assumes "sorted_wrt (<) (map fst t)" and "hi \<le> length t"
    and "\<And>i. i < length t \<Longrightarrow> fst (t ! i) = key \<Longrightarrow> lo \<le> i \<and> i < hi"
  shows "case binary_search t key lo hi of
           Some i \<Rightarrow> i < length t \<and> fst (t ! i) = key
         | None \<Rightarrow> key \<notin> fst ` set t"
  using assms
proof (induction t key lo hi rule: binary_search.induct)
  case (1 t key lo hi)
  show ?case
  proof (cases "lo \<ge> hi")
    case True
    then have "key \<notin> fst ` set t"
      using "1.prems"(3) by (force simp: in_set_conv_nth)
    with True show ?thesis by (simp add: binary_search.simps)
  next
    case False
    define mid where "mid = lo + (hi - lo) div 2"
    have mid: "lo \<le> mid" "mid < hi" "mid < length t" using False "1.prems"(2) by (auto simp: mid_def)
    have less: "fst (t ! i) < fst (t ! j)" if "i < j" "j < length t" for i j
      using sorted_wrt_nth_less [OF "1.prems"(1), of i j] that by simp
    show ?thesis
    proof (cases "fst (t ! mid) = key")
      case True
      with False mid show ?thesis by (simp add: binary_search.simps [of t key lo hi] mid_def [symmetric] Let_def)
    next
      case neq: False
      show ?thesis
      proof (cases "fst (t ! mid) < key")
        case True
        have "Suc mid \<le> i \<and> i < hi" if "i < length t" "fst (t ! i) = key" for i
        proof -
          have "\<not> i < mid"
          proof
            assume "i < mid"
            then have "key < fst (t ! mid)" using less [OF _ mid(3)] that(2) by blast
            from order.strict_trans [OF this True] show False by (rule order.irrefl [THEN notE])
          qed
          moreover have "i \<noteq> mid" using neq that(2) by blast
          ultimately show ?thesis using "1.prems"(3) [OF that] by linarith
        qed
        moreover have "binary_search t key lo hi = binary_search t key (Suc mid) hi"
          using False neq True by (subst binary_search.simps) (simp add: mid_def Let_def)
        ultimately show ?thesis using "1.IH"(1) [OF False mid_def neq True "1.prems"(1,2)] by simp
      next
        case ge: False
        have "lo \<le> i \<and> i < mid" if "i < length t" "fst (t ! i) = key" for i
        proof -
          have "\<not> mid < i" using less [of mid i] ge that by blast
          moreover have "i \<noteq> mid" using neq that(2) by blast
          ultimately show ?thesis using "1.prems"(3) [OF that] by linarith
        qed
        moreover have "mid \<le> length t" using mid(3) by simp
        moreover have "binary_search t key lo hi = binary_search t key lo mid"
          using False neq ge by (subst binary_search.simps) (simp add: mid_def Let_def)
        ultimately show ?thesis using "1.IH"(2) [OF False mid_def neq ge "1.prems"(1)] by simp
      qed
    qed
  qed
qed

lemma lookup_table_map_of:
  assumes "sorted_wrt (<) (map fst t)"
  shows "lookup_table t key = map_of t key"
proof -
  have unique: "distinct (map fst t)" using assms by (simp add: strict_sorted_iff)
  have found: "case binary_search t key 0 (length t) of
           Some i \<Rightarrow> i < length t \<and> fst (t ! i) = key
         | None \<Rightarrow> key \<notin> fst ` set t"
    by (rule binary_search_finds [OF assms order_refl]) simp
  show ?thesis
  proof (cases "binary_search t key 0 (length t)")
    case None
    with found show ?thesis by (simp add: lookup_table_def map_of_eq_None_iff [symmetric] del: map_of_eq_None_iff)
  next
    case (Some i)
    with found have "(key, snd (t ! i)) \<in> set t"
      by (auto simp: in_set_conv_nth intro!: exI [of _ i] prod_eqI)
    with Some show ?thesis using unique by (simp add: lookup_table_def)
  qed
qed

lemma strictly_sorted_by_neighbours: "successively (<) (xs :: 'a::preorder list) \<Longrightarrow> sorted_wrt (<) xs"
  by (simp add: successively_conv_sorted_wrt)

lemma vanilla_pg_catalog_sorted: "sorted_wrt (<) (map fst VANILLA_PG_CATALOG)"
  by (rule strictly_sorted_by_neighbours) code_simp

lemma vanilla_information_schema_sorted: "sorted_wrt (<) (map fst VANILLA_INFORMATION_SCHEMA)"
  by (rule strictly_sorted_by_neighbours) code_simp

end
