(* ===== verification/Sql_Catalogs.thy ===== *)
theory Sql_Catalogs
  imports Catalog_Surface Sql_Safety
begin

text \<open>
  The statement gates of \<open>analysis/frontend.rs\<close> and \<open>analysis/catalogs.rs\<close>: writes, prepared
  statements and cursors, untrusted functions, leaky catalogs, the metadata-only fast path and
  whether provenance can be trusted. Each is a scan of the nodes the tree walk visits.
\<close>

section \<open>The frontend gates\<close>

definition of_kind :: "rstring list \<Rightarrow> node \<Rightarrow> bool" where
  "of_kind kinds n = (case n of OtherNode k \<Rightarrow> k \<in> set kinds | _ \<Rightarrow> False)"

definition tree_any :: "parsed option \<Rightarrow> (node \<Rightarrow> bool) \<Rightarrow> bool" where
  "tree_any p f = (case p of None \<Rightarrow> False | Some q \<Rightarrow> list_ex f (visited q))"

definition PREPARE_OR_CURSOR :: "rstring list" where
  "PREPARE_OR_CURSOR = map str
     [''PrepareStmt'', ''ExecuteStmt'', ''DeallocateStmt'', ''DeclareCursorStmt'',
      ''FetchStmt'', ''ClosePortalStmt'']"

definition PROCEDURAL :: "rstring list" where
  "PROCEDURAL = map str
     [''DoStmt'', ''CallStmt'', ''CreateFunctionStmt'']"

definition WRITE_STATEMENTS :: "rstring list" where
  "WRITE_STATEMENTS = map str
     [''InsertStmt'', ''UpdateStmt'', ''DeleteStmt'', ''MergeStmt'', ''TruncateStmt'',
      ''CopyStmt'', ''ViewStmt'', ''LoadStmt'', ''CheckPointStmt'', ''CreateStmt'',
      ''CreateTableAsStmt'', ''CreateSchemaStmt'', ''CreateSeqStmt'',
      ''CreateForeignTableStmt'', ''CreateFunctionStmt'', ''CreateTrigStmt'',
      ''CreateRoleStmt'', ''CreatedbStmt'', ''CreateEnumStmt'', ''CreateDomainStmt'',
      ''CreateExtensionStmt'', ''CreatePlangStmt'', ''CreateConversionStmt'',
      ''CreateCastStmt'', ''CreateOpClassStmt'', ''CreateOpFamilyStmt'',
      ''CreateTableSpaceStmt'', ''CreateFdwStmt'', ''CreateForeignServerStmt'',
      ''CreateUserMappingStmt'', ''CreateEventTrigStmt'', ''CreatePolicyStmt'',
      ''CreateTransformStmt'', ''CreateAmStmt'', ''CreatePublicationStmt'',
      ''CreateSubscriptionStmt'', ''CreateStatsStmt'', ''CreateRangeStmt'',
      ''CompositeTypeStmt'', ''DefineStmt'', ''IndexStmt'', ''RuleStmt'', ''DropStmt'',
      ''DropRoleStmt'', ''DropdbStmt'', ''DropTableSpaceStmt'', ''DropUserMappingStmt'',
      ''DropOwnedStmt'', ''DropSubscriptionStmt'', ''AlterTableStmt'', ''AlterSeqStmt'',
      ''AlterRoleStmt'', ''AlterDatabaseStmt'', ''AlterDatabaseSetStmt'',
      ''AlterDatabaseRefreshCollStmt'', ''AlterFunctionStmt'', ''AlterOwnerStmt'',
      ''AlterObjectSchemaStmt'', ''AlterObjectDependsStmt'', ''AlterEnumStmt'',
      ''AlterSystemStmt'', ''AlterDomainStmt'', ''AlterDefaultPrivilegesStmt'',
      ''AlterOpFamilyStmt'', ''AlterOperatorStmt'', ''AlterTypeStmt'', ''AlterRoleSetStmt'',
      ''AlterTsdictionaryStmt'', ''AlterTsconfigurationStmt'', ''AlterFdwStmt'',
      ''AlterForeignServerStmt'', ''AlterUserMappingStmt'', ''AlterTableSpaceOptionsStmt'',
      ''AlterTableMoveAllStmt'', ''AlterExtensionStmt'', ''AlterExtensionContentsStmt'',
      ''AlterEventTrigStmt'', ''AlterPolicyStmt'', ''AlterPublicationStmt'',
      ''AlterSubscriptionStmt'', ''AlterStatsStmt'', ''AlterCollationStmt'', ''RenameStmt'',
      ''GrantStmt'', ''GrantRoleStmt'', ''ReassignOwnedStmt'', ''CommentStmt'',
      ''SecLabelStmt'', ''ImportForeignSchemaStmt'', ''ReplicaIdentityStmt'', ''VacuumStmt'',
      ''ReindexStmt'', ''ClusterStmt'', ''RefreshMatViewStmt'', ''LockStmt'', ''DoStmt'',
      ''CallStmt'', ''NotifyStmt'', ''ListenStmt'', ''UnlistenStmt'', ''ReturnStmt'',
      ''PlassignStmt'']"

definition sql_is_procedural_statement :: "parsed option \<Rightarrow> bool" where
  "sql_is_procedural_statement p = tree_any p (of_kind PROCEDURAL)"

definition sql_is_prepare_or_cursor :: "parsed option \<Rightarrow> bool" where
  "sql_is_prepare_or_cursor p = tree_any p (of_kind PREPARE_OR_CURSOR)"

text \<open>Every kind the match lists as harmless, and every kind it does not name, is no write.\<close>

definition node_is_write :: "node \<Rightarrow> bool" where
  "node_is_write n =
     (case n of
        SelectStmt s \<Rightarrow> has_into s \<or> has_locking s
      | _ \<Rightarrow> of_kind WRITE_STATEMENTS n)"

definition sql_is_write_statement :: "parsed option \<Rightarrow> bool" where
  "sql_is_write_statement p = tree_any p node_is_write"

definition func_call_is_trusted :: "node option list \<Rightarrow> bool" where
  "func_call_is_trusted fn =
     (case func_call_name_parts fn of
        Some [name] \<Rightarrow> is_trusted_function_name name
      | Some [schema, name] \<Rightarrow> schema = str ''pg_catalog'' \<and> is_trusted_function_name name
      | _ \<Rightarrow> False)"

section \<open>Catalog reads\<close>

definition is_leaky_range :: "node \<Rightarrow> bool" where
  "is_leaky_range n =
     (case n of RangeVar schema rel _ \<Rightarrow> range_var_is_leaky_catalog schema rel | _ \<Rightarrow> False)"

definition sql_touches_leaky_catalog :: "parsed option \<Rightarrow> bool" where
  "sql_touches_leaky_catalog p = tree_any p is_leaky_range"

definition func_call_is_catalog_safe :: "node option list \<Rightarrow> bool" where
  "func_call_is_catalog_safe fn =
     (let check = (\<lambda>in_information_schema name.
            if name \<in> set CATALOG_ESCAPE_FUNCTIONS then False
            else if in_information_schema \<and> starts_with (str ''_pg'') name then True
            else is_trusted_function_name name \<or> name \<in> set GENERATORS_IN_FROM \<or>
                 name \<in> set CATALOG_HELPER_FUNCTIONS)
      in case func_call_name_parts fn of
           Some [name] \<Rightarrow> check False name
         | Some [schema, name] \<Rightarrow>
             if schema = str ''pg_catalog'' then check False name
             else if schema = str ''information_schema'' then check True name
             else False
         | _ \<Rightarrow> False)"

definition is_catalog_object_lookup :: "rstring \<Rightarrow> bool" where
  "is_catalog_object_lookup name \<longleftrightarrow>
     name \<notin> set GENERATORS_IN_FROM \<and>
     (name \<in> {str ''obj_description'', str ''shobj_description'', str ''col_description''} \<or>
      starts_with (str ''pg_get_'') name \<and> name \<in> set CATALOG_HELPER_FUNCTIONS)"

definition cte_names :: "parsed \<Rightarrow> rstring list" where
  "cte_names p = concat (map (\<lambda>n. case n of CommonTableExpr c _ _ \<Rightarrow> [to_ascii_lowercase c] | _ \<Rightarrow> []) (visited p))"

text \<open>The state of the metadata walk; a disqualified walk looks at nothing more.\<close>

record metadata_walk =
  saw_relation :: bool
  saw_catalog_lookup :: bool
  disqualified :: bool

definition disqualify :: "metadata_walk \<Rightarrow> metadata_walk" where
  "disqualify w = w\<lparr>disqualified := True\<rparr>"

definition walk_range_var :: "rstring list \<Rightarrow> rstring \<Rightarrow> rstring \<Rightarrow> metadata_walk \<Rightarrow> metadata_walk" where
  "walk_range_var ctes schema_text relation_text w =
     (let schema = to_ascii_lowercase schema_text; relation = to_ascii_lowercase relation_text
      in if schema = [] \<and> relation \<in> set ctes then w
         else if schema = [] \<and> \<not> starts_with (str ''pg_'') relation then disqualify w
         else if schema \<noteq> [] \<and> schema \<noteq> str ''pg_catalog'' \<and> schema \<noteq> str ''information_schema'' then disqualify w
         else if range_var_is_leaky_catalog schema_text relation_text then disqualify w
         else w\<lparr>saw_relation := True\<rparr>)"

fun walk_generators :: "node option list \<Rightarrow> metadata_walk \<Rightarrow> metadata_walk" where
  "walk_generators [] w = w"
| "walk_generators (Some (FuncCall fn _ _ _ _) # elements) w =
     (case function_name fn of
        None \<Rightarrow> disqualify w
      | Some name \<Rightarrow>
          if name \<notin> set GENERATORS_IN_FROM then disqualify w
          else walk_generators elements
                 (if name \<in> set CATALOG_HELPER_FUNCTIONS then w\<lparr>saw_relation := True\<rparr> else w))"
| "walk_generators (_ # elements) w = walk_generators elements w"

fun walk_range_function :: "node option list \<Rightarrow> metadata_walk \<Rightarrow> metadata_walk" where
  "walk_range_function [] w = w"
| "walk_range_function (Some (ListNode elements) # items) w =
     (let w1 = walk_generators elements w in if disqualified w1 then w1 else walk_range_function items w1)"
| "walk_range_function (_ # items) w = disqualify w"

definition walk_call :: "node option list \<Rightarrow> metadata_walk \<Rightarrow> metadata_walk" where
  "walk_call fn w =
     (if \<not> func_call_is_catalog_safe fn then disqualify w
      else if saw_relation w \<or> saw_catalog_lookup w then w
      else (case function_name fn of
              Some name \<Rightarrow> w\<lparr>saw_catalog_lookup := is_catalog_object_lookup name\<rparr>
            | None \<Rightarrow> w))"

definition walk_node :: "rstring list \<Rightarrow> node \<Rightarrow> metadata_walk \<Rightarrow> metadata_walk" where
  "walk_node ctes n w =
     (if disqualified w then w
      else (case n of
              RangeVar schema rel _ \<Rightarrow> walk_range_var ctes schema rel w
            | RangeFunction items _ _ \<Rightarrow> walk_range_function items w
            | FuncCall fn _ _ _ _ \<Rightarrow> walk_call fn w
            | _ \<Rightarrow> w))"

definition is_simple_empty_from_select :: "parsed \<Rightarrow> bool" where
  "is_simple_empty_from_select p =
     (case stmts p of
        Some (SelectStmt s) # _ \<Rightarrow> setop_none s \<and> from_clause s = [] \<and> values_lists s = []
      | _ \<Rightarrow> False)"

definition sql_reads_only_server_metadata :: "parsed option \<Rightarrow> bool" where
  "sql_reads_only_server_metadata po =
     (case po of
        None \<Rightarrow> False
      | Some p \<Rightarrow>
          if length (stmts p) \<noteq> 1 then False
          else if hd (stmts p) = Some (OtherNode (str ''VariableShowStmt'')) then True
          else (let w = fold (walk_node (cte_names p)) (visited p)
                      \<lparr>saw_relation = False, saw_catalog_lookup = False, disqualified = False\<rparr>
                in if disqualified w then False
                   else if saw_relation w then True
                   else cte_names p = [] \<and> saw_catalog_lookup w \<and> is_simple_empty_from_select p))"

definition sql_calls_untrusted_function :: "parsed option \<Rightarrow> bool" where
  "sql_calls_untrusted_function p =
     (if sql_reads_only_server_metadata p then False
      else tree_any p (\<lambda>n. case n of FuncCall fn _ _ _ _ \<Rightarrow> \<not> func_call_is_trusted fn | _ \<Rightarrow> False))"

section \<open>Provenance and naming\<close>

definition is_set_operation :: "node \<Rightarrow> bool" where
  "is_set_operation n = (case n of SelectStmt s \<Rightarrow> \<not> setop_none s | _ \<Rightarrow> False)"

definition sql_provenance_is_trustworthy :: "parsed option \<Rightarrow> bool" where
  "sql_provenance_is_trustworthy po =
     (case po of
        None \<Rightarrow> False
      | Some p \<Rightarrow> length (stmts p) = 1 \<and> \<not> tree_any po is_set_operation)"

definition ambiguous_range :: "rstring list \<Rightarrow> bool \<Rightarrow> node \<Rightarrow> bool" where
  "ambiguous_range ctes bare_catalog_is_unambiguous n =
     (case n of
        RangeVar schema rel _ \<Rightarrow>
          schema = [] \<and> to_ascii_lowercase rel \<notin> set ctes \<and>
          \<not> (bare_catalog_is_unambiguous \<and> relation_is_metadata_safe_pg (to_ascii_lowercase rel))
      | _ \<Rightarrow> False)"

definition every_relation_is_named_unambiguously :: "parsed option \<Rightarrow> bool \<Rightarrow> bool" where
  "every_relation_is_named_unambiguously po bare_catalog_is_unambiguous =
     (case po of
        None \<Rightarrow> False
      | Some p \<Rightarrow> \<not> tree_any po (ambiguous_range (cte_names p) bare_catalog_is_unambiguous))"

end
