(* ===== verification/Sql_Inspection.thy ===== *)
theory Sql_Inspection
  imports Sql_Lineage Sql_Catalogs Session
begin

text \<open>
  \<open>StatementInspection\<close> (\<open>analysis/mod.rs\<close>): the identifiers of a text from its token stream and its
  tree, and the inspection the session asks its questions of, assembled from the analysis. The
  parser, the scanner, the tree walk, the lineage analyser and Unicode's letter classes are the
  fields of \<open>frontend_tools\<close>.
\<close>

section \<open>Identifiers\<close>

datatype token_kind = Uescape | Uident | OtherToken

record token =
  token_kind :: token_kind
  tok_start :: int
  tok_end :: int

record frontend_tools =
  parse_sql :: "rstring \<Rightarrow> parsed option"
  scan_sql :: "rstring \<Rightarrow> token list option"
  lineage_analyze :: "rstring \<Rightarrow> snapshot \<Rightarrow> lineage_source list list list option"
  is_alphabetic :: "nat \<Rightarrow> bool"
  is_alphanumeric :: "nat \<Rightarrow> bool"

text \<open>\<open>str::get(start..end)\<close>: both ends in range and on character boundaries.\<close>

definition is_char_boundary :: "bytes \<Rightarrow> nat \<Rightarrow> bool" where
  "is_char_boundary bs i \<longleftrightarrow> i = length bs \<or> i < length bs \<and> \<not> is_cont (bs ! i)"

definition get_str :: "rstring \<Rightarrow> int \<Rightarrow> int \<Rightarrow> rstring option" where
  "get_str sql from_i to_i =
     (let bs = as_bytes sql; i = nat from_i; j = nat to_i
      in if from_i < 0 \<or> to_i < 0 \<or> j < i \<or> \<not> is_char_boundary bs i \<or> \<not> is_char_boundary bs j then None
         else from_utf8 (take (j - i) (drop i bs)))"

fun hex_value :: "nat \<Rightarrow> nat \<Rightarrow> rstring \<Rightarrow> (nat \<times> rstring) option" where
  "hex_value 0 acc cs = Some (acc, cs)"
| "hex_value (Suc k) acc [] = None"
| "hex_value (Suc k) acc (c # cs) =
     (case to_digit 16 c of None \<Rightarrow> None | Some d \<Rightarrow> hex_value k (acc * 16 + d) cs)"

definition code_point :: "nat \<Rightarrow> nat option" where
  "code_point v = (if is_scalar v then Some v else None)"

definition hex_codepoint :: "nat \<Rightarrow> rstring \<Rightarrow> (nat \<times> rstring) option" where
  "hex_codepoint width cs =
     Option.bind (hex_value width 0 cs) (\<lambda>(v, rest). map_option (\<lambda>c. (c, rest)) (code_point v))"

lemma hex_value_shorter: "hex_value k acc cs = Some (v, rest) \<Longrightarrow> length rest + k = length cs"
  by (induction k acc cs rule: hex_value.induct) (auto split: option.splits)

lemma hex_codepoint_shorter: "hex_codepoint w cs = Some (v, rest) \<Longrightarrow> length rest + w = length cs"
  by (auto simp: hex_codepoint_def bind_eq_Some_conv dest: hex_value_shorter split: prod.splits)

text \<open>One unit of a Unicode-escaped identifier's body: its character and what is left.\<close>

definition next_ident_char :: "nat \<Rightarrow> rstring \<Rightarrow> (nat \<times> rstring) option" where
  "next_ident_char escape cs =
     (case cs of
        [] \<Rightarrow> None
      | c # rest \<Rightarrow>
          if c = 34 then (case rest of q # r \<Rightarrow> if q = 34 then Some (34, r) else None | [] \<Rightarrow> None)
          else if c \<noteq> escape then Some (c, rest)
          else (case rest of
                  [] \<Rightarrow> None
                | d # r \<Rightarrow>
                    if d = 43 then hex_codepoint 6 r
                    else if d = escape then Some (escape, r)
                    else hex_codepoint 4 (d # r)))"

lemma next_ident_char_shorter: "next_ident_char escape cs = Some (c, rest) \<Longrightarrow> length rest < length cs"
  by (auto simp: next_ident_char_def split: list.splits if_splits dest: hex_codepoint_shorter)

function decode_unicode_ident_body :: "nat \<Rightarrow> rstring \<Rightarrow> rstring option" where
  "decode_unicode_ident_body escape cs =
     (if cs = [] then Some []
      else (case next_ident_char escape cs of
              None \<Rightarrow> None
            | Some (c, rest) \<Rightarrow> map_option ((#) c) (decode_unicode_ident_body escape rest)))"
  by pat_completeness auto
termination
  by (relation "measure (\<lambda>(escape, cs). length cs)") (auto dest: next_ident_char_shorter)

declare decode_unicode_ident_body.simps [simp del]

definition unquote :: "rstring \<Rightarrow> rstring option" where
  "unquote t = (case t of c # rest \<Rightarrow> if c = 34 then strip_suffix [34] rest else None | [] \<Rightarrow> None)"

definition is_unicode_ident_spelling :: "rstring \<Rightarrow> bool" where
  "is_unicode_ident_spelling t \<longleftrightarrow> starts_with (str ''u&'') t \<or> starts_with (str ''U&'') t"

definition decode_unicode_ident :: "rstring \<Rightarrow> rstring option" where
  "decode_unicode_ident t =
     (if \<not> is_unicode_ident_spelling t then None
      else Option.bind (unquote (drop 2 t)) (\<lambda>inner_text.
        map_option to_ascii_lowercase (decode_unicode_ident_body 92 inner_text)))"

text \<open>\<open>replace("\"\"", "\"")\<close>, left to right.\<close>

fun undouble_quotes :: "rstring \<Rightarrow> rstring" where
  "undouble_quotes (a # b # cs) =
     (if a = 34 \<and> b = 34 then 34 # undouble_quotes cs else a # undouble_quotes (b # cs))"
| "undouble_quotes cs = cs"

definition is_word :: "frontend_tools \<Rightarrow> rstring \<Rightarrow> bool" where
  "is_word ft t =
     (case t of
        [] \<Rightarrow> False
      | c # _ \<Rightarrow> (is_alphabetic ft c \<or> c = 95) \<and> list_all (\<lambda>d. is_alphanumeric ft d \<or> d = 95 \<or> d = 36) t)"

text \<open>The names one token contributes; \<open>None\<close> fails the scan.\<close>

definition token_names :: "frontend_tools \<Rightarrow> rstring \<Rightarrow> token \<Rightarrow> rstring list option" where
  "token_names ft sql t =
     (if token_kind t = Uescape then None
      else Option.bind (get_str sql (tok_start t) (tok_end t)) (\<lambda>text.
        if token_kind t = Uident \<or> is_unicode_ident_spelling text
        then map_option (\<lambda>n. [n]) (decode_unicode_ident text)
        else (case unquote text of
                Some inner_text \<Rightarrow> Some [to_ascii_lowercase (undouble_quotes inner_text)]
              | None \<Rightarrow> Some (if is_word ft text then [to_ascii_lowercase text] else []))))"

definition scan_identifiers :: "frontend_tools \<Rightarrow> rstring \<Rightarrow> rstring list option" where
  "scan_identifiers ft sql =
     Option.bind (scan_sql ft sql) (\<lambda>ts. map_option concat (all_some (map (token_names ft sql) ts)))"

text \<open>The decoded names the tree reports.\<close>

definition node_identifiers :: "node \<Rightarrow> rstring list" where
  "node_identifiers n =
     (case n of
        ColumnRef parts \<Rightarrow> concat (map (\<lambda>f. opt_list (lower_string f)) parts)
      | StringNode s \<Rightarrow> [to_ascii_lowercase s]
      | ColumnDef c \<Rightarrow> [to_ascii_lowercase c]
      | RangeVar schema rel _ \<Rightarrow>
          (if rel = [] then [] else [to_ascii_lowercase rel]) @
          (if schema = [] then [] else [to_ascii_lowercase schema])
      | _ \<Rightarrow> [])"

definition tree_identifier_names :: "parsed \<Rightarrow> rstring list" where
  "tree_identifier_names p = concat (map node_identifiers (visited p))"

definition backstop_identifiers_of :: "rstring list option \<Rightarrow> parsed option \<Rightarrow> rstring list option" where
  "backstop_identifiers_of idents po =
     map_option (\<lambda>ids. ids @ (case po of Some p \<Rightarrow> tree_identifier_names p | None \<Rightarrow> [])) idents"

section \<open>The inspection\<close>

definition inspection_of :: "frontend_tools \<Rightarrow> rstring \<Rightarrow> inspection" where
  "inspection_of ft sql =
     (let po = parse_sql ft sql; idents = scan_identifiers ft sql; backstop = backstop_identifiers_of idents po
      in \<lparr>is_write_statement = sql_is_write_statement po,
          is_sql_prepare_or_cursor = sql_is_prepare_or_cursor po,
          calls_untrusted_function = sql_calls_untrusted_function po,
          touches_leaky_system_catalog = sql_touches_leaky_catalog po,
          masked_exceeds_outer_projection = sql_masked_exceeds_outer_projection po idents,
          hostile_uses_whole_row = sql_hostile_uses_whole_row po,
          hostile_join_or_rename_masked = sql_hostile_join_or_rename_masked po,
          is_parseable = (po \<noteq> None),
          in_identifiers = idents,
          backstop_identifiers = backstop,
          reads_only_server_metadata = sql_reads_only_server_metadata po,
          every_relation_is_unambiguous = every_relation_is_named_unambiguously po True,
          provenance_is_trustworthy = sql_provenance_is_trustworthy po,
          group_by_columns = group_by_columns_of po,
          output_safety = (\<lambda>n summaries fine. analyze_inspected po n \<lparr>rx_summaries = summaries, fine_date_trunc = fine\<rparr>),
          in_summary_resolution = summary_resolution_of po,
          in_json_extract_resolution = json_extract_resolution_of po,
          in_lineage = (\<lambda>n snap roles. lineage_resolve (lineage_analyze ft sql snap) po backstop n snap roles)\<rparr>)"

end
