(* ===== verification/Gate_Facts.thy ===== *)
theory Gate_Facts
  imports Sql_Inspection Session_Runs
begin

text \<open>
  What the frontend gates guarantee of every statement that reaches the backend, and what a
  statement exempted as metadata-only can read: the gates' scans composed with the session.
\<close>

section \<open>The catalog surface\<close>

lemma str_eq: "str a = str b \<longleftrightarrow> a = b"
  by (auto simp: str_def inj_map_eq_map inj_def)

lemma starts_with_str: "starts_with (str a) (str b) \<longleftrightarrow> take (length a) b = a"
proof -
  have "starts_with (str a) (str b) \<longleftrightarrow> str (take (length a) b) = str a"
    by (simp add: starts_with_def str_def take_map)
  then show ?thesis by (simp add: str_eq)
qed

lemma pg_classification_is_map_of: "vanilla_pg_classification relation = map_of VANILLA_PG_CATALOG relation"
  unfolding vanilla_pg_classification_def by (rule lookup_table_map_of [OF vanilla_pg_catalog_sorted])

lemma information_schema_classification_is_map_of:
  "vanilla_information_schema_classification relation = map_of VANILLA_INFORMATION_SCHEMA relation"
  unfolding vanilla_information_schema_classification_def
  by (rule lookup_table_map_of [OF vanilla_information_schema_sorted])

text \<open>The relations the published tables mark safe, by the schema they are read from.\<close>

definition safe_catalog_relation :: "rstring \<Rightarrow> rstring \<Rightarrow> bool" where
  "safe_catalog_relation schema relation \<longleftrightarrow>
     (if schema = str ''information_schema'' then (relation, True) \<in> set VANILLA_INFORMATION_SCHEMA
      else (schema = str ''pg_catalog'' \<or> schema = [] \<and> starts_with (str ''pg_'') relation) \<and>
           ((relation, True) \<in> set VANILLA_PG_CATALOG \<or> relation \<in> set CONTRIB_METADATA_SAFE_PG))"

lemma not_leaky_is_listed:
  assumes "\<not> range_var_is_leaky_catalog schema relation"
    and "to_ascii_lowercase schema = str ''information_schema'' \<or> to_ascii_lowercase schema = str ''pg_catalog'' \<or>
         to_ascii_lowercase schema = [] \<and> starts_with (str ''pg_'') (to_ascii_lowercase relation)"
  shows "safe_catalog_relation (to_ascii_lowercase schema) (to_ascii_lowercase relation)"
  using assms
  by (auto simp: range_var_is_leaky_catalog_def Let_def safe_catalog_relation_def relation_is_metadata_safe_pg_def
      relation_is_metadata_safe_information_schema_def pg_classification_is_map_of
      information_schema_classification_is_map_of dest: map_of_SomeD split: if_splits option.splits)

section \<open>Metadata-only statements\<close>

text \<open>What the metadata walk lets through, node by node.\<close>

definition metadata_range :: "rstring list \<Rightarrow> node \<Rightarrow> bool" where
  "metadata_range ctes n =
     (case n of
        RangeVar schema rel _ \<Rightarrow>
          schema = [] \<and> to_ascii_lowercase rel \<in> set ctes \<or>
          safe_catalog_relation (to_ascii_lowercase schema) (to_ascii_lowercase rel)
      | _ \<Rightarrow> True)"

definition metadata_generator :: "node option \<Rightarrow> bool" where
  "metadata_generator x =
     (case x of
        Some (FuncCall fn _ _ _ _) \<Rightarrow> (case function_name fn of Some name \<Rightarrow> name \<in> set GENERATORS_IN_FROM | None \<Rightarrow> False)
      | _ \<Rightarrow> True)"

definition metadata_from :: "node \<Rightarrow> bool" where
  "metadata_from n =
     (case n of
        RangeFunction items _ _ \<Rightarrow>
          (\<forall>i \<in> set items. case i of Some (ListNode elements) \<Rightarrow> list_all metadata_generator elements | _ \<Rightarrow> False)
      | _ \<Rightarrow> True)"

definition metadata_call :: "node \<Rightarrow> bool" where
  "metadata_call n = (case n of FuncCall fn _ _ _ _ \<Rightarrow> func_call_is_catalog_safe fn | _ \<Rightarrow> True)"

text \<open>The nodes that are a read of a catalog in their own right.\<close>

definition reads_catalog :: "node \<Rightarrow> bool" where
  "reads_catalog n =
     (case n of
        RangeVar schema rel _ \<Rightarrow> safe_catalog_relation (to_ascii_lowercase schema) (to_ascii_lowercase rel)
      | RangeFunction items _ _ \<Rightarrow>
          (\<exists>elements fn args star filt over name.
             Some (ListNode elements) \<in> set items \<and> Some (FuncCall fn args star filt over) \<in> set elements \<and>
             function_name fn = Some name \<and> name \<in> set GENERATORS_IN_FROM \<and> name \<in> set CATALOG_HELPER_FUNCTIONS)
      | _ \<Rightarrow> False)"

definition looks_up_catalog :: "node \<Rightarrow> bool" where
  "looks_up_catalog n =
     (case n of
        FuncCall fn _ _ _ _ \<Rightarrow> (case function_name fn of Some name \<Rightarrow> is_catalog_object_lookup name | None \<Rightarrow> False)
      | _ \<Rightarrow> False)"

lemma disqualify_disqualifies [simp]: "disqualified (disqualify w)"
  by (simp add: disqualify_def)

lemma to_ascii_lowercase_Nil [simp]: "to_ascii_lowercase t = [] \<longleftrightarrow> t = []" "to_ascii_lowercase [] = []"
  by (simp_all add: to_ascii_lowercase_def)

lemma walk_range_var_ok:
  assumes "\<not> disqualified (walk_range_var ctes schema rel w)"
  shows "metadata_range ctes (RangeVar schema rel al)"
    and "saw_relation (walk_range_var ctes schema rel w) \<Longrightarrow> saw_relation w \<or> reads_catalog (RangeVar schema rel al)"
    and "saw_catalog_lookup (walk_range_var ctes schema rel w) = saw_catalog_lookup w"
  using assms not_leaky_is_listed [of schema rel]
  by (auto simp: walk_range_var_def Let_def metadata_range_def reads_catalog_def split: if_splits)

lemma walk_generators_ok:
  "\<not> disqualified (walk_generators es w) \<Longrightarrow>
     list_all metadata_generator es \<and> saw_catalog_lookup (walk_generators es w) = saw_catalog_lookup w \<and>
     (saw_relation (walk_generators es w) \<longrightarrow> saw_relation w \<or>
        (\<exists>fn args star filt over name. Some (FuncCall fn args star filt over) \<in> set es \<and>
             function_name fn = Some name \<and> name \<in> set GENERATORS_IN_FROM \<and> name \<in> set CATALOG_HELPER_FUNCTIONS))"
proof (induction es w rule: walk_generators.induct)
  case (2 fn args star filt over es w)
  then show ?case
    by (cases "function_name fn") (auto simp: metadata_generator_def split: if_splits, blast+)
qed (auto simp: metadata_generator_def)

lemma walk_range_function_ok:
  "\<not> disqualified (walk_range_function items w) \<Longrightarrow>
     metadata_from (RangeFunction items al defs) \<and>
     saw_catalog_lookup (walk_range_function items w) = saw_catalog_lookup w \<and>
     (saw_relation (walk_range_function items w) \<longrightarrow> saw_relation w \<or> reads_catalog (RangeFunction items al defs))"
proof (induction items w rule: walk_range_function.induct)
  case (2 elements items w)
  then show ?case
    using walk_generators_ok [of elements w]
    by (simp add: Let_def metadata_from_def reads_catalog_def split: if_splits) blast
qed (auto simp: metadata_from_def reads_catalog_def)

lemma walk_call_ok:
  assumes "\<not> disqualified (walk_call fn w)"
  shows "func_call_is_catalog_safe fn" and "saw_relation (walk_call fn w) = saw_relation w"
    and "saw_catalog_lookup (walk_call fn w) \<Longrightarrow>
           saw_relation w \<or> saw_catalog_lookup w \<or> looks_up_catalog (FuncCall fn args star filt over)"
  using assms by (auto simp: walk_call_def looks_up_catalog_def split: if_splits option.splits)

text \<open>One step of the walk: the node is allowed, and what the walk newly saw, the node shows.\<close>

definition metadata_node :: "rstring list \<Rightarrow> node \<Rightarrow> bool" where
  "metadata_node ctes n \<longleftrightarrow> metadata_range ctes n \<and> metadata_from n \<and> metadata_call n"

lemma walk_node_disqualified: "disqualified w \<Longrightarrow> disqualified (walk_node ctes n w)"
  by (simp add: walk_node_def)

lemma walk_node_ok:
  assumes "\<not> disqualified (walk_node ctes n w)"
  shows "metadata_node ctes n"
    and "saw_relation (walk_node ctes n w) \<Longrightarrow> saw_relation w \<or> reads_catalog n"
    and "saw_catalog_lookup (walk_node ctes n w) \<Longrightarrow> saw_relation w \<or> saw_catalog_lookup w \<or> looks_up_catalog n"
proof -
  have live: "\<not> disqualified w" using assms walk_node_disqualified by blast
  have other: "metadata_node ctes n \<and>
      (saw_relation (walk_node ctes n w) \<longrightarrow> saw_relation w \<or> reads_catalog n) \<and>
      (saw_catalog_lookup (walk_node ctes n w) \<longrightarrow> saw_relation w \<or> saw_catalog_lookup w \<or> looks_up_catalog n)"
  proof (cases n)
    case (FuncCall fn args star filt over)
    then have "\<not> disqualified (walk_call fn w)" using assms live by (simp add: walk_node_def)
    from walk_call_ok [OF this] FuncCall live show ?thesis
      by (auto simp: walk_node_def metadata_node_def metadata_call_def metadata_range_def metadata_from_def)
  next
    case (RangeVar schema rel al)
    then have "\<not> disqualified (walk_range_var ctes schema rel w)" using assms live by (simp add: walk_node_def)
    from walk_range_var_ok [OF this] RangeVar live show ?thesis
      by (auto simp: walk_node_def metadata_node_def metadata_call_def metadata_from_def)
  next
    case (RangeFunction items al defs)
    then have "\<not> disqualified (walk_range_function items w)" using assms live by (simp add: walk_node_def)
    from walk_range_function_ok [OF this, of al defs] RangeFunction live show ?thesis
      by (auto simp: walk_node_def metadata_node_def metadata_call_def metadata_range_def)
  qed (use live in \<open>simp_all add: walk_node_def metadata_node_def metadata_call_def metadata_range_def metadata_from_def\<close>)
  from other show "metadata_node ctes n"
    and "saw_relation (walk_node ctes n w) \<Longrightarrow> saw_relation w \<or> reads_catalog n"
    and "saw_catalog_lookup (walk_node ctes n w) \<Longrightarrow> saw_relation w \<or> saw_catalog_lookup w \<or> looks_up_catalog n"
    by simp_all
qed

lemma walk_disqualified: "disqualified w \<Longrightarrow> disqualified (fold (walk_node ctes) ns w)"
  by (induction ns arbitrary: w) (simp_all add: walk_node_disqualified)

lemma walk_ok:
  "\<not> disqualified (fold (walk_node ctes) ns w) \<Longrightarrow>
     list_all (metadata_node ctes) ns \<and>
     (saw_relation (fold (walk_node ctes) ns w) \<longrightarrow> saw_relation w \<or> list_ex reads_catalog ns) \<and>
     (saw_catalog_lookup (fold (walk_node ctes) ns w) \<longrightarrow>
        saw_relation w \<or> saw_catalog_lookup w \<or> list_ex reads_catalog ns \<or> list_ex looks_up_catalog ns)"
proof (induction ns arbitrary: w)
  case (Cons n ns)
  then have rest: "\<not> disqualified (fold (walk_node ctes) ns (walk_node ctes n w))" by simp
  then have "\<not> disqualified (walk_node ctes n w)" using walk_disqualified by blast
  with Cons.IH [OF rest] walk_node_ok [of ctes n w] show ?case by auto
qed simp

lemma metadata_judged:
  assumes "sql_reads_only_server_metadata (Some p)" and "stmts p \<noteq> [Some (OtherNode (str ''VariableShowStmt''))]"
  obtains w where "w = fold (walk_node (cte_names p)) (visited p)
                       \<lparr>saw_relation = False, saw_catalog_lookup = False, disqualified = False\<rparr>"
    and "length (stmts p) = 1" and "\<not> disqualified w"
    and "saw_relation w \<or> cte_names p = [] \<and> saw_catalog_lookup w \<and> is_simple_empty_from_select p"
proof -
  define w where "w = fold (walk_node (cte_names p)) (visited p)
                      \<lparr>saw_relation = False, saw_catalog_lookup = False, disqualified = False\<rparr>"
  have one: "length (stmts p) = 1"
    using assms(1) by (simp add: sql_reads_only_server_metadata_def split: if_splits)
  then obtain st where st: "stmts p = [st]" by (auto simp: length_Suc_conv)
  then have "sql_reads_only_server_metadata (Some p) =
      (if disqualified w then False else if saw_relation w then True
       else cte_names p = [] \<and> saw_catalog_lookup w \<and> is_simple_empty_from_select p)"
    using assms(2) by (simp add: sql_reads_only_server_metadata_def Let_def w_def)
  then show ?thesis using that [OF w_def one] assms(1) by (simp split: if_splits)
qed

lemma metadata_calls:
  assumes "sql_reads_only_server_metadata (Some p)" and "stmts p \<noteq> [Some (OtherNode (str ''VariableShowStmt''))]"
  shows "list_all (metadata_node (cte_names p)) (visited p)"
  using metadata_judged [OF assms] walk_ok by metis


text \<open>\<open>SELECT pg_get_viewdef('v')\<close>: a lookup without a relation.\<close>

definition sample_lookup :: node where
  "sample_lookup = FuncCall [Some (StringNode (str ''pg_get_viewdef''))] [Some (AConst (Some (Sval [118])))] False False False"

definition sample_catalog_lookup :: parsed where
  "sample_catalog_lookup =
     \<lparr>stmts = [Some (SelectStmt (Select True None None [Some (ResTarget [] (Some sample_lookup))] [] [] [] [] [] [] False False))],
      walk_tree = (\<lambda>n. [n, sample_lookup])\<rparr>"

lemma sample_lookup_name: "to_ascii_lowercase (str ''pg_get_viewdef'') = str ''pg_get_viewdef''"
  by code_simp

lemma sample_lookup_listed:
  "str ''pg_get_viewdef'' \<in> set CATALOG_HELPER_FUNCTIONS" "str ''pg_get_viewdef'' \<notin> set CATALOG_ESCAPE_FUNCTIONS"
  "str ''pg_get_viewdef'' \<notin> set GENERATORS_IN_FROM"
  by (simp_all add: CATALOG_HELPER_FUNCTIONS_def CATALOG_ESCAPE_FUNCTIONS_def GENERATORS_IN_FROM_def str_eq)

lemma sample_lookup_metadata: "sql_reads_only_server_metadata (Some sample_catalog_lookup)"
  by (simp add: sql_reads_only_server_metadata_def sample_catalog_lookup_def sample_lookup_def visited_def cte_names_def
      Let_def walk_node_def walk_call_def func_call_is_catalog_safe_def func_call_name_parts_def lower_string_def
      string_of_def function_name_def sample_lookup_name sample_lookup_listed is_catalog_object_lookup_def
      is_simple_empty_from_select_def starts_with_str)


section \<open>The gates in the session\<close>

text \<open>What every node of a statement that reaches the backend satisfies.\<close>

definition allowed_kind :: "node \<Rightarrow> bool" where
  "allowed_kind n =
     (case n of
        SelectStmt s \<Rightarrow> \<not> has_into s \<and> \<not> has_locking s
      | OtherNode k \<Rightarrow> k \<notin> set WRITE_STATEMENTS \<and> k \<notin> set PREPARE_OR_CURSOR
      | _ \<Rightarrow> True)"

definition allowed_name :: "rstring \<Rightarrow> bool" where
  "allowed_name name \<longleftrightarrow>
     name \<notin> set CATALOG_ESCAPE_FUNCTIONS \<and>
     (is_trusted_function_name name \<or> name \<in> set GENERATORS_IN_FROM \<or> name \<in> set CATALOG_HELPER_FUNCTIONS)"

definition allowed_call :: "node \<Rightarrow> bool" where
  "allowed_call n =
     (case n of
        FuncCall fn _ _ _ _ \<Rightarrow>
          (case func_call_name_parts fn of
             Some [name] \<Rightarrow> allowed_name name
           | Some [schema, name] \<Rightarrow>
               schema = str ''pg_catalog'' \<and> allowed_name name \<or>
               schema = str ''information_schema'' \<and> name \<notin> set CATALOG_ESCAPE_FUNCTIONS \<and>
                 (starts_with (str ''_pg'') name \<or> allowed_name name)
           | _ \<Rightarrow> False)
      | _ \<Rightarrow> True)"

text \<open>No relation a catalog scheme protects: neither classified leaky nor unlisted in a system schema.\<close>

definition allowed_range :: "node \<Rightarrow> bool" where
  "allowed_range n =
     (case n of
        RangeVar schema rel _ \<Rightarrow>
          (let sch = to_ascii_lowercase schema; r = to_ascii_lowercase rel
           in sch \<noteq> str ''pg_toast'' \<and> \<not> starts_with (str ''pg_toast_'') r \<and>
              (r, False) \<notin> set VANILLA_PG_CATALOG \<and> (r, False) \<notin> set VANILLA_INFORMATION_SCHEMA \<and>
              (sch = str ''information_schema'' \<or> sch = str ''pg_catalog'' \<or> sch = [] \<and> starts_with (str ''pg_'') r \<longrightarrow>
               safe_catalog_relation sch r))
      | _ \<Rightarrow> True)"

lemma trusted_names_do_not_escape:
  assumes "is_trusted_function_name name" shows "name \<notin> set CATALOG_ESCAPE_FUNCTIONS"
proof -
  have "list_all (\<lambda>escape. \<not> is_trusted_function_name escape) CATALOG_ESCAPE_FUNCTIONS"
    by (simp add: CATALOG_ESCAPE_FUNCTIONS_def is_trusted_function_name_def CONTEXT_FUNCTIONS_def SIZE_FUNCTIONS_def
        REDUCING_AGGREGATES_def RANKING_WINDOWS_def PURE_SCALARS_def TEXT_FUNCTIONS_def JSON_EXTRACT_FUNCTIONS_def str_eq)
  with assms show ?thesis by (auto simp: list_all_iff)
qed

lemma trusted_call_allowed: "func_call_is_trusted fn \<Longrightarrow> allowed_call (FuncCall fn args star filt over)"
  by (auto simp: func_call_is_trusted_def allowed_call_def allowed_name_def trusted_names_do_not_escape
      split: option.splits list.splits)

lemma catalog_safe_call_allowed: "func_call_is_catalog_safe fn \<Longrightarrow> allowed_call (FuncCall fn args star filt over)"
  by (auto simp: func_call_is_catalog_safe_def Let_def allowed_call_def allowed_name_def
      split: option.splits list.splits if_splits)

lemma not_leaky_range_allowed:
  assumes "\<not> is_leaky_range n" shows "allowed_range n"
proof (cases n)
  case (RangeVar schema rel al)
  with assms have safe: "\<not> range_var_is_leaky_catalog schema rel" by (simp add: is_leaky_range_def)
  then have "vanilla_pg_classification (to_ascii_lowercase rel) \<noteq> Some False"
      "vanilla_information_schema_classification (to_ascii_lowercase rel) \<noteq> Some False"
    by (auto simp: range_var_is_leaky_catalog_def Let_def relation_is_classified_leaky_def split: if_splits)
  then have "(to_ascii_lowercase rel, False) \<notin> set VANILLA_PG_CATALOG"
      "(to_ascii_lowercase rel, False) \<notin> set VANILLA_INFORMATION_SCHEMA"
    using vanilla_pg_catalog_sorted vanilla_information_schema_sorted
    by (auto simp: pg_classification_is_map_of information_schema_classification_is_map_of strict_sorted_iff
        dest: map_of_is_SomeI)
  moreover have "to_ascii_lowercase schema \<noteq> str ''pg_toast''"
      "\<not> starts_with (str ''pg_toast_'') (to_ascii_lowercase rel)"
    using safe by (auto simp: range_var_is_leaky_catalog_def Let_def split: if_splits)
  ultimately show ?thesis using not_leaky_is_listed [OF safe] RangeVar by (auto simp: allowed_range_def Let_def)
qed (simp_all add: allowed_range_def)

lemma kept_kind_allowed: "\<not> node_is_write n \<Longrightarrow> \<not> of_kind PREPARE_OR_CURSOR n \<Longrightarrow> allowed_kind n"
  by (cases n) (auto simp: node_is_write_def of_kind_def allowed_kind_def)

lemma tree_any_Some: "tree_any (Some p) f \<longleftrightarrow> list_ex f (visited p)"
  by (simp add: tree_any_def)

lemma inspection_gates:
  assumes "parse_sql ft sql = Some p"
  shows "is_write_statement (inspection_of ft sql) = list_ex node_is_write (visited p)"
    and "is_sql_prepare_or_cursor (inspection_of ft sql) = list_ex (of_kind PREPARE_OR_CURSOR) (visited p)"
    and "touches_leaky_system_catalog (inspection_of ft sql) = list_ex is_leaky_range (visited p)"
    and "calls_untrusted_function (inspection_of ft sql) = sql_calls_untrusted_function (Some p)"
  using assms
  by (simp_all add: inspection_of_def Let_def sql_is_write_statement_def sql_is_prepare_or_cursor_def
      sql_touches_leaky_catalog_def tree_any_Some)

lemma trusted_statement_calls_allowed:
  assumes "\<not> sql_calls_untrusted_function (Some p)" and "stmts p \<noteq> [Some (OtherNode (str ''VariableShowStmt''))]"
  shows "list_all allowed_call (visited p)"
proof (cases "sql_reads_only_server_metadata (Some p)")
  case True
  have "allowed_call n" if "n \<in> set (visited p)" for n
    using metadata_calls [OF True assms(2)] that catalog_safe_call_allowed
    by (cases n) (auto simp: list_all_iff metadata_node_def metadata_call_def allowed_call_def)
  then show ?thesis by (simp add: list_all_iff)
next
  case False
  have "allowed_call n" if "n \<in> set (visited p)" for n
    using assms(1) False that trusted_call_allowed
    by (cases n) (auto simp: sql_calls_untrusted_function_def tree_any_Some list_ex_iff allowed_call_def)
  then show ?thesis by (simp add: list_all_iff)
qed

lemma gate_passed:
  assumes "to_backend (snd (gate e (Some sql) b k (s, out))) \<noteq> to_backend out"
  shows "\<not> gate_refuses e s sql"
proof
  assume "gate_refuses e s sql"
  from gate_refused [OF this] obtain c t h where
    "gate e (Some sql) b k (s, out) = refuse c SQLSTATE_INSUFFICIENT_PRIVILEGE t h b (s, out)" by blast
  with assms show False by (simp add: refuse_out)
qed


text \<open>The lookup of a view's text, asked by a simple query; tables and policy are the sample's.\<close>

definition sample_tools :: frontend_tools where
  "sample_tools = \<lparr>parse_sql = (\<lambda>_. Some sample_catalog_lookup), scan_sql = (\<lambda>_. Some []),
     lineage_analyze = (\<lambda>_ _. None), is_alphabetic = (\<lambda>c. 97 \<le> c \<and> c \<le> 122),
     is_alphanumeric = (\<lambda>c. 97 \<le> c \<and> c \<le> 122)\<rparr>"

definition sample_analysed_env :: session_env where
  "sample_analysed_env = sample_session_env\<lparr>inspect := inspection_of sample_tools\<rparr>"

lemma sample_query_text: "parse_simple_query [0x77, 0] = Some (str ''w'')"
  by (simp add: parse_simple_query_def read_utf8_cstring_def read_cstring_bytes_def utf8_next.simps str_def)

lemma sample_lookup_passes: "\<not> gate_refuses sample_analysed_env (sync_policy sample_session) (str ''w'')"
proof -
  have parse: "parse_sql sample_tools (str ''w'') = Some sample_catalog_lookup" by (simp add: sample_tools_def)
  have "lp_posture (pol_live (sess_policy (sync_policy sample_session))) = PostureDefault"
    by (simp add: sample_session_def session_new_def sample_policy_def sample_live_def)
  moreover have "\<not> list_ex node_is_write (visited sample_catalog_lookup)"
      "\<not> list_ex (of_kind PREPARE_OR_CURSOR) (visited sample_catalog_lookup)"
      "\<not> list_ex is_leaky_range (visited sample_catalog_lookup)"
    by (simp_all add: visited_def sample_catalog_lookup_def sample_lookup_def node_is_write_def of_kind_def is_leaky_range_def)
  ultimately show ?thesis
    using sample_lookup_metadata inspection_gates [OF parse]
    by (simp add: gate_refuses_def sample_analysed_env_def sql_calls_untrusted_function_def Let_def)
qed

lemma sample_lookup_forwarded:
  "to_backend (snd (handle_frontend sample_analysed_env (message_new F_QUERY [0x77, 0]) (sample_session, batch_default))) \<noteq> []"
proof -
  have "fst (refuse_frontend_sql sample_analysed_env (str ''w'') True (sync_policy sample_session, batch_default)) = False"
    using sample_lookup_passes by (auto simp: gate_refuses_def refuse_frontend_sql_def Let_def)
  moreover have "allow_statement sample_analysed_env (sync_policy sample_session) = (True, sync_policy sample_session)"
    by (simp add: allow_statement_def sample_session_def session_new_def sample_policy_def sample_live_def)
  ultimately show ?thesis
    by (auto simp: handle_frontend_def Let_def frontend_tag_defs sample_query_text gate_def charge_def
        forward_backend_def on_plans_def encode_def message_new_def batch_default_def split: prod.splits)
qed


section \<open>Statements the gates do not see\<close>


text \<open>\<open>DELETE FROM t --\<close> followed by a lone Latin-1 byte.\<close>

definition latin1_delete :: bytes where
  "latin1_delete = as_bytes (str ''DELETE FROM t --'') @ [0xE9, 0]"

lemma latin1_delete_undecodable: "parse_simple_query latin1_delete = None"
  by code_simp


end
