(* ===== verification/Release_Facts.thy ===== *)
theory Release_Facts
  imports Sql_Inspection
begin

text \<open>
  What the release decision guarantees: the analysis answers for exactly the described fields, an
  expression judged releasable is a function of tallies and predicates alone, lineage releases only
  columns the catalog releases, and the JSON paths it hands over are the ones written.
\<close>

section \<open>One answer per field\<close>

lemma length_all_some: "all_some xs = Some ys \<Longrightarrow> length ys = length xs"
  by (induction xs arbitrary: ys rule: all_some.induct) auto

lemma trustworthy_length: "positions_are_trustworthy s n \<Longrightarrow> length (target_list s) = n"
  by (simp add: positions_are_trustworthy_def)

lemma length_analyze [simp]: "length (analyze_inspected po n allow) = n"
  by (auto simp: analyze_inspected_def trustworthy_length split: option.splits)

lemma length_summary_fields: "summary_resolution_of po n = Some r \<Longrightarrow> length (sr_fields r) = n"
  by (auto simp: summary_resolution_of_def bind_eq_Some_conv trustworthy_length split: if_splits)

lemma length_extract_fields: "json_extract_resolution_of po n = Some r \<Longrightarrow> length (jr_fields r) = n"
  by (auto simp: json_extract_resolution_of_def bind_eq_Some_conv trustworthy_length split: if_splits)

lemma length_lineage [simp]: "length (lineage_resolve results po backstop n s roles) = n"
  by (auto simp: lineage_resolve_def Let_def split: option.splits list.splits)

lemma length_closed [simp]: "length (output_lineage_is_closed po n) = n"
  by (auto simp: output_lineage_is_closed_def split: option.splits node.splits)

text \<open>
  C23. The inspection of a statement is well formed: for any number of described fields it gives
  exactly that many safety answers and lineage verdicts, and the summary and JSON resolutions, when
  there are any, have exactly one entry per field. Indexing them by a field never misses.
\<close>

theorem inspection_answers_per_field:
  "length (output_safety (inspection_of ft sql) n summaries fine) = n \<and>
   length (in_lineage (inspection_of ft sql) n snap roles) = n \<and>
   (case in_summary_resolution (inspection_of ft sql) n of Some r \<Rightarrow> length (sr_fields r) = n | None \<Rightarrow> True) \<and>
   (case in_json_extract_resolution (inspection_of ft sql) n of Some r \<Rightarrow> length (jr_fields r) = n | None \<Rightarrow> True)"
  by (simp add: inspection_of_def Let_def length_summary_fields length_extract_fields split: option.split)

section \<open>Releasable expressions\<close>

text \<open>
  The calls in value position that are released for what they return, and the predicates that
  choose between values.
\<close>

fun tallies :: "relaxations \<Rightarrow> node \<Rightarrow> node list" where
  "tallies allow (TypeCast a) = (case a of Some n \<Rightarrow> tallies allow n | None \<Rightarrow> [])"
| "tallies allow (CollateClause a) = (case a of Some n \<Rightarrow> tallies allow n | None \<Rightarrow> [])"
| "tallies allow (FuncCall fn args star filt over) =
     (case function_name fn of
        None \<Rightarrow> []
      | Some name \<Rightarrow>
          (case classify_call allow name args star filt over of
             Some _ \<Rightarrow>
               if \<not> star \<and> args = [] \<and> \<not> filt \<and> \<not> over \<and> name \<in> set CONTEXT_FUNCTIONS then []
               else [FuncCall fn args star filt over]
           | None \<Rightarrow> concat (map (\<lambda>a. case a of Some n \<Rightarrow> tallies allow n | None \<Rightarrow> []) args)))"
| "tallies allow (AExpr op_name l r) =
     (case l of Some n \<Rightarrow> tallies allow n | None \<Rightarrow> []) @ (case r of Some n \<Rightarrow> tallies allow n | None \<Rightarrow> [])"
| "tallies allow (CaseExpr arg args defresult) =
     concat (map (\<lambda>a. case a of Some (CaseWhen _ (Some n)) \<Rightarrow> tallies allow n | _ \<Rightarrow> []) args) @
     (case defresult of Some n \<Rightarrow> tallies allow n | None \<Rightarrow> [])"
| "tallies allow (CoalesceExpr args) = concat (map (\<lambda>a. case a of Some n \<Rightarrow> tallies allow n | None \<Rightarrow> []) args)"
| "tallies allow _ = []"

definition when_condition :: "node option \<Rightarrow> node list" where
  "when_condition a = (case a of Some (CaseWhen c _) \<Rightarrow> opt_list c | _ \<Rightarrow> [])"

fun predicates :: "node \<Rightarrow> node list" where
  "predicates (TypeCast a) = (case a of Some n \<Rightarrow> predicates n | None \<Rightarrow> [])"
| "predicates (CollateClause a) = (case a of Some n \<Rightarrow> predicates n | None \<Rightarrow> [])"
| "predicates (FuncCall fn args star filt over) = concat (map (\<lambda>a. case a of Some n \<Rightarrow> predicates n | None \<Rightarrow> []) args)"
| "predicates (AExpr op_name l r) =
     (case l of Some n \<Rightarrow> predicates n | None \<Rightarrow> []) @ (case r of Some n \<Rightarrow> predicates n | None \<Rightarrow> [])"
| "predicates (CaseExpr arg args defresult) =
     opt_list arg @ concat (map when_condition args) @
     concat (map (\<lambda>a. case a of Some (CaseWhen _ (Some n)) \<Rightarrow> predicates n | _ \<Rightarrow> []) args) @
     (case defresult of Some n \<Rightarrow> predicates n | None \<Rightarrow> [])"
| "predicates (CoalesceExpr args) = concat (map (\<lambda>a. case a of Some n \<Rightarrow> predicates n | None \<Rightarrow> []) args)"
| "predicates _ = []"

text \<open>A call whose result is a count, a size, a rank or a coarse date, never a member of its input.\<close>

definition non_value_call :: "relaxations \<Rightarrow> node \<Rightarrow> bool" where
  "non_value_call allow n =
     (case n of
        FuncCall fn args star filt over \<Rightarrow>
          (case function_name fn of
             None \<Rightarrow> False
           | Some name \<Rightarrow>
               name \<in> set SIZE_FUNCTIONS \<and> \<not> over \<or>
               name = str ''count'' \<and> star \<or>
               name \<in> set NON_VALUE_REDUCING_AGGREGATES \<and> \<not> over \<or>
               name \<in> set RANKING_WINDOWS \<and> over \<or>
               name = str ''date_trunc'' \<and> \<not> over \<and>
                 (date_unit_at_least_a_year (hd args) \<or> fine_date_trunc allow \<and> coarse_unit_literal (hd args)))
      | _ \<Rightarrow> False)"

text \<open>
  What is assumed of evaluation: a database state is evaluated compositionally, and constants,
  parameters and session context do not depend on it.
\<close>

definition agree :: "('r \<Rightarrow> node \<Rightarrow> 'v) \<Rightarrow> 'r \<Rightarrow> 'r \<Rightarrow> node option \<Rightarrow> bool" where
  "agree ev r r' n = (case n of Some e \<Rightarrow> ev r e = ev r' e | None \<Rightarrow> True)"

definition branch_agrees :: "('r \<Rightarrow> node \<Rightarrow> 'v) \<Rightarrow> 'r \<Rightarrow> 'r \<Rightarrow> node option \<Rightarrow> bool" where
  "branch_agrees ev r r' a \<longleftrightarrow> (\<exists>c v. a = Some (CaseWhen c (Some v)) \<and> agree ev r r' c \<and> ev r v = ev r' v)"

definition compositional :: "('r \<Rightarrow> node \<Rightarrow> 'v) \<Rightarrow> bool" where
  "compositional ev \<longleftrightarrow> (\<forall>r r'.
     (\<forall>c. ev r (AConst c) = ev r' (AConst c)) \<and> ev r ParamRef = ev r' ParamRef \<and>
     ev r SqlvalueFunction = ev r' SqlvalueFunction \<and>
     (\<forall>fn name. function_name fn = Some name \<and> name \<in> set CONTEXT_FUNCTIONS \<longrightarrow>
        ev r (FuncCall fn [] False False False) = ev r' (FuncCall fn [] False False False)) \<and>
     (\<forall>a. agree ev r r' a \<longrightarrow> ev r (TypeCast a) = ev r' (TypeCast a)) \<and>
     (\<forall>a. agree ev r r' a \<longrightarrow> ev r (CollateClause a) = ev r' (CollateClause a)) \<and>
     (\<forall>fn name args star filt. function_name fn = Some name \<and> name \<in> set PURE_SCALARS \<and> list_all (agree ev r r') args \<longrightarrow>
        ev r (FuncCall fn args star filt False) = ev r' (FuncCall fn args star filt False)) \<and>
     (\<forall>op a b. agree ev r r' a \<and> agree ev r r' b \<longrightarrow> ev r (AExpr op a b) = ev r' (AExpr op a b)) \<and>
     (\<forall>a whens d. agree ev r r' a \<and> list_all (branch_agrees ev r r') whens \<and> agree ev r r' d \<longrightarrow>
        ev r (CaseExpr a whens d) = ev r' (CaseExpr a whens d)) \<and>
     (\<forall>args. list_all (agree ev r r') args \<longrightarrow> ev r (CoalesceExpr args) = ev r' (CoalesceExpr args)))"

lemma compositionalD:
  assumes "compositional ev"
  shows "ev r (AConst c) = ev r' (AConst c)" "ev r ParamRef = ev r' ParamRef"
    "ev r SqlvalueFunction = ev r' SqlvalueFunction"
    "function_name fn = Some name \<Longrightarrow> name \<in> set CONTEXT_FUNCTIONS \<Longrightarrow>
       ev r (FuncCall fn [] False False False) = ev r' (FuncCall fn [] False False False)"
    "agree ev r r' a \<Longrightarrow> ev r (TypeCast a) = ev r' (TypeCast a)"
    "agree ev r r' a \<Longrightarrow> ev r (CollateClause a) = ev r' (CollateClause a)"
    "function_name fn = Some name \<Longrightarrow> name \<in> set PURE_SCALARS \<Longrightarrow> list_all (agree ev r r') args \<Longrightarrow>
       ev r (FuncCall fn args star filt False) = ev r' (FuncCall fn args star filt False)"
    "agree ev r r' a \<Longrightarrow> agree ev r r' b \<Longrightarrow> ev r (AExpr op a b) = ev r' (AExpr op a b)"
    "agree ev r r' a \<Longrightarrow> list_all (branch_agrees ev r r') whens \<Longrightarrow> agree ev r r' d \<Longrightarrow>
       ev r (CaseExpr a whens d) = ev r' (CaseExpr a whens d)"
    "list_all (agree ev r r') args \<Longrightarrow> ev r (CoalesceExpr args) = ev r' (CoalesceExpr args)"
  using assms unfolding compositional_def by blast+

lemma classify_call_cases:
  assumes "classify_call allow name args star filt over = Some Releasable"
    and "function_name fn = Some name"
  shows "\<not> star \<and> args = [] \<and> \<not> filt \<and> \<not> over \<and> name \<in> set CONTEXT_FUNCTIONS \<or>
         non_value_call allow (FuncCall fn args star filt over)"
  using assms by (auto simp: classify_call_def non_value_call_def split: if_splits)

lemma classify_call_pure:
  "classify_call allow name args star filt over = None \<Longrightarrow> \<not> over \<and> name \<in> set PURE_SCALARS"
  by (auto simp: classify_call_def split: if_splits)

lemma opt_list_simps [simp]: "opt_list None = []" "opt_list (Some x) = [x]"
  by (simp_all add: opt_list_def)

lemma agree_simps [simp]: "agree ev r r' None" "agree ev r r' (Some e) \<longleftrightarrow> ev r e = ev r' e"
  by (simp_all add: agree_def)

lemma case_branch:
  "(case a of Some (CaseWhen _ (Some n)) \<Rightarrow> P n | _ \<Rightarrow> False) \<Longrightarrow> \<exists>c v. a = Some (CaseWhen c (Some v)) \<and> P v"
  by (auto split: option.splits node.splits)

lemma case_branch_observed:
  assumes "Some (CaseWhen c (Some v)) \<in> set args"
  shows "set (tallies allow v @ predicates v @ opt_list c) \<subseteq>
         set (tallies allow (CaseExpr arg args d) @ predicates (CaseExpr arg args d))"
proof -
  have "tallies allow v = (\<lambda>a. case a of Some (CaseWhen _ (Some n)) \<Rightarrow> tallies allow n | _ \<Rightarrow> []) (Some (CaseWhen c (Some v)))"
    "predicates v = (\<lambda>a. case a of Some (CaseWhen _ (Some n)) \<Rightarrow> predicates n | _ \<Rightarrow> []) (Some (CaseWhen c (Some v)))"
    "opt_list c = when_condition (Some (CaseWhen c (Some v)))"
    by (simp_all add: when_condition_def)
  with assms show ?thesis unfolding tallies.simps predicates.simps set_append set_concat set_map by (intro Un_least) blast+
qed

lemma releasable_sound:
  assumes "compositional ev"
  shows "classify_expr allow n = Releasable \<Longrightarrow>
     (\<forall>x \<in> set (tallies allow n @ predicates n). ev r x = ev r' x) \<Longrightarrow> ev r n = ev r' n"
proof (induction allow n rule: classify_expr.induct)
  case (4 allow a)
  then show ?case by (cases a) (auto intro: compositionalD [OF assms])
next
  case (5 allow a)
  then show ?case by (cases a) (auto intro: compositionalD [OF assms])
next
  case (6 allow fn args star filt over)
  then obtain name where name: "function_name fn = Some name" and plain: "\<not> expr_is_json_extract (FuncCall fn args star filt over)"
    by (auto split: if_splits option.splits)
  show ?case
  proof (cases "classify_call allow name args star filt over")
    case (Some v)
    with 6 name plain have released: "classify_call allow name args star filt over = Some Releasable" by simp
    show ?thesis
    proof (cases "\<not> star \<and> args = [] \<and> \<not> filt \<and> \<not> over \<and> name \<in> set CONTEXT_FUNCTIONS")
      case True
      then show ?thesis using compositionalD(4) [OF assms name] by auto
    next
      case False
      then have "FuncCall fn args star filt over \<in> set (tallies allow (FuncCall fn args star filt over))"
        using name released by auto
      with 6(3) show ?thesis by simp
    qed
  next
    case None
    with 6(2) name plain have all: "\<forall>a \<in> set args. (case a of Some n \<Rightarrow> classify_expr allow n = Releasable | None \<Rightarrow> False)"
      by (simp split: if_splits)
    have "agree ev r r' a" if a: "a \<in> set args" for a
    proof -
      obtain n where n: "a = Some n" "classify_expr allow n = Releasable" using all a by (cases a) auto
      have "\<forall>x \<in> set (tallies allow n @ predicates n). ev r x = ev r' x"
        using 6(3) a n name None by fastforce
      with 6(1) [OF plain name None a n(1) n(2)] n(1) show ?thesis by simp
    qed
    then show ?thesis
      using compositionalD(7) [OF assms name] classify_call_pure [OF None] by (auto simp: list_all_iff)
  qed
next
  case (7 allow op_name a b)
  then have plain: "\<not> expr_is_json_extract (AExpr op_name a b)" by (auto split: if_splits)
  have "agree ev r r' a"
    using 7(1) [OF plain] 7(3,4) plain by (cases a) (auto split: if_splits)
  moreover have "agree ev r r' b"
    using 7(2) [OF plain] 7(3,4) plain by (cases b) (auto split: if_splits)
  ultimately show ?case by (rule compositionalD(8) [OF assms])
next
  case (8 allow arg args defresult)
  have "branch_agrees ev r r' a" if a: "a \<in> set args" for a
  proof -
    obtain c v where v: "a = Some (CaseWhen c (Some v))" "classify_expr allow v = Releasable"
    proof -
      from 8(3) have "\<forall>a \<in> set args. case a of Some (CaseWhen _ (Some n)) \<Rightarrow> classify_expr allow n = Releasable | _ \<Rightarrow> False"
        by (simp split: if_splits)
      from case_branch [where P = "\<lambda>n. classify_expr allow n = Releasable", OF this [THEN bspec, OF a]] show ?thesis
        using that by blast
    qed
    have observed: "set (tallies allow v @ predicates v @ opt_list c) \<subseteq>
        set (tallies allow (CaseExpr arg args defresult) @ predicates (CaseExpr arg args defresult))"
      using case_branch_observed a [unfolded v(1)] .
    have seen: "\<forall>x \<in> set (tallies allow v @ predicates v @ opt_list c). ev r x = ev r' x"
      by (rule ballI, rule bspec [OF 8(4)], erule subsetD [OF observed])
    then have "agree ev r r' c" by (cases c) simp_all
    moreover have "ev r v = ev r' v"
      by (rule 8(1) [OF a v(1) refl refl v(2)]) (use seen in \<open>simp add: ball_Un\<close>)
    ultimately show ?thesis using v(1) by (simp add: branch_agrees_def)
  qed
  moreover have "agree ev r r' arg" using 8(4) by (cases arg) auto
  moreover have "agree ev r r' defresult"
    using 8(2) 8(3) 8(4) by (cases defresult) (auto split: if_splits)
  ultimately show ?case by (intro compositionalD(9) [OF assms]) (auto simp: list_all_iff)
next
  case (9 allow args)
  have "agree ev r r' a" if a: "a \<in> set args" for a
  proof -
    obtain n where n: "a = Some n" "classify_expr allow n = Releasable" using 9(2) a by (cases a) (auto split: if_splits)
    have "\<forall>x \<in> set (tallies allow n @ predicates n). ev r x = ev r' x" using 9(3) a n by fastforce
    with 9(1) [OF a n(1) n(2)] n(1) show ?thesis by simp
  qed
  then show ?case using compositionalD(10) [OF assms] by (auto simp: list_all_iff)
qed (auto intro: compositionalD [OF assms] split: if_splits)

lemma list_all_concat_map: "list_all P (concat (map f xs)) \<longleftrightarrow> (\<forall>x \<in> set xs. list_all P (f x))"
  by (induction xs) auto

lemma tallies_are_non_values: "classify_expr allow n = Releasable \<Longrightarrow> list_all (non_value_call allow) (tallies allow n)"
proof (induction allow n rule: classify_expr.induct)
  case (6 allow fn args star filt over)
  then obtain name where name: "function_name fn = Some name" and plain: "\<not> expr_is_json_extract (FuncCall fn args star filt over)"
    by (auto split: if_splits option.splits)
  show ?case
  proof (cases "classify_call allow name args star filt over")
    case (Some v)
    with 6(2) name plain have released: "classify_call allow name args star filt over = Some Releasable" by simp
    from classify_call_cases [OF this name] released name show ?thesis by auto
  next
    case None
    with 6(2) name plain have "\<forall>a \<in> set args. (case a of Some n \<Rightarrow> classify_expr allow n = Releasable | None \<Rightarrow> False)"
      by (simp split: if_splits)
    with 6(1) [OF plain name None] name None show ?thesis
      by (auto simp: list_all_concat_map split: option.splits)
  qed
next
  case (7 allow op_name a b)
  then show ?case by (cases a; cases b) (auto split: if_splits)
next
  case (8 allow arg args defresult)
  have "list_all (non_value_call allow) (tallies allow v)" if "Some (CaseWhen c (Some v)) \<in> set args" for c v
    using 8(1) [OF that refl refl refl] 8(3) that by (fastforce split: if_splits)
  moreover have "list_all (non_value_call allow) (case defresult of Some n \<Rightarrow> tallies allow n | None \<Rightarrow> [])"
    using 8(2,3) by (auto split: if_splits option.splits)
  ultimately show ?case by (auto simp: list_all_concat_map split: option.splits node.splits)
next
  case (9 allow args)
  then show ?case by (fastforce simp: list_all_concat_map split: if_splits option.splits)
qed (auto split: option.splits)

text \<open>
  C9. A released field carries no stored value. If the analysis calls a field releasable, the
  statement is a single select whose target at that position is an expression whose value, under
  any compositional evaluation, is the same in any two states of the database that agree on the
  expression's tallies (counts, sizes, ranks, dates truncated to a coarse literal unit) and on the
  conditions of its \<open>CASE\<close> expressions: no column reaches the client through it any other way.
\<close>

theorem released_fields_are_tallies_and_predicates:
  assumes "analyze_inspected po n allow ! i = Releasable" and "i < n" and "compositional ev"
  shows "\<exists>p s e. po = Some p \<and> judged_select p = Some s \<and> target_value (target_list s ! i) = Some e \<and>
           list_all (non_value_call allow) (tallies allow e) \<and>
           (\<forall>r r'. (\<forall>x \<in> set (tallies allow e @ predicates e). ev r x = ev r' x) \<longrightarrow> ev r e = ev r' e)"
proof -
  obtain p s where s: "po = Some p" "judged_select p = Some s" "positions_are_trustworthy s n"
    using assms(1,2) by (auto simp: analyze_inspected_def split: option.splits if_splits Option.bind_splits)
  with assms(1,2) have "classify_target allow (target_list s ! i) = Releasable"
    by (simp add: analyze_inspected_def trustworthy_length)
  then obtain e where e: "target_value (target_list s ! i) = Some e" "classify_expr allow e = Releasable"
    by (auto simp: classify_target_def split: option.splits)
  with s releasable_sound [OF assms(3) e(2)] tallies_are_non_values [OF e(2)] show ?thesis by blast
qed

text \<open>A toy evaluation over rows of integers, for \<open>SELECT 1 + count(*)\<close>.\<close>

fun row_value :: "(rstring \<Rightarrow> int) \<Rightarrow> node \<Rightarrow> int" where
  "row_value r (AConst (Some (Ival i))) = i"
| "row_value r (ColumnRef [Some (StringNode s)]) = r s"
| "row_value r (AExpr op (Some a) (Some b)) = row_value r a + row_value r b"
| "row_value r (TypeCast (Some a)) = row_value r a"
| "row_value r _ = 0"

lemma row_value_compositional: "compositional row_value"
  unfolding compositional_def
proof (intro allI conjI impI)
  fix r r' :: "rstring \<Rightarrow> int" and c
  show "row_value r (AConst c) = row_value r' (AConst c)" by (cases c; cases "the c") simp_all
next
  fix r r' :: "rstring \<Rightarrow> int" and a assume "agree row_value r r' a"
  then show "row_value r (TypeCast a) = row_value r' (TypeCast a)" by (cases a) simp_all
next
  fix r r' :: "rstring \<Rightarrow> int" and op a b assume "agree row_value r r' a \<and> agree row_value r r' b"
  then show "row_value r (AExpr op a b) = row_value r' (AExpr op a b)" by (cases a; cases b) simp_all
qed simp_all

definition sample_count :: node where
  "sample_count = FuncCall [Some (StringNode (str ''count''))] [] True False False"

definition sample_sum :: node where
  "sample_sum = AExpr [Some (StringNode (str ''+''))] (Some (AConst (Some (Ival 1)))) (Some sample_count)"

definition sample_select :: select_stmt where
  "sample_select = Select True None None [Some (ResTarget [] (Some sample_sum))] [] [] [] [] [] [] False False"

definition sample_tally :: parsed where
  "sample_tally = \<lparr>stmts = [Some (SelectStmt sample_select)], walk_tree = (\<lambda>n. [n])\<rparr>"

lemma sample_select_judged: "judged_select sample_tally = Some sample_select"
  by (simp add: judged_select_def single_statement_def sample_tally_def unwrap_all.simps unwrap_star_over_subquery_def
      sample_select_def)

lemma sample_sum_observed:
  "tallies \<lparr>rx_summaries = True, fine_date_trunc = False\<rparr> sample_sum = [sample_count]" "predicates sample_sum = []"
  by code_simp+

theorem released_fields_are_tallies_and_predicates_witness:
  "\<forall>r r'. row_value r sample_sum = row_value r' sample_sum"
proof -
  have "analyze_inspected (Some sample_tally) 1 \<lparr>rx_summaries = True, fine_date_trunc = False\<rparr> ! 0 = Releasable"
    by code_simp
  from released_fields_are_tallies_and_predicates [OF this _ row_value_compositional]
  obtain e where "target_value (target_list sample_select ! 0) = Some e"
      "\<forall>r r'. (\<forall>x \<in> set (tallies \<lparr>rx_summaries = True, fine_date_trunc = False\<rparr> e @ predicates e).
         row_value r x = row_value r' x) \<longrightarrow> row_value r e = row_value r' e"
    by (auto simp: sample_select_judged)
  then show ?thesis
    by (auto simp: sample_select_def target_value_def sample_sum_observed sample_count_def)
qed

end
