(* ===== verification/Lineage_Facts.thy ===== *)
theory Lineage_Facts
  imports Sql_Inspection
begin

text \<open>
  What a lineage release rests on: a field whose every column is followed to stored columns or
  closed nested outputs, and sources the catalog knows and releases to the session's roles.
\<close>

section \<open>Closed fields, without the depth limit\<close>

lemma expr_is_closed_mono [mono]:
  assumes "\<And>parts. P parts \<longrightarrow> Q parts" shows "expr_is_closed P e \<longrightarrow> expr_is_closed Q e"
proof (rule impI)
  assume "expr_is_closed P e"
  then show "expr_is_closed Q e" using assms
  proof (induction P e rule: expr_is_closed.induct)
  qed (fastforce split: option.splits)+
qed

lemma node_is_closed_mono [mono]:
  assumes "\<And>parts. P parts \<longrightarrow> Q parts" shows "node_is_closed P e \<longrightarrow> node_is_closed Q e"
  using expr_is_closed_mono [OF assms] by (auto simp: node_is_closed_def split: option.split)

text \<open>
  A column is closed when its name is placed: at a stored column, or at a nested output that is
  closed itself. A field is closed when both sides of its set operation, every row of its
  \<open>VALUES\<close> or its target expression are built from closed columns.
\<close>

inductive closed_column :: "cte list \<Rightarrow> select_stmt \<Rightarrow> node option list \<Rightarrow> bool"
  and closed_field :: "cte list \<Rightarrow> select_stmt \<Rightarrow> nat \<Rightarrow> bool" where
  closed_base: "\<lbrakk>Some AStar \<notin> set parts; column_ref_parts parts = Some (qualifier, name);
      resolve_column s ctes qualifier name = BaseColumn\<rbrakk> \<Longrightarrow> closed_column ctes s parts"
| closed_nested: "\<lbrakk>Some AStar \<notin> set parts; column_ref_parts parts = Some (qualifier, name);
      resolve_column s ctes qualifier name = NestedColumn q i; closed_field ctes q i\<rbrakk> \<Longrightarrow> closed_column ctes s parts"
| closed_set_operation: "\<lbrakk>\<not> setop_none (unwrap_all s); larg (unwrap_all s) = Some l; rarg (unwrap_all s) = Some r;
      closed_field (extend_ctes ctes (unwrap_all s)) l i; closed_field (extend_ctes ctes (unwrap_all s)) r i\<rbrakk> \<Longrightarrow>
      closed_field ctes s i"
| closed_values: "\<lbrakk>setop_none (unwrap_all s); values_lists (unwrap_all s) \<noteq> [];
      \<forall>row \<in> set (values_lists (unwrap_all s)). \<exists>cells. row = Some (ListNode cells) \<and> i < length cells \<and>
        node_is_closed (closed_column (extend_ctes ctes (unwrap_all s)) (unwrap_all s)) (cells ! i)\<rbrakk> \<Longrightarrow>
      closed_field ctes s i"
| closed_target: "\<lbrakk>setop_none (unwrap_all s); i < length (target_list (unwrap_all s));
      target_value (target_list (unwrap_all s) ! i) = Some e;
      expr_is_closed (closed_column (extend_ctes ctes (unwrap_all s)) (unwrap_all s)) e\<rbrakk> \<Longrightarrow> closed_field ctes s i"

text \<open>One level of the code's recursion, with its column test named.\<close>

definition column_test :: "nat \<Rightarrow> cte list \<Rightarrow> select_stmt \<Rightarrow> node option list \<Rightarrow> bool" where
  "column_test left ctes s = (\<lambda>parts.
     if Some AStar \<in> set parts then False
     else (case column_ref_parts parts of
             None \<Rightarrow> False
           | Some (qualifier, name) \<Rightarrow>
               (case resolve_column s ctes qualifier name of
                  BaseColumn \<Rightarrow> True
                | NestedColumn q i \<Rightarrow> field_is_closed left ctes q i
                | IncompleteOrigin \<Rightarrow> False)))"

definition row_is_closed :: "(node option list \<Rightarrow> bool) \<Rightarrow> nat \<Rightarrow> node option \<Rightarrow> bool" where
  "row_is_closed col i row =
     (case row of Some (ListNode cells) \<Rightarrow> i < length cells \<and> node_is_closed col (cells ! i) | _ \<Rightarrow> False)"

lemma field_is_closed_Suc:
  assumes "t = unwrap_all s" and "inside = extend_ctes ctes t"
  shows "field_is_closed (Suc left) ctes s i \<longleftrightarrow>
     (if \<not> setop_none t
      then (case (larg t, rarg t) of
              (Some l, Some r) \<Rightarrow> field_is_closed left inside l i \<and> field_is_closed left inside r i
            | _ \<Rightarrow> False)
      else if values_lists t \<noteq> [] then list_all (row_is_closed (column_test left inside t) i) (values_lists t)
      else if i < length (target_list t)
      then (case target_value (target_list t ! i) of
              Some e \<Rightarrow> expr_is_closed (column_test left inside t) e | None \<Rightarrow> False)
      else False)"
  unfolding assms field_is_closed.simps Let_def column_test_def row_is_closed_def by (rule refl)

lemma column_test_closed:
  assumes "\<And>ctes s i. field_is_closed left ctes s i \<Longrightarrow> closed_field ctes s i" and "column_test left ctes s parts"
  shows "closed_column ctes s parts"
proof -
  obtain qualifier name where parts: "Some AStar \<notin> set parts" "column_ref_parts parts = Some (qualifier, name)"
    using assms(2) by (auto simp: column_test_def split: if_splits option.splits)
  with assms show ?thesis
    by (cases "resolve_column s ctes qualifier name")
      (auto simp: column_test_def intro: closed_base closed_nested)
qed

lemma row_is_closed_cells:
  assumes "row_is_closed P i row" and "\<And>parts. P parts \<longrightarrow> Q parts"
  shows "\<exists>cells. row = Some (ListNode cells) \<and> i < length cells \<and> node_is_closed Q (cells ! i)"
  using assms(1) node_is_closed_mono [OF assms(2)]
  by (auto simp: row_is_closed_def split: option.splits node.splits)

lemma field_is_closed_sound: "field_is_closed left ctes s i \<Longrightarrow> closed_field ctes s i"
proof (induction left arbitrary: ctes s i)
  case (Suc left)
  define t where t: "t = unwrap_all s"
  define inside where inside: "inside = extend_ctes ctes t"
  note closed = Suc.prems [unfolded field_is_closed_Suc [OF t inside]]
  have column: "column_test left inside t parts \<longrightarrow> closed_column inside t parts" for parts
    using column_test_closed [OF Suc.IH] by blast
  consider (operation) l r where "\<not> setop_none t" "larg t = Some l" "rarg t = Some r"
        "field_is_closed left inside l i" "field_is_closed left inside r i"
    | (rows) "setop_none t" "values_lists t \<noteq> []" "\<forall>row \<in> set (values_lists t). row_is_closed (column_test left inside t) i row"
    | (target) e where "setop_none t" "i < length (target_list t)" "target_value (target_list t ! i) = Some e"
        "expr_is_closed (column_test left inside t) e"
    using closed by (auto simp: list_all_iff split: if_splits option.splits)
  then show ?case
  proof cases
    case operation
    show ?thesis
      by (rule closed_set_operation [of s l r ctes i, folded t, folded inside])
        (use operation Suc.IH in \<open>simp_all\<close>)
  next
    case rows
    then have "\<forall>row \<in> set (values_lists t). \<exists>cells. row = Some (ListNode cells) \<and> i < length cells \<and>
        node_is_closed (closed_column inside t) (cells ! i)"
      using row_is_closed_cells [where P = "column_test left inside t" and Q = "closed_column inside t", OF _ column] by blast
    with rows(1,2) show ?thesis by (rule closed_values [of s i ctes, folded t, folded inside])
  next
    case target
    then show ?thesis
      by (intro closed_target [of s i e ctes, folded t, folded inside] 
          expr_is_closed_mono [where P = "column_test left inside t" and Q = "closed_column inside t", OF column, THEN mp])
  qed
qed simp

section \<open>The verdict\<close>

text \<open>A source the catalog knows, in a relation that is no opaque view, released to these roles.\<close>

definition released_source :: "snapshot \<Rightarrow> rstring list \<Rightarrow> lineage_source \<Rightarrow> bool" where
  "released_source s roles src \<longleftrightarrow>
     (\<exists>t col cols c. src = Concrete t col \<and> relation_columns_of s (qualify t) = Some cols \<and>
        to_ascii_lowercase col \<in> set cols \<and> \<not> relation_is_opaque_view s (qualify t) \<and>
        lookup_by_name s (qualify t) (to_ascii_lowercase col) = Some c \<and> is_passthrough (for_roles c roles))"

lemma judge_sources_blocked: "judge_sources s roles sources (Some b) \<noteq> Some None"
  by (induction s roles sources "Some b" arbitrary: b rule: judge_sources.induct)
    (auto simp: Let_def split: if_splits option.splits)

lemma judge_sources_released:
  "judge_sources s roles sources None = Some None \<Longrightarrow> list_all (released_source s roles) sources"
proof (induction sources)
  case (Cons src sources)
  then obtain t col where src: "src = Concrete t col" by (cases src) auto
  with Cons show ?case
    using judge_sources_blocked [of s roles sources]
    by (auto simp: Let_def released_source_def split: if_splits option.splits)
qed simp


text \<open>\<open>SELECT upper(c) FROM s.t\<close>, with \<open>c\<close> released.\<close>

definition sample_released :: snapshot where
  "sample_released = snapshot_default\<lparr>relation_columns := [(str ''s.t'', [str ''c''])],
     by_name := [((str ''s.t'', str ''c''), \<lparr>default = spec_new MNone, by_role = []\<rparr>)]\<rparr>"

definition sample_upper :: parsed where
  "sample_upper =
     \<lparr>stmts = [Some (SelectStmt (Select True None None
         [Some (ResTarget [] (Some (FuncCall [Some (StringNode (str ''upper''))]
            [Some (ColumnRef [Some (StringNode (str ''c''))])] False False False)))]
         [Some (RangeVar (str ''s'') (str ''t'') None)] [] [] [] [] [] False False))],
      walk_tree = (\<lambda>n. [n])\<rparr>"

definition sample_source :: lineage_source where
  "sample_source = Concrete \<lparr>tr_schema = Some (str ''s''), tr_table = str ''t''\<rparr> (str ''c'')"

lemma sample_upper_closed: "output_lineage_is_closed (Some sample_upper) (Suc 0) = [True]"
  by (simp add: output_lineage_is_closed_def single_statement_def sample_upper_def FOLLOW_DEPTH_def numeral_eq_Suc
      unwrap_all.simps unwrap_star_over_subquery_def Let_def target_value_def column_ref_parts_def lower_string_def
      string_of_def resolve_column_def classify_from_item_def range_var_origin_def extend_ctes_def alias_renames_columns_def)

lemma sample_source_judged: "judge_sources sample_released [] [sample_source] None = Some None"
  by (simp add: sample_source_def sample_released_def snapshot_default_def qualify_def relation_columns_of_def
      lookup_by_name_def relation_is_opaque_view_def is_opaque_view_def Let_def for_roles_def is_passthrough_def
      spec_new_def to_ascii_lowercase_def str_def)

lemma sample_unmasked: "\<not> references_masked_column sample_released (Some [str ''c'']) []"
  by (simp add: references_masked_column_def sample_released_def snapshot_default_def lookup_by_name_def
      for_roles_def is_passthrough_def spec_new_def to_ascii_lowercase_def str_def)


section \<open>Quoted common table expressions\<close>

text \<open>\<open>WITH name AS (query) SELECT c FROM name\<close>.\<close>

definition cte_query_of :: "rstring \<Rightarrow> select_stmt \<Rightarrow> select_stmt" where
  "cte_query_of name query =
     Select True None None [Some (ResTarget [] (Some (ColumnRef [Some (StringNode (str ''c''))])))]
       [Some (RangeVar [] name None)] [] [] [] [] [Some (CommonTableExpr name [] (Some (SelectStmt query)))] False False"

lemma cte_query_unwrapped: "unwrap_all (cte_query_of name query) = cte_query_of name query"
  by (simp add: unwrap_all.simps unwrap_star_over_subquery_def cte_query_of_def)

text \<open>
  A relation name is compared in lower case with the CTE names as they are written, so a CTE whose
  quoted name has an upper case letter is never found: the reference counts as a stored column and
  the field as closed whatever the CTE computes, a subquery over a masked column included.
\<close>

lemma quoted_cte_is_not_followed:
  assumes "to_ascii_lowercase name \<noteq> name"
  shows "field_is_closed (Suc left) [] (cte_query_of name query) 0"
  using assms
  by (simp add: field_is_closed_Suc [OF refl refl] cte_query_unwrapped)
    (simp add: cte_query_of_def target_value_def column_test_def column_ref_parts_def lower_string_def string_of_def
      resolve_column_def classify_from_item_def range_var_origin_def extend_ctes_def alias_renames_columns_def Let_def)

text \<open>The same statement with a lower case name follows the CTE, and a subquery in it is not closed.\<close>

definition hidden_subquery :: select_stmt where
  "hidden_subquery = Select True None None [Some (ResTarget (str ''c'') (Some (OtherNode (str ''SubLink''))))]
     [] [] [] [] [] [] False False"

lemma lowercase_cte_is_followed:
  "\<not> field_is_closed FOLLOW_DEPTH [] (cte_query_of (str ''q'') hidden_subquery) 0"
  "field_is_closed FOLLOW_DEPTH [] (cte_query_of (str ''Q'') hidden_subquery) 0"
  by code_simp+

end
