(* ===== verification/Reading_Facts.thy ===== *)
theory Reading_Facts
  imports Sql_Inspection
begin

text \<open>
  How the analysis reads names and paths: the literal JSON paths of operator chains up to the depth
  limit, and Unicode-escaped identifiers against the grammar of their spellings.
\<close>

section \<open>Operator chains\<close>

datatype json_key = Key rstring | Index nat

definition key_node :: "json_key \<Rightarrow> node" where
  "key_node k = (case k of Key s \<Rightarrow> AConst (Some (Sval s)) | Index i \<Rightarrow> AConst (Some (Ival (int i))))"

definition key_segment_of :: "json_key \<Rightarrow> json_path_segment" where
  "key_segment_of k = (case k of Key s \<Rightarrow> segment s ObjectKey | Index i \<Rightarrow> segment (int_to_string (int i)) ArrayIndex)"

definition arrow :: "bool \<Rightarrow> node \<Rightarrow> json_key \<Rightarrow> node" where
  "arrow tx e k =
     AExpr [Some (StringNode (if tx then str ''->>'' else str ''->''))] (Some e) (Some (key_node k))"

text \<open>\<open>col -> k1 -> ... -> kn\<close>, the last arrow giving text or not.\<close>

definition arrow_chain :: "node \<Rightarrow> json_key list \<Rightarrow> bool \<Rightarrow> node" where
  "arrow_chain col ks tx = arrow tx (foldl (arrow False) col (butlast ks)) (last ks)"

lemma arrow_name: "operator_name [Some (StringNode (str ''->''))] = Some (str ''->'')"
    "operator_name [Some (StringNode (str ''->>''))] = Some (str ''->>'')"
  by code_simp+

lemma arrow_shape: "operator_shape (str ''->'') = Some (False, False)" "operator_shape (str ''->>'') = Some (True, False)"
  by code_simp+

lemma single_key: "parse_single_key (key_node k) = Some (key_segment_of k)"
  by (cases k) (simp_all add: key_node_def key_segment_of_def parse_single_key_def)

lemma arrow_level:
  "operator_level [Some (StringNode (if tx then str ''->>'' else str ''->''))] (Some e) (Some (key_node k)) =
     Some (e, [key_segment_of k], tx)"
  by (cases tx) (simp_all add: operator_level_def arrow_name arrow_shape single_key)

lemma parse_arrow:
  "parse_extract depth (arrow tx e k) =
     (if depth > MAX_EXTRACT_DEPTH then None
      else finish_extract (parse_extract (Suc depth) e) e [key_segment_of k] tx)"
  by (simp add: parse_extract.simps [of depth] arrow_def arrow_level)

lemma parse_arrow_chain:
  assumes "parse_column_ref_fields parts = Some c" and "depth \<le> MAX_EXTRACT_DEPTH"
  shows "parse_extract depth (arrow tx (foldl (arrow False) (ColumnRef parts) ks) k) =
     (if depth + length ks \<le> MAX_EXTRACT_DEPTH
      then Some \<lparr>je_column = c, je_path = map key_segment_of (ks @ [k]), as_text = tx\<rparr> else None)"
  using assms(2)
proof (induction ks arbitrary: depth k tx rule: rev_induct)
  case Nil
  then show ?case
    by (simp add: parse_arrow parse_extract.simps [of "Suc depth"] finish_extract_def parse_column_ref_def assms(1))
next
  case (snoc k' ks)
  let ?e = "arrow False (foldl (arrow False) (ColumnRef parts) ks) k'"
  have no_column: "parse_column_ref ?e = None" by (simp add: arrow_def parse_column_ref_def)
  show ?case
  proof (cases "Suc depth \<le> MAX_EXTRACT_DEPTH")
    case True
    with snoc show ?thesis by (simp add: parse_arrow [of depth] finish_extract_def no_column)
  next
    case False
    with snoc.prems show ?thesis
      by (simp add: parse_arrow [of depth] parse_arrow [of "Suc depth"] finish_extract_def no_column)
  qed
qed

text \<open>
  C21. A chain of \<open>->\<close> operators with literal keys over a column, ended by \<open>->\<close> or \<open>->>\<close>, is read back
  exactly: the column, the keys in order with what each navigates, and whether the result is text.
  That holds up to seventeen keys, one more than the depth limit; a longer chain is not read at all,
  so its field is never attributed to a shorter path.
\<close>

theorem arrow_chain_round_trip:
  assumes "parse_column_ref_fields parts = Some c" and "ks \<noteq> []"
  shows "parse_extract 0 (arrow_chain (ColumnRef parts) ks tx) =
     (if length ks \<le> Suc MAX_EXTRACT_DEPTH
      then Some \<lparr>je_column = c, je_path = map key_segment_of ks, as_text = tx\<rparr> else None)"
proof -
  obtain ms k where "ks = ms @ [k]" using assms(2) by (cases ks rule: rev_cases) auto
  with parse_arrow_chain [OF assms(1), of 0 tx ms k] show ?thesis by (simp add: arrow_chain_def Suc_le_mono)
qed

theorem arrow_chain_round_trip_witness:
  "parse_extract 0 (arrow_chain (ColumnRef [Some (StringNode (str ''payload''))]) [Key (str ''a''), Index 0] True) =
     Some \<lparr>je_column = Bare (str ''payload''),
        je_path = [segment (str ''a'') ObjectKey, segment (str ''0'') ArrayIndex], as_text = True\<rparr>"
proof -
  have "parse_column_ref_fields [Some (StringNode (str ''payload''))] = Some (Bare (str ''payload''))"
    and zero: "int_to_string 0 = str ''0''"
    by code_simp+
  from arrow_chain_round_trip [OF this(1), of "[Key (str ''a''), Index 0]" True] zero show ?thesis
    by (simp add: MAX_EXTRACT_DEPTH_def key_segment_of_def)
qed

section \<open>Operators of another schema\<close>

text \<open>
  The function forms are read in no schema or \<open>pg_catalog\<close> only. The operator forms are read in every
  schema, so a user's own operator of that spelling is taken for the built-in extraction.
\<close>

lemma foreign_function_is_no_extract:
  assumes "to_ascii_lowercase schema \<noteq> str ''pg_catalog''"
  shows "parse_extract 0 (FuncCall [Some (StringNode schema), Some (StringNode name)] args star filt over) = None"
  using assms
  by (simp add: parse_extract.simps function_level_def function_name_def lower_string_def string_of_def)

lemma foreign_operator_is_an_extract:
  assumes "parse_column_ref_fields parts = Some c"
  shows "parse_extract 0 (AExpr [Some (StringNode schema), Some (StringNode (str ''->>''))]
           (Some (ColumnRef parts)) (Some (AConst (Some (Sval k))))) =
         Some \<lparr>je_column = c, je_path = [segment k ObjectKey], as_text = True\<rparr>"
proof -
  have "operator_name [Some (StringNode schema), Some (StringNode (str ''->>''))] = Some (str ''->>'')"
    by (simp add: operator_name_def function_name_def lower_string_def string_of_def to_ascii_lowercase_def str_def)
  then show ?thesis
    by (simp add: parse_extract.simps operator_level_def arrow_shape parse_single_key_def finish_extract_def
        parse_column_ref_def assms MAX_EXTRACT_DEPTH_def)
qed

section \<open>Unicode-escaped identifiers\<close>

text \<open>The value hexadecimal digits spell, when they are digits.\<close>

definition hex_number :: "rstring \<Rightarrow> nat \<Rightarrow> bool" where
  "hex_number ds v \<longleftrightarrow>
     list_all (\<lambda>d. to_digit 16 d \<noteq> None) ds \<and> v = foldl (\<lambda>acc d. acc * 16 + the (to_digit 16 d)) 0 ds"

text \<open>
  The grammar of the body of \<open>U&"..."\<close> with the default escape: a character for itself, a doubled
  quote or backslash, a backslash with four hexadecimal digits, or a backslash, a plus sign and six.
\<close>

inductive spelled :: "rstring \<Rightarrow> rstring \<Rightarrow> bool" where
  spelled_end: "spelled [] []"
| spelled_plain: "c \<noteq> 34 \<Longrightarrow> c \<noteq> 92 \<Longrightarrow> spelled b n \<Longrightarrow> spelled (c # b) (c # n)"
| spelled_quote: "spelled b n \<Longrightarrow> spelled (34 # 34 # b) (34 # n)"
| spelled_escape: "spelled b n \<Longrightarrow> spelled (92 # 92 # b) (92 # n)"
| spelled_four: "length ds = 4 \<Longrightarrow> hex_number ds c \<Longrightarrow> is_scalar c \<Longrightarrow> spelled b n \<Longrightarrow>
    spelled (92 # ds @ b) (c # n)"
| spelled_six: "length ds = 6 \<Longrightarrow> hex_number ds c \<Longrightarrow> is_scalar c \<Longrightarrow> spelled b n \<Longrightarrow>
    spelled (92 # 43 # ds @ b) (c # n)"

lemma hex_value_digits:
  "hex_value k acc cs = Some (v, rest) \<longleftrightarrow>
     (\<exists>ds. cs = ds @ rest \<and> length ds = k \<and> list_all (\<lambda>d. to_digit 16 d \<noteq> None) ds \<and>
        v = foldl (\<lambda>acc d. acc * 16 + the (to_digit 16 d)) acc ds)"
proof (induction k acc cs rule: hex_value.induct)
  case (3 k acc c cs)
  show ?case
  proof (cases "to_digit 16 c")
    case None
    then show ?thesis by (auto simp: length_Suc_conv)
  next
    case (Some d)
    then show ?thesis using 3 [OF Some] by (auto simp: length_Suc_conv)
  qed
qed auto

lemma hex_codepoint_digits:
  "hex_codepoint k cs = Some (v, rest) \<longleftrightarrow> (\<exists>ds. cs = ds @ rest \<and> length ds = k \<and> hex_number ds v \<and> is_scalar v)"
  by (auto simp: hex_codepoint_def bind_eq_Some_conv code_point_def hex_number_def hex_value_digits split: if_splits)

lemma hex_digit_is_no_sign: "to_digit 16 43 = None" "to_digit 16 92 = None"
  by code_simp+

text \<open>One unit of the grammar.\<close>

definition spelled_unit :: "rstring \<Rightarrow> nat \<Rightarrow> bool" where
  "spelled_unit u c \<longleftrightarrow>
     u = [c] \<and> c \<noteq> 34 \<and> c \<noteq> 92 \<or> u = [34, 34] \<and> c = 34 \<or> u = [92, 92] \<and> c = 92 \<or>
     (\<exists>ds. length ds = 4 \<and> hex_number ds c \<and> is_scalar c \<and> u = 92 # ds) \<or>
     (\<exists>ds. length ds = 6 \<and> hex_number ds c \<and> is_scalar c \<and> u = 92 # 43 # ds)"

lemma hex_number_head: "hex_number (d # ds) c \<Longrightarrow> d \<noteq> 43 \<and> d \<noteq> 92"
  using hex_digit_is_no_sign by (auto simp: hex_number_def)

lemma next_ident_char_sound:
  assumes "next_ident_char 92 cs = Some (c, rest)" shows "\<exists>u. cs = u @ rest \<and> spelled_unit u c"
proof (cases cs)
  case (Cons a as)
  consider "a = 34" | "a \<noteq> 34" "a \<noteq> 92" | (hex) "a = 92" by blast
  then show ?thesis
  proof cases
    case hex
    with assms Cons obtain d ds where as: "as = d # ds" by (auto simp: next_ident_char_def split: list.splits)
    have eq: "next_ident_char 92 cs = (if d = 43 then hex_codepoint 6 ds else if d = 92 then Some (92, ds) else hex_codepoint 4 as)"
      unfolding Cons hex as by (simp add: next_ident_char_def)
    show ?thesis
    proof (cases "d = 92")
      case True
      with eq assms have "cs = [92, 92] @ rest" "c = 92" unfolding Cons hex as by simp_all
      then show ?thesis by (intro exI [of _ "[92, 92]"]) (simp add: spelled_unit_def)
    next
      case unescaped: False
      show ?thesis
      proof (cases "d = 43")
        case True
        with eq assms have "hex_codepoint 6 ds = Some (c, rest)" by simp
        then obtain us where "ds = us @ rest" "length us = 6" "hex_number us c" "is_scalar c"
          by (auto simp: hex_codepoint_digits)
        with Cons hex as True show ?thesis by (intro exI [of _ "92 # 43 # us"]) (simp add: spelled_unit_def)
      next
        case False
        with eq assms unescaped have "hex_codepoint 4 as = Some (c, rest)" by simp
        then obtain us where "as = us @ rest" "length us = 4" "hex_number us c" "is_scalar c"
          by (auto simp: hex_codepoint_digits)
        with Cons hex show ?thesis by (intro exI [of _ "92 # us"]) (simp add: spelled_unit_def)
      qed
    qed
  qed (use assms Cons in \<open>auto simp: next_ident_char_def spelled_unit_def split: list.splits if_splits\<close>)
qed (use assms in \<open>simp add: next_ident_char_def\<close>)

lemma next_ident_char_complete:
  assumes "spelled_unit u c" shows "next_ident_char 92 (u @ rest) = Some (c, rest)"
proof -
  consider "u = [c]" "c \<noteq> 34" "c \<noteq> 92" | "u = [34, 34]" "c = 34" | "u = [92, 92]" "c = 92"
    | (four) ds where "length ds = 4" "hex_number ds c" "is_scalar c" "u = 92 # ds"
    | (six) ds where "length ds = 6" "hex_number ds c" "is_scalar c" "u = 92 # 43 # ds"
    using assms by (auto simp: spelled_unit_def)
  then show ?thesis
  proof cases
    case four
    then obtain d ds' where ds: "ds = d # ds'" by (cases ds) auto
    have "hex_codepoint 4 (ds @ rest) = Some (c, rest)" using four by (auto simp: hex_codepoint_digits)
    with four ds hex_number_head [of d ds' c] show ?thesis by (simp add: next_ident_char_def)
  next
    case six
    then have "hex_codepoint 6 (ds @ rest) = Some (c, rest)" by (auto simp: hex_codepoint_digits)
    with six show ?thesis by (simp add: next_ident_char_def)
  qed (simp_all add: next_ident_char_def)
qed

lemma spelled_step: "spelled_unit u c \<Longrightarrow> spelled b n \<Longrightarrow> spelled (u @ b) (c # n)"
  by (auto simp: spelled_unit_def intro: spelled.intros)

lemma spelled_decodes: "spelled b n \<Longrightarrow> decode_unicode_ident_body 92 b = Some n"
proof (induction rule: spelled.induct)
  case spelled_end
  show ?case by (simp add: decode_unicode_ident_body.simps)
next
  case (spelled_plain c b n)
  with next_ident_char_complete [of "[c]" c b] show ?case
    by (simp add: decode_unicode_ident_body.simps [of 92 "c # b"] spelled_unit_def)
next
  case (spelled_quote b n)
  with next_ident_char_complete [of "[34, 34]" 34 b] show ?case
    by (simp add: decode_unicode_ident_body.simps [of 92 "34 # _"] spelled_unit_def)
next
  case (spelled_escape b n)
  with next_ident_char_complete [of "[92, 92]" 92 b] show ?case
    by (simp add: decode_unicode_ident_body.simps [of 92 "92 # _"] spelled_unit_def)
next
  case (spelled_four ds c b n)
  with next_ident_char_complete [of "92 # ds" c b] show ?case
    by (simp add: decode_unicode_ident_body.simps [of 92 "92 # _"] spelled_unit_def)
next
  case (spelled_six ds c b n)
  with next_ident_char_complete [of "92 # 43 # ds" c b] show ?case
    by (simp add: decode_unicode_ident_body.simps [of 92 "92 # _"] spelled_unit_def)
qed

lemma decodes_spelled: "decode_unicode_ident_body 92 b = Some n \<Longrightarrow> spelled b n"
proof (induction "length b" arbitrary: b n rule: less_induct)
  case less
  show ?case
  proof (cases "b = []")
    case True
    with less.prems show ?thesis by (simp add: decode_unicode_ident_body.simps spelled_end)
  next
    case False
    with less.prems obtain c rest m where "next_ident_char 92 b = Some (c, rest)"
        "decode_unicode_ident_body 92 rest = Some m" "n = c # m"
      by (subst (asm) decode_unicode_ident_body.simps) (auto split: option.splits)
    with less.hyps [OF next_ident_char_shorter] next_ident_char_sound spelled_step show ?thesis by metis
  qed
qed

lemma decode_iff_spelled: "decode_unicode_ident_body 92 b = Some n \<longleftrightarrow> spelled b n"
  using spelled_decodes decodes_spelled by blast

lemma all_some_member: "all_some xs = Some ys \<Longrightarrow> x \<in> set xs \<Longrightarrow> \<exists>y \<in> set ys. x = Some y"
  by (induction xs arbitrary: ys rule: all_some.induct) auto

lemma unquote_quoted: "unquote (34 # b @ [34]) = Some b"
  by (simp add: unquote_def strip_suffix_def)

lemma unicode_ident_decoded:
  assumes "pre = str ''u&'' \<or> pre = str ''U&''"
  shows "is_unicode_ident_spelling (pre @ 34 # b @ [34])"
    and "decode_unicode_ident (pre @ 34 # b @ [34]) = map_option to_ascii_lowercase (decode_unicode_ident_body 92 b)"
proof -
  show spelling: "is_unicode_ident_spelling (pre @ 34 # b @ [34])"
    using assms by (auto simp: is_unicode_ident_spelling_def starts_with_def)
  have "drop 2 (pre @ 34 # b @ [34]) = 34 # b @ [34]" using assms by (auto simp: str_def)
  with spelling show "decode_unicode_ident (pre @ 34 # b @ [34]) = map_option to_ascii_lowercase (decode_unicode_ident_body 92 b)"
    by (simp add: decode_unicode_ident_def unquote_quoted)
qed

text \<open>
  C20. Spelling a name with Unicode escapes cannot hide it. When the identifiers of a text can be
  scanned at all, every token written \<open>u&"..."\<close> or \<open>U&"..."\<close> is a spelling in the grammar of
  escaped identifiers, of one name only, and that name in lower case is among the identifiers every
  gate and the lineage backstop see.
\<close>

theorem unicode_spelling_cannot_hide_a_name:
  assumes "scan_identifiers ft sql = Some ids" and "scan_sql ft sql = Some ts" and "t \<in> set ts"
    and "get_str sql (tok_start t) (tok_end t) = Some (pre @ 34 # b @ [34])"
    and "pre = str ''u&'' \<or> pre = str ''U&''"
  shows "\<exists>name. (\<forall>n. spelled b n \<longleftrightarrow> n = name) \<and> to_ascii_lowercase name \<in> set ids"
proof -
  obtain ns where ns: "all_some (map (token_names ft sql) ts) = Some ns" "ids = concat ns"
    using assms(1,2) by (auto simp: scan_identifiers_def)
  then obtain found where found: "token_names ft sql t = Some found" "found \<in> set ns"
    using all_some_member [OF ns(1), of "token_names ft sql t"] assms(3) by auto
  then have "map_option (\<lambda>n. [n]) (map_option to_ascii_lowercase (decode_unicode_ident_body 92 b)) = Some found"
    using assms(4) unicode_ident_decoded [OF assms(5), of b] by (simp add: token_names_def split: if_splits)
  then obtain name where "decode_unicode_ident_body 92 b = Some name" "found = [to_ascii_lowercase name]"
    by auto
  with found(2) ns(2) show ?thesis by (intro exI [of _ name]) (force simp: decode_iff_spelled [symmetric])
qed

text \<open>The text \<open>U&"\0061"\<close>, one token.\<close>

definition sample_escaped :: rstring where
  "sample_escaped = str ''U&'' @ 34 # [92, 48, 48, 54, 49] @ [34]"

definition sample_scanner :: frontend_tools where
  "sample_scanner = \<lparr>parse_sql = (\<lambda>_. None), scan_sql = (\<lambda>_. Some [\<lparr>token_kind = Uident, tok_start = 0, tok_end = 9\<rparr>]),
     lineage_analyze = (\<lambda>_ _. None), is_alphabetic = (\<lambda>_. False), is_alphanumeric = (\<lambda>_. False)\<rparr>"

lemma sample_token_text: "get_str sample_escaped 0 9 = Some (str ''U&'' @ 34 # [92, 48, 48, 54, 49] @ [34])"
  by (simp add: get_str_def sample_escaped_def as_bytes_def utf8_char_def is_char_boundary_def is_cont_def
      utf8_next.simps str_def Let_def)

lemma sample_escaped_decoded: "decode_unicode_ident_body 92 [92, 48, 48, 54, 49] = Some [97]"
proof -
  have "hex_number [48, 48, 54, 49] 97" and "is_scalar 97"
    by (simp_all add: hex_number_def is_scalar_def to_digit_def)
  then have "spelled (92 # [48, 48, 54, 49] @ []) [97]" by (intro spelled_four spelled_end) simp_all
  then show ?thesis by (simp add: decode_iff_spelled)
qed

lemma sample_escaped_scanned: "scan_identifiers sample_scanner sample_escaped = Some [[97]]"
proof -
  have "token_names sample_scanner sample_escaped \<lparr>token_kind = Uident, tok_start = 0, tok_end = 9\<rparr> = Some [[97]]"
    using sample_token_text unicode_ident_decoded [of "str ''U&''" "[92, 48, 48, 54, 49]"]
    by (simp add: token_names_def sample_escaped_decoded to_ascii_lowercase_def)
  then show ?thesis by (simp add: scan_identifiers_def sample_scanner_def)
qed

theorem unicode_spelling_cannot_hide_a_name_witness:
  "\<exists>name. spelled [92, 48, 48, 54, 49] name \<and> to_ascii_lowercase name \<in> set [[97]]"
proof -
  have "scan_sql sample_scanner sample_escaped = Some [\<lparr>token_kind = Uident, tok_start = 0, tok_end = 9\<rparr>]"
    by (simp add: sample_scanner_def)
  from unicode_spelling_cannot_hide_a_name [OF sample_escaped_scanned this, of "\<lparr>token_kind = Uident, tok_start = 0, tok_end = 9\<rparr>"
      "str ''U&''" "[92, 48, 48, 54, 49]"] sample_token_text
  show ?thesis by auto
qed

end
