(* ===== verification/Hostile_Facts.thy ===== *)
theory Hostile_Facts
  imports Sql_Inspection
begin

text \<open>
  The hostile posture's accounting of masked names, and where its lookup of a relation by a bare
  name depends on the order of a map.
\<close>

section \<open>Every mention is accounted for\<close>

lemma count_name_append: "count_name name (xs @ ys) = count_name name xs + count_name name ys"
  by (simp add: count_name_def)

text \<open>Tokens and tree both stay within what the outer projection and the simple sort keys use up.\<close>

definition mentions_within :: "parsed \<Rightarrow> rstring list \<Rightarrow> rstring list \<Rightarrow> rstring \<Rightarrow> bool" where
  "mentions_within p ids proj name \<longleftrightarrow>
     count_name name ids \<le> count_name name proj + count_name name (simple_masked_order_by_credits p) \<and>
     count_name name (mentions (visited p)) \<le> count_name name proj + count_name name (simple_masked_order_by_credits p)"

lemma mention_count_within:
  "mention_count p ids name - count_name name (simple_masked_order_by_credits p) \<le> count_name name proj \<longleftrightarrow>
   mentions_within p ids proj name"
  by (auto simp: mention_count_def mentions_within_def)

lemma exceeds_iff:
  "\<not> sql_masked_exceeds_outer_projection (Some p) (Some ids) masked \<longleftrightarrow>
     (\<forall>name \<in> set masked. mention_count p ids name = 0 \<or>
        (\<exists>proj. outer_bare_projection_counts p = Some proj \<and> mentions_within p ids proj name))"
proof -
  define hit where "hit = filter (\<lambda>name. mention_count p ids name > 0) masked"
  have members: "set hit = {name \<in> set masked. mention_count p ids name \<noteq> 0}" by (auto simp: hit_def)
  show ?thesis
  proof (cases "hit = []")
    case True
    then show ?thesis using members
      by (auto simp: sql_masked_exceeds_outer_projection_def Let_def hit_def [symmetric])
  next
    case False
    then have "masked \<noteq> []" by (auto simp: hit_def)
    with False have "\<not> sql_masked_exceeds_outer_projection (Some p) (Some ids) masked \<longleftrightarrow>
        (\<exists>proj. outer_bare_projection_counts p = Some proj \<and> (\<forall>name \<in> set hit. mentions_within p ids proj name))"
      by (auto simp: sql_masked_exceeds_outer_projection_def Let_def hit_def [symmetric] list_ex_iff not_less
          mention_count_within split: option.split)
    moreover obtain h where "h \<in> set hit" using False by (cases hit) auto
    ultimately show ?thesis using members by (cases "outer_bare_projection_counts p") auto
  qed
qed


text \<open>\<open>SELECT email FROM t ORDER BY email\<close>.\<close>

definition sample_sorted :: parsed where
  "sample_sorted =
     (let ref = ColumnRef [Some (StringNode (str ''email''))];
          sel = SelectStmt (Select True None None [Some (ResTarget [] (Some ref))] [Some (RangeVar [] (str ''t'') None)]
                  [] [Some (SortBy (Some ref))] [] [] [] False False)
      in \<lparr>stmts = [Some sel], walk_tree = (\<lambda>n. [n, ref, ref])\<rparr>)"

lemma sample_sorted_counts:
  "outer_bare_projection_counts sample_sorted = Some [str ''email'']"
  "simple_masked_order_by_credits sample_sorted = [str ''email'']"
  "mentions (visited sample_sorted) = [str ''email'', str ''email'']"
  by code_simp+


section \<open>Relations of the same name\<close>

text \<open>
  A relation named without its schema is looked up by the suffix of the catalog's names, and the
  first match of the map's iteration decides. With two relations of one name, of which one has a
  masked column, the same catalog refuses or allows a renaming alias depending on that order.
\<close>

definition renaming_alias :: parsed where
  "renaming_alias =
     (let range = RangeVar [] (str ''t'') (Some (Alias (str ''x'') [Some (StringNode (str ''c1''))]))
      in \<lparr>stmts = [Some (SelectStmt (Select True None None [] [Some range] [] [] [] [] [] False False))],
          walk_tree = (\<lambda>n. [n, range])\<rparr>)"

lemma bare_relation_depends_on_map_order:
  "sql_hostile_join_or_rename_masked (Some renaming_alias)
     [(str ''a.t'', [str ''email'']), (str ''b.t'', [str ''id''])] [str ''email'']"
  "\<not> sql_hostile_join_or_rename_masked (Some renaming_alias)
     [(str ''b.t'', [str ''id'']), (str ''a.t'', [str ''email''])] [str ''email'']"
  by code_simp+

end
