(* ===== verification/Classifier.thy ===== *)
theory Classifier
  imports Catalog_Live
begin

text \<open>
  The catalog generator and drift gate (\<open>crates/classify/src/main.rs\<close>): shape detectors, the name
  rules, what a sample may conclude, the catalog it prints, and \<open>--check\<close>. The regex engine, the
  floating-point rate and the sampled rows are parameters; the mask capability table is the proxy's.
\<close>

section \<open>Shapes of values\<close>

definition contains :: "rstring \<Rightarrow> rstring \<Rightarrow> bool" where
  "contains t pat = list_ex (\<lambda>k. take (length pat) (drop k t) = pat) [0 ..< length t + 1]"

definition looks_like_email :: "rstring \<Rightarrow> bool" where
  "looks_like_email v =
     (case split_once 64 (trim v) of
        Some (l, d) \<Rightarrow> l \<noteq> [] \<and> 46 \<in> set d \<and> take 1 d \<noteq> [46]
      | None \<Rightarrow> False)"

definition looks_like_ip :: "rstring \<Rightarrow> bool" where
  "looks_like_ip v \<longleftrightarrow> parse_ipv4 (trim v) \<noteq> None \<or> parse_ipv6 (trim v) \<noteq> None"

definition looks_like_phone :: "rstring \<Rightarrow> bool" where
  "looks_like_phone v \<longleftrightarrow>
     (let digits = length (filter is_ascii_digit v)
      in 7 \<le> digits \<and> digits \<le> 15 \<and> list_all (\<lambda>c. is_ascii_digit c \<or> c \<in> set (str '' ()+-.'')) v)"

text \<open>\<open>u32\<close> arithmetic that saturates.\<close>

definition u32_max :: nat where
  "u32_max = 2 ^ 32 - 1"

definition sat_add :: "nat \<Rightarrow> nat \<Rightarrow> nat" where
  "sat_add a b = min u32_max (a + b)"

definition sat_mul :: "nat \<Rightarrow> nat \<Rightarrow> nat" where
  "sat_mul a b = min u32_max (a * b)"

text \<open>All digits, or none at all when a character is not one.\<close>

definition digits_or_none :: "rstring \<Rightarrow> nat list" where
  "digits_or_none t = (case those (map (to_digit 10) t) of Some ds \<Rightarrow> ds | None \<Rightarrow> [])"

definition DOUBLED :: "nat list" where
  "DOUBLED = [0, 2, 4, 6, 8, 1, 3, 5, 7, 9]"

definition luhn_contribution :: "nat \<times> nat \<Rightarrow> nat" where
  "luhn_contribution = (\<lambda>(i, digit).
     if i mod 2 = 1 then (if digit < length DOUBLED then DOUBLED ! digit else 0) else digit)"

definition looks_like_card :: "rstring \<Rightarrow> bool" where
  "looks_like_card v =
     (let digits = digits_or_none (filter (\<lambda>c. c \<noteq> 32 \<and> c \<noteq> 45) v)
      in if length digits < 13 \<or> 19 < length digits then False
         else foldl (\<lambda>sum entry. sat_add sum (luhn_contribution entry)) 0 (List.enumerate 0 (rev digits)) mod 10 = 0)"

definition to_ascii_uppercase :: "nat \<Rightarrow> nat" where
  "to_ascii_uppercase c = (if 97 \<le> c \<and> c \<le> 122 then c - 32 else c)"

definition is_ascii_alphabetic :: "nat \<Rightarrow> bool" where
  "is_ascii_alphabetic c \<longleftrightarrow> 65 \<le> c \<and> c \<le> 90 \<or> 97 \<le> c \<and> c \<le> 122"

definition iban_step :: "nat \<Rightarrow> nat \<Rightarrow> nat" where
  "iban_step remainder c =
     (let part = (case to_digit 36 c of Some d \<Rightarrow> d | None \<Rightarrow> 0);
          shift = (if part < 10 then 10 else 100)
      in sat_add (sat_mul remainder shift) part mod 97)"

definition looks_like_iban :: "rstring \<Rightarrow> bool" where
  "looks_like_iban v =
     (let upper = map to_ascii_uppercase (filter (\<lambda>c. c \<noteq> 32) v)
      in if length upper < 15 \<or> 34 < length upper \<or> \<not> list_all is_ascii_alphabetic (take 2 upper) \<or>
            \<not> list_all is_ascii_digit (take 2 (drop 2 upper)) \<or>
            \<not> list_all (\<lambda>c. is_ascii_alphabetic c \<or> is_ascii_digit c) upper
         then False
         else foldl iban_step 0 (drop 4 upper @ take 4 upper) = 1)"

definition looks_like_ssn :: "rstring \<Rightarrow> bool" where
  "looks_like_ssn v =
     (let digits = digits_or_none (filter (\<lambda>c. c \<noteq> 45 \<and> c \<noteq> 32) (trim v));
          number = (\<lambda>skip n. foldl (\<lambda>acc d. sat_add (sat_mul acc 10) d) 0 (take n (drop skip digits)));
          area = number 0 3; grp = number 3 2; serial = number 5 4
      in if length digits \<noteq> 9 then False
         else area \<noteq> 0 \<and> area \<noteq> 666 \<and> area < 900 \<and> grp \<noteq> 0 \<and> serial \<noteq> 0)"

definition detectors :: "(rstring \<times> (rstring \<Rightarrow> bool)) list" where
  "detectors =
     [(str ''payment'', looks_like_card), (str ''payment'', looks_like_iban), (str ''national_id'', looks_like_ssn),
      (str ''email'', looks_like_email), (str ''ip_address'', looks_like_ip), (str ''phone'', looks_like_phone)]"

section \<open>Rules\<close>

datatype confidence = Clear | Likely | NeedsReview | Ordinary

record name_rule =
  nr_semantic_type :: rstring
  nr_mask :: rstring
  nr_pattern :: rstring
  nr_validator :: "(rstring \<Rightarrow> bool) option"
  ambiguous :: "rstring option"

definition sure :: "string \<Rightarrow> string \<Rightarrow> string \<Rightarrow> (rstring \<Rightarrow> bool) option \<Rightarrow> name_rule" where
  "sure ty mk pat check =
     \<lparr>nr_semantic_type = str ty, nr_mask = str mk, nr_pattern = str pat, nr_validator = check, ambiguous = None\<rparr>"

definition unsure :: "string \<Rightarrow> string \<Rightarrow> string \<Rightarrow> rstring \<Rightarrow> name_rule" where
  "unsure ty mk pat why =
     \<lparr>nr_semantic_type = str ty, nr_mask = str mk, nr_pattern = str pat, nr_validator = None, ambiguous = Some why\<rparr>"

definition rules :: "name_rule list" where
  "rules =
     [sure ''secret'' ''null'' ''password|passwd|secret|token|api_key|apikey|private_key|salt$|_hash$'' None,
      sure ''national_id'' ''null'' ''ssn|social_security|passport|national_id|tax_id|nino'' None,
      sure ''payment'' ''null'' ''card_number|cardnum|ccn|iban|bank_account|account_number|routing'' None,
      sure ''email'' ''pseudonym'' ''e_?mail'' (Some looks_like_email),
      sure ''phone'' ''partial'' ''phone|mobile|telephone|^fax'' (Some looks_like_phone),
      sure ''person_name'' ''redact'' ''first_name|last_name|given_name|family_name|surname|full_name|contact_name|person_name|owner_name|customer_name|employee_name'' None,
      sure ''street_address'' ''redact'' ''street|address_line|addr_line|^address$|^addr$'' None,
      sure ''postal_code'' ''range'' ''zip|postal|postcode'' None,
      sure ''birth_date'' ''date-year'' ''birth_date|birth_dt|date_of_birth|^dob$|_dob$|birthday'' None,
      sure ''compensation'' ''numeric-bucket'' ''salary|compensation|wage|income|bonus|commission'' None,
      sure ''ip_address'' ''ip-prefix'' ''(^|_)ip_addr|_ip$|^ip$|client_ip|remote_addr'' (Some looks_like_ip),
      sure ''geo'' ''numeric-bucket'' ''latitude|longitude|^lat$|^lon$|^lng$'' None,
      sure ''free_text'' ''null'' ''notes?$|comment|description|body|message|content|remarks'' None,
      unsure ''person_name'' ''redact'' ''^name$|^who$|manager|recipient|^contact$|user_name|login_name|display_name|screen_name'' (str ''could be a person or an organisation '' @ [0x2014] @ str '' only you know which''),
      unsure ''account_id'' ''pseudonym'' ''_uuid$|^uuid$|_guid$|^guid$|external_id|_ref$|(customer|user|account|member|person|employee|patient)_id'' (str ''an opaque identifier: pseudonymising keeps joins and drops the handle''),
      unsure ''demographic'' ''null'' ''gender|marital|ethnic|^race$|religio|disabilit|educatio|citizenship|veteran|credit_rating'' (str ''special-category or quasi-identifying; nulling it may break the workload''),
      unsure ''quasi_identifier'' ''null'' ''birth'' (str ''part of a birth date; day, month and year together re-identify''),
      unsure ''birth_date'' ''date-year'' ''^age$|_age$'' (str ''an age re-identifies in combination; bucket it or accept it''),
      unsure ''geo'' ''redact'' ''^city$|_city$|^state$|_state$|^province|_province$|^county$|_county$'' (str ''coarse location, but rare values still single people out''),
      unsure ''free_text'' ''null'' ''url$|_uri$|link$|referrer|user_agent'' (str ''can carry identity in a query string or a fingerprint'')]"

definition width_permits :: "rstring \<Rightarrow> int option \<Rightarrow> bool" where
  "width_permits ty max_length =
     (case max_length of
        None \<Rightarrow> True
      | Some len \<Rightarrow>
          len \<ge> (if ty = str ''email'' then 6 else if ty = str ''phone'' then 7
                 else if ty = str ''street_address'' then 3 else if ty = str ''person_name'' then 2
                 else if ty = str ''ip_address'' then 7
                 else if ty = str ''national_id'' \<or> ty = str ''payment'' then 8 else 1))"

fun mask_name :: "mask \<Rightarrow> rstring" where
  "mask_name MNone = str ''none''"
| "mask_name MNull = str ''null''"
| "mask_name Redact = str ''redact''"
| "mask_name Partial = str ''partial''"
| "mask_name Inner = str ''inner''"
| "mask_name Outer = str ''outer''"
| "mask_name Range = str ''range''"
| "mask_name Hash = str ''hash''"
| "mask_name Pseudonym = str ''pseudonym''"
| "mask_name DateYear = str ''date-year''"
| "mask_name DateMonth = str ''date-month''"
| "mask_name NumericBucket = str ''numeric-bucket''"
| "mask_name IpPrefix = str ''ip-prefix''"
| "mask_name Scrub = str ''scrub''"
| "mask_name Json = str ''json''"

definition mask_kind :: "rstring \<Rightarrow> mask option" where
  "mask_kind name = map_of
     [(str ''none'', MNone), (str ''null'', MNull), (str ''redact'', Redact), (str ''partial'', Partial),
      (str ''inner'', Inner), (str ''outer'', Outer), (str ''range'', Range), (str ''hash'', Hash),
      (str ''pseudonym'', Pseudonym), (str ''date-year'', DateYear), (str ''date-month'', DateMonth),
      (str ''numeric-bucket'', NumericBucket), (str ''ip-prefix'', IpPrefix), (str ''scrub'', Scrub),
      (str ''json'', Json)] name"

definition type_oid :: "rstring \<Rightarrow> u32 option" where
  "type_oid data_type = map_of
     [(str ''text'', 25), (str ''name'', 19), (str ''character varying'', OID_VARCHAR), (str ''character'', OID_BPCHAR),
      (str ''uuid'', OID_UUID), (str ''date'', OID_DATE), (str ''timestamp without time zone'', OID_TIMESTAMP),
      (str ''timestamp with time zone'', OID_TIMESTAMPTZ), (str ''inet'', OID_INET), (str ''cidr'', OID_CIDR),
      (str ''smallint'', OID_INT2), (str ''integer'', OID_INT4), (str ''bigint'', OID_INT8), (str ''real'', OID_FLOAT4),
      (str ''double precision'', OID_FLOAT8), (str ''numeric'', OID_NUMERIC), (str ''json'', OID_JSON),
      (str ''jsonb'', OID_JSONB)] data_type"

definition mask_fits :: "rstring \<Rightarrow> rstring \<Rightarrow> bool" where
  "mask_fits m data_type =
     (case mask_kind m of
        None \<Rightarrow> False
      | Some k \<Rightarrow>
          if k = MNone \<or> k = MNull then True
          else (case type_oid data_type of
                  None \<Rightarrow> False
                | Some oid \<Rightarrow> supports (spec_new k) oid FORMAT_TEXT))"

section \<open>Proposals\<close>

record live_column =
  lc_schema :: rstring
  lc_table :: rstring
  lc_name :: rstring
  lc_data_type :: rstring
  lc_max_length :: "int option"

record proposal =
  pr_column :: live_column
  pr_semantic_type :: "rstring option"
  pr_mask :: rstring
  pr_confidence :: confidence
  pr_note :: "rstring option"
  refuted_by_width :: bool

text \<open>
  The regex engine; whether \<open>matching / checked * 100.0 >= 80.0\<close>; and that rate as \<open>{:.0}\<close> prints it.
\<close>

record classifier_env =
  is_match :: "rstring \<Rightarrow> rstring \<Rightarrow> bool"
  confirms :: "nat \<Rightarrow> nat \<Rightarrow> bool"
  show_rate :: "nat \<Rightarrow> nat \<Rightarrow> rstring"

definition find_rule :: "classifier_env \<Rightarrow> name_rule list \<Rightarrow> live_column \<Rightarrow> name_rule option" where
  "find_rule e rs c = List.find (\<lambda>r. is_match e (nr_pattern r) (to_ascii_lowercase (lc_name c))) rs"

definition propose_by_rule :: "name_rule option \<Rightarrow> rstring option \<times> rstring \<times> confidence \<times> rstring option" where
  "propose_by_rule matched =
     (case matched of
        Some r \<Rightarrow>
          if ambiguous r \<noteq> None then (Some (nr_semantic_type r), nr_mask r, NeedsReview, ambiguous r)
          else if nr_semantic_type r = str ''free_text''
          then (Some (nr_semantic_type r), nr_mask r, NeedsReview,
                Some (str ''free text can hold anything; decide deliberately''))
          else (Some (nr_semantic_type r), nr_mask r, Likely, None)
      | None \<Rightarrow> (None, str ''none'', Ordinary, None))"

definition too_narrow_note :: "rstring \<Rightarrow> live_column \<Rightarrow> rstring" where
  "too_narrow_note ty c =
     str ''name suggests '' @ ty @ str '', but '' @ lc_data_type c @ str ''('' @
     int_to_string (case lc_max_length c of Some n \<Rightarrow> n | None \<Rightarrow> 0) @ str '') is too narrow to hold one''"

definition unfit_note :: "rstring \<Rightarrow> rstring \<Rightarrow> live_column \<Rightarrow> rstring" where
  "unfit_note ty m c =
     str ''name suggests '' @ ty @ str '', but a `'' @ m @ str ''` mask cannot apply to '' @ lc_data_type c @
     str '' '' @ [0x2014] @ str '' pick another''"

definition classify_by_name :: "classifier_env \<Rightarrow> name_rule list \<Rightarrow> live_column \<Rightarrow> proposal" where
  "classify_by_name e rs c =
     (case propose_by_rule (find_rule e rs c) of
        (ty, m, conf, note_text) \<Rightarrow>
          let p = \<lparr>pr_column = c, pr_semantic_type = ty, pr_mask = m, pr_confidence = conf, pr_note = note_text,
                   refuted_by_width = False\<rparr>
          in case ty of
               None \<Rightarrow> p
             | Some t \<Rightarrow>
                 if \<not> width_permits t (lc_max_length c)
                 then p\<lparr>pr_semantic_type := None, pr_confidence := Ordinary, pr_note := Some (too_narrow_note t c),
                        refuted_by_width := True\<rparr>
                 else if \<not> mask_fits m (lc_data_type c)
                 then p\<lparr>pr_confidence := NeedsReview, pr_note := Some (unfit_note t m c)\<rparr>
                 else p)"

definition confidence_after_sampling :: "classifier_env \<Rightarrow> nat \<Rightarrow> nat \<Rightarrow> bool \<Rightarrow> confidence" where
  "confidence_after_sampling e matching checked mask_fits_type =
     (if confirms e matching checked \<and> mask_fits_type then Clear else NeedsReview)"

section \<open>Sampling\<close>

text \<open>The rows of one sample; \<open>None\<close> is a failed query, and a row may be unreadable.\<close>

type_synonym sample_rows = "rstring option list option"

definition count_matching :: "(rstring \<Rightarrow> bool) \<Rightarrow> rstring option list \<Rightarrow> nat" where
  "count_matching check rows = length (filter (\<lambda>v. case v of Some s \<Rightarrow> check s | None \<Rightarrow> False) rows)"

definition sample_column :: "sample_rows \<Rightarrow> (rstring \<Rightarrow> bool) \<Rightarrow> (nat \<times> nat) option" where
  "sample_column rows check = map_option (\<lambda>rs. (length rs, count_matching check rs)) rows"

definition sample_shapes :: "classifier_env \<Rightarrow> sample_rows \<Rightarrow> (rstring \<times> nat \<times> nat) list" where
  "sample_shapes e rows =
     (case rows of
        None \<Rightarrow> []
      | Some rs \<Rightarrow>
          if length rs < 20 then []
          else List.map_filter (\<lambda>(label, check).
                 (let n = count_matching check rs
                  in if confirms e n (length rs) then Some (label, n, length rs) else None)) detectors)"

definition sampled_note :: "classifier_env \<Rightarrow> nat \<Rightarrow> nat \<Rightarrow> rstring \<Rightarrow> rstring" where
  "sampled_note e matching checked ty =
     show_rate e matching checked @ str ''% of '' @ int_to_string (int checked) @
     str '' sampled values matched the '' @ ty @ str '' shape''"

definition confirm_by_sample :: "classifier_env \<Rightarrow> name_rule list \<Rightarrow> sample_rows \<Rightarrow> proposal \<Rightarrow> proposal" where
  "confirm_by_sample e rs rows p =
     (case find_rule e rs (pr_column p) of
        None \<Rightarrow> p
      | Some r \<Rightarrow>
          (case nr_validator r of
             None \<Rightarrow> p
           | Some check \<Rightarrow>
               (case sample_column rows check of
                  None \<Rightarrow> p
                | Some (checked, matching) \<Rightarrow>
                    if checked = 0 then p
                    else (let fits = mask_fits (pr_mask p) (lc_data_type (pr_column p));
                              sampled = sampled_note e matching checked (nr_semantic_type r)
                          in p\<lparr>pr_confidence := confidence_after_sampling e matching checked fits,
                               pr_note := Some (case pr_note p of
                                  Some existing \<Rightarrow> if \<not> fits then existing @ str ''; '' @ sampled else sampled
                                | None \<Rightarrow> sampled)\<rparr>))))"

definition join_labels :: "rstring \<Rightarrow> rstring list \<Rightarrow> rstring" where
  "join_labels sep parts =
     (case parts of [] \<Rightarrow> [] | p # ps \<Rightarrow> p @ concat (map (\<lambda>q. sep @ q) ps))"

text \<open>Labels without duplicates, in the order of their first occurrence.\<close>

fun first_occurrences :: "'a list \<Rightarrow> 'a list" where
  "first_occurrences [] = []"
| "first_occurrences (x # xs) = x # filter (\<lambda>y. y \<noteq> x) (first_occurrences xs)"

definition discovered_note :: "classifier_env \<Rightarrow> nat \<Rightarrow> nat \<Rightarrow> rstring list \<Rightarrow> rstring" where
  "discovered_note e matching checked labels =
     str ''the name suggests nothing, but '' @ show_rate e matching checked @ str ''% of '' @
     int_to_string (int checked) @ str '' sampled values look like '' @
     join_labels (str '' or '') (first_occurrences labels) @
     str ''; proposed `null` because content alone cannot tell these apart '' @ [0x2014] @
     str '' narrow it deliberately once you know which it is''"

definition discover_by_content :: "classifier_env \<Rightarrow> sample_rows \<Rightarrow> proposal \<Rightarrow> proposal" where
  "discover_by_content e rows p =
     (case sample_shapes e rows of
        [] \<Rightarrow> p
      | (label, matching, checked) # more_shapes \<Rightarrow>
          p\<lparr>pr_semantic_type := Some (str ''unidentified''), pr_mask := str ''null'', pr_confidence := NeedsReview,
             pr_note := Some (discovered_note e matching checked
               (map fst ((label, matching, checked) # more_shapes)))\<rparr>)"

definition texty :: "live_column \<Rightarrow> bool" where
  "texty c = (let d = to_ascii_lowercase (lc_data_type c) in contains d (str ''char'') \<or> contains d (str ''text''))"

text \<open>One column through the tool; \<open>sampler\<close> reads a column's rows.\<close>

definition propose :: "classifier_env \<Rightarrow> nat \<Rightarrow> (live_column \<Rightarrow> sample_rows) \<Rightarrow> live_column \<Rightarrow> proposal" where
  "propose e sample_size sampler c =
     (let p = classify_by_name e rules c;
          p1 = (if sample_size > 0 \<and> \<not> refuted_by_width p then confirm_by_sample e rules (sampler c) p else p)
      in if sample_size > 0 \<and> pr_semantic_type p1 = None \<and> \<not> refuted_by_width p1 \<and> texty c
         then discover_by_content e (sampler c) p1 else p1)"

section \<open>The printed catalog\<close>

definition is_control :: "nat \<Rightarrow> bool" where
  "is_control c \<longleftrightarrow> c < 32 \<or> 127 \<le> c \<and> c < 160"

definition hex_upper :: "nat \<Rightarrow> nat" where
  "hex_upper d = (if d < 10 then 48 + d else 55 + d)"

definition toml_char :: "nat \<Rightarrow> rstring" where
  "toml_char c =
     (if c = 34 then [92, 34] else if c = 92 then [92, 92] else if c = 8 then [92, 98]
      else if c = 9 then [92, 116] else if c = 10 then [92, 110] else if c = 12 then [92, 102]
      else if c = 13 then [92, 114]
      else if is_control c
      then [92, 117, hex_upper (c div 4096 mod 16), hex_upper (c div 256 mod 16), hex_upper (c div 16 mod 16), hex_upper (c mod 16)]
      else [c])"

definition toml_basic_string :: "rstring \<Rightarrow> rstring" where
  "toml_basic_string v = 34 # concat (map toml_char v) @ [34]"

text \<open>The mask of each type, the last proposal deciding; a \<open>BTreeMap\<close> iterates in the order of its keys.\<close>

definition emitted_types :: "proposal list \<Rightarrow> (rstring \<times> rstring) list" where
  "emitted_types ps =
     (let pairs = List.map_filter (\<lambda>p. map_option (\<lambda>t. (t, pr_mask p)) (pr_semantic_type p)) ps
      in map (\<lambda>t. (t, the (map_of (rev pairs) t))) (sort (remdups (map fst pairs))))"

definition type_block :: "rstring \<times> rstring \<Rightarrow> rstring list" where
  "type_block = (\<lambda>(name, m).
     [str ''[[semantic_type]]'', str ''name = '' @ 34 # name @ [34], str ''mask = '' @ 34 # m @ [34]] @
     (if m = str ''numeric-bucket'' then [str ''bucket = 1000        # pick a real bucket before using this''] else []) @
     (if m = str ''partial'' then [str ''keep = 4            # how many trailing characters to reveal''] else []) @
     (if m = str ''range''
      then [str ''start = 2'', str ''end = 64           # clamped to the value: keeps the first 2''] else []) @
     [[]])"

definition qualified_table :: "live_column \<Rightarrow> rstring" where
  "qualified_table c = lc_schema c @ 46 # lc_table c"

definition column_line :: "proposal \<Rightarrow> rstring list" where
  "column_line p =
     (case pr_semantic_type p of
        None \<Rightarrow> []
      | Some t \<Rightarrow>
          [toml_basic_string (lc_name (pr_column p)) @ str '' = { type = '' @ toml_basic_string t @ str '' }'' @
           (if pr_confidence p = NeedsReview then str '' # NEEDS REVIEW'' else [])])"

definition relation_block :: "proposal list \<Rightarrow> rstring \<Rightarrow> rstring list" where
  "relation_block ps relation =
     [str ''[columns.'' @ toml_basic_string relation @ str '']''] @
     concat (map column_line (filter (\<lambda>p. qualified_table (pr_column p) = relation) ps)) @ [[]]"

definition emit_catalog :: "proposal list \<Rightarrow> rstring \<Rightarrow> rstring list" where
  "emit_catalog ps schema =
     [str ''# Catalog draft for schema `'' @ schema @ str ''`, generated by `classify`.'', str ''#'',
      str ''# A proposal, not an answer. Every entry marked NEEDS REVIEW in the'',
      str ''# report needs a decision, and every column absent from this file is'',
      str ''# masked by default-deny rather than deliberately.'', []] @
     concat (map type_block (emitted_types ps)) @
     concat (map (relation_block ps)
       (sort (remdups (map (\<lambda>p. qualified_table (pr_column p)) (filter (\<lambda>p. pr_semantic_type p \<noteq> None) ps)))))"

section \<open>The drift gate\<close>

definition column_key :: "proposal \<Rightarrow> rstring \<times> rstring" where
  "column_key p = (qualified_table (pr_column p), lc_name (pr_column p))"

text \<open>Maps built by inserting in order: the last entry of a key stays.\<close>

definition effective_mask :: "config \<Rightarrow> column_rule \<Rightarrow> mask option" where
  "effective_mask cfg r =
     (case cr_mask r of
        Some m \<Rightarrow> Some m
      | None \<Rightarrow>
          Option.bind (cr_semantic_type r) (\<lambda>t.
            map_of (rev (map (\<lambda>s. (st_name s, st_mask s)) (cfg_semantic_type cfg))) t))"

definition live_type :: "proposal list \<Rightarrow> rstring \<times> rstring \<Rightarrow> rstring option" where
  "live_type ps = map_of (rev (map (\<lambda>p. (column_key p, lc_data_type (pr_column p))) ps))"

definition incompatible_rules :: "config \<Rightarrow> proposal list \<Rightarrow> column_rule list" where
  "incompatible_rules cfg ps =
     filter (\<lambda>r.
       case live_type ps (cr_relation r, cr_column r) of
         None \<Rightarrow> False
       | Some data_type \<Rightarrow>
           (case effective_mask cfg r of Some m \<Rightarrow> \<not> mask_fits (mask_name m) data_type | None \<Rightarrow> False)) (column_rules cfg)"

definition in_schema :: "rstring \<Rightarrow> rstring \<Rightarrow> bool" where
  "in_schema schema relation \<longleftrightarrow> take (length schema + 1) relation = schema @ [46]"

definition stale_rules :: "config \<Rightarrow> rstring \<Rightarrow> proposal list \<Rightarrow> (rstring \<times> rstring) list" where
  "stale_rules cfg schema ps =
     filter (\<lambda>k. in_schema schema (fst k) \<and> k \<notin> set (map column_key ps))
       (remdups (map (\<lambda>r. (cr_relation r, cr_column r)) (column_rules cfg)))"

definition unclassified_columns :: "config \<Rightarrow> proposal list \<Rightarrow> (rstring \<times> rstring) list" where
  "unclassified_columns cfg ps =
     filter (\<lambda>k. k \<notin> set (map (\<lambda>r. (cr_relation r, cr_column r)) (column_rules cfg))) (remdups (map column_key ps))"

definition released_but_sensitive ::
  "classifier_env \<Rightarrow> (live_column \<Rightarrow> sample_rows) \<Rightarrow> config \<Rightarrow> rstring \<Rightarrow> proposal list \<Rightarrow> column_rule list" where
  "released_but_sensitive e sampler cfg schema ps =
     filter (\<lambda>r.
       in_schema schema (cr_relation r) \<and> effective_mask cfg r = Some MNone \<and>
       (case List.find (\<lambda>p. column_key p = (cr_relation r, cr_column r)) ps of
          None \<Rightarrow> False
        | Some p \<Rightarrow> texty (pr_column p) \<and> sample_shapes e (sampler (pr_column p)) \<noteq> [])) (column_rules cfg)"

text \<open>How \<open>--check\<close> ends: two kinds of \<open>bail!\<close> besides the empty schema, \<open>exit(1)\<close>, or success.\<close>

datatype check_result = NothingToCheck | ReleasedSensitive nat | ServedInPlaintext nat | Drift | NoDrift

definition check ::
  "classifier_env \<Rightarrow> nat \<Rightarrow> (live_column \<Rightarrow> sample_rows) \<Rightarrow> config \<Rightarrow> rstring \<Rightarrow> proposal list \<Rightarrow> check_result" where
  "check e sample_size sampler cfg schema ps =
     (if ps = [] then NothingToCheck
      else (let released = (if sample_size = 0 then [] else released_but_sensitive e sampler cfg schema ps);
                unclassified = unclassified_columns cfg ps
            in if released \<noteq> [] then ReleasedSensitive (length released)
               else if cfg_unclassified cfg = UnclassifiedAllow \<and> unclassified \<noteq> []
               then ServedInPlaintext (length unclassified)
               else if unclassified = [] \<and> stale_rules cfg schema ps = [] \<and> incompatible_rules cfg ps = []
               then NoDrift else Drift))"

section \<open>Arguments\<close>

definition wants_flag :: "rstring list \<Rightarrow> rstring \<Rightarrow> rstring \<Rightarrow> bool" where
  "wants_flag args long short = list_ex (\<lambda>a. a = long \<or> a = short) (drop 1 args)"

definition wants_version :: "rstring list \<Rightarrow> bool" where
  "wants_version args = wants_flag args (str ''--version'') (str ''-V'')"

definition wants_help :: "rstring list \<Rightarrow> bool" where
  "wants_help args = wants_flag args (str ''--help'') (str ''-h'')"

fun arg :: "rstring list \<Rightarrow> rstring \<Rightarrow> rstring option" where
  "arg [] flag = None"
| "arg (a # args) flag = (if a = flag then (case args of [] \<Rightarrow> None | v # _ \<Rightarrow> Some v) else arg args flag)"

section \<open>One run\<close>

text \<open>\<open>str::parse::<usize>\<close> on a 64-bit machine.\<close>

definition parse_usize :: "rstring \<Rightarrow> nat option" where
  "parse_usize s =
     (let ds = (case s of c # r \<Rightarrow> if c = 43 then r else s | [] \<Rightarrow> [])
      in if ds = [] then None
         else Option.bind (value_of 10 0 ds) (\<lambda>v. if v < 2 ^ 64 then Some v else None))"

definition sample_arg :: "rstring list \<Rightarrow> nat" where
  "sample_arg args =
     (case Option.bind (arg args (str ''--sample'')) parse_usize of Some n \<Rightarrow> n | None \<Rightarrow> 0)"

definition schema_arg :: "rstring list \<Rightarrow> rstring" where
  "schema_arg args = (case arg args (str ''--schema'') of Some s \<Rightarrow> s | None \<Rightarrow> str ''public'')"

text \<open>The counts of the report, and the columns it asks a human about, in the order of the proposals.\<close>

record report_summary =
  counted :: "confidence \<Rightarrow> nat"
  too_narrow :: nat
  to_decide :: "(rstring \<times> rstring \<times> rstring) list"

definition report :: "proposal list \<Rightarrow> report_summary" where
  "report ps =
     \<lparr>counted = (\<lambda>k. length (filter (\<lambda>p. pr_confidence p = k) ps)),
      too_narrow = length (filter refuted_by_width ps),
      to_decide = map (\<lambda>p. (lc_table (pr_column p) @ 46 # lc_name (pr_column p), lc_data_type (pr_column p),
                            case pr_note p of Some n \<Rightarrow> n | None \<Rightarrow> []))
        (filter (\<lambda>p. pr_confidence p = NeedsReview) ps)\<rparr>"

text \<open>
  How a run ends. The database and the file system are parameters: the columns of a schema, the sample
  of a column under a row limit, and the catalog at a path.
\<close>

datatype outcome =
    ShowVersion
  | ShowUsage
  | NoDsn
  | NotListed
  | NoCatalogPath
  | NotLoaded
  | Checked check_result
  | Drafted report_summary "rstring list"

definition run_classifier ::
  "classifier_env \<Rightarrow> rstring option \<Rightarrow> (rstring \<Rightarrow> rstring \<Rightarrow> live_column list option) \<Rightarrow>
   (nat \<Rightarrow> live_column \<Rightarrow> sample_rows) \<Rightarrow> (rstring \<Rightarrow> config option) \<Rightarrow> rstring list \<Rightarrow> outcome" where
  "run_classifier e dsn list_columns sampler load args =
     (if wants_version args then ShowVersion
      else if wants_help args then ShowUsage
      else case dsn of
        None \<Rightarrow> NoDsn
      | Some d \<Rightarrow>
          let schema = schema_arg args; n = sample_arg args
          in case list_columns (fst (sanitize_catalog_dsn d)) schema of
               None \<Rightarrow> NotListed
             | Some cs \<Rightarrow>
                 let ps = map (propose e n (sampler n)) cs
                 in if list_ex (\<lambda>a. a = str ''--check'') args
                    then (case arg args (str ''--catalog'') of
                            None \<Rightarrow> NoCatalogPath
                          | Some path \<Rightarrow>
                              (case load path of
                                 None \<Rightarrow> NotLoaded
                               | Some cfg \<Rightarrow> Checked (check e n (sampler n) cfg schema ps)))
                    else Drafted (report ps) (emit_catalog ps schema))"

end
