(* ===== verification/Classifier_Facts.thy ===== *)
theory Classifier_Facts
  imports Classifier Policy_Facts
begin

text \<open>
  What the catalog generator and its drift gate promise: when \<open>--check\<close> passes, what a sample may
  conclude, that the payment detectors are checksums, and that the printed names read back.
\<close>

section \<open>Masks and their names\<close>

lemma mask_kind_name [simp]: "mask_kind (mask_name m) = Some m"
  by (cases m) (simp_all add: mask_kind_def str_def)

lemma mask_fits_name:
  "mask_fits (mask_name m) ty \<longleftrightarrow>
     m = MNone \<or> m = MNull \<or> (\<exists>oid. type_oid ty = Some oid \<and> supports (spec_new m) oid FORMAT_TEXT)"
  by (auto simp: mask_fits_def split: option.split)

lemma rule_masks_are_known: "\<forall>r \<in> set rules. mask_kind (nr_mask r) \<noteq> None"
  by (simp add: rules_def sure_def unsure_def mask_kind_def str_def)

lemma no_rule_is_unidentified: "\<forall>r \<in> set rules. nr_semantic_type r \<noteq> str ''unidentified''"
  by (simp add: rules_def sure_def unsure_def str_def)

lemma validated_rules_are_sure:
  "\<forall>r \<in> set rules. nr_validator r \<noteq> None \<longrightarrow> ambiguous r = None \<and> nr_semantic_type r \<noteq> str ''free_text''"
  by (simp add: rules_def sure_def unsure_def str_def)

text \<open>Every shape that can confirm a name is also looked for under a name that says nothing.\<close>

lemma validators_are_detectors: "\<forall>r \<in> set rules. \<forall>v. nr_validator r = Some v \<longrightarrow> v \<in> snd ` set detectors"
  by (simp add: rules_def sure_def unsure_def detectors_def)

section \<open>What a sample may conclude\<close>

lemma find_rule_in: "find_rule e rs c = Some r \<Longrightarrow> r \<in> set rs"
  by (auto simp: find_rule_def find_Some_iff)

lemma classify_column [simp]: "pr_column (classify_by_name e rs c) = c"
  by (simp add: classify_by_name_def Let_def split: prod.split option.split)

lemma classify_not_clear: "pr_confidence (classify_by_name e rs c) \<noteq> Clear"
  by (simp add: classify_by_name_def propose_by_rule_def Let_def split: option.split)

lemma classify_refuted:
  "refuted_by_width (classify_by_name e rs c) \<Longrightarrow> pr_semantic_type (classify_by_name e rs c) = None"
  by (auto simp: classify_by_name_def propose_by_rule_def Let_def split: option.splits if_splits)

lemma classify_by_rule:
  assumes "find_rule e rs c = Some r" and "\<not> refuted_by_width (classify_by_name e rs c)"
  shows "pr_semantic_type (classify_by_name e rs c) = Some (nr_semantic_type r)"
    and "pr_mask (classify_by_name e rs c) = nr_mask r"
    and "width_permits (nr_semantic_type r) (lc_max_length c)"
  using assms by (auto simp: classify_by_name_def propose_by_rule_def Let_def split: if_splits)

lemma classify_without_rule:
  "find_rule e rs c = None \<Longrightarrow>
     pr_semantic_type (classify_by_name e rs c) = None \<and> pr_mask (classify_by_name e rs c) = str ''none''"
  by (simp add: classify_by_name_def propose_by_rule_def)

lemma classify_type_of_rule:
  assumes "pr_semantic_type (classify_by_name e rs c) = Some t"
  obtains r where "find_rule e rs c = Some r" "nr_semantic_type r = t"
  using assms classify_refuted [of e rs c] classify_by_rule [of e rs c] classify_without_rule [of e rs c]
  by (cases "find_rule e rs c") force+

lemma confirm_keeps [simp]:
  "pr_column (confirm_by_sample e rs rows p) = pr_column p"
  "pr_semantic_type (confirm_by_sample e rs rows p) = pr_semantic_type p"
  "pr_mask (confirm_by_sample e rs rows p) = pr_mask p"
  "refuted_by_width (confirm_by_sample e rs rows p) = refuted_by_width p"
  by (simp_all add: confirm_by_sample_def Let_def split: option.split prod.split)

lemma confirm_clear:
  assumes "pr_confidence (confirm_by_sample e rs rows p) = Clear" and "pr_confidence p \<noteq> Clear"
  obtains r v vs where "find_rule e rs (pr_column p) = Some r" "nr_validator r = Some v" "rows = Some vs"
    "vs \<noteq> []" "confirms e (count_matching v vs) (length vs)" "mask_fits (pr_mask p) (lc_data_type (pr_column p))"
  using assms
  by (auto simp: confirm_by_sample_def sample_column_def confidence_after_sampling_def Let_def
      split: option.splits if_splits)

lemma discover_cases:
  "discover_by_content e rows p = p \<and> sample_shapes e rows = [] \<or>
   sample_shapes e rows \<noteq> [] \<and> pr_column (discover_by_content e rows p) = pr_column p \<and>
   pr_semantic_type (discover_by_content e rows p) = Some (str ''unidentified'') \<and>
   pr_mask (discover_by_content e rows p) = str ''null'' \<and>
   pr_confidence (discover_by_content e rows p) = NeedsReview"
  by (simp add: discover_by_content_def split: list.split prod.split)

lemma sample_shapes_empty_iff:
  "sample_shapes e rows = [] \<longleftrightarrow>
     (case rows of None \<Rightarrow> True
      | Some vs \<Rightarrow> length vs < 20 \<or> (\<forall>(label, check) \<in> set detectors. \<not> confirms e (count_matching check vs) (length vs)))"
  by (auto simp: sample_shapes_def map_filter_def filter_empty_conv Let_def split: option.split if_splits)

lemma propose_column [simp]: "pr_column (propose e n sampler c) = c"
proof -
  have "pr_column (discover_by_content e rows p) = pr_column p" for rows p
    using discover_cases [of e rows p] by auto
  then show ?thesis by (simp add: propose_def Let_def)
qed

lemma propose_by_name_or_content:
  fixes e n sampler c
  defines "q \<equiv> classify_by_name e rules c" and "p \<equiv> propose e n sampler c"
  shows "pr_semantic_type p = pr_semantic_type q \<and> pr_mask p = pr_mask q \<or>
    find_rule e rules c = None \<and> 0 < n \<and> texty c \<and> sample_shapes e (sampler c) \<noteq> [] \<and>
    pr_semantic_type p = Some (str ''unidentified'') \<and> pr_mask p = str ''null'' \<and> pr_confidence p = NeedsReview"
proof (cases "0 < n \<and> pr_semantic_type q = None \<and> \<not> refuted_by_width q \<and> texty c")
  case True
  then have "find_rule e rules c = None"
    using classify_by_rule(1) [of e rules c] by (cases "find_rule e rules c") (auto simp: q_def)
  then show ?thesis
    using discover_cases [of e "sampler c" "confirm_by_sample e rules (sampler c) q"] True
    by (auto simp: p_def propose_def Let_def q_def [symmetric])
next
  case False
  then show ?thesis by (auto simp: p_def propose_def Let_def q_def [symmetric])
qed

lemma propose_clear:
  assumes "pr_confidence (propose e n sampler c) = Clear"
  obtains r v vs where "find_rule e rules c = Some r" "nr_validator r = Some v" "sampler c = Some vs"
    "vs \<noteq> []" "confirms e (count_matching v vs) (length vs)"
    "width_permits (nr_semantic_type r) (lc_max_length c)" "mask_fits (nr_mask r) (lc_data_type c)"
proof -
  let ?q = "classify_by_name e rules c"
  have live: "\<not> refuted_by_width ?q" and clear: "pr_confidence (confirm_by_sample e rules (sampler c) ?q) = Clear"
    using assms classify_not_clear [of e rules c]
      discover_cases [of e "sampler c" "confirm_by_sample e rules (sampler c) ?q"]
      discover_cases [of e "sampler c" ?q]
    by (auto simp: propose_def Let_def split: if_splits)
  from confirm_clear [OF clear classify_not_clear] obtain r v vs where
    "find_rule e rules c = Some r" "nr_validator r = Some v" "sampler c = Some vs" "vs \<noteq> []"
    "confirms e (count_matching v vs) (length vs)" "mask_fits (pr_mask ?q) (lc_data_type c)"
    by auto
  then show thesis using that classify_by_rule [OF _ live] by simp
qed

lemma unidentified_is_null:
  assumes "pr_semantic_type (propose e n sampler c) = Some (str ''unidentified'')"
  shows "pr_mask (propose e n sampler c) = str ''null''"
  using propose_by_name_or_content [where e = e and n = n and c = c and sampler = sampler] assms no_rule_is_unidentified
  by (metis classify_type_of_rule find_rule_in)

text \<open>The mask printed for a type is the one of some proposal of that type.\<close>

lemma emitted_type_from_proposal:
  assumes "(t, m) \<in> set (emitted_types ps)"
  obtains p where "p \<in> set ps" "pr_semantic_type p = Some t" "pr_mask p = m"
proof -
  define pairs where "pairs = List.map_filter (\<lambda>p. map_option (\<lambda>t. (t, pr_mask p)) (pr_semantic_type p)) ps"
  have "t \<in> fst ` set pairs" and m: "m = the (map_of (rev pairs) t)"
    using assms by (auto simp: emitted_types_def Let_def pairs_def)
  then have "map_of (rev pairs) t = Some m"
    by (metis map_of_eq_None_iff not_None_eq option.sel set_rev)
  then have "(t, m) \<in> set pairs" by (auto dest: map_of_SomeD)
  then show thesis by (auto simp: pairs_def map_filter_def intro: that)
qed

text \<open>
  C36. A sample can confirm a name, and can only withhold without one. For every column, with any
  sample: the proposed type and mask are those its name alone gives, or the name matches no rule, the
  column is textual, some detector accepts the sample, and the proposal is to withhold (mask \<open>null\<close>, a
  type of its own, marked for review). A proposal is called clear only when the first rule the name
  matches has a validator that confirms a nonempty sample, the declared width permits the type and the
  proxy can apply the mask to the column's type. And in the printed catalog the type of the columns
  found by content is \<open>null\<close>, whatever the other columns of the schema are.
\<close>

theorem sample_confirms_or_withholds:
  fixes e n sampler c
  defines "q \<equiv> classify_by_name e rules c" and "p \<equiv> propose e n sampler c"
  shows "(pr_semantic_type p = pr_semantic_type q \<and> pr_mask p = pr_mask q \<or>
      find_rule e rules c = None \<and> 0 < n \<and> texty c \<and> sample_shapes e (sampler c) \<noteq> [] \<and>
      pr_semantic_type p = Some (str ''unidentified'') \<and> pr_mask p = str ''null'' \<and> pr_confidence p = NeedsReview)
    \<and> (pr_confidence p = Clear \<longrightarrow>
        (\<exists>r v vs. find_rule e rules c = Some r \<and> nr_validator r = Some v \<and> sampler c = Some vs \<and> vs \<noteq> [] \<and>
           confirms e (count_matching v vs) (length vs) \<and> width_permits (nr_semantic_type r) (lc_max_length c) \<and>
           mask_fits (nr_mask r) (lc_data_type c)))
    \<and> (\<forall>cs m. (str ''unidentified'', m) \<in> set (emitted_types (map (propose e n sampler) cs)) \<longrightarrow> m = str ''null'')"
proof (intro conjI allI impI)
  show "pr_semantic_type p = pr_semantic_type q \<and> pr_mask p = pr_mask q \<or>
      find_rule e rules c = None \<and> 0 < n \<and> texty c \<and> sample_shapes e (sampler c) \<noteq> [] \<and>
      pr_semantic_type p = Some (str ''unidentified'') \<and> pr_mask p = str ''null'' \<and> pr_confidence p = NeedsReview"
    using propose_by_name_or_content [where e = e and n = n and c = c and sampler = sampler] by (simp add: p_def q_def)
  show "\<exists>r v vs. find_rule e rules c = Some r \<and> nr_validator r = Some v \<and> sampler c = Some vs \<and> vs \<noteq> [] \<and>
      confirms e (count_matching v vs) (length vs) \<and> width_permits (nr_semantic_type r) (lc_max_length c) \<and>
      mask_fits (nr_mask r) (lc_data_type c)" if "pr_confidence p = Clear"
    using propose_clear [OF that [unfolded p_def]] by metis
  show "m = str ''null''" if "(str ''unidentified'', m) \<in> set (emitted_types (map (propose e n sampler) cs))" for cs m
    using that by (elim emitted_type_from_proposal) (auto dest: unidentified_is_null)
qed

definition demo_env :: classifier_env where
  "demo_env = \<lparr>is_match = (\<lambda>pat name. pat = str ''e_?mail'' \<and> name = str ''email''),
               confirms = (\<lambda>matching checked. 4 * checked \<le> 5 * matching), show_rate = (\<lambda>_ _. str ''100'')\<rparr>"

definition demo_column :: live_column where
  "demo_column = \<lparr>lc_schema = str ''public'', lc_table = str ''users'', lc_name = str ''Email'',
                  lc_data_type = str ''text'', lc_max_length = None\<rparr>"

definition demo_rows :: sample_rows where
  "demo_rows = Some [Some (str ''a@b.co''), Some (str ''c@d.org'')]"

lemma demo_rule:
  "find_rule demo_env rules demo_column = Some (sure ''email'' ''pseudonym'' ''e_?mail'' (Some looks_like_email))"
  by (simp add: find_rule_def demo_env_def demo_column_def to_ascii_lowercase_def rules_def sure_def unsure_def str_def)

lemma demo_checks: "count_matching looks_like_email [Some (str ''a@b.co''), Some (str ''c@d.org'')] = 2"
  by (simp add: count_matching_def looks_like_email_def split_once_def trim_def trim_start_def is_whitespace_def str_def)

lemma demo_fits: "mask_fits (str ''pseudonym'') (str ''text'')"
  by (simp add: mask_fits_def mask_kind_def type_oid_def str_def supports_def spec_new_def is_text_family_def
      TEXT_FAMILY_OIDS_def)

lemma demo_by_name:
  "classify_by_name demo_env rules demo_column =
     \<lparr>pr_column = demo_column, pr_semantic_type = Some (str ''email''), pr_mask = str ''pseudonym'',
      pr_confidence = Likely, pr_note = None, refuted_by_width = False\<rparr>"
proof -
  have "lc_data_type demo_column = str ''text''" "lc_max_length demo_column = None"
    by (simp_all add: demo_column_def)
  then show ?thesis
    by (simp add: classify_by_name_def propose_by_rule_def demo_rule sure_def demo_fits width_permits_def) (simp add: str_def)
qed

lemma demo_clear: "pr_confidence (propose demo_env 10 (\<lambda>_. demo_rows) demo_column) = Clear"
proof -
  have "lc_data_type demo_column = str ''text''" "confirms demo_env 2 (Suc (Suc 0))"
    by (simp_all add: demo_column_def demo_env_def)
  then show ?thesis
    by (simp add: propose_def demo_by_name confirm_by_sample_def demo_rule sample_column_def demo_rows_def
        demo_checks sure_def confidence_after_sampling_def demo_fits Let_def)
qed

theorem sample_confirms_or_withholds_witness:
  "\<exists>r v vs. find_rule demo_env rules demo_column = Some r \<and> nr_validator r = Some v \<and>
     demo_rows = Some vs \<and> vs \<noteq> [] \<and> confirms demo_env (count_matching v vs) (length vs)"
  using sample_confirms_or_withholds [where e = demo_env and n = 10 and c = demo_column and sampler = "\<lambda>_. demo_rows"]
    demo_clear by blast

section \<open>The drift gate\<close>

lemma map_of_rev_distinct:
  "distinct (map fst xs) \<Longrightarrow> map_of (rev xs) k = map_of xs k"
  by (metis distinct_rev map_of_eqI map_of_is_SomeI map_of_eq_None_iff map_of_SomeD rev_map set_rev not_None_eq)

lemma live_type_iff:
  assumes "distinct (map column_key ps)"
  shows "live_type ps k = Some ty \<longleftrightarrow> (\<exists>p \<in> set ps. column_key p = k \<and> lc_data_type (pr_column p) = ty)"
proof -
  have "distinct (map fst (rev (map (\<lambda>p. (column_key p, lc_data_type (pr_column p))) ps)))"
    using assms by (simp add: rev_map comp_def flip: rev_map)
  then show ?thesis by (auto simp: live_type_def)
qed

text \<open>What one rule must satisfy for the gate to pass.\<close>

definition rule_holds ::
  "classifier_env \<Rightarrow> nat \<Rightarrow> (live_column \<Rightarrow> sample_rows) \<Rightarrow> config \<Rightarrow> rstring \<Rightarrow> proposal list \<Rightarrow> column_rule \<Rightarrow> bool" where
  "rule_holds e n sampler cfg schema ps r \<longleftrightarrow>
     (in_schema schema (cr_relation r) \<longrightarrow> rule_key_of r \<in> column_key ` set ps) \<and>
     (\<forall>p \<in> set ps. column_key p = rule_key_of r \<longrightarrow>
        (\<forall>m. effective_mask cfg r = Some m \<longrightarrow>
           m = MNone \<or> m = MNull \<or>
           (\<exists>oid. type_oid (lc_data_type (pr_column p)) = Some oid \<and> supports (spec_new m) oid FORMAT_TEXT)) \<and>
        (0 < n \<and> in_schema schema (cr_relation r) \<and> effective_mask cfg r = Some MNone \<and> texty (pr_column p) \<longrightarrow>
           (\<forall>vs. sampler (pr_column p) = Some vs \<and> 20 \<le> length vs \<longrightarrow>
              (\<forall>(label, shape) \<in> set detectors. \<not> confirms e (count_matching shape vs) (length vs)))))"

lemma stale_empty_iff:
  "stale_rules cfg schema ps = [] \<longleftrightarrow>
     (\<forall>r \<in> set (column_rules cfg). in_schema schema (cr_relation r) \<longrightarrow> rule_key_of r \<in> column_key ` set ps)"
  by (auto simp: stale_rules_def filter_empty_conv rule_key_of_def)

lemma unclassified_empty_iff:
  "unclassified_columns cfg ps = [] \<longleftrightarrow> (\<forall>p \<in> set ps. \<exists>r \<in> set (column_rules cfg). column_key p = rule_key_of r)"
proof -
  have "unclassified_columns cfg ps = [] \<longleftrightarrow> column_key ` set ps \<subseteq> rule_key_of ` set (column_rules cfg)"
    by (simp add: unclassified_columns_def filter_empty_conv rule_key_of_def subset_eq)
  also have "\<dots> \<longleftrightarrow> (\<forall>p \<in> set ps. \<exists>r \<in> set (column_rules cfg). column_key p = rule_key_of r)"
    unfolding image_subset_iff image_iff ..
  finally show ?thesis .
qed

lemma incompatible_empty_iff:
  assumes "distinct (map column_key ps)"
  shows "incompatible_rules cfg ps = [] \<longleftrightarrow>
     (\<forall>r \<in> set (column_rules cfg). \<forall>p \<in> set ps. column_key p = rule_key_of r \<longrightarrow>
        (\<forall>m. effective_mask cfg r = Some m \<longrightarrow> mask_fits (mask_name m) (lc_data_type (pr_column p))))"
proof -
  have "(case live_type ps k of None \<Rightarrow> False | Some ty \<Rightarrow> (case mo of Some m \<Rightarrow> \<not> mask_fits (mask_name m) ty | None \<Rightarrow> False))
      \<longleftrightarrow> (\<exists>p \<in> set ps. column_key p = k \<and> (\<exists>m. mo = Some m \<and> \<not> mask_fits (mask_name m) (lc_data_type (pr_column p))))" for k mo
  proof (cases "live_type ps k")
    case None
    then show ?thesis using live_type_iff [OF assms, of k] by auto
  next
    case (Some ty)
    then obtain p where p: "p \<in> set ps" "column_key p = k" "lc_data_type (pr_column p) = ty"
      using live_type_iff [OF assms, of k] by auto
    then have unique: "q = p" if "q \<in> set ps" "column_key q = k" for q
      using that assms by (metis distinct_map inj_onD)
    have "(case mo of None \<Rightarrow> False | Some m \<Rightarrow> \<not> mask_fits (mask_name m) ty) \<longleftrightarrow>
        (\<exists>m. mo = Some m \<and> \<not> mask_fits (mask_name m) ty)"
      by (cases mo) auto
    then show ?thesis unfolding Some option.case using p unique by metis
  qed
  then show ?thesis
    unfolding incompatible_rules_def filter_empty_conv by (simp add: rule_key_of_def)
qed

lemma released_empty_iff:
  assumes "distinct (map column_key ps)"
  shows "released_but_sensitive e sampler cfg schema ps = [] \<longleftrightarrow>
     (\<forall>r \<in> set (column_rules cfg). \<forall>p \<in> set ps. column_key p = rule_key_of r \<longrightarrow>
        in_schema schema (cr_relation r) \<and> effective_mask cfg r = Some MNone \<and> texty (pr_column p) \<longrightarrow>
        sample_shapes e (sampler (pr_column p)) = [])"
proof -
  have *: "(case List.find (\<lambda>p. column_key p = rule_key_of r) ps of
          None \<Rightarrow> False
        | Some p \<Rightarrow> texty (pr_column p) \<and> sample_shapes e (sampler (pr_column p)) \<noteq> []) \<longleftrightarrow>
      (\<exists>p \<in> set ps. column_key p = rule_key_of r \<and> texty (pr_column p) \<and> sample_shapes e (sampler (pr_column p)) \<noteq> [])" for r
  proof (cases "List.find (\<lambda>p. column_key p = rule_key_of r) ps")
    case None
    then have "\<forall>p \<in> set ps. column_key p \<noteq> rule_key_of r" by (simp add: find_None_iff)
    then show ?thesis using None by simp
  next
    case (Some p)
    then have p: "p \<in> set ps" "column_key p = rule_key_of r" by (auto simp: find_Some_iff)
    then have unique: "q = p" if "q \<in> set ps" "column_key q = rule_key_of r" for q
      using that assms by (metis distinct_map inj_onD)
    show ?thesis unfolding Some option.case using p unique by metis
  qed
  show ?thesis
    unfolding released_but_sensitive_def filter_empty_conv using * by (auto simp: rule_key_of_def)
qed

lemma no_shape_iff:
  "sample_shapes e rows = [] \<longleftrightarrow>
     (\<forall>vs. rows = Some vs \<and> 20 \<le> length vs \<longrightarrow>
        (\<forall>(label, shape) \<in> set detectors. \<not> confirms e (count_matching shape vs) (length vs)))"
  by (cases rows) (auto simp: sample_shapes_empty_iff)

lemma check_no_drift:
  "check e n sampler cfg schema ps = NoDrift \<longleftrightarrow>
     ps \<noteq> [] \<and> (0 < n \<longrightarrow> released_but_sensitive e sampler cfg schema ps = []) \<and>
     unclassified_columns cfg ps = [] \<and> stale_rules cfg schema ps = [] \<and> incompatible_rules cfg ps = []"
  by (auto simp: check_def Let_def)

text \<open>
  C37. \<open>--check\<close> passes exactly when nothing has drifted: the schema has columns, each of them has a rule,
  and each rule holds: a rule of the schema names a live column; the mask in force for a live column is
  one that the proxy's own capability table applies to the column's type (or \<open>none\<close> or \<open>null\<close>); and when
  samples are taken, no released textual column of the schema holds twenty or more rows whose values a
  detector accepts. The live columns are distinct, as \<open>pg_attribute\<close> lists them.
\<close>

theorem check_passes_iff_nothing_drifted:
  assumes "distinct (map column_key ps)"
  shows "check e n sampler cfg schema ps = NoDrift \<longleftrightarrow>
    ps \<noteq> [] \<and> (\<forall>p \<in> set ps. \<exists>r \<in> set (column_rules cfg). column_key p = rule_key_of r) \<and>
    (\<forall>r \<in> set (column_rules cfg). rule_holds e n sampler cfg schema ps r)"
  unfolding check_no_drift unclassified_empty_iff stale_empty_iff incompatible_empty_iff [OF assms]
    released_empty_iff [OF assms] no_shape_iff mask_fits_name rule_holds_def
  by blast

definition demo_config :: config where
  "demo_config = sample_config\<lparr>column :=
     [\<lparr>cr_relation = str ''public.users'', cr_column = str ''Email'', cr_semantic_type = None,
       cr_mask = Some Pseudonym, cr_params = no_params, cr_by_role = []\<rparr>]\<rparr>"

theorem check_passes_iff_nothing_drifted_witness:
  "check demo_env 0 (\<lambda>_. None) demo_config (str ''public'') [classify_by_name demo_env rules demo_column] = NoDrift"
proof -
  let ?r = "\<lparr>cr_relation = str ''public.users'', cr_column = str ''Email'', cr_semantic_type = None,
       cr_mask = Some Pseudonym, cr_params = no_params, cr_by_role = []\<rparr>"
  have rs: "column_rules demo_config = [?r]" by (simp add: demo_config_def column_rules_def sample_config_def)
  have key: "column_key (classify_by_name demo_env rules demo_column) = rule_key_of ?r"
    by (simp add: column_key_def rule_key_of_def qualified_table_def demo_column_def str_def)
  have oid: "type_oid (lc_data_type demo_column) = Some 25"
    by (simp add: demo_column_def type_oid_def str_def)
  have fits: "supports (spec_new Pseudonym) 25 FORMAT_TEXT"
    by (simp add: supports_def spec_new_def is_text_family_def TEXT_FAMILY_OIDS_def)
  have "rule_holds demo_env 0 (\<lambda>_. None) demo_config (str ''public'') [classify_by_name demo_env rules demo_column] ?r"
    using key oid fits by (simp add: rule_holds_def effective_mask_def)
  then show ?thesis
    using check_passes_iff_nothing_drifted [of "[classify_by_name demo_env rules demo_column]"] rs key by simp
qed

section \<open>The payment detectors are checksums\<close>

lemma sat_sum:
  "a + sum_list (map f xs) \<le> u32_max \<Longrightarrow> foldl (\<lambda>s x. sat_add s (f x)) a xs = a + sum_list (map f xs)"
proof (induction xs arbitrary: a)
  case (Cons x xs)
  then have "sat_add a (f x) = a + f x" by (simp add: sat_add_def)
  then show ?case using Cons by (simp add: add.assoc)
qed simp

lemma to_digit_10: "to_digit 10 c = (if is_ascii_digit c then Some (c - 48) else None)"
  by (auto simp: to_digit_def is_ascii_digit_def Let_def)

lemma digits_or_none_eq:
  "digits_or_none t = (if list_all is_ascii_digit t then map (\<lambda>c. c - 48) t else [])"
proof -
  have "those (map (to_digit 10) t) = (if list_all is_ascii_digit t then Some (map (\<lambda>c. c - 48) t) else None)"
    by (induction t) (auto simp: to_digit_10)
  then show ?thesis by (simp add: digits_or_none_def)
qed

lemma decimal_digits_eq: "decimal_digits t = map (\<lambda>c. c - 48) (filter is_ascii_digit t)"
  by (induction t) (simp_all add: decimal_digits_def map_filter_def to_digit_10)

lemma luhn_contribution_doubles:
  assumes "d \<le> 9"
  shows "luhn_contribution (i, d) =
    (if i mod 2 = 1 then (let doubled = 2 * d in if doubled > 9 then doubled - 9 else doubled) else d)"
proof -
  have "d \<in> {0, 1, 2, 3, 4, 5, 6, 7, 8, 9}" using assms by auto
  then show ?thesis by (auto simp: luhn_contribution_def DOUBLED_def)
qed

lemma luhn_contribution_le: "d \<le> 9 \<Longrightarrow> luhn_contribution (i, d) \<le> 9"
  by (auto simp: luhn_contribution_doubles Let_def)

lemma sum_list_le: "\<forall>x \<in> set xs. f x \<le> (9::nat) \<Longrightarrow> sum_list (map f xs) \<le> 9 * length xs"
  by (induction xs) auto

lemma card_sum:
  assumes "\<forall>d \<in> set ds. d \<le> 9" and "length ds \<le> 19"
  shows "foldl (\<lambda>s x. sat_add s (luhn_contribution x)) 0 (List.enumerate 0 ds) =
    sum_list (map luhn_contribution (List.enumerate 0 ds))"
proof -
  have "sum_list (map luhn_contribution (List.enumerate 0 ds)) \<le> 9 * length (List.enumerate 0 ds)"
    using assms(1) luhn_contribution_le by (intro sum_list_le) (auto simp: in_set_enumerate_eq)
  then show ?thesis using assms(2) by (subst sat_sum) (auto simp: u32_max_def)
qed

lemma luhn_sum:
  assumes "\<forall>d \<in> set ds. d \<le> 9"
  shows "sum_list (map luhn_contribution (List.enumerate 0 ds)) =
    (\<Sum>(i, d) \<leftarrow> List.enumerate 0 ds.
       if i mod 2 = 1 then (let doubled = 2 * d in if doubled > 9 then doubled - 9 else doubled) else d)"
  using assms by (intro arg_cong [where f = sum_list] map_cong)
    (auto simp: in_set_enumerate_eq luhn_contribution_doubles)

lemma card_is_luhn:
  "looks_like_card v \<longleftrightarrow>
     list_all (\<lambda>c. is_ascii_digit c \<or> c = 32 \<or> c = 45) v \<and> length (filter is_ascii_digit v) \<le> 19 \<and> is_luhn v"
proof (cases "list_all (\<lambda>c. is_ascii_digit c \<or> c = 32 \<or> c = 45) v")
  case True
  let ?t = "filter (\<lambda>c. c \<noteq> 32 \<and> c \<noteq> 45) v" and ?ds = "decimal_digits v"
  have t: "?t = filter is_ascii_digit v"
    using True by (intro filter_cong) (auto simp: list_all_iff is_ascii_digit_def)
  have ds: "digits_or_none ?t = ?ds"
    by (simp add: digits_or_none_eq decimal_digits_eq t list_all_iff)
  have nine: "\<forall>d \<in> set (rev ?ds). d \<le> 9" by (auto simp: decimal_digits_eq is_ascii_digit_def)
  have len: "length (filter is_ascii_digit v) = length ?ds" by (simp add: decimal_digits_eq)
  show ?thesis
    using True card_sum [OF nine] luhn_sum [OF nine]
    by (auto simp: looks_like_card_def ds is_luhn_def len Let_def)
next
  case False
  then have "\<not> list_all is_ascii_digit (filter (\<lambda>c. c \<noteq> 32 \<and> c \<noteq> 45) v)" by (auto simp: list_all_iff)
  then show ?thesis using False by (simp add: looks_like_card_def digits_or_none_eq)
qed

text \<open>The number an IBAN stands for: each letter is spelled as two decimal digits, \<open>A\<close> as 10.\<close>

definition spelled :: "nat \<Rightarrow> nat list" where
  "spelled c = (case to_digit 36 c of Some d \<Rightarrow> if d < 10 then [d] else [d div 10, d mod 10] | None \<Rightarrow> [0])"

definition decimal_value :: "nat list \<Rightarrow> nat" where
  "decimal_value ds = foldl (\<lambda>n d. 10 * n + d) 0 ds"

lemma to_digit_36_less: "to_digit 36 c = Some d \<Longrightarrow> d < 36"
  by (auto simp: to_digit_def Let_def split: option.splits if_splits)

lemma iban_step_mod:
  "iban_step (n mod 97) c = foldl (\<lambda>n d. 10 * n + d) n (spelled c) mod 97"
proof -
  define part where "part = (case to_digit 36 c of Some d \<Rightarrow> d | None \<Rightarrow> 0)"
  have part: "part < 36" using to_digit_36_less by (auto simp: part_def split: option.split)
  have "n mod 97 \<le> 96" using mod_less_divisor [of 97 n] by linarith
  then have small: "(n mod 97) * k + part \<le> u32_max" "(n mod 97) * k \<le> u32_max" if "k \<le> 100" for k
    using part mult_le_mono [of "n mod 97" 96 k 100] that by (simp_all add: u32_max_def)
  have "iban_step (n mod 97) c = ((n mod 97) * (if part < 10 then 10 else 100) + part) mod 97"
    using small [of 10] small [of 100] by (simp add: iban_step_def part_def [symmetric] sat_add_def sat_mul_def Let_def)
  also have "\<dots> = (n * (if part < 10 then 10 else 100) + part) mod 97"
    by (metis mod_add_left_eq mod_mult_left_eq)
  also have "n * (if part < 10 then 10 else 100) + part = foldl (\<lambda>n d. 10 * n + d) n (spelled c)"
    by (auto simp: spelled_def part_def split: option.split)
  finally show ?thesis .
qed

lemma iban_fold:
  "foldl iban_step (n mod 97) cs = foldl (\<lambda>n d. 10 * n + d) n (concat (map spelled cs)) mod 97"
  by (induction cs arbitrary: n) (simp_all add: iban_step_mod)

text \<open>
  C38. The payment detectors are the published checksums. A value looks like a card number exactly when
  it is made of digits, spaces and hyphens, has at most 19 digits, and passes the Luhn check the proxy's
  own scrub patterns use (which asks for 13). It looks like an IBAN exactly when, without spaces and in
  upper case, it has 15 to 34 letters and digits, starts with two letters and two digits, and the whole
  number spelled by the rest followed by those four characters leaves 1 modulo 97. The saturating
  32-bit sums and the running remainder of the code never lose anything.
\<close>

theorem payment_detectors_are_checksums:
  "(looks_like_card v \<longleftrightarrow>
      list_all (\<lambda>c. is_ascii_digit c \<or> c = 32 \<or> c = 45) v \<and> length (filter is_ascii_digit v) \<le> 19 \<and> is_luhn v)
   \<and> (looks_like_iban v \<longleftrightarrow>
      (let upper = map to_ascii_uppercase (filter (\<lambda>c. c \<noteq> 32) v)
       in 15 \<le> length upper \<and> length upper \<le> 34 \<and> list_all is_ascii_alphabetic (take 2 upper) \<and>
          list_all is_ascii_digit (take 2 (drop 2 upper)) \<and>
          list_all (\<lambda>c. is_ascii_alphabetic c \<or> is_ascii_digit c) upper \<and>
          decimal_value (concat (map spelled (drop 4 upper @ take 4 upper))) mod 97 = 1))"
proof -
  have "foldl iban_step 0 cs = decimal_value (concat (map spelled cs)) mod 97" for cs
    using iban_fold [of 0 cs] by (simp add: decimal_value_def)
  moreover have "(if length u < 15 \<or> 34 < length u \<or> \<not> a \<or> \<not> b \<or> \<not> c then False else x = 1) \<longleftrightarrow>
      15 \<le> length u \<and> length u \<le> 34 \<and> a \<and> b \<and> c \<and> x = 1" for u :: rstring and a b c and x :: nat
    by auto
  ultimately show ?thesis
    unfolding looks_like_iban_def Let_def using card_is_luhn by (simp only:)
qed

section \<open>The printed catalog\<close>

text \<open>
  The mask of a type is the one of its last proposal, and the name rules give the type \<open>geo\<close> two masks:
  a latitude that comes before a city is printed with the mask of the city, which cannot apply to a
  number, and its line carries no mark for review.
\<close>

definition geo_env :: classifier_env where
  "geo_env = demo_env\<lparr>is_match := (\<lambda>pat name.
     pat = str ''latitude|longitude|^lat$|^lon$|^lng$'' \<and> name = str ''latitude'' \<or>
     pat = str ''^city$|_city$|^state$|_state$|^province|_province$|^county$|_county$'' \<and> name = str ''city'')\<rparr>"

definition latitude_column :: live_column where
  "latitude_column = demo_column\<lparr>lc_name := str ''latitude'', lc_data_type := str ''numeric''\<rparr>"

definition city_column :: live_column where
  "city_column = demo_column\<lparr>lc_name := str ''city''\<rparr>"

lemma geo_rules:
  "find_rule geo_env rules latitude_column =
     Some (sure ''geo'' ''numeric-bucket'' ''latitude|longitude|^lat$|^lon$|^lng$'' None)"
  "find_rule geo_env rules city_column =
     Some (unsure ''geo'' ''redact'' ''^city$|_city$|^state$|_state$|^province|_province$|^county$|_county$''
       (str ''coarse location, but rare values still single people out''))"
  by (simp_all add: find_rule_def geo_env_def latitude_column_def city_column_def to_ascii_lowercase_def
      demo_column_def rules_def sure_def unsure_def str_def)

lemma geo_fits:
  "mask_fits (str ''numeric-bucket'') (str ''numeric'')" "mask_fits (str ''redact'') (str ''text'')"
  "\<not> mask_fits (str ''redact'') (str ''numeric'')"
  by (simp_all add: mask_fits_def mask_kind_def type_oid_def str_def supports_def spec_new_def is_text_family_def
      TEXT_FAMILY_OIDS_def oid_defs)

lemma geo_by_name:
  "classify_by_name geo_env rules latitude_column =
     \<lparr>pr_column = latitude_column, pr_semantic_type = Some (str ''geo''), pr_mask = str ''numeric-bucket'',
      pr_confidence = Likely, pr_note = None, refuted_by_width = False\<rparr>"
  "pr_semantic_type (classify_by_name geo_env rules city_column) = Some (str ''geo'')"
  "pr_mask (classify_by_name geo_env rules city_column) = str ''redact''"
  "pr_confidence (classify_by_name geo_env rules city_column) = NeedsReview"
proof -
  have tys: "lc_data_type latitude_column = str ''numeric''" "lc_data_type city_column = str ''text''"
    "lc_max_length latitude_column = None" "lc_max_length city_column = None"
    by (simp_all add: latitude_column_def city_column_def demo_column_def)
  have ne: "str ''geo'' \<noteq> str ''free_text''" by (simp add: str_def)
  show "classify_by_name geo_env rules latitude_column =
     \<lparr>pr_column = latitude_column, pr_semantic_type = Some (str ''geo''), pr_mask = str ''numeric-bucket'',
      pr_confidence = Likely, pr_note = None, refuted_by_width = False\<rparr>"
    by (simp add: classify_by_name_def propose_by_rule_def geo_rules sure_def tys ne geo_fits width_permits_def)
  have r: "propose_by_rule (find_rule geo_env rules city_column) =
      (Some (str ''geo''), str ''redact'', NeedsReview, Some (str ''coarse location, but rare values still single people out''))"
    by (simp add: propose_by_rule_def geo_rules unsure_def)
  show "pr_semantic_type (classify_by_name geo_env rules city_column) = Some (str ''geo'')"
    "pr_mask (classify_by_name geo_env rules city_column) = str ''redact''"
    "pr_confidence (classify_by_name geo_env rules city_column) = NeedsReview"
    by (simp_all add: classify_by_name_def r tys geo_fits width_permits_def)
qed

lemma geo_type_takes_the_mask_of_the_last_column:
  defines "lat \<equiv> propose geo_env 0 (\<lambda>_. None) latitude_column" and "city \<equiv> propose geo_env 0 (\<lambda>_. None) city_column"
  shows "pr_mask lat = str ''numeric-bucket''" and "pr_confidence lat = Likely"
    and "emitted_types [lat, city] = [(str ''geo'', str ''redact'')]"
    and "\<not> mask_fits (str ''redact'') (lc_data_type (pr_column lat))"
proof -
  have tys: "lc_data_type latitude_column = str ''numeric''" "lc_data_type city_column = str ''text''"
    "lc_max_length latitude_column = None" "lc_max_length city_column = None"
    by (simp_all add: latitude_column_def city_column_def demo_column_def)
  have lat: "lat = \<lparr>pr_column = latitude_column, pr_semantic_type = Some (str ''geo''),
      pr_mask = str ''numeric-bucket'', pr_confidence = Likely, pr_note = None, refuted_by_width = False\<rparr>"
    by (simp add: lat_def propose_def geo_by_name)
  have city: "pr_semantic_type city = Some (str ''geo'') \<and> pr_mask city = str ''redact''"
    by (simp add: city_def propose_def geo_by_name)
  show "pr_mask lat = str ''numeric-bucket''" "pr_confidence lat = Likely"
    "emitted_types [lat, city] = [(str ''geo'', str ''redact'')]"
    "\<not> mask_fits (str ''redact'') (lc_data_type (pr_column lat))"
    using city by (simp_all add: lat tys geo_fits emitted_types_def map_filter_def)
qed

lemma latitude_line_is_not_flagged:
  "column_line (propose geo_env 0 (\<lambda>_. None) latitude_column) =
     [toml_basic_string (str ''latitude'') @ str '' = { type = '' @ toml_basic_string (str ''geo'') @ str '' }'']"
  by (simp add: column_line_def propose_def geo_by_name) (simp add: latitude_column_def)

text \<open>A basic string as TOML defines it: read up to the closing quote, escapes decoded.\<close>

definition hex_value :: "nat list \<Rightarrow> nat option" where
  "hex_value cs = map_option (foldl (\<lambda>n d. 16 * n + d) 0) (those (map (to_digit 16) cs))"

fun escaped :: "nat \<Rightarrow> nat option" where
  "escaped c =
     (if c = 34 then Some 34 else if c = 92 then Some 92 else if c = 98 then Some 8 else if c = 116 then Some 9
      else if c = 110 then Some 10 else if c = 102 then Some 12 else if c = 114 then Some 13 else None)"

fun read_basic :: "nat \<Rightarrow> rstring \<Rightarrow> (rstring \<times> rstring) option" where
  "read_basic 0 s = None"
| "read_basic (Suc fuel) s =
     (case s of
        [] \<Rightarrow> None
      | c # r \<Rightarrow>
          if c = 34 then Some ([], r)
          else if c = 92
          then (case r of
                  [] \<Rightarrow> None
                | k # r' \<Rightarrow>
                    if k = 117
                    then (case hex_value (take 4 r') of
                            Some n \<Rightarrow>
                              if length (take 4 r') = 4
                              then map_option (\<lambda>(v, rest). (n # v, rest)) (read_basic fuel (drop 4 r')) else None
                          | None \<Rightarrow> None)
                    else (case escaped k of
                            Some d \<Rightarrow> map_option (\<lambda>(v, rest). (d # v, rest)) (read_basic fuel r')
                          | None \<Rightarrow> None))
          else if c < 32 \<and> c \<noteq> 9 \<or> c = 127 then None
          else map_option (\<lambda>(v, rest). (c # v, rest)) (read_basic fuel r))"

definition read_basic_string :: "rstring \<Rightarrow> (rstring \<times> rstring) option" where
  "read_basic_string s = (case s of [] \<Rightarrow> None | c # r \<Rightarrow> if c = 34 then read_basic (Suc (length r)) r else None)"

lemma hex_upper_digit: "d < 16 \<Longrightarrow> to_digit 16 (hex_upper d) = Some d"
  by (auto simp: to_digit_def hex_upper_def Let_def)

lemma hex_escape:
  assumes "c < 160"
  shows "hex_value [hex_upper (c div 4096 mod 16), hex_upper (c div 256 mod 16), hex_upper (c div 16 mod 16), hex_upper (c mod 16)]
    = Some c"
proof -
  have "c div 4096 = 0" "c div 256 = 0" "c div 16 < 16" using assms by auto
  then show ?thesis by (simp add: hex_value_def hex_upper_digit)
qed

lemma read_toml_char:
  "read_basic (Suc fuel) (toml_char c @ s) = map_option (\<lambda>(v, rest). (c # v, rest)) (read_basic fuel s)"
proof (cases "is_control c \<and> c \<notin> {8, 9, 10, 12, 13}")
  case True
  then have "c < 160" "c \<noteq> 34" "c \<noteq> 92" by (auto simp: is_control_def)
  then have "hex_value [hex_upper 0, hex_upper 0, hex_upper (c div 16), hex_upper (c mod 16)] = Some c"
    using hex_escape [of c] by simp
  with \<open>c < 160\<close> \<open>c \<noteq> 34\<close> \<open>c \<noteq> 92\<close> show ?thesis using True
    by (simp add: toml_char_def take_Cons' drop_Cons')
next
  case False
  then show ?thesis by (auto simp: toml_char_def is_control_def)
qed

lemma read_toml_chars:
  "length v \<le> fuel \<Longrightarrow> read_basic (Suc fuel) (concat (map toml_char v) @ 34 # rest) = Some (v, rest)"
proof (induction v arbitrary: fuel)
  case (Cons c v)
  then obtain f where "fuel = Suc f" by (cases fuel) auto
  with Cons show ?case by (simp add: read_toml_char del: read_basic.simps)
qed simp

lemma toml_char_nonempty: "1 \<le> length (toml_char c)"
  by (simp add: toml_char_def)

text \<open>
  Every relation and column name survives the printed catalog: a TOML reader gets back exactly the name,
  and what follows it is not touched, so no name can close its quotes or add a line of its own.
\<close>

lemma toml_basic_string_reads_back: "read_basic_string (toml_basic_string v @ rest) = Some (v, rest)"
proof -
  have "length v \<le> length (concat (map toml_char v))"
  proof (induction v)
    case (Cons c v)
    then show ?case using toml_char_nonempty [of c] by simp
  qed simp
  then show ?thesis
    by (simp add: read_basic_string_def toml_basic_string_def read_toml_chars del: read_basic.simps)
qed

lemma toml_basic_string_one_line: "c \<in> set (toml_basic_string v) \<Longrightarrow> 32 \<le> c \<and> c \<noteq> 127"
proof -
  have "32 \<le> d \<and> d \<noteq> 127" if "d \<in> set (toml_char x)" for d x
  proof (cases "is_control x \<and> x \<notin> {8, 9, 10, 12, 13}")
    case True
    have hex: "48 \<le> hex_upper (m mod 16) \<and> hex_upper (m mod 16) \<le> 70" for m
      using mod_less_divisor [of 16 m] by (auto simp: hex_upper_def)
    have "x \<noteq> 34" "x \<noteq> 92" using True by (auto simp: is_control_def)
    then have "toml_char x = [92, 117, hex_upper (x div 4096 mod 16), hex_upper (x div 256 mod 16),
        hex_upper (x div 16 mod 16), hex_upper (x mod 16)]"
      using True by (simp add: toml_char_def)
    moreover have "\<forall>y \<in> set [92, 117, h1, h2, h3, h4]. 32 \<le> y \<and> y \<noteq> 127"
      if "48 \<le> h1 \<and> h1 \<le> 70" "48 \<le> h2 \<and> h2 \<le> 70" "48 \<le> h3 \<and> h3 \<le> 70" "48 \<le> h4 \<and> h4 \<le> 70"
      for h1 h2 h3 h4 :: nat
      using that by simp
    ultimately show ?thesis using that hex by (metis (no_types))
  next
    case False
    then show ?thesis using that by (auto simp: toml_char_def is_control_def split: if_splits)
  qed
  then show "c \<in> set (toml_basic_string v) \<Longrightarrow> 32 \<le> c \<and> c \<noteq> 127"
    by (auto simp: toml_basic_string_def)
qed

end
