(* ===== verification/Plan_Oracle.thy ===== *)
theory Plan_Oracle
  imports Plan_State
begin

text \<open>
  The oracle of the protocol fuzzer (\<open>plan_state_fuzz.rs\<close>, \<open>fuzz/fuzz_targets/plan_state.rs\<close>): a \<open>PlanState\<close> driven by any sequence of
  messages, a shadow of what was parsed, bound and described, and the assertions made after every
  message. A failed assertion is a value of \<open>violation\<close>; the step it fails in has no successor.
\<close>

section \<open>The alphabet\<close>

definition NAMES :: "bytes list" where
  "NAMES = [lit '''', lit ''a'', lit ''b'', lit ''c'']"

definition PARSE_SQL :: "rstring list" where
  "PARSE_SQL =
     [str ''SELECT upper(email) FROM users'', str ''SELECT ssn FROM people'', str ''SELECT id, token FROM sessions'',
      str ''SELECT 1'', str ''UPDATE t SET a = 1'', str ''SELECT card_number FROM cards'']"

definition SIMPLE_SQL :: "rstring list" where
  "SIMPLE_SQL = [str ''SELECT 1, 2'', str ''SELECT now()'', str ''SELECT 42'', str ''BEGIN'']"

definition name_of :: "u8 \<Rightarrow> bytes" where
  "name_of i = NAMES ! (unat i mod length NAMES)"

datatype shadow_target = ForStatement bytes | ForPortal bytes | ForSimple

datatype oracle_op =
    DoParse u8 u8
  | DoParseUndecodable
  | DoBind u8 u8 "i16 list option"
  | DoDescribeStatement u8
  | DoDescribePortal u8
  | DoExecute u8
  | DoSync
  | DoCloseStatement u8
  | DoClosePortal u8
  | DoSimple "u8 option"
  | DoParseComplete
  | DoBindComplete
  | DoDescription u8
  | DoNoData
  | DoEmptyQuery
  | DoResultEnd
  | DoSuspended
  | DoDropDescription
  | DoReady u8
  | DoError
  | DoReject
  | DoSuppressed u8
  | DoClearActive
  | DoInvalidate u8

text \<open>What an assertion is about; the two owner assertions have a constructor each.\<close>

datatype violation =
    UnknownName | PlanIdOverflow | WrongText | WrongPlan | WrongOrder | WrongEpoch | WrongInflight | WrongResume
  | WrongTarget | StalePlan | WrongQueue | WrongDescription | WrongNoData | WrongEmpty | WrongEnd | SuspendedOwner
  | WrongPause | WrongReady | ErrorOwner | WrongError | WrongSuppressed

section \<open>The shadow\<close>

record protocol_model =
  om_state :: plan_state
  om_step :: nat
  om_generation :: u64
  last_invalidation :: "nat option"
  parsed_under :: "(bytes, rstring list) hmap"
  bound_from :: "(bytes, bytes list) hmap"
  simple_texts :: "rstring list"
  next_plan_id :: u32
  plan_targets :: "(u32, shadow_target list) hmap"
  plan_built :: "(u32, nat) hmap"
  om_suppressing :: "u64 option"
  bind_owners :: "(bytes \<times> u64, bytes) hmap"

definition model_new :: protocol_model where
  "model_new =
     \<lparr>om_state = plan_state_default, om_step = 0, om_generation = 0, last_invalidation = None, parsed_under = [],
      bound_from = [], simple_texts = [], next_plan_id = 1, plan_targets = [], plan_built = [],
      om_suppressing = None, bind_owners = []\<rparr>"

text \<open>Sets as lists without duplicates; \<open>entry(k).or_default().insert(v)\<close>.\<close>

definition under :: "('k, 'v list) hmap \<Rightarrow> 'k \<Rightarrow> 'v list" where
  "under m k = (case hget m k of Some vs \<Rightarrow> vs | None \<Rightarrow> [])"

definition add_under :: "'k \<Rightarrow> 'v \<Rightarrow> ('k, 'v list) hmap \<Rightarrow> ('k, 'v list) hmap" where
  "add_under k v m = hinsert k (List.insert v (under m k)) m"

section \<open>Checks after every step\<close>

definition demand :: "bool \<Rightarrow> violation \<Rightarrow> violation option" where
  "demand c v = (if c then None else Some v)"

definition known :: "bytes \<Rightarrow> violation option" where
  "known n = demand (n \<in> set NAMES) UnknownName"

definition plan_id :: "plan \<Rightarrow> u32 option" where
  "plan_id pl = map_option fp_type_oid (front pl)"

definition active_plan_id :: "plan_state \<Rightarrow> u32 option" where
  "active_plan_id s = Option.bind (active_plan s) plan_id"

definition check_described_sql :: "protocol_model \<Rightarrow> violation option list" where
  "check_described_sql m =
     (case described_sql (om_state m) of
        None \<Rightarrow> []
      | Some answer \<Rightarrow>
          (case front (pending_descriptions (om_state m)) of
             Some (Describe d) \<Rightarrow>
               (case pd_target d of
                  Statement n \<Rightarrow> [known n, demand (answer \<in> set (under (parsed_under m) n)) WrongText]
                | Portal p \<Rightarrow>
                    [known p,
                     demand (list_ex (\<lambda>t. answer \<in> set (under (parsed_under m) t)) (under (bound_from m) p))
                       WrongText])
           | Some (Simple _) \<Rightarrow> [demand (answer \<in> set (simple_texts m)) WrongText]
           | None \<Rightarrow> [Some WrongText]))"

definition check_active_plan_is_real :: "protocol_model \<Rightarrow> violation option list" where
  "check_active_plan_is_real m =
     (case active_plan (om_state m) of
        None \<Rightarrow> []
      | Some [] \<Rightarrow> [Some WrongPlan]
      | Some (f # fs) \<Rightarrow>
          [demand (list_all (\<lambda>g. fp_type_oid g = fp_type_oid f) (f # fs)) WrongPlan,
           demand (hget (plan_built m) (fp_type_oid f) \<noteq> None) WrongPlan])"

definition result_orders :: "plan_state \<Rightarrow> u64 list" where
  "result_orders s =
     List.map_filter (\<lambda>d. case d of Simple q \<Rightarrow> Some (ps_order q) | Describe _ \<Rightarrow> None) (pending_descriptions s) @
     map pe_order (pending_executes s)"

fun non_decreasing :: "u64 list \<Rightarrow> bool" where
  "non_decreasing (x # y # r) \<longleftrightarrow> x \<le> y \<and> non_decreasing (y # r)"
| "non_decreasing _ \<longleftrightarrow> True"

definition check_queue :: "u64 \<Rightarrow> u64 list \<Rightarrow> violation option list" where
  "check_queue now epochs =
     [demand (non_decreasing epochs) WrongEpoch, demand (list_all (\<lambda>e. e \<le> now) epochs) WrongEpoch]"

definition check_epoch_ordering :: "protocol_model \<Rightarrow> violation option list" where
  "check_epoch_ordering m =
     (let s = om_state m; now = sync_epoch s; orders = result_orders s
      in [demand (list_all (\<lambda>x. x < next_result_order s) orders) WrongOrder, demand (distinct orders) WrongOrder] @
         check_queue now (map description_epoch (pending_descriptions s)) @
         check_queue now (map pm_epoch (pending_parses s)) @
         check_queue now (map pm_epoch (pending_binds s)) @
         check_queue now (map pe_epoch (pending_executes s)) @
         [case active_epoch s of None \<Rightarrow> None | Some e \<Rightarrow> demand (e \<le> now) WrongEpoch,
          demand (rejection_epoch s \<le> now) WrongEpoch])"

definition check_inflight_plan_survives_rebind :: "protocol_model \<Rightarrow> violation option list" where
  "check_inflight_plan_survives_rebind m =
     (let s = om_state m
      in if streaming_simple_result s then []
         else (case front (pending_executes s) of
                 None \<Rightarrow> []
               | Some p \<Rightarrow>
                   (case pe_plan p of
                      Some snap \<Rightarrow>
                        (case streaming_plan s of
                           None \<Rightarrow> [Some WrongInflight]
                         | Some stream \<Rightarrow> [demand (plan_id stream = plan_id snap) WrongInflight])
                    | None \<Rightarrow>
                        (let gen_stale = pe_generation p \<noteq> bind_generation s (pe_name p);
                             original = hget (bind_owners m) (pe_name p, pe_generation p);
                             current = hget (portal_statement s) (pe_name p);
                             rebound = original \<noteq> None \<and> current \<noteq> original
                         in [known (pe_name p), case current of None \<Rightarrow> None | Some t \<Rightarrow> known t] @
                            (if gen_stale \<or> rebound
                             then (case streaming_plan s of
                                     None \<Rightarrow> []
                                   | Some stream \<Rightarrow>
                                       [demand (plan_id stream \<noteq>
                                                  Option.bind (hget (portal_plans s) (pe_name p)) plan_id)
                                          WrongInflight])
                             else [])))))"

definition after_step :: "violation option list \<Rightarrow> protocol_model \<Rightarrow> violation + protocol_model" where
  "after_step checks m =
     (case List.map_filter id
             (checks @ check_described_sql m @ check_active_plan_is_real m @ check_epoch_ordering m @
              check_inflight_plan_survives_rebind m) of
        v # _ \<Rightarrow> Inl v
      | [] \<Rightarrow> Inr (m\<lparr>om_step := Suc (om_step m)\<rparr>))"

abbreviation with_state :: "protocol_model \<Rightarrow> plan_state \<Rightarrow> protocol_model" where
  "with_state m s \<equiv> m\<lparr>om_state := s\<rparr>"

section \<open>Messages with assertions of their own\<close>

definition oracle_bind :: "bytes \<Rightarrow> bytes \<Rightarrow> i16 list option \<Rightarrow> protocol_model \<Rightarrow> protocol_model" where
  "oracle_bind portal statement formats m =
     (let s = plan_bind portal statement formats (om_state m);
          key = (portal, bind_generation s portal)
      in m\<lparr>om_state := s, bound_from := add_under portal statement (bound_from m),
           bind_owners := (case hget (bind_owners m) key of
                             Some _ \<Rightarrow> bind_owners m
                           | None \<Rightarrow> hinsert key statement (bind_owners m))\<rparr>)"

definition oracle_execute :: "bytes \<Rightarrow> protocol_model \<Rightarrow> violation + protocol_model" where
  "oracle_execute portal m =
     (let s = om_state m; t = execute portal s
      in after_step
           ((if suspended s
             then (if result_owner s \<noteq> Some portal then [demand (result_owner t = Some portal) WrongResume] else []) @
                  [demand (\<not> suspended t) WrongResume]
             else []) @
            (case active_plan_id t of
               None \<Rightarrow> []
             | Some i \<Rightarrow>
                 (let built_for = under (plan_targets m) i
                  in [demand (ForSimple \<notin> set built_for) WrongTarget,
                      demand (ForPortal portal \<in> set built_for \<or>
                              list_ex (\<lambda>st. ForStatement st \<in> set built_for) (under (bound_from m) portal))
                        WrongTarget,
                      (case hget (plan_built m) i of
                         None \<Rightarrow> Some WrongTarget
                       | Some built \<Rightarrow>
                           (case last_invalidation m of
                              None \<Rightarrow> None
                            | Some refreshed \<Rightarrow> demand (refreshed < built) StalePlan))])))
           (with_state m t))"

definition oracle_simple_query :: "u8 option \<Rightarrow> protocol_model \<Rightarrow> violation + protocol_model" where
  "oracle_simple_query sql m =
     (let sql_text = map_option (\<lambda>i. SIMPLE_SQL ! (unat i mod length SIMPLE_SQL)) sql;
          s = begin_simple_query sql_text (om_state m)
      in after_step
           [demand (length (pending_descriptions s) = length (pending_descriptions (om_state m)) + 1) WrongQueue]
           (m\<lparr>om_state := s, simple_texts := (case sql_text of Some t \<Rightarrow> List.insert t (simple_texts m) | None \<Rightarrow> simple_texts m)\<rparr>))"

definition make_plan :: "u32 \<Rightarrow> nat \<Rightarrow> plan" where
  "make_plan i width =
     replicate width \<lparr>fp_spec = spec_new MNone, json_projection = None, fp_type_oid = i, fp_format = 0,
                      lenient = False, primed = None\<rparr>"

definition oracle_description :: "u8 \<Rightarrow> protocol_model \<Rightarrow> violation + protocol_model" where
  "oracle_description n m =
     (if next_plan_id m = - 1 then Inl PlanIdOverflow
      else
        (let i = next_plan_id m; width = 1 + unat n mod 3; s = om_state m; pl = make_plan i width;
             m1 = m\<lparr>next_plan_id := i + 1\<rparr>
         in case front (pending_descriptions s) of
              None \<Rightarrow>
                (case finish_description pl s of
                   Inl _ \<Rightarrow> after_step [] m1
                 | Inr _ \<Rightarrow> Inl WrongDescription)
            | Some d \<Rightarrow>
                (let expected_simple = (case d of Simple _ \<Rightarrow> True | Describe _ \<Rightarrow> False);
                     target = (case d of
                                 Simple _ \<Rightarrow> ForSimple
                               | Describe p \<Rightarrow> (case pd_target p of Statement n \<Rightarrow> ForStatement n | Portal n \<Rightarrow> ForPortal n));
                     name_check = (case target of ForStatement n \<Rightarrow> [known n] | ForPortal n \<Rightarrow> [known n] | ForSimple \<Rightarrow> [])
                 in case finish_description pl s of
                      Inl _ \<Rightarrow> Inl (case List.map_filter id name_check of v # _ \<Rightarrow> v | [] \<Rightarrow> WrongDescription)
                    | Inr t \<Rightarrow>
                        after_step
                          (name_check @
                           [demand (streaming_simple_result t = expected_simple) WrongDescription,
                            demand (active_plan_id t = Some i) WrongDescription])
                          (m1\<lparr>om_state := t, plan_targets := add_under i target (plan_targets m),
                              plan_built := hinsert i (om_step m) (plan_built m)\<rparr>))))"

definition oracle_no_data :: "protocol_model \<Rightarrow> violation + protocol_model" where
  "oracle_no_data m =
     (let s = om_state m;
          expect_ok = (case front (pending_descriptions s) of Some (Describe _) \<Rightarrow> True | _ \<Rightarrow> False)
      in case finish_no_data s of
           Inl _ \<Rightarrow> after_step [demand (\<not> expect_ok) WrongNoData] m
         | Inr t \<Rightarrow> after_step [demand expect_ok WrongNoData] (with_state m t))"

definition oracle_empty_query :: "protocol_model \<Rightarrow> violation + protocol_model" where
  "oracle_empty_query m =
     (let s = om_state m;
          expect_ok = (case front (pending_descriptions s) of Some (Simple _) \<Rightarrow> True | _ \<Rightarrow> False)
      in case finish_empty_query s of
           Inl _ \<Rightarrow> after_step [demand (\<not> expect_ok) WrongEmpty] m
         | Inr t \<Rightarrow>
             after_step [demand expect_ok WrongEmpty, demand (\<not> streaming_simple_result t) WrongEmpty]
               (with_state m t))"

definition oracle_result_end :: "protocol_model \<Rightarrow> violation + protocol_model" where
  "oracle_result_end m =
     (let s = om_state m;
          simple_order = (case front (pending_descriptions s) of Some (Simple q) \<Rightarrow> Some (ps_order q) | _ \<Rightarrow> None);
          execute_order = map_option pe_order (front (pending_executes s));
          expected_simple = (\<not> streaming_simple_result s \<and>
            (case simple_order of
               None \<Rightarrow> False
             | Some sm \<Rightarrow> (case execute_order of None \<Rightarrow> True | Some ex \<Rightarrow> sm < ex)));
          t = finish_result_set s;
          same_d = demand (length (pending_descriptions t) = length (pending_descriptions s)) WrongEnd;
          same_e = demand (length (pending_executes t) = length (pending_executes s)) WrongEnd
      in after_step
           (demand (\<not> streaming_simple_result t) WrongEnd #
            (if streaming_simple_result s then [same_d, same_e]
             else if expected_simple
             then [demand (length (pending_descriptions t) + 1 = length (pending_descriptions s)) WrongEnd, same_e]
             else if execute_order \<noteq> None
             then [same_d, demand (length (pending_executes t) + 1 = length (pending_executes s)) WrongEnd]
             else [same_d, same_e]))
           (with_state m t))"

definition oracle_suspended :: "protocol_model \<Rightarrow> violation + protocol_model" where
  "oracle_suspended m =
     (let s = om_state m; queued = length (pending_executes s); t = suspend_result s
      in after_step
           (if queued > 1
            then [demand (result_owner t \<noteq> result_owner s) SuspendedOwner, demand (\<not> suspended t) WrongPause]
            else if queued = 1
            then [demand (suspended t) WrongPause, demand (result_owner t = result_owner s) WrongPause]
            else [])
           (with_state m t))"

definition oracle_ready :: "u8 \<Rightarrow> protocol_model \<Rightarrow> violation + protocol_model" where
  "oracle_ready status m =
     (let s = om_state m; t = ready_for_query status s
      in after_step
           ((if suspended s \<and> status = 0x49
             then [demand (result_owner t = None) WrongReady, demand (\<not> suspended t) WrongReady] else []) @
            (if suspended s \<and> status = 0x54
             then [demand (result_owner t = result_owner s) WrongReady, demand (suspended t) WrongReady] else []))
           (with_state m t))"

definition oracle_error :: "protocol_model \<Rightarrow> violation + protocol_model" where
  "oracle_error m =
     (let s = om_state m;
          execute_only = (pending_descriptions s = [] \<and> pending_parses s = [] \<and> pending_binds s = []);
          owner_before = result_owner s;
          owner_epoch = map_option pe_epoch (front (pending_executes s));
          cmd_epochs = List.map_filter id
            [map_option description_epoch (front (pending_descriptions s)),
             map_option pm_epoch (front (pending_parses s)), map_option pm_epoch (front (pending_binds s))];
          t = discard_failed_epoch s
      in after_step
           (demand (\<not> streaming_simple_result t) WrongError #
            (if execute_only
             then (case owner_epoch of
                     None \<Rightarrow> []
                   | Some e \<Rightarrow> [demand (list_all (\<lambda>p. pe_epoch p \<noteq> e) (pending_executes t)) WrongError]) @
                  (if owner_before \<noteq> None then [demand (result_owner t \<noteq> owner_before) ErrorOwner] else [])
             else []) @
            (if suspended s
             then (case (owner_epoch, cmd_epochs) of
                     (Some oe, c # cs) \<Rightarrow>
                       if oe < fold min cs c \<and> owner_before \<noteq> None
                       then [demand (result_owner t \<noteq> owner_before) WrongError] else []
                   | _ \<Rightarrow> [])
             else []))
           (with_state m t))"

definition oracle_suppressed :: "u8 \<Rightarrow> protocol_model \<Rightarrow> violation + protocol_model" where
  "oracle_suppressed e m =
     (let epoch = (case om_suppressing m of Some x \<Rightarrow> x | None \<Rightarrow> ucast e);
          t = finish_suppressed_epoch epoch (om_state m)
      in after_step [demand (\<not> streaming_simple_result t) WrongSuppressed]
           (m\<lparr>om_state := t, om_suppressing := None\<rparr>))"

definition oracle_invalidate :: "u8 \<Rightarrow> protocol_model \<Rightarrow> violation + protocol_model" where
  "oracle_invalidate g m =
     (let current = ucast g mod 3;
          moved = current \<noteq> om_generation m
      in after_step []
           (m\<lparr>om_state := snd (invalidate_if_stale current (om_state m)), om_generation := current,
              last_invalidation := (if moved then Some (om_step m) else last_invalidation m)\<rparr>))"

section \<open>Runs\<close>

fun oracle_step :: "oracle_op \<Rightarrow> protocol_model \<Rightarrow> violation + protocol_model" where
  "oracle_step (DoParse n q) m =
     (let sql = PARSE_SQL ! (unat q mod length PARSE_SQL)
      in after_step [] (m\<lparr>om_state := parse (name_of n) sql (om_state m),
                          parsed_under := add_under (name_of n) sql (parsed_under m)\<rparr>))"
| "oracle_step DoParseUndecodable m = after_step [] m"
| "oracle_step (DoBind p st formats) m = after_step [] (oracle_bind (name_of p) (name_of st) formats m)"
| "oracle_step (DoDescribeStatement n) m = after_step [] (with_state m (describe (Statement (name_of n)) (om_state m)))"
| "oracle_step (DoDescribePortal p) m = after_step [] (with_state m (describe (Portal (name_of p)) (om_state m)))"
| "oracle_step (DoExecute p) m = oracle_execute (name_of p) m"
| "oracle_step DoSync m = after_step [] (with_state m (sync (om_state m)))"
| "oracle_step (DoCloseStatement n) m = after_step [] (with_state m (plan_close (Statement (name_of n)) (om_state m)))"
| "oracle_step (DoClosePortal p) m = after_step [] (with_state m (plan_close (Portal (name_of p)) (om_state m)))"
| "oracle_step (DoSimple sql) m = oracle_simple_query sql m"
| "oracle_step DoParseComplete m = after_step [] (with_state m (finish_parse (om_state m)))"
| "oracle_step DoBindComplete m = after_step [] (with_state m (finish_bind (om_state m)))"
| "oracle_step (DoDescription n) m = oracle_description n m"
| "oracle_step DoNoData m = oracle_no_data m"
| "oracle_step DoEmptyQuery m = oracle_empty_query m"
| "oracle_step DoResultEnd m = oracle_result_end m"
| "oracle_step DoSuspended m = oracle_suspended m"
| "oracle_step DoDropDescription m = after_step [] (with_state m (discard_description (om_state m)))"
| "oracle_step (DoReady status) m = oracle_ready status m"
| "oracle_step DoError m = oracle_error m"
| "oracle_step DoReject m =
     after_step [] (m\<lparr>om_suppressing := Some (rejection_epoch (om_state m)), om_state := clear_active (om_state m)\<rparr>)"
| "oracle_step (DoSuppressed e) m = oracle_suppressed e m"
| "oracle_step DoClearActive m = after_step [] (with_state m (clear_active (om_state m)))"
| "oracle_step (DoInvalidate g) m = oracle_invalidate g m"

fun oracle_run :: "oracle_op list \<Rightarrow> protocol_model \<Rightarrow> violation + protocol_model" where
  "oracle_run [] m = Inr m"
| "oracle_run (op # ops) m = (case oracle_step op m of Inl v \<Rightarrow> Inl v | Inr m' \<Rightarrow> oracle_run ops m')"

text \<open>The fuzz target: one input is a list of messages, cut off at \<open>MAX_OPS\<close>.\<close>

definition MAX_OPS :: nat where
  "MAX_OPS = 128"

definition fuzz_target :: "oracle_op list \<Rightarrow> violation + protocol_model" where
  "fuzz_target ops = oracle_run (take MAX_OPS ops) model_new"

end
