(* ===== verification/Plan_Oracle_Facts.thy ===== *)
theory Plan_Oracle_Facts
  imports Plan_Oracle Plan_State_Facts "HOL-Library.Sublist" "HOL-Library.Multiset"
begin

text \<open>
  The fuzzer's oracle against every sequence of messages: where each text and each plan of a reachable
  \<open>PlanState\<close> comes from, and which assertions can fail.
\<close>

section \<open>Where texts come from\<close>

definition asked :: "(bytes \<Rightarrow> rstring \<Rightarrow> bool) \<Rightarrow> (bytes \<Rightarrow> bytes \<Rightarrow> bool) \<Rightarrow> describe_target \<Rightarrow> rstring \<Rightarrow> bool" where
  "asked P B t q = (case t of Statement n \<Rightarrow> P n q | Portal p \<Rightarrow> \<exists>st. B p st \<and> P st q)"

definition target_name :: "describe_target \<Rightarrow> bytes" where
  "target_name t = (case t of Statement n \<Rightarrow> n | Portal p \<Rightarrow> p)"

definition traced_entry ::
  "(bytes \<Rightarrow> rstring \<Rightarrow> bool) \<Rightarrow> (bytes \<Rightarrow> bytes \<Rightarrow> bool) \<Rightarrow> (rstring \<Rightarrow> bool) \<Rightarrow> pending_description \<Rightarrow> bool" where
  "traced_entry P B Q d =
     (case d of
        Describe p \<Rightarrow> target_name (pd_target p) \<in> set NAMES \<and> (\<forall>q. pd_sql p = Some q \<longrightarrow> asked P B (pd_target p) q)
      | Simple p \<Rightarrow> \<forall>q. ps_sql p = Some q \<longrightarrow> Q q)"

definition traced ::
  "(bytes \<Rightarrow> rstring \<Rightarrow> bool) \<Rightarrow> (bytes \<Rightarrow> bytes \<Rightarrow> bool) \<Rightarrow> (rstring \<Rightarrow> bool) \<Rightarrow> plan_state \<Rightarrow> bool" where
  "traced P B Q s \<longleftrightarrow>
     (\<forall>n q. hget (statement_sql s) n = Some q \<longrightarrow> P n q) \<and>
     (\<forall>p t. hget (portal_statement s) p = Some t \<longrightarrow> B p t) \<and>
     (\<forall>d \<in> set (pending_descriptions s). traced_entry P B Q d)"

lemma asked_mono: "asked P B t q \<Longrightarrow> P \<le> P' \<Longrightarrow> B \<le> B' \<Longrightarrow> asked P' B' t q"
  unfolding asked_def le_fun_def le_bool_def by (cases t) (simp_all, blast+)

lemma traced_mono: "traced P B Q s \<Longrightarrow> P \<le> P' \<Longrightarrow> B \<le> B' \<Longrightarrow> Q \<le> Q' \<Longrightarrow> traced P' B' Q' s"
  unfolding traced_def traced_entry_def
  by (auto simp: le_fun_def intro: asked_mono split: pending_description.splits) (metis asked_mono le_fun_def le_boolI)

lemma traced_shrink:
  assumes "traced P B Q s"
    and "\<And>n q. hget (statement_sql s') n = Some q \<Longrightarrow> hget (statement_sql s) n = Some q"
    and "\<And>p t. hget (portal_statement s') p = Some t \<Longrightarrow> hget (portal_statement s) p = Some t"
    and "set (pending_descriptions s') \<subseteq> set (pending_descriptions s)"
  shows "traced P B Q s'"
  using assms unfolding traced_def by blast

section \<open>Where plans come from\<close>

definition planned ::
  "(bytes \<Rightarrow> plan \<Rightarrow> bool) \<Rightarrow> (bytes \<Rightarrow> plan \<Rightarrow> bool) \<Rightarrow> (plan \<Rightarrow> bool) \<Rightarrow> plan_state \<Rightarrow> bool" where
  "planned F G A s \<longleftrightarrow>
     (\<forall>n pl. hget (statement_plans s) n = Some pl \<longrightarrow> F n pl) \<and>
     (\<forall>p pl. hget (portal_plans s) p = Some pl \<longrightarrow> G p pl) \<and>
     (\<forall>pl. active_plan s = Some pl \<longrightarrow> A pl)"

lemma planned_mono: "planned F G A s \<Longrightarrow> F \<le> F' \<Longrightarrow> G \<le> G' \<Longrightarrow> A \<le> A' \<Longrightarrow> planned F' G' A' s"
  by (auto simp: planned_def le_fun_def)

lemma planned_shrink:
  assumes "planned F G A s"
    and "\<And>n pl. hget (statement_plans s') n = Some pl \<Longrightarrow> hget (statement_plans s) n = Some pl"
    and "\<And>p pl. hget (portal_plans s') p = Some pl \<Longrightarrow> hget (portal_plans s) p = Some pl"
    and "\<And>pl. active_plan s' = Some pl \<Longrightarrow> active_plan s = Some pl"
  shows "planned F G A s'"
  using assms unfolding planned_def by blast

text \<open>
  No queued Execute of the portal's current Bind lacks a plan the portal has: a plan that arrives is
  copied into the queue, and one that is there is copied when the Execute is queued.
\<close>

definition filled :: "plan_state \<Rightarrow> bool" where
  "filled s \<longleftrightarrow>
     (\<forall>p \<in> set (pending_executes s). pe_plan p = None \<and> pe_generation p = bind_generation s (pe_name p) \<longrightarrow>
        hget (portal_plans s) (pe_name p) = None)"

lemma filled_shrink:
  assumes "filled s" and "set (pending_executes s') \<subseteq> set (pending_executes s)"
    and "\<And>p. hget (portal_plans s') p \<noteq> None \<Longrightarrow>
      hget (portal_plans s) p \<noteq> None \<and> bind_generation s' p = bind_generation s p"
  shows "filled s'"
  using assms unfolding filled_def by (metis option.exhaust subsetD)

text \<open>The owners of results still owed: distinct orders, all handed out already.\<close>

definition owed_once :: "plan_state \<Rightarrow> bool" where
  "owed_once s \<longleftrightarrow> distinct (result_orders s) \<and> (\<forall>x \<in> set (result_orders s). x < next_result_order s)"

lemma result_orders_eq: "result_orders s = simple_orders (pending_descriptions s) @ map pe_order (pending_executes s)"
proof -
  have "(\<lambda>d. case d of Simple q \<Rightarrow> Some (ps_order q) | Describe _ \<Rightarrow> None) =
      (\<lambda>d. case d of Simple q \<Rightarrow> Some (ps_order q) | _ \<Rightarrow> None)"
    by (auto split: pending_description.split)
  then show ?thesis by (simp add: result_orders_def simple_orders_def)
qed

lemma simple_orders_subseq: "subseq ds es \<Longrightarrow> subseq (simple_orders ds) (simple_orders es)"
  unfolding simple_orders_def map_filter_def by (intro subseq_map subseq_filter)

lemma subseq_part: "subseq xs ys \<Longrightarrow> set xs \<subseteq> set ys \<and> (distinct ys \<longrightarrow> distinct xs)"
  by (induction rule: list_emb.induct) auto

lemma subseq_pop_front [simp]: "subseq (pop_front xs) xs"
  by (cases xs) auto

lemma owed_once_shrink:
  assumes "owed_once s" and "subseq (pending_descriptions s') (pending_descriptions s)"
    and "subseq (map pe_order (pending_executes s')) (map pe_order (pending_executes s))"
    and "next_result_order s' = next_result_order s"
  shows "owed_once s'"
proof -
  have "subseq (result_orders s') (result_orders s)"
    unfolding result_orders_eq by (intro list_emb_append_mono simple_orders_subseq assms(2,3))
  then show ?thesis using assms(1,4) subseq_part unfolding owed_once_def by (metis subsetD)
qed

section \<open>A shadow of the state\<close>

text \<open>
  A shadow says which texts a statement was parsed with, which statements a portal was bound to, which
  texts were queried, and which plans a statement, a portal and a result may have. It only has to be
  closed under what the state machine does with plans: a plan of a statement may be stamped for a portal
  bound to it, and a plan of a portal may become active.
\<close>

locale plan_shadow =
  fixes P :: "bytes \<Rightarrow> rstring \<Rightarrow> bool" and B :: "bytes \<Rightarrow> bytes \<Rightarrow> bool" and Q :: "rstring \<Rightarrow> bool"
    and F :: "bytes \<Rightarrow> plan \<Rightarrow> bool" and G :: "bytes \<Rightarrow> plan \<Rightarrow> bool" and A :: "plan \<Rightarrow> bool"
  assumes stamped: "F t pl \<Longrightarrow> B p t \<Longrightarrow> G p (stamp pl formats)"
    and activated: "G p pl \<Longrightarrow> A pl"
begin

definition shadowed :: "plan_state \<Rightarrow> bool" where
  "shadowed s \<longleftrightarrow> traced P B Q s \<and> planned F G A s \<and> filled s \<and> owed_once s \<and>
     (\<forall>p \<in> set (pending_executes s). pe_name p \<in> set NAMES)"

lemma shadowed_shrink:
  assumes "shadowed s"
    and "\<And>n q. hget (statement_sql s') n = Some q \<Longrightarrow> hget (statement_sql s) n = Some q"
    and "\<And>p t. hget (portal_statement s') p = Some t \<Longrightarrow> hget (portal_statement s) p = Some t"
    and "subseq (pending_descriptions s') (pending_descriptions s)"
    and "\<And>n pl. hget (statement_plans s') n = Some pl \<Longrightarrow> hget (statement_plans s) n = Some pl"
    and "\<And>p pl. hget (portal_plans s') p = Some pl \<Longrightarrow> hget (portal_plans s) p = Some pl"
    and "\<And>pl. active_plan s' = Some pl \<Longrightarrow> active_plan s = Some pl"
    and "subseq (pending_executes s') (pending_executes s)"
    and "portal_bind_generations s' = portal_bind_generations s"
    and "next_result_order s' = next_result_order s"
  shows "shadowed s'"
proof -
  have d: "set (pending_descriptions s') \<subseteq> set (pending_descriptions s)"
    using subseq_part [OF assms(4)] ..
  have e: "set (pending_executes s') \<subseteq> set (pending_executes s)"
    using subseq_part [OF assms(8)] ..
  have "traced P B Q s'" 
    using traced_shrink [of P B Q s s'] assms(1-3) d unfolding shadowed_def by blast
  moreover have "planned F G A s'" 
    using planned_shrink [of F G A s s'] assms(1,5-7) unfolding shadowed_def by blast
  moreover have "filled s'"
  proof (rule filled_shrink [OF _ e])
    show "filled s" using assms(1) by (simp add: shadowed_def)
    show "hget (portal_plans s) p \<noteq> None \<and> bind_generation s' p = bind_generation s p"
      if "hget (portal_plans s') p \<noteq> None" for p
      using that assms(6) [of p] assms(9) by (auto simp: bind_generation_def)
  qed
  moreover have "owed_once s'"
    using assms(1) by (intro owed_once_shrink [OF _ assms(4) subseq_map [OF assms(8)] assms(10)]) (simp add: shadowed_def)
  moreover have "\<forall>p \<in> set (pending_executes s'). pe_name p \<in> set NAMES"
    using assms(1) e unfolding shadowed_def by auto
  ultimately show ?thesis unfolding shadowed_def by simp
qed

lemma shadowed_flags [simp]:
  "shadowed (s\<lparr>generation := g\<rparr>) = shadowed s"
  "shadowed (s\<lparr>sync_epoch := e\<rparr>) = shadowed s"
  "shadowed (s\<lparr>active_epoch := oe\<rparr>) = shadowed s"
  "shadowed (s\<lparr>active_portal := op\<rparr>) = shadowed s"
  "shadowed (s\<lparr>suspended := b\<rparr>) = shadowed s"
  "shadowed (s\<lparr>streaming_simple_result := b\<rparr>) = shadowed s"
  "shadowed (s\<lparr>pending_parses := ps\<rparr>) = shadowed s"
  "shadowed (s\<lparr>pending_binds := bs\<rparr>) = shadowed s"
  by (simp_all add: shadowed_def traced_def planned_def filled_def owed_once_def result_orders_def bind_generation_def)

lemma shadowed_active: "shadowed s \<Longrightarrow> (\<And>pl. a = Some pl \<Longrightarrow> A pl) \<Longrightarrow> shadowed (s\<lparr>active_plan := a\<rparr>)"
  by (simp add: shadowed_def traced_def planned_def filled_def owed_once_def result_orders_def bind_generation_def)

lemma shadowed_clear: "shadowed s \<Longrightarrow> shadowed (s\<lparr>active_plan := None\<rparr>)"
  by (rule shadowed_active) simp_all

lemma shadowed_invalidate: "shadowed s \<Longrightarrow> shadowed (snd (invalidate_if_stale g s))"
  by (rule shadowed_shrink [of s]) (auto simp: invalidate_if_stale_def split: if_splits)

lemma shadowed_clear_active: "shadowed s \<Longrightarrow> shadowed (clear_active s)"
  by (simp add: clear_active_def shadowed_clear)

lemma shadowed_close: "shadowed s \<Longrightarrow> shadowed (plan_close t s)"
proof (rule shadowed_shrink [of s])
  have q: "queues (plan_close t s) = queues s"
    by (cases t) (simp_all add: plan_close_def Let_def forget_closed_portal_frame, simp_all add: forget_closed_portal_def queues_def)
  then show "subseq (pending_descriptions (plan_close t s)) (pending_descriptions s)"
    "next_result_order (plan_close t s) = next_result_order s"
    "active_plan (plan_close t s) = Some pl \<Longrightarrow> active_plan s = Some pl" for pl
    by (simp_all add: queues_def)
qed (cases t; auto simp: plan_close_def Let_def forget_closed_portal_frame forget_closed_portal_maps hmap_simps
      forget_closed_portal_def split: if_splits)+

lemma shadowed_suspend: "shadowed s \<Longrightarrow> shadowed (suspend_result s)"
  by (rule shadowed_shrink [of s]) (auto simp: suspend_result_def split: if_splits)

lemma shadowed_ready: "shadowed s \<Longrightarrow> shadowed (ready_for_query b s)"
  by (rule shadowed_shrink [of s]) (auto simp: ready_for_query_def split: if_splits)

lemma shadowed_result_end: "shadowed s \<Longrightarrow> shadowed (finish_result_set s)"
  by (rule shadowed_shrink [of s]) (auto simp: finish_result_set_def Let_def split: option.splits if_splits)

lemma shadowed_suppressed: "shadowed s \<Longrightarrow> shadowed (finish_suppressed_epoch e s)"
  by (rule shadowed_shrink [of s]) (auto simp: finish_suppressed_epoch_def)

lemma shadowed_error: "shadowed s \<Longrightarrow> shadowed (discard_failed_epoch s)"
  by (rule shadowed_shrink [of s])
    (auto simp: discard_failed_epoch_def Let_def hmap_simps split: option.splits if_splits)

lemma shadowed_drop: "shadowed s \<Longrightarrow> shadowed (s\<lparr>pending_descriptions := pop_front (pending_descriptions s)\<rparr>)"
  by (rule shadowed_shrink [of s]) auto

lemma shadowed_fill:
  assumes "shadowed s"
  shows "shadowed (fill_pending_plan p pl s)"
proof -
  have "map pe_order (pending_executes (fill_pending_plan p pl s)) = map pe_order (pending_executes s)"
    by (simp add: fill_pending_plan_def)
  then have "owed_once (fill_pending_plan p pl s)"
    using assms by (simp add: shadowed_def owed_once_def result_orders_def) (simp add: fill_pending_plan_def)
  moreover have "traced P B Q (fill_pending_plan p pl s)" "planned F G A (fill_pending_plan p pl s)"
    using assms by (simp_all add: fill_pending_plan_def shadowed_def traced_def planned_def)
  moreover have "filled (fill_pending_plan p pl s)"
  proof (unfold filled_def, intro ballI impI, elim conjE)
    fix q' assume q': "q' \<in> set (pending_executes (fill_pending_plan p pl s))" "pe_plan q' = None"
      "pe_generation q' = bind_generation (fill_pending_plan p pl s) (pe_name q')"
    then have "q' \<in> set (pending_executes s)" by (auto simp: fill_pending_plan_def split: if_splits)
    moreover have "pe_generation q' = bind_generation s (pe_name q')"
      using q'(3) by (simp add: fill_pending_plan_def bind_generation_def)
    moreover have "filled s" using assms by (simp add: shadowed_def)
    ultimately show "hget (portal_plans (fill_pending_plan p pl s)) (pe_name q') = None"
      using q'(2) by (simp add: fill_pending_plan_def filled_def)
  qed
  moreover have "\<forall>q \<in> set (pending_executes (fill_pending_plan p pl s)). pe_name q \<in> set NAMES"
    using assms by (auto simp: fill_pending_plan_def shadowed_def)
  ultimately show ?thesis unfolding shadowed_def by simp
qed

abbreviation without :: "bytes \<Rightarrow> plan_state \<Rightarrow> plan_state" where
  "without p s \<equiv> s\<lparr>portal_plans := hremove p (portal_plans s)\<rparr>"

lemma shadowed_without: "shadowed s \<Longrightarrow> shadowed (without p s)"
  by (rule shadowed_shrink [of s]) (auto simp: delete_conv' split: if_splits)

lemma shadowed_install_over:
  assumes s: "shadowed (without p s)" and pl: "G p pl"
  shows "shadowed (install_portal_plan p pl s)"
proof -
  let ?t = "fill_pending_plan p pl (without p s)"
  have t: "shadowed ?t" by (rule shadowed_fill [OF s])
  have eq: "install_portal_plan p pl s = ?t\<lparr>portal_plans := hinsert p pl (portal_plans s)\<rparr>"
    by (simp add: install_portal_plan_def fill_pending_plan_def bind_generation_def Let_def)
  have gone: "portal_plans ?t = hremove p (portal_plans s)" by (simp add: fill_pending_plan_def)
  have none: "pe_plan q \<noteq> None"
    if "q \<in> set (pending_executes ?t)" "pe_name q = p" "pe_generation q = bind_generation ?t p" for q
  proof -
    have gen: "bind_generation ?t p = bind_generation s p" by (simp add: fill_pending_plan_def bind_generation_def)
    from that(1) have "q \<in> (\<lambda>q'. if pe_name q' = p \<and> pe_generation q' = bind_generation s p \<and> pe_plan q' = None
        then q'\<lparr>pe_plan := Some pl\<rparr> else q') ` set (pending_executes s)"
      by (simp add: fill_pending_plan_def bind_generation_def)
    then obtain q' where "q = (if pe_name q' = p \<and> pe_generation q' = bind_generation s p \<and> pe_plan q' = None
        then q'\<lparr>pe_plan := Some pl\<rparr> else q')"
      by (rule imageE)
    then show ?thesis using that(2,3) gen by (cases "pe_plan q' = None") (auto split: if_splits)
  qed
  have "filled (?t\<lparr>portal_plans := hinsert p pl (portal_plans s)\<rparr>)"
  proof (unfold filled_def, intro ballI impI, elim conjE)
    fix q assume q: "q \<in> set (pending_executes (?t\<lparr>portal_plans := hinsert p pl (portal_plans s)\<rparr>))" "pe_plan q = None"
      "pe_generation q = bind_generation (?t\<lparr>portal_plans := hinsert p pl (portal_plans s)\<rparr>) (pe_name q)"
    then have "pe_generation q = bind_generation ?t (pe_name q)" by (simp add: bind_generation_def)
    moreover from this q have ne: "pe_name q \<noteq> p" using none [of q] by auto
    ultimately have "hget (portal_plans ?t) (pe_name q) = None"
      using t q(1,2) unfolding shadowed_def filled_def by simp
    then show "hget (portal_plans (?t\<lparr>portal_plans := hinsert p pl (portal_plans s)\<rparr>)) (pe_name q) = None"
      using ne by (simp add: gone update_conv' delete_conv')
  qed
  moreover have "planned F G A (?t\<lparr>portal_plans := hinsert p pl (portal_plans s)\<rparr>)"
    using t pl unfolding shadowed_def planned_def gone by (simp add: update_conv' delete_conv')
  ultimately show ?thesis
    using t unfolding eq shadowed_def by (simp add: traced_def owed_once_def result_orders_def)
qed

lemma shadowed_install: "shadowed s \<Longrightarrow> G p pl \<Longrightarrow> shadowed (install_portal_plan p pl s)"
  by (rule shadowed_install_over [OF shadowed_without])

lemma shadowed_forget_stale:
  assumes "shadowed s"
  shows "shadowed (forget_stale_portal p s)"
proof -
  have "filled (forget_stale_portal p s)"
    using assms by (intro filled_shrink [of s "forget_stale_portal p s"])
      (auto simp: shadowed_def forget_stale_portal_def bind_generation_def delete_conv' split: if_splits)
  moreover have "planned F G A (forget_stale_portal p s)"
    using assms by (auto simp: shadowed_def planned_def forget_stale_portal_def delete_conv' split: if_splits)
  ultimately show ?thesis
    using assms by (simp add: shadowed_def traced_def owed_once_def result_orders_def) (simp add: forget_stale_portal_def)
qed

lemma shadowed_parse:
  assumes "shadowed s" and "P n q"
  shows "shadowed (parse n q s)"
proof -
  have fold: "shadowed (fold forget_stale_portal ps u)" if "shadowed u" for ps u
    using that by (induction ps arbitrary: u) (simp_all add: shadowed_forget_stale)
  have sql: "shadowed (u\<lparr>statement_sql := hinsert n q (statement_sql u)\<rparr>)" if "shadowed u" for u
    using that assms(2)
    by (simp add: shadowed_def traced_def planned_def filled_def owed_once_def result_orders_def bind_generation_def update_conv')
  have plans: "shadowed (s\<lparr>statement_plans := hremove n (statement_plans s)\<rparr>)"
    by (rule shadowed_shrink [OF assms(1)]) (auto simp: delete_conv' split: if_splits)
  have "shadowed (if hget (statement_sql s) n \<noteq> Some q
      then fold forget_stale_portal (portals_of n s) (s\<lparr>statement_plans := hremove n (statement_plans s)\<rparr>) else s)"
    using assms(1) fold plans by simp
  from sql [OF this] show ?thesis by (simp add: parse_def Let_def)
qed

lemma shadowed_bind:
  assumes "shadowed s" and "B p t"
  shows "shadowed (plan_bind p t formats s)"
proof -
  define u where "u = bump_bind_generation p (s\<lparr>portal_statement := hinsert p t (portal_statement s),
     pending_binds := pending_binds s @ [\<lparr>pm_name = p, pm_epoch = sync_epoch s\<rparr>],
     portal_formats := hinsert p formats (portal_formats s)\<rparr>)"
  have "filled (without p u)"
    by (rule filled_shrink [of s])
      (use assms(1) in \<open>auto simp: shadowed_def u_def bump_bind_generation_def bind_generation_def update_conv' delete_conv' split: if_splits\<close>)
  moreover have "traced P B Q (without p u)"
    using assms by (simp add: u_def bump_bind_generation_def shadowed_def traced_def update_conv')
  moreover have "planned F G A (without p u)"
    using assms by (simp add: u_def bump_bind_generation_def shadowed_def planned_def delete_conv')
  ultimately have u: "shadowed (without p u)"
    using assms(1) by (simp add: shadowed_def owed_once_def result_orders_def) (simp add: u_def bump_bind_generation_def)
  have "F t pl" if "hget (statement_plans u) t = Some pl" for pl
    using that assms(1) by (simp add: u_def bump_bind_generation_def shadowed_def planned_def)
  then show ?thesis
    using u shadowed_install_over [OF u stamped [OF _ assms(2)]]
    by (auto simp: plan_bind_def Let_def u_def [symmetric] split: option.split)
qed

lemma shadowed_describe:
  assumes "shadowed s" and "target_name t \<in> set NAMES"
  shows "shadowed (describe t s)"
proof -
  have "traced_entry P B Q (Describe \<lparr>pd_target = t, pd_sql = (case t of Statement n \<Rightarrow> hget (statement_sql s) n
      | Portal p \<Rightarrow> sql_for_portal s p), pd_epoch = sync_epoch s\<rparr>)"
  proof (cases t)
    case (Statement n)
    then show ?thesis using assms by (simp add: traced_entry_def asked_def shadowed_def traced_def)
  next
    case (Portal p)
    have "\<exists>st. B p st \<and> P st q" if "sql_for_portal s p = Some q" for q
      using that assms(1) by (auto simp: sql_for_portal_def shadowed_def traced_def split: option.splits) blast
    then show ?thesis using assms(2) Portal by (simp add: traced_entry_def asked_def)
  qed
  then show ?thesis
    using assms(1) by (simp add: describe_def shadowed_def traced_def planned_def filled_def owed_once_def
        result_orders_eq bind_generation_def)
qed

lemma owed_once_next:
  assumes "owed_once s" and "next_result_order s \<noteq> - 1"
    and "mset (result_orders s') = add_mset (next_result_order s) (mset (result_orders s))"
    and "next_result_order s' = saturating_succ (next_result_order s)"
  shows "owed_once s'"
proof -
  have lt: "next_result_order s < next_result_order s'" using saturating_succ_less assms(2,4) by simp
  have "distinct (next_result_order s # result_orders s)"
    using assms(1) by (auto simp: owed_once_def)
  moreover have "mset (result_orders s') = mset (next_result_order s # result_orders s)" using assms(3) by simp
  ultimately have "distinct (result_orders s')" "set (result_orders s') = insert (next_result_order s) (set (result_orders s))"
    by (metis mset_eq_imp_distinct_iff, metis list.set(2) mset_eq_setD)
  then show ?thesis using assms(1) lt unfolding owed_once_def by (auto dest: less_trans)
qed

lemma shadowed_begin_simple_query:
  assumes "shadowed s" and "\<And>t. sql = Some t \<Longrightarrow> Q t" and "next_result_order s \<noteq> - 1"
  shows "shadowed (begin_simple_query sql s)"
proof -
  have "owed_once (begin_simple_query sql s)"
    by (rule owed_once_next [of s]) (use assms(1,3) in \<open>simp_all add: shadowed_def begin_simple_query_def Let_def result_orders_eq\<close>)
  moreover have "traced P B Q (begin_simple_query sql s)"
    using assms(1,2) by (simp add: shadowed_def traced_def begin_simple_query_def Let_def traced_entry_def)
  moreover have "planned F G A (begin_simple_query sql s)"
    using assms(1) by (simp add: shadowed_def planned_def begin_simple_query_def Let_def)
  moreover have "filled (begin_simple_query sql s)"
    using assms(1) by (simp add: shadowed_def filled_def begin_simple_query_def Let_def bind_generation_def)
  ultimately show ?thesis
    using assms(1) by (simp add: shadowed_def) (simp add: begin_simple_query_def Let_def)
qed

lemma shadowed_push:
  assumes "shadowed s" and "p \<in> set NAMES" and "next_result_order s \<noteq> - 1"
  shows "shadowed (push_execute p s)"
proof -
  have "owed_once (push_execute p s)"
    by (rule owed_once_next [of s]) (use assms(1,3) in \<open>simp_all add: shadowed_def push_execute_def result_orders_eq\<close>)
  moreover have "traced P B Q (push_execute p s)" "planned F G A (push_execute p s)"
    using assms(1) by (simp_all add: shadowed_def traced_def planned_def push_execute_def)
  moreover have "filled (push_execute p s)"
    using assms(1) by (simp add: shadowed_def filled_def push_execute_def bind_generation_def)
  ultimately show ?thesis
    using assms(1,2) by (simp add: shadowed_def) (simp add: push_execute_def)
qed

lemma shadowed_executes:
  assumes "shadowed s" and "subseq xs (pending_executes s)"
  shows "shadowed (s\<lparr>pending_executes := xs\<rparr>)"
  by (rule shadowed_shrink [OF assms(1)]) (use assms(2) in simp_all)

lemma shadowed_restamp:
  assumes "shadowed s"
  shows "shadowed (s\<lparr>pending_executes := restamp_front e (pending_executes s)\<rparr>)"
proof (cases "pending_executes s")
  case (Cons p r)
  then show ?thesis
    using assms by (simp add: restamp_front_def shadowed_def traced_def planned_def filled_def owed_once_def
        result_orders_def bind_generation_def)
qed (use assms in \<open>simp add: restamp_front_def shadowed_executes\<close>)

lemma shadowed_execute:
  assumes "shadowed s" and "p \<in> set NAMES" and "next_result_order s \<noteq> - 1"
  shows "shadowed (execute p s)"
proof -
  define u where "u = s\<lparr>active_plan := hget (portal_plans s) p, active_epoch := Some (sync_epoch s), active_portal := Some p\<rparr>"
  have "A pl" if "hget (portal_plans s) p = Some pl" for pl
    using that assms(1) activated unfolding shadowed_def planned_def by blast
  then have u: "shadowed u" using assms(1) by (simp add: u_def shadowed_active)
  have n: "next_result_order u \<noteq> - 1" using assms(3) by (simp add: u_def)
  show ?thesis
    using u n assms(2) shadowed_restamp [of "u\<lparr>suspended := False\<rparr>"]
      shadowed_push [of "u\<lparr>suspended := False, pending_executes := pop_front (pending_executes u)\<rparr>" p]
      shadowed_executes [of "u\<lparr>suspended := False\<rparr>" "pop_front (pending_executes u)"]
    by (simp add: execute_def Let_def u_def [symmetric] shadowed_push)
qed

lemma shadowed_bind_complete:
  assumes "shadowed s"
  shows "shadowed (finish_bind s)"
proof (cases "pending_binds s")
  case Nil
  then show ?thesis using assms by (simp add: finish_bind_def)
next
  case (Cons b rest)
  define u where "u = s\<lparr>pending_binds := rest\<rparr>"
  have u: "shadowed u" using assms by (simp add: u_def)
  define v where "v = (case hget (portal_plans u) (pm_name b) of
      None \<Rightarrow> (case hget (portal_statement u) (pm_name b) of None \<Rightarrow> u
        | Some st \<Rightarrow> (case hget (statement_plans u) st of None \<Rightarrow> u
            | Some pl \<Rightarrow> install_portal_plan (pm_name b) (portal_stamp u (pm_name b) pl) u))
    | Some pl \<Rightarrow> fill_pending_plan (pm_name b) pl u)"
  have "G (pm_name b) (portal_stamp u (pm_name b) pl)"
    if "hget (portal_statement u) (pm_name b) = Some st" "hget (statement_plans u) st = Some pl" for st pl
    using that u stamped unfolding shadowed_def traced_def planned_def portal_stamp_def by blast
  then have v: "shadowed v"
    using u by (auto simp: v_def shadowed_fill intro!: shadowed_install split: option.split)
  have "A pl" if "hget (portal_plans v) (pm_name b) = Some pl" for pl
    using that v activated unfolding shadowed_def planned_def by blast
  then have "shadowed (case hget (portal_plans v) (pm_name b) of Some pl \<Rightarrow> v\<lparr>active_plan := Some pl\<rparr> | None \<Rightarrow> v)"
    using v by (auto intro!: shadowed_active split: option.split)
  moreover have "finish_bind s = (if active_portal v = Some (pm_name b)
      then (case hget (portal_plans v) (pm_name b) of Some pl \<Rightarrow> v\<lparr>active_plan := Some pl\<rparr> | None \<Rightarrow> v) else v)"
    unfolding v_def u_def finish_bind_def Cons Let_def list.case by (rule refl)
  ultimately show ?thesis using v by simp
qed

lemma shadowed_install_all:
  assumes "shadowed s" and "\<And>p formats. p \<in> set ps \<Longrightarrow> G p (stamp pl formats)"
  shows "shadowed (fold (\<lambda>p u. install_portal_plan p (portal_stamp u p pl) u) ps s)"
  using assms
proof (induction ps arbitrary: s)
  case (Cons p ps)
  then have "shadowed (install_portal_plan p (portal_stamp s p pl) s)"
    by (intro shadowed_install) (simp_all add: portal_stamp_def)
  with Cons show ?case by simp
qed simp

text \<open>A description that arrives: the plan made of it is one for the target it was asked for.\<close>

lemma shadowed_description:
  assumes s: "shadowed s" and keys: "distinct (map fst (portal_statement s))" and ok: "finish_description pl s = Inr t"
    and act: "A pl"
    and st: "\<And>d r n. pending_descriptions s = Describe d # r \<Longrightarrow> pd_target d = Statement n \<Longrightarrow> F n pl"
    and po: "\<And>d r p. pending_descriptions s = Describe d # r \<Longrightarrow> pd_target d = Portal p \<Longrightarrow> G p pl"
  shows "shadowed t"
proof (cases "pending_descriptions s")
  case (Cons d r)
  define u where "u b = s\<lparr>pending_descriptions := r, streaming_simple_result := b\<rparr>" for b
  have u: "shadowed (u b)" for b using shadowed_drop [OF s] Cons by (simp add: u_def)
  show ?thesis
  proof (cases d)
    case (Simple q)
    then show ?thesis using ok Cons u [of True] act by (auto simp: finish_description_def u_def intro!: shadowed_active)
  next
    case (Describe pd)
    define v where "v = (case pd_target pd of Statement n \<Rightarrow> install_statement_plan n pl (u False)
      | Portal p \<Rightarrow> install_portal_plan p pl (u False))"
    have v: "shadowed v"
    proof (cases "pd_target pd")
      case (Statement n)
      have f: "F n pl" using st Cons Describe Statement by blast
      let ?w = "(u False)\<lparr>statement_plans := hinsert n pl (statement_plans (u False))\<rparr>"
      have w: "shadowed ?w"
        using u [of False] f by (simp add: shadowed_def traced_def planned_def filled_def owed_once_def result_orders_def
            bind_generation_def update_conv')
      have "G p (stamp pl formats)" if "p \<in> set (portals_of n ?w)" for p formats
      proof -
        from that have "(p, n) \<in> set (portal_statement s)" by (auto simp: portals_of_def u_def)
        then have "hget (portal_statement s) p = Some n" using keys by simp
        then have "B p n" using s unfolding shadowed_def traced_def by blast
        then show ?thesis by (rule stamped [OF f])
      qed
      with w show ?thesis
        unfolding v_def Statement install_statement_plan_def Let_def describe_target.case by (intro shadowed_install_all) auto
    next
      case (Portal p)
      then show ?thesis using u [of False] po Cons Describe by (simp add: v_def shadowed_install)
    qed
    have "t = v\<lparr>active_plan := Some pl, active_epoch := Some (pd_epoch pd)\<rparr>"
      using ok Cons Describe by (cases "pd_target pd") (simp_all add: finish_description_def Let_def v_def u_def)
    then show ?thesis using shadowed_active [OF v, of "Some pl"] act by simp
  qed
qed (use ok in \<open>simp add: finish_description_def\<close>)

end

section \<open>The oracle's own shadow\<close>

definition parsed_text :: "protocol_model \<Rightarrow> bytes \<Rightarrow> rstring \<Rightarrow> bool" where
  "parsed_text m n q \<longleftrightarrow> q \<in> set (under (parsed_under m) n)"

definition bound_to :: "protocol_model \<Rightarrow> bytes \<Rightarrow> bytes \<Rightarrow> bool" where
  "bound_to m p t \<longleftrightarrow> t \<in> set (under (bound_from m) p) \<and> t \<in> set NAMES"

definition queried_text :: "protocol_model \<Rightarrow> rstring \<Rightarrow> bool" where
  "queried_text m q \<longleftrightarrow> q \<in> set (simple_texts m)"

text \<open>A plan carries the identity it was built with in every field.\<close>

definition carries :: "protocol_model \<Rightarrow> plan \<Rightarrow> u32 \<Rightarrow> bool" where
  "carries m pl i \<longleftrightarrow> pl \<noteq> [] \<and> (\<forall>f \<in> set pl. fp_type_oid f = i) \<and> hget (plan_built m) i \<noteq> None"

definition built_since :: "protocol_model \<Rightarrow> u32 \<Rightarrow> bool" where
  "built_since m i \<longleftrightarrow> (\<forall>r b. last_invalidation m = Some r \<longrightarrow> hget (plan_built m) i = Some b \<longrightarrow> r < b)"

definition reusable :: "protocol_model \<Rightarrow> plan \<Rightarrow> u32 \<Rightarrow> bool" where
  "reusable m pl i \<longleftrightarrow> carries m pl i \<and> built_since m i \<and> ForSimple \<notin> set (under (plan_targets m) i)"

definition plan_for_statement :: "protocol_model \<Rightarrow> bytes \<Rightarrow> plan \<Rightarrow> bool" where
  "plan_for_statement m n pl \<longleftrightarrow> (\<exists>i. reusable m pl i \<and> ForStatement n \<in> set (under (plan_targets m) i))"

definition plan_for_portal :: "protocol_model \<Rightarrow> bytes \<Rightarrow> plan \<Rightarrow> bool" where
  "plan_for_portal m p pl \<longleftrightarrow>
     (\<exists>i. reusable m pl i \<and>
        (ForPortal p \<in> set (under (plan_targets m) i) \<or>
         (\<exists>t \<in> set (under (bound_from m) p). ForStatement t \<in> set (under (plan_targets m) i))))"

definition plan_made :: "protocol_model \<Rightarrow> plan \<Rightarrow> bool" where
  "plan_made m pl \<longleftrightarrow> (\<exists>i. carries m pl i)"

lemma stamp_carries: "carries m pl i \<Longrightarrow> carries m (stamp pl formats) i"
  by (auto simp: carries_def stamp_def in_set_enumerate_eq enumerate_eq_zip split: option.split)
     (metis length_0_conv length_zip length_upt min_0L diff_zero set_zip_rightD)+

interpretation shadow: plan_shadow "parsed_text m" "bound_to m" "queried_text m"
    "plan_for_statement m" "plan_for_portal m" "plan_made m" for m
proof
  show "plan_for_portal m p (stamp pl formats)" if "plan_for_statement m t pl" "bound_to m p t" for t pl p formats
    using that stamp_carries
    unfolding plan_for_statement_def plan_for_portal_def bound_to_def reusable_def by blast
  show "plan_made m pl" if "plan_for_portal m p pl" for p pl
    using that unfolding plan_for_portal_def plan_made_def reusable_def by blast
qed

lemma under_add [simp]: "under (add_under k v m) j = (if j = k then List.insert v (under m k) else under m j)"
  by (simp add: under_def add_under_def update_conv')

text \<open>What holds between two messages; \<open>k\<close> bounds the counters by the number of steps.\<close>

definition consistent :: "nat \<Rightarrow> protocol_model \<Rightarrow> bool" where
  "consistent k m \<longleftrightarrow>
     plan_inv (om_state m) \<and> shadow.shadowed m (om_state m) \<and> generation (om_state m) = om_generation m \<and>
     unat (next_plan_id m) \<le> Suc k \<and> unat (next_result_order (om_state m)) \<le> k \<and>
     (\<forall>i. hget (plan_built m) i \<noteq> None \<or> under (plan_targets m) i \<noteq> [] \<longrightarrow> i < next_plan_id m) \<and>
     (\<forall>r. last_invalidation m = Some r \<longrightarrow> r < k)"

lemma consistent_new: "consistent 0 model_new"
  by (simp add: consistent_def model_new_def plan_inv_default shadow.shadowed_def traced_def planned_def filled_def
      owed_once_def result_orders_def under_def) (simp add: plan_state_default_def map_filter_def)

section \<open>The checks of every step pass\<close>

definition passes :: "violation option list \<Rightarrow> bool" where
  "passes cs \<longleftrightarrow> (\<forall>c \<in> set cs. c = None)"

lemma passes_simps [simp]:
  "passes []" "passes (c # cs) \<longleftrightarrow> c = None \<and> passes cs" "passes (cs @ ds) \<longleftrightarrow> passes cs \<and> passes ds"
  "demand b v = None \<longleftrightarrow> b" "known n = None \<longleftrightarrow> n \<in> set NAMES"
  by (auto simp: passes_def demand_def known_def)

lemma passes_iff: "passes cs \<longleftrightarrow> List.map_filter id cs = []"
  by (auto simp: passes_def map_filter_def filter_empty_conv)

lemma described_passes:
  assumes "shadow.shadowed m (om_state m)"
  shows "passes (check_described_sql m)"
proof (cases "pending_descriptions (om_state m)")
  case Nil
  then show ?thesis by (simp add: check_described_sql_def described_sql_def)
next
  case (Cons d r)
  then have e: "traced_entry (parsed_text m) (bound_to m) (queried_text m) d"
    using assms unfolding shadow.shadowed_def traced_def by simp
  show ?thesis
  proof (cases d)
    case (Simple q)
    then show ?thesis using Cons e
      by (simp add: check_described_sql_def described_sql_def traced_entry_def queried_text_def split: option.split)
  next
    case (Describe pd)
    then show ?thesis using Cons e
      by (cases "pd_target pd"; cases "pd_sql pd")
        (auto simp: check_described_sql_def described_sql_def traced_entry_def asked_def target_name_def parsed_text_def
          bound_to_def list_ex_iff)
  qed
qed

lemma active_passes:
  assumes "shadow.shadowed m (om_state m)"
  shows "passes (check_active_plan_is_real m)"
proof (cases "active_plan (om_state m)")
  case (Some pl)
  then have "plan_made m pl" using assms unfolding shadow.shadowed_def planned_def by blast
  then show ?thesis
    using Some by (cases pl) (auto simp: check_active_plan_is_real_def plan_made_def carries_def list_all_iff)
qed (simp add: check_active_plan_is_real_def)

lemma non_decreasing_sorted: "non_decreasing xs = sorted xs"
  by (induction xs rule: non_decreasing.induct) (auto dest: order_trans)

lemma queue_passes: "ordered_upto key b xs \<Longrightarrow> passes (check_queue b (map key xs))"
  by (auto simp: check_queue_def ordered_upto_def non_decreasing_sorted list_all_iff)

lemma rejection_epoch_le:
  assumes "plan_inv s"
  shows "rejection_epoch s \<le> sync_epoch s"
proof (cases "pending_descriptions s")
  case Nil
  then show ?thesis using assms by (auto simp: rejection_epoch_def plan_inv_def split: option.split)
next
  case (Cons d r)
  then show ?thesis using assms ordered_upto_bound [of description_epoch "sync_epoch s" "d # r" d]
    by (simp add: rejection_epoch_def plan_inv_def)
qed

lemma epochs_pass:
  assumes "plan_inv (om_state m)" and "shadow.shadowed m (om_state m)"
  shows "passes (check_epoch_ordering m)"
proof -
  let ?s = "om_state m"
  have "passes (check_queue (sync_epoch ?s) (map description_epoch (pending_descriptions ?s)))"
    "passes (check_queue (sync_epoch ?s) (map pm_epoch (pending_parses ?s)))"
    "passes (check_queue (sync_epoch ?s) (map pm_epoch (pending_binds ?s)))"
    "passes (check_queue (sync_epoch ?s) (map pe_epoch (pending_executes ?s)))"
    using assms(1) by (simp_all add: plan_inv_def queue_passes)
  moreover have "owed_once ?s" using assms(2) unfolding shadow.shadowed_def by simp
  moreover have "\<forall>e. active_epoch ?s = Some e \<longrightarrow> e \<le> sync_epoch ?s" using assms(1) by (simp add: plan_inv_def)
  ultimately show ?thesis
    using rejection_epoch_le [OF assms(1)]
    by (simp add: check_epoch_ordering_def Let_def owed_once_def list_all_iff split: option.split)
qed

lemma inflight_passes:
  assumes "shadow.shadowed m (om_state m)"
  shows "passes (check_inflight_plan_survives_rebind m)"
proof (cases "streaming_simple_result (om_state m) \<or> pending_executes (om_state m) = []")
  case True
  then show ?thesis by (auto simp: check_inflight_plan_survives_rebind_def Let_def)
next
  case False
  let ?s = "om_state m"
  from False obtain p r where q: "pending_executes ?s = p # r" "\<not> streaming_simple_result ?s"
    by (cases "pending_executes ?s") auto
  show ?thesis
  proof (cases "pe_plan p")
    case (Some snap)
    then show ?thesis using q by (simp add: check_inflight_plan_survives_rebind_def streaming_plan_def Let_def)
  next
    case None
    have name: "pe_name p \<in> set NAMES" and "filled ?s" using assms q(1) unfolding shadow.shadowed_def by simp_all
    then have "pe_generation p = bind_generation ?s (pe_name p) \<Longrightarrow> hget (portal_plans ?s) (pe_name p) = None"
      using None q(1) unfolding filled_def by simp
    then have stream: "streaming_plan ?s = None" using None q by (simp add: streaming_plan_def)
    have "t \<in> set NAMES" if "hget (portal_statement ?s) (pe_name p) = Some t" for t
      using that assms unfolding shadow.shadowed_def traced_def bound_to_def by blast
    then show ?thesis
      using q None name stream by (simp add: check_inflight_plan_survives_rebind_def Let_def split: option.split)
  qed
qed

text \<open>A step that leaves a consistent state fails only on an assertion of its own.\<close>

lemma after_step_consistent:
  assumes "consistent (Suc (om_step m)) m"
  shows "after_step checks m =
    (case List.map_filter id checks of v # _ \<Rightarrow> Inl v | [] \<Rightarrow> Inr (m\<lparr>om_step := Suc (om_step m)\<rparr>))"
proof -
  have "passes (check_described_sql m @ check_active_plan_is_real m @ check_epoch_ordering m @
      check_inflight_plan_survives_rebind m)"
    using assms described_passes active_passes epochs_pass inflight_passes unfolding consistent_def by simp
  then have "List.map_filter id (checks @ check_described_sql m @ check_active_plan_is_real m @ check_epoch_ordering m @
      check_inflight_plan_survives_rebind m) = List.map_filter id checks"
    unfolding passes_iff map_filter_def by simp
  then show ?thesis unfolding after_step_def by (simp split: list.split)
qed

text \<open>The shadow only grows: what was traced and planned stays so.\<close>

lemma shadowed_grows:
  assumes "shadow.shadowed m s"
    and "\<And>n. set (under (parsed_under m) n) \<subseteq> set (under (parsed_under m') n)"
    and "\<And>p. set (under (bound_from m) p) \<subseteq> set (under (bound_from m') p)"
    and "set (simple_texts m) \<subseteq> set (simple_texts m')"
    and "last_invalidation m' = last_invalidation m"
    and "\<And>i. hget (plan_built m) i \<noteq> None \<Longrightarrow>
      hget (plan_built m') i = hget (plan_built m) i \<and> under (plan_targets m') i = under (plan_targets m) i"
  shows "shadow.shadowed m' s"
proof -
  have c: "carries m pl i \<Longrightarrow> carries m' pl i" for pl i
    using assms(6) [of i] by (auto simp: carries_def)
  have r: "reusable m pl i \<Longrightarrow> reusable m' pl i \<and> under (plan_targets m') i = under (plan_targets m) i" for pl i
    using assms(5) assms(6) [of i] c [of pl i] by (auto simp: reusable_def built_since_def carries_def)
  have grow: "parsed_text m \<le> parsed_text m'" "bound_to m \<le> bound_to m'" "queried_text m \<le> queried_text m'"
    using assms(2-4) by (auto simp: le_fun_def parsed_text_def bound_to_def queried_text_def)
  have grow': "plan_for_statement m \<le> plan_for_statement m'"
    using r unfolding le_fun_def le_bool_def plan_for_statement_def by metis
  have "plan_for_portal m' p pl" if "plan_for_portal m p pl" for p pl
  proof -
    from that obtain i where i: "reusable m pl i" and t: "ForPortal p \<in> set (under (plan_targets m) i) \<or>
        (\<exists>t \<in> set (under (bound_from m) p). ForStatement t \<in> set (under (plan_targets m) i))"
      unfolding plan_for_portal_def by blast
    with r [OF i] assms(3) [of p] show ?thesis unfolding plan_for_portal_def by (intro exI [of _ i]) auto
  qed
  then have grow'': "plan_for_portal m \<le> plan_for_portal m'" by (simp add: le_fun_def)
  have grow3: "plan_made m \<le> plan_made m'"
    using c unfolding le_fun_def le_bool_def plan_made_def by metis
  have parts: "traced (parsed_text m) (bound_to m) (queried_text m) s"
    "planned (plan_for_statement m) (plan_for_portal m) (plan_made m) s"
    and rest: "filled s \<and> owed_once s \<and> (\<forall>p \<in> set (pending_executes s). pe_name p \<in> set NAMES)"
    using assms(1) unfolding shadow.shadowed_def by simp_all
  show ?thesis
    unfolding shadow.shadowed_def
    using traced_mono [OF parts(1) grow] planned_mono [OF parts(2) grow' grow'' grow3] rest by simp
qed

lemma consistent_tick: "consistent k m \<Longrightarrow> consistent k (m\<lparr>om_step := j\<rparr>)"
  using shadowed_grows [of m "om_state m" "m\<lparr>om_step := j\<rparr>"] by (simp add: consistent_def)

definition good :: "protocol_model \<Rightarrow> violation + protocol_model \<Rightarrow> bool" where
  "good m r \<longleftrightarrow> (\<exists>m'. r = Inr m' \<and> consistent (om_step m') m' \<and> om_step m' = Suc (om_step m))"

lemma good_after:
  assumes "consistent (Suc (om_step m)) m'" and "om_step m' = om_step m" and "passes checks"
  shows "good m (after_step checks m')"
  using assms consistent_tick [of "Suc (om_step m)" m'] after_step_consistent [of m' checks]
  by (simp add: good_def passes_iff)

lemma consistent_moves:
  assumes "consistent (om_step m) m"
    and "shadow.shadowed m' (om_state m')" and "plan_inv (om_state m')"
    and "generation (om_state m') = om_generation m'"
    and "unat (next_result_order (om_state m')) \<le> Suc (om_step m)"
    and "plan_built m' = plan_built m" "plan_targets m' = plan_targets m" "next_plan_id m' = next_plan_id m"
    and "\<And>r. last_invalidation m' = Some r \<Longrightarrow> r < Suc (om_step m)"
  shows "consistent (Suc (om_step m)) m'"
  using assms by (auto simp: consistent_def)

lemma consistent_state:
  assumes "consistent (om_step m) m" and "shadow.shadowed m s" and "plan_inv s" and "generation s = generation (om_state m)"
    and "next_result_order s = next_result_order (om_state m)"
  shows "consistent (Suc (om_step m)) (with_state m s)"
proof (rule consistent_moves [OF assms(1)])
  show "shadow.shadowed (with_state m s) (om_state (with_state m s))"
    using shadowed_grows [of m s "with_state m s"] assms(2) by simp
qed (use assms in \<open>auto simp: consistent_def\<close>)

section \<open>One step\<close>

definition counters :: "plan_state \<Rightarrow> u64 \<times> u64" where
  "counters s = (generation s, next_result_order s)"

lemma counters_install [simp]: "counters (install_portal_plan p pl s) = counters s"
  by (simp add: counters_def install_portal_plan_def fill_pending_plan_def Let_def)

lemma counters_folds [simp]:
  "counters (fold forget_stale_portal ps s) = counters s"
  "counters (fold forget_closed_portal ps s) = counters s"
  "counters (fold (\<lambda>p u. install_portal_plan p (portal_stamp u p pl) u) ps s) = counters s"
  by (rule fold_frame; simp add: counters_def forget_stale_portal_def forget_closed_portal_def
      install_portal_plan_def fill_pending_plan_def Let_def)+

lemma counters_fields [simp]:
  "counters (s\<lparr>statement_plans := a\<rparr>) = counters s"
  "counters (s\<lparr>statement_sql := b\<rparr>) = counters s"
  "counters (s\<lparr>portal_statement := c\<rparr>) = counters s"
  "counters (s\<lparr>portal_plans := a\<rparr>) = counters s"
  "counters (s\<lparr>portal_formats := d\<rparr>) = counters s"
  "counters (s\<lparr>portal_bind_generations := e\<rparr>) = counters s"
  "counters (s\<lparr>active_plan := f\<rparr>) = counters s"
  "counters (s\<lparr>active_portal := g\<rparr>) = counters s"
  "counters (s\<lparr>active_epoch := h\<rparr>) = counters s"
  "counters (s\<lparr>pending_descriptions := i\<rparr>) = counters s"
  "counters (s\<lparr>pending_parses := j\<rparr>) = counters s"
  "counters (s\<lparr>pending_binds := j\<rparr>) = counters s"
  "counters (s\<lparr>pending_executes := k\<rparr>) = counters s"
  "counters (s\<lparr>suspended := l\<rparr>) = counters s"
  "counters (s\<lparr>streaming_simple_result := l\<rparr>) = counters s"
  "counters (s\<lparr>sync_epoch := m\<rparr>) = counters s"
  by (simp_all add: counters_def)

lemma counters_kept [simp]:
  "counters (parse n q s) = counters s"
  "counters (plan_bind p t formats s) = counters s"
  "counters (describe tg s) = counters s"
  "counters (plan_close tg s) = counters s"
  "counters (sync s) = counters s"
  "counters (finish_parse s) = counters s"
  "counters (finish_bind s) = counters s"
  "counters (discard_description s) = counters s"
  "counters (clear_active s) = counters s"
  "counters (suspend_result s) = counters s"
  "counters (ready_for_query b s) = counters s"
  "counters (finish_result_set s) = counters s"
  "counters (finish_suppressed_epoch e s) = counters s"
  "counters (discard_failed_epoch s) = counters s"
  by (simp_all add: parse_def plan_bind_def bump_bind_generation_def describe_def plan_close_def sync_def finish_parse_def
      finish_bind_def discard_description_def clear_active_def suspend_result_def ready_for_query_def
      finish_result_set_def finish_suppressed_epoch_def discard_failed_epoch_def forget_closed_portal_def
      fill_pending_plan_def Let_def split: option.split list.split describe_target.split)

lemma counters_description: "finish_description pl s = Inr t \<Longrightarrow> counters t = counters s"
  by (auto simp: finish_description_def install_statement_plan_def Let_def
      split: list.splits pending_description.splits describe_target.splits)

lemma consistent_counters:
  assumes "consistent (om_step m) m" and "shadow.shadowed m s" and "plan_inv s" and "counters s = counters (om_state m)"
  shows "consistent (Suc (om_step m)) (with_state m s)"
  using assms by (intro consistent_state) (simp_all add: counters_def)

lemma name_of_known [simp]: "name_of n \<in> set NAMES"
  by (simp add: name_of_def NAMES_def nth_mem del: set_simps)

lemma good_state:
  assumes "consistent (om_step m) m" and "shadow.shadowed m s" and "plan_inv s" and "counters s = counters (om_state m)"
    and "passes checks"
  shows "good m (after_step checks (with_state m s))"
  using good_after [OF consistent_counters [OF assms(1-4)]] assms(5) by simp

lemma consistentD:
  assumes "consistent k m"
  shows "plan_inv (om_state m)" "shadow.shadowed m (om_state m)" "distinct (map fst (portal_statement (om_state m)))"
  using assms by (simp_all add: consistent_def plan_inv_def)

text \<open>The messages without assertions of their own.\<close>

lemma plain_steps_good:
  assumes c: "consistent (om_step m) m"
  shows "good m (oracle_step DoParseUndecodable m)"
    and "good m (oracle_step (DoDescribeStatement n) m)" and "good m (oracle_step (DoDescribePortal n) m)"
    and "good m (oracle_step DoSync m)" and "good m (oracle_step (DoCloseStatement n) m)"
    and "good m (oracle_step (DoClosePortal n) m)" and "good m (oracle_step DoParseComplete m)"
    and "good m (oracle_step DoBindComplete m)" and "good m (oracle_step DoDropDescription m)"
    and "good m (oracle_step DoClearActive m)"
proof -
  note s = consistentD(1,2) [OF c]
  have "consistent (Suc (om_step m)) m" using c by (auto simp: consistent_def)
  then show "good m (oracle_step DoParseUndecodable m)" using good_after by simp
  have "target_name (Statement (name_of n)) \<in> set NAMES" "target_name (Portal (name_of n)) \<in> set NAMES"
    by (simp_all add: target_name_def)
  then show "good m (oracle_step (DoDescribeStatement n) m)" "good m (oracle_step (DoDescribePortal n) m)"
    using s by (simp_all add: good_state [OF c] shadow.shadowed_describe plan_inv_describe)
  have "shadow.shadowed m (sync (om_state m))" using s(2) by (simp add: sync_def)
  then show "good m (oracle_step DoSync m)" "good m (oracle_step (DoCloseStatement n) m)"
    "good m (oracle_step (DoClosePortal n) m)" "good m (oracle_step DoBindComplete m)"
    "good m (oracle_step DoClearActive m)"
    using s by (simp_all add: good_state [OF c] shadow.shadowed_close shadow.shadowed_bind_complete
        shadow.shadowed_clear_active plan_inv_sync plan_inv_close plan_inv_bind_complete plan_inv_clear_active)
  have "shadow.shadowed m (finish_parse (om_state m))" "shadow.shadowed m (discard_description (om_state m))"
    using s(2) shadow.shadowed_drop by (simp_all add: finish_parse_def discard_description_def)
  then show "good m (oracle_step DoParseComplete m)" "good m (oracle_step DoDropDescription m)"
    using s by (simp_all add: good_state [OF c] plan_inv_parse_complete plan_inv_other_answers)
qed

lemma step_parse_good:
  assumes c: "consistent (om_step m) m"
  shows "good m (oracle_step (DoParse n q) m)"
proof -
  let ?q = "PARSE_SQL ! (unat q mod length PARSE_SQL)"
  define m' where "m' = m\<lparr>om_state := parse (name_of n) ?q (om_state m),
      parsed_under := add_under (name_of n) ?q (parsed_under m)\<rparr>"
  have "shadow.shadowed m' (om_state m)"
    by (rule shadowed_grows [OF consistentD(2) [OF c]]) (auto simp: m'_def)
  moreover have "parsed_text m' (name_of n) ?q" by (simp add: m'_def parsed_text_def)
  ultimately have "shadow.shadowed m' (om_state m')"
    using shadow.shadowed_parse by (simp add: m'_def)
  moreover have "counters (om_state m') = counters (om_state m)" by (simp add: m'_def)
  ultimately have "consistent (Suc (om_step m)) m'"
    using c by (intro consistent_moves [OF c]) (auto simp: m'_def consistent_def counters_def plan_inv_parse)
  then have "good m (after_step [] m')" by (rule good_after) (simp_all add: m'_def)
  then show ?thesis by (simp add: m'_def Let_def)
qed

lemma step_bind_good:
  assumes c: "consistent (om_step m) m"
  shows "good m (oracle_step (DoBind p t formats) m)"
proof -
  define m' where "m' = oracle_bind (name_of p) (name_of t) formats m"
  have st: "om_state m' = plan_bind (name_of p) (name_of t) formats (om_state m)"
    and same: "parsed_under m' = parsed_under m" "simple_texts m' = simple_texts m" "last_invalidation m' = last_invalidation m"
    "plan_built m' = plan_built m" "plan_targets m' = plan_targets m" "next_plan_id m' = next_plan_id m"
    "om_step m' = om_step m" "om_generation m' = om_generation m"
    "bound_from m' = add_under (name_of p) (name_of t) (bound_from m)"
    by (simp_all add: m'_def oracle_bind_def Let_def)
  have "shadow.shadowed m' (om_state m)"
    by (rule shadowed_grows [OF consistentD(2) [OF c]]) (auto simp: same)
  moreover have "bound_to m' (name_of p) (name_of t)" by (simp add: same bound_to_def)
  ultimately have "shadow.shadowed m' (om_state m')" using shadow.shadowed_bind by (simp add: st)
  moreover have "counters (om_state m') = counters (om_state m)" by (simp add: st)
  ultimately have "consistent (Suc (om_step m)) m'"
    using c by (intro consistent_moves [OF c]) (auto simp: st same consistent_def counters_def plan_inv_bind)
  then have "good m (after_step [] m')" by (rule good_after) (simp_all add: same)
  then show ?thesis by (simp add: m'_def)
qed

lemma counters_not_full:
  assumes "consistent (om_step m) m" and "om_step m + 2 < 2 ^ 32"
  shows "next_plan_id m \<noteq> - 1" and "next_result_order (om_state m) \<noteq> - 1"
proof -
  have "unat (next_plan_id m) < 2 ^ 32 - 1" "unat (next_result_order (om_state m)) < 2 ^ 64 - 1"
    using assms by (simp_all add: consistent_def)
  then show "next_plan_id m \<noteq> - 1" "next_result_order (om_state m) \<noteq> - 1"
    by (auto simp: unsigned_minus_1_eq_mask mask_eq_exp_minus_1)
qed

lemma unat_saturating_succ: "unat (saturating_succ w) \<le> Suc (unat w)"
  by (simp add: saturating_succ_def unat_word_ariths)

lemma execute_fields:
  "generation (execute p s) = generation s" "next_result_order (execute p s) \<in> {next_result_order s, saturating_succ (next_result_order s)}"
  "active_plan (execute p s) = hget (portal_plans s) p" "\<not> suspended (execute p s)"
  by (simp_all add: execute_def push_execute_def Let_def)

lemma execute_owner:
  assumes "plan_inv s" and "suspended s" and "result_owner s \<noteq> Some p"
  shows "result_owner (execute p s) = Some p"
proof -
  have "length (pending_executes s) \<le> 1" using assms(1,2) by (simp add: plan_inv_def)
  then consider "pending_executes s = []" | q where "pending_executes s = [q]" by (cases "pending_executes s") auto
  then show ?thesis
    using assms(2,3) by cases (auto simp: execute_def push_execute_def is_resume_def result_owner_def Let_def)
qed

lemma step_execute_good:
  assumes c: "consistent (om_step m) m" and few: "om_step m + 2 < 2 ^ 32"
  shows "good m (oracle_step (DoExecute p) m)"
proof -
  let ?s = "om_state m" and ?p = "name_of p"
  let ?t = "execute ?p ?s"
  note s = consistentD(1,2) [OF c]
  have t: "shadow.shadowed m ?t" by (rule shadow.shadowed_execute [OF s(2) name_of_known counters_not_full(2) [OF c few]])
  have "unat (next_result_order ?t) \<le> Suc (unat (next_result_order ?s))"
    using execute_fields(2) [of ?p ?s] unat_saturating_succ [of "next_result_order ?s"] by auto
  then have "consistent (Suc (om_step m)) (with_state m ?t)"
    using c t shadowed_grows [of m ?t "with_state m ?t"]
    by (intro consistent_moves [OF c]) (auto simp: consistent_def execute_fields(1) plan_inv_execute)
  moreover have "i \<in> {i. ForSimple \<notin> set (under (plan_targets m) i) \<and>
      (ForPortal ?p \<in> set (under (plan_targets m) i) \<or>
        (\<exists>st \<in> set (under (bound_from m) ?p). ForStatement st \<in> set (under (plan_targets m) i))) \<and>
      (\<exists>b. hget (plan_built m) i = Some b \<and> (\<forall>r. last_invalidation m = Some r \<longrightarrow> r < b))}"
    if "active_plan_id ?t = Some i" for i
  proof -
    from that obtain pl where pl: "hget (portal_plans ?s) ?p = Some pl" "plan_id pl = Some i"
      by (auto simp: active_plan_id_def execute_fields bind_eq_Some_conv)
    then obtain j where j: "reusable m pl j" "ForPortal ?p \<in> set (under (plan_targets m) j) \<or>
        (\<exists>st \<in> set (under (bound_from m) ?p). ForStatement st \<in> set (under (plan_targets m) j))"
      using s(2) unfolding shadow.shadowed_def planned_def plan_for_portal_def by blast
    moreover have "i = j" using j(1) pl(2) by (cases pl) (auto simp: reusable_def carries_def plan_id_def)
    ultimately show ?thesis by (auto simp: reusable_def carries_def built_since_def)
  qed
  moreover have "suspended ?s \<Longrightarrow> result_owner ?s \<noteq> Some ?p \<Longrightarrow> result_owner ?t = Some ?p"
    by (rule execute_owner [OF s(1)])
  ultimately show ?thesis
    using execute_fields(4) [of ?p ?s]
    by (auto simp: oracle_execute_def Let_def list_ex_iff intro!: good_after split: option.split)
qed

lemma step_simple_good:
  assumes c: "consistent (om_step m) m" and few: "om_step m + 2 < 2 ^ 32"
  shows "good m (oracle_step (DoSimple sql) m)"
proof -
  define sql_text where "sql_text = map_option (\<lambda>i. SIMPLE_SQL ! (unat i mod length SIMPLE_SQL)) sql"
  define m' where "m' = m\<lparr>om_state := begin_simple_query sql_text (om_state m),
      simple_texts := (case sql_text of Some t \<Rightarrow> List.insert t (simple_texts m) | None \<Rightarrow> simple_texts m)\<rparr>"
  have fields: "generation (om_state m') = generation (om_state m)"
    "next_result_order (om_state m') = saturating_succ (next_result_order (om_state m))"
    "length (pending_descriptions (om_state m')) = length (pending_descriptions (om_state m)) + 1"
    by (simp_all add: m'_def begin_simple_query_def Let_def)
  have "shadow.shadowed m' (om_state m)"
    by (rule shadowed_grows [OF consistentD(2) [OF c]]) (auto simp: m'_def split: option.split)
  moreover have "queried_text m' t" if "sql_text = Some t" for t
    using that by (simp add: m'_def queried_text_def)
  ultimately have "shadow.shadowed m' (om_state m')"
    using shadow.shadowed_begin_simple_query [OF _ _ counters_not_full(2) [OF c few]] by (simp add: m'_def)
  moreover have "unat (next_result_order (om_state m')) \<le> Suc (om_step m)"
    using c unat_saturating_succ [of "next_result_order (om_state m)"] fields(2) by (simp add: consistent_def)
  ultimately have "consistent (Suc (om_step m)) m'"
    using c fields(1) by (intro consistent_moves [OF c]) (auto simp: m'_def consistent_def plan_inv_begin_simple_query)
  then have "good m (after_step [demand (length (pending_descriptions (om_state m')) = length (pending_descriptions (om_state m)) + 1) WrongQueue] m')"
    by (rule good_after) (use fields(3) in \<open>simp_all add: m'_def\<close>)
  then show ?thesis by (simp add: oracle_simple_query_def Let_def sql_text_def [symmetric] m'_def)
qed

lemma streaming_of_description:
  assumes "finish_description pl s = Inr t" and "pending_descriptions s = d # r"
  shows "streaming_simple_result t = (case d of Simple _ \<Rightarrow> True | Describe _ \<Rightarrow> False) \<and> active_plan t = Some pl"
proof -
  have one: "streaming_simple_result (install_portal_plan p pl' u) = streaming_simple_result u" for p pl' u
    by (simp add: install_portal_plan_def fill_pending_plan_def Let_def)
  have all: "streaming_simple_result (fold (\<lambda>p u. install_portal_plan p (portal_stamp u p pl) u) ps u) = streaming_simple_result u" for ps u
    by (rule fold_frame) (rule one)
  show ?thesis
    using assms one all
    by (cases d) (auto simp: finish_description_def install_statement_plan_def Let_def split: describe_target.splits)
qed

lemma step_description_good:
  assumes c: "consistent (om_step m) m" and few: "om_step m + 2 < 2 ^ 32"
  shows "good m (oracle_step (DoDescription n) m)"
proof -
  let ?s = "om_state m"
  define i where "i = next_plan_id m"
  define pl where "pl = make_plan i (1 + unat n mod 3)"
  have notmax: "i \<noteq> - 1" unfolding i_def by (rule counters_not_full(1) [OF c few])
  then have "unat i < unat (i + 1)" "unat (i + 1) \<le> Suc (unat i)"
    using saturating_succ_less [of i] unat_saturating_succ [of i] by (simp_all add: saturating_succ_def word_less_nat_alt)
  then have up: "j < i + 1 \<longleftrightarrow> j \<le> i" for j by (auto simp: word_less_nat_alt word_le_nat_alt)
  have nxt: "unat (i + 1) \<le> Suc (Suc (om_step m))"
    using c unat_saturating_succ [of i] notmax by (simp add: consistent_def i_def saturating_succ_def)
  have unused: "hget (plan_built m) i = None" "under (plan_targets m) i = []"
    using c by (auto simp: consistent_def i_def)
  have pl: "pl \<noteq> []" "\<forall>f \<in> set pl. fp_type_oid f = i" "plan_id pl = Some i"
    by (auto simp: pl_def make_plan_def plan_id_def)
  have step: "oracle_step (DoDescription n) m = (case front (pending_descriptions ?s) of
      None \<Rightarrow> (case finish_description pl ?s of Inl _ \<Rightarrow> after_step [] (m\<lparr>next_plan_id := i + 1\<rparr>) | Inr _ \<Rightarrow> Inl WrongDescription)
    | Some d \<Rightarrow>
        (let expected_simple = (case d of Simple _ \<Rightarrow> True | Describe _ \<Rightarrow> False);
             target = (case d of Simple _ \<Rightarrow> ForSimple
               | Describe p \<Rightarrow> (case pd_target p of Statement n \<Rightarrow> ForStatement n | Portal n \<Rightarrow> ForPortal n));
             name_check = (case target of ForStatement n \<Rightarrow> [known n] | ForPortal n \<Rightarrow> [known n] | ForSimple \<Rightarrow> [])
         in case finish_description pl ?s of
              Inl _ \<Rightarrow> Inl (case List.map_filter id name_check of v # _ \<Rightarrow> v | [] \<Rightarrow> WrongDescription)
            | Inr t \<Rightarrow> after_step (name_check @ [demand (streaming_simple_result t = expected_simple) WrongDescription,
                  demand (active_plan_id t = Some i) WrongDescription])
                (m\<lparr>next_plan_id := i + 1, om_state := t, plan_targets := add_under i target (plan_targets m),
                   plan_built := hinsert i (om_step m) (plan_built m)\<rparr>)))"
    using notmax unfolding oracle_step.simps oracle_description_def Let_def i_def [symmetric] pl_def [symmetric] by simp
  show ?thesis
  proof (cases "pending_descriptions ?s")
    case Nil
    have "shadow.shadowed (m\<lparr>next_plan_id := i + 1\<rparr>) ?s"
      by (rule shadowed_grows [OF consistentD(2) [OF c]]) simp_all
    then have "consistent (Suc (om_step m)) (m\<lparr>next_plan_id := i + 1\<rparr>)"
      using c nxt up by (auto simp: consistent_def i_def less_imp_le)
    then show ?thesis unfolding step using Nil by (simp add: finish_description_def good_after)
  next
    case (Cons d r)
    define target where "target = (case d of Simple _ \<Rightarrow> ForSimple
      | Describe p \<Rightarrow> (case pd_target p of Statement n \<Rightarrow> ForStatement n | Portal n \<Rightarrow> ForPortal n))"
    obtain t where t: "finish_description pl ?s = Inr t"
      using Cons by (cases d) (simp_all add: finish_description_def Let_def)
    define m' where "m' = m\<lparr>next_plan_id := i + 1, om_state := t, plan_targets := add_under i target (plan_targets m),
        plan_built := hinsert i (om_step m) (plan_built m)\<rparr>"
    have grown: "shadow.shadowed m' ?s"
      using unused by (intro shadowed_grows [OF consistentD(2) [OF c]]) (auto simp: m'_def update_conv')
    have made: "carries m' pl i" using pl by (simp add: carries_def m'_def update_conv')
    have since: "built_since m' i" using c by (auto simp: built_since_def m'_def update_conv' consistent_def)
    have tgt: "set (under (plan_targets m') i) = {target}" by (simp add: m'_def unused)
    have sh: "shadow.shadowed m' t"
    proof (rule shadow.shadowed_description [OF grown consistentD(3) [OF c] t])
      show "plan_made m' pl" using made by (auto simp: plan_made_def)
    next
      fix pd r n assume "pending_descriptions ?s = Describe pd # r" "pd_target pd = Statement n"
      then have "target = ForStatement n" using Cons by (simp add: target_def)
      then show "plan_for_statement m' n pl"
        using made since tgt unfolding plan_for_statement_def reusable_def by auto
    next
      fix pd r p assume "pending_descriptions ?s = Describe pd # r" "pd_target pd = Portal p"
      then have "target = ForPortal p" using Cons by (simp add: target_def)
      then show "plan_for_portal m' p pl"
        using made since tgt unfolding plan_for_portal_def reusable_def by auto
    qed
    have "plan_inv t" using plan_inv_description [OF consistentD(1) [OF c], of pl] by (simp add: or_same_def t)
    moreover have "generation t = om_generation m" "unat (next_result_order t) \<le> Suc (om_step m)"
      using counters_description [OF t] c by (simp_all add: counters_def consistent_def)
    moreover have "hget (plan_built m') j \<noteq> None \<or> under (plan_targets m') j \<noteq> [] \<Longrightarrow> j < i + 1" for j
      using c up [of j] by (auto simp: m'_def update_conv' consistent_def i_def less_imp_le split: if_splits)
    ultimately have cm: "consistent (Suc (om_step m)) m'"
      using c sh nxt by (auto simp: consistent_def m'_def less_SucI)
    have e: "traced_entry (parsed_text m) (bound_to m) (queried_text m) d"
      using consistentD(2) [OF c] Cons unfolding shadow.shadowed_def traced_def by simp
    then have names: "passes (case target of ForStatement n \<Rightarrow> [known n] | ForPortal n \<Rightarrow> [known n] | ForSimple \<Rightarrow> [])"
      by (auto simp: target_def traced_entry_def target_name_def split: pending_description.splits describe_target.splits)
    have stream: "streaming_simple_result t = (case d of Simple _ \<Rightarrow> True | Describe _ \<Rightarrow> False) \<and> active_plan t = Some pl"
      by (rule streaming_of_description [OF t Cons])
    show ?thesis
      unfolding step using Cons t names stream pl(3) cm
      by (simp add: Let_def target_def [symmetric] m'_def [symmetric] active_plan_id_def)
        (rule good_after, simp_all, simp add: m'_def)
  qed
qed

lemma consistent_same: "consistent (om_step m) m \<Longrightarrow> consistent (Suc (om_step m)) m"
  by (auto simp: consistent_def)

lemma step_answers_good:
  assumes c: "consistent (om_step m) m"
  shows "good m (oracle_step DoNoData m)" and "good m (oracle_step DoEmptyQuery m)"
proof -
  let ?s = "om_state m"
  let ?t = "?s\<lparr>pending_descriptions := pop_front (pending_descriptions ?s)\<rparr>"
  note s = consistentD(1,2) [OF c]
  have t: "shadow.shadowed m ?t" "plan_inv ?t" "counters ?t = counters ?s"
    using s shadow.shadowed_drop plan_inv_other_answers(2) [OF s(1)] by (simp_all add: discard_description_def)
  have u: "shadow.shadowed m (?t\<lparr>streaming_simple_result := False\<rparr>)" "plan_inv (?t\<lparr>streaming_simple_result := False\<rparr>)"
    "counters (?t\<lparr>streaming_simple_result := False\<rparr>) = counters ?s"
    using t by simp_all
  show "good m (oracle_step DoNoData m)"
  proof (cases "front (pending_descriptions ?s)")
    case None
    then show ?thesis using good_after [OF consistent_same [OF c]]
      by (simp add: oracle_no_data_def finish_no_data_def Let_def)
  next
    case (Some d)
    then show ?thesis using good_after [OF consistent_same [OF c]] good_state [OF c t]
      by (cases d) (simp_all add: oracle_no_data_def finish_no_data_def Let_def)
  qed
  show "good m (oracle_step DoEmptyQuery m)"
  proof (cases "front (pending_descriptions ?s)")
    case None
    then show ?thesis using good_after [OF consistent_same [OF c]]
      by (simp add: oracle_empty_query_def finish_empty_query_def Let_def)
  next
    case (Some d)
    then show ?thesis using good_after [OF consistent_same [OF c]] good_state [OF c u]
      by (cases d) (simp_all add: oracle_empty_query_def finish_empty_query_def Let_def)
  qed
qed

lemma step_result_end_good:
  assumes c: "consistent (om_step m) m"
  shows "good m (oracle_step DoResultEnd m)"
proof -
  let ?s = "om_state m"
  note s = consistentD(1,2) [OF c]
  have t: "shadow.shadowed m (finish_result_set ?s)" "plan_inv (finish_result_set ?s)"
    "counters (finish_result_set ?s) = counters ?s"
    using s by (simp_all add: shadow.shadowed_result_end plan_inv_result_end)
  show ?thesis
    unfolding oracle_step.simps oracle_result_end_def Let_def
  proof (rule good_state [OF c t], goal_cases)
    case 1
    then show ?case
      by (cases "pending_descriptions ?s"; cases "pending_executes ?s"; cases "hd (pending_descriptions ?s)")
        (simp_all add: finish_result_set_def Let_def)
  qed
qed

lemma step_ready_good:
  assumes c: "consistent (om_step m) m"
  shows "good m (oracle_step (DoReady b) m)"
proof -
  let ?s = "om_state m"
  have t: "shadow.shadowed m (ready_for_query b ?s)" "plan_inv (ready_for_query b ?s)"
    "counters (ready_for_query b ?s) = counters ?s"
    using consistentD(1,2) [OF c] by (simp_all add: shadow.shadowed_ready plan_inv_ready)
  show ?thesis
    unfolding oracle_step.simps oracle_ready_def Let_def
    by (rule good_state [OF c t]) (simp add: ready_for_query_def result_owner_def)
qed

lemma step_reject_good:
  assumes c: "consistent (om_step m) m"
  shows "good m (oracle_step DoReject m)"
proof -
  let ?m = "m\<lparr>om_suppressing := Some (rejection_epoch (om_state m)), om_state := clear_active (om_state m)\<rparr>"
  have "shadow.shadowed m (clear_active (om_state m))" "plan_inv (clear_active (om_state m))"
    using consistentD(1,2) [OF c] by (simp_all add: shadow.shadowed_clear_active plan_inv_clear_active)
  moreover have "shadow.shadowed ?m s" if "shadow.shadowed m s" for s
    by (rule shadowed_grows [OF that]) simp_all
  moreover have "counters (clear_active (om_state m)) = counters (om_state m)" by simp
  ultimately have "consistent (Suc (om_step m)) ?m"
    using c by (intro consistent_moves [OF c]) (auto simp: consistent_def counters_def)
  then show ?thesis by (simp add: good_after)
qed

lemma step_suppressed_good:
  assumes c: "consistent (om_step m) m"
  shows "good m (oracle_step (DoSuppressed e) m)"
proof -
  define t where "t = finish_suppressed_epoch (case om_suppressing m of Some x \<Rightarrow> x | None \<Rightarrow> ucast e) (om_state m)"
  let ?m = "m\<lparr>om_state := t, om_suppressing := None\<rparr>"
  have "shadow.shadowed m t" "plan_inv t" "counters t = counters (om_state m)"
    using consistentD(1,2) [OF c] by (simp_all add: t_def shadow.shadowed_suppressed plan_inv_suppressed)
  moreover have "shadow.shadowed ?m s" if "shadow.shadowed m s" for s
    by (rule shadowed_grows [OF that]) simp_all
  ultimately have "consistent (Suc (om_step m)) ?m"
    using c by (intro consistent_moves [OF c]) (auto simp: consistent_def counters_def)
  moreover have "\<not> streaming_simple_result t" by (simp add: t_def finish_suppressed_epoch_def)
  ultimately show ?thesis by (simp add: oracle_suppressed_def Let_def t_def [symmetric] good_after)
qed

lemma step_invalidate_good:
  assumes c: "consistent (om_step m) m"
  shows "good m (oracle_step (DoInvalidate g) m)"
proof -
  define current where "current = ucast g mod (3 :: u64)"
  let ?s = "om_state m" and ?t = "snd (invalidate_if_stale current (om_state m))"
  define m' where "m' = m\<lparr>om_state := ?t, om_generation := current,
      last_invalidation := (if current \<noteq> om_generation m then Some (om_step m) else last_invalidation m)\<rparr>"
  have gen: "generation ?s = om_generation m" using c by (simp add: consistent_def)
  have sh: "shadow.shadowed m ?t" by (rule shadow.shadowed_invalidate [OF consistentD(2) [OF c]])
  have same: "parsed_text m' = parsed_text m" "bound_to m' = bound_to m" "queried_text m' = queried_text m" "plan_made m' = plan_made m"
    by (simp_all add: fun_eq_iff m'_def parsed_text_def bound_to_def queried_text_def plan_made_def carries_def)
  have "planned (plan_for_statement m') (plan_for_portal m') (plan_made m') ?t"
  proof (cases "current = om_generation m")
    case True
    have "carries m' = carries m" "built_since m' = built_since m"
      using True by (simp_all add: fun_eq_iff m'_def carries_def built_since_def)
    then have "plan_for_statement m' = plan_for_statement m" "plan_for_portal m' = plan_for_portal m"
      by (simp_all add: fun_eq_iff plan_for_statement_def plan_for_portal_def reusable_def) (simp_all add: m'_def)
    then show ?thesis using sh same unfolding shadow.shadowed_def by simp
  next
    case False
    then have "statement_plans ?t = []" "portal_plans ?t = []" using gen by (simp_all add: invalidate_if_stale_def)
    then show ?thesis using sh same unfolding shadow.shadowed_def planned_def by simp
  qed
  then have "shadow.shadowed m' ?t" using sh same unfolding shadow.shadowed_def by simp
  moreover have "generation ?t = current" "next_result_order ?t = next_result_order ?s"
    using gen by (simp_all add: invalidate_if_stale_def)
  ultimately have "consistent (Suc (om_step m)) m'"
    using c plan_inv_maps [OF consistentD(1) [OF c], of current]
    by (intro consistent_moves [OF c]) (auto simp: m'_def consistent_def less_SucI split: if_splits)
  then have "good m (after_step [] m')" by (rule good_after) (simp_all add: m'_def)
  then show ?thesis by (simp add: oracle_invalidate_def Let_def current_def [symmetric] m'_def)
qed

text \<open>The owner assertions compare names, and a name can own two queued results.\<close>

definition reused_owner :: "plan_state \<Rightarrow> bool" where
  "reused_owner s \<longleftrightarrow> (\<exists>p r. pending_executes s = p # r \<and> pe_name p \<in> pe_name ` set r)"

lemma after_one_demand:
  assumes "consistent (Suc (om_step m)) m'" and "om_step m' = om_step m" and "passes before" and "passes after"
  shows "good m (after_step (before @ demand b v # after) m') \<or> after_step (before @ demand b v # after) m' = Inl v \<and> \<not> b"
proof (cases b)
  case True
  then have "passes (before @ demand b v # after)" using assms(3,4) by simp
  then show ?thesis using good_after [OF assms(1,2)] by blast
next
  case False
  have "List.map_filter id (before @ demand b v # after) = [v]"
    using assms(3,4) False unfolding passes_iff by (simp add: map_filter_def demand_def)
  then show ?thesis using False after_step_consistent [of m'] assms(1,2) by simp
qed

lemma step_suspended_cases:
  assumes c: "consistent (om_step m) m"
  shows "good m (oracle_step DoSuspended m) \<or>
    oracle_step DoSuspended m = Inl SuspendedOwner \<and> reused_owner (om_state m)"
proof -
  let ?s = "om_state m"
  have t: "shadow.shadowed m (suspend_result ?s)" "plan_inv (suspend_result ?s)" "counters (suspend_result ?s) = counters ?s"
    using consistentD(1,2) [OF c] by (simp_all add: shadow.shadowed_suspend plan_inv_suspend)
  note ok = consistent_counters [OF c t]
  show ?thesis
  proof (cases "length (pending_executes ?s) > 1")
    case True
    then obtain p q r where e: "pending_executes ?s = p # q # r"
      by (cases "pending_executes ?s"; cases "tl (pending_executes ?s)") auto
    have "result_owner (suspend_result ?s) \<noteq> result_owner ?s \<or> reused_owner ?s"
      using e by (auto simp: suspend_result_def result_owner_def reused_owner_def)
    moreover have "passes [demand (\<not> suspended (suspend_result ?s)) WrongPause]" using True by (simp add: suspend_result_def)
    ultimately show ?thesis
      using after_one_demand [OF ok, where before = "[]" and v = SuspendedOwner] True
      by (fastforce simp: oracle_suspended_def Let_def)
  next
    case False
    have "passes (if length (pending_executes ?s) = 1
        then [demand (suspended (suspend_result ?s)) WrongPause, demand (result_owner (suspend_result ?s) = result_owner ?s) WrongPause]
        else [])"
      using False by (simp add: suspend_result_def result_owner_def)
    from good_after [OF ok _ this] show ?thesis using False by (simp add: oracle_suspended_def Let_def)
  qed
qed

lemma failed_epoch_executes:
  assumes "pending_descriptions s = []" "pending_parses s = []" "pending_binds s = []"
  shows "failed_epoch s = map_option pe_epoch (front (pending_executes s))"
  using assms by (simp add: failed_epoch_def map_filter_def)

lemma error_executes:
  assumes "failed_epoch s = Some e"
  shows "pending_executes (discard_failed_epoch s) =
    filter (\<lambda>p. pe_epoch p \<noteq> e \<and> \<not> (suspended s \<and> pe_epoch p < e)) (pending_executes s)"
  using assms by (simp add: discard_failed_epoch_def Let_def)

lemma error_owner:
  assumes "pending_executes s = p # r" and "failed_epoch s = Some e"
    and "pe_epoch p = e \<or> suspended s \<and> pe_epoch p < e" and "result_owner (discard_failed_epoch s) = result_owner s"
  shows "reused_owner s"
proof -
  let ?r = "filter (\<lambda>p. pe_epoch p \<noteq> e \<and> \<not> (suspended s \<and> pe_epoch p < e)) r"
  have "pending_executes (discard_failed_epoch s) = ?r" using assms(1,3) error_executes [OF assms(2)] by auto
  then have "map_option pe_name (front ?r) = Some (pe_name p)" using assms(1,4) by (simp add: result_owner_def)
  then obtain q r' where q: "?r = q # r'" "pe_name q = pe_name p" by (cases ?r) auto
  have "q \<in> set ?r" unfolding q(1) by simp
  then show ?thesis using assms(1) q(2) by (auto simp: reused_owner_def image_iff intro!: bexI [of _ q])
qed

lemma step_error_cases:
  assumes c: "consistent (om_step m) m"
  shows "good m (oracle_step DoError m) \<or>
    oracle_step DoError m = Inl ErrorOwner \<and> reused_owner (om_state m)"
proof -
  let ?s = "om_state m"
  let ?t = "discard_failed_epoch ?s"
  define only where "only \<longleftrightarrow> pending_descriptions ?s = [] \<and> pending_parses ?s = [] \<and> pending_binds ?s = []"
  define cmds where "cmds = List.map_filter id [map_option description_epoch (front (pending_descriptions ?s)),
     map_option pm_epoch (front (pending_parses ?s)), map_option pm_epoch (front (pending_binds ?s))]"
  have t: "shadow.shadowed m ?t" "plan_inv ?t" "counters ?t = counters ?s"
    using consistentD(1,2) [OF c] by (simp_all add: shadow.shadowed_error plan_inv_error)
  note ok = consistent_counters [OF c t]
  define epoch_check where "epoch_check = (if only then (case map_option pe_epoch (front (pending_executes ?s)) of
      None \<Rightarrow> [] | Some e \<Rightarrow> [demand (list_all (\<lambda>p. pe_epoch p \<noteq> e) (pending_executes ?t)) WrongError]) else [])"
  define later_check where "later_check = (if suspended ?s
      then (case (map_option pe_epoch (front (pending_executes ?s)), cmds) of
              (Some oe, c # cs) \<Rightarrow> if oe < fold min cs c \<and> result_owner ?s \<noteq> None
                then [demand (result_owner ?t \<noteq> result_owner ?s) WrongError] else []
            | _ \<Rightarrow> []) else [])"
  define owner_check where "owner_check = (if only \<and> result_owner ?s \<noteq> None
      then [demand (result_owner ?t \<noteq> result_owner ?s) ErrorOwner] else [])"
  have eq: "oracle_step DoError m =
      after_step (demand (\<not> streaming_simple_result ?t) WrongError # (epoch_check @ owner_check) @ later_check) (with_state m ?t)"
    by (simp add: oracle_error_def Let_def only_def epoch_check_def later_check_def owner_check_def cmds_def)
  have stream: "\<not> streaming_simple_result ?t" by (simp add: discard_failed_epoch_def Let_def split: option.split)
  have epoch: "passes epoch_check"
  proof (cases "pending_executes ?s")
    case (Cons p r)
    then show ?thesis
      using failed_epoch_executes [of ?s] error_executes [of ?s "pe_epoch p"]
      by (auto simp: epoch_check_def only_def list_all_iff)
  qed (simp add: epoch_check_def)
  have later: "passes later_check"
  proof (cases "suspended ?s")
    case True
    then have "length (pending_executes ?s) \<le> 1" using consistentD(1) [OF c] by (simp add: plan_inv_def)
    then consider "pending_executes ?s = []" | p where "pending_executes ?s = [p]" by (cases "pending_executes ?s") auto
    then show ?thesis
    proof cases
      case 2
      have "result_owner ?t \<noteq> result_owner ?s" if "cmds = x # xs" "pe_epoch p < fold min xs x" for x xs
      proof -
        have "failed_epoch ?s = Some (fold min xs x)" using that(1) by (simp add: failed_epoch_def cmds_def)
        from error_executes [OF this] show ?thesis using 2 True that(2) by (simp add: result_owner_def)
      qed
      then show ?thesis using 2 by (auto simp: later_check_def split: list.split)
    qed (simp add: later_check_def)
  qed (simp add: later_check_def)
  show ?thesis
  proof (cases "only \<and> result_owner ?s \<noteq> None")
    case False
    then have "owner_check = []" by (simp add: owner_check_def)
    then show ?thesis unfolding eq using good_after [OF ok] stream epoch later by simp
  next
    case True
    then obtain p r where e: "pending_executes ?s = p # r" by (cases "pending_executes ?s") (auto simp: result_owner_def)
    have fe: "failed_epoch ?s = Some (pe_epoch p)" using True e failed_epoch_executes [of ?s] by (simp add: only_def)
    have "after_step (demand (\<not> streaming_simple_result ?t) WrongError # (epoch_check @ owner_check) @ later_check) (with_state m ?t)
      = after_step ((demand (\<not> streaming_simple_result ?t) WrongError # epoch_check) @
          demand (result_owner ?t \<noteq> result_owner ?s) ErrorOwner # later_check) (with_state m ?t)"
      using True by (simp add: owner_check_def)
    moreover have "passes (demand (\<not> streaming_simple_result ?t) WrongError # epoch_check)" using stream epoch by simp
    ultimately show ?thesis
      using after_one_demand [OF ok _ _ later] error_owner [OF e fe] unfolding eq by fastforce
  qed
qed

section \<open>Every run\<close>

lemma step_cases:
  assumes c: "consistent (om_step m) m" and few: "om_step m + 2 < 2 ^ 32"
  shows "good m (oracle_step op m) \<or>
    (op = DoSuspended \<and> oracle_step op m = Inl SuspendedOwner \<or> op = DoError \<and> oracle_step op m = Inl ErrorOwner) \<and>
    reused_owner (om_state m)"
  using plain_steps_good [OF c] step_parse_good [OF c] step_bind_good [OF c] step_execute_good [OF c few]
    step_simple_good [OF c few] step_description_good [OF c few] step_answers_good [OF c] step_result_end_good [OF c]
    step_ready_good [OF c] step_reject_good [OF c] step_suppressed_good [OF c] step_invalidate_good [OF c]
    step_suspended_cases [OF c] step_error_cases [OF c]
  by (cases op) blast+

lemma run_cases:
  assumes "consistent (om_step m) m" and "om_step m + length ops + 1 < 2 ^ 32"
  shows "(\<exists>m'. oracle_run ops m = Inr m') \<or>
    (\<exists>before op rest m'. ops = before @ op # rest \<and> oracle_run before m = Inr m' \<and>
       (op = DoSuspended \<and> oracle_step op m' = Inl SuspendedOwner \<or> op = DoError \<and> oracle_step op m' = Inl ErrorOwner) \<and>
       reused_owner (om_state m'))"
  using assms
proof (induction ops arbitrary: m)
  case (Cons op ops)
  have few: "om_step m + 2 < 2 ^ 32" using Cons.prems(2) by simp
  show ?case
  proof (cases "good m (oracle_step op m)")
    case False
    then show ?thesis using step_cases [OF Cons.prems(1) few, of op]
      by (intro disjI2 exI [of _ "[]"] exI [of _ op] exI [of _ ops] exI [of _ m]) simp
  next
    case True
    then obtain m1 where m1: "oracle_step op m = Inr m1" "consistent (om_step m1) m1" "om_step m1 = Suc (om_step m)"
      by (auto simp: good_def)
    from Cons.IH [OF m1(2)] Cons.prems(2) m1(3)
    consider m' where "oracle_run ops m1 = Inr m'"
      | before op' rest m' where "ops = before @ op' # rest" "oracle_run before m1 = Inr m'"
        "op' = DoSuspended \<and> oracle_step op' m' = Inl SuspendedOwner \<or> op' = DoError \<and> oracle_step op' m' = Inl ErrorOwner"
        "reused_owner (om_state m')"
      by auto
    then show ?thesis
    proof cases
      case 1
      then show ?thesis using m1(1) by simp
    next
      case 2
      then show ?thesis using m1(1)
        by (intro disjI2 exI [of _ "op # before"] exI [of _ op'] exI [of _ rest] exI [of _ m']) simp
    qed
  qed
qed simp

text \<open>
  C12. The fuzzer's oracle can find no disclosure. Drive a \<open>PlanState\<close> with any sequence of messages from
  either side, in any order: every assertion of the oracle holds after every message. The text a
  description is judged by was parsed under the statement it is for; an Execute activates only plans made
  for its portal or a statement that portal was bound to, never a simple query's plan or one from before a
  catalog refresh; rows owed to an Execute keep the plan it was queued with; the queues stay in epoch
  order. The only assertions that can fail are the two that compare the name of the result's owner before
  and after a suspension or an error, and they fail only where two queued Executes name the same portal.
  The bound is the plan counter of the harness, which is 32 bits wide.
\<close>

theorem oracle_fails_only_on_reused_names:
  assumes "length ops + 1 < 2 ^ 32"
  shows "(\<exists>m. oracle_run ops model_new = Inr m) \<or>
    (\<exists>before op rest m. ops = before @ op # rest \<and> oracle_run before model_new = Inr m \<and>
       (op = DoSuspended \<and> oracle_step op m = Inl SuspendedOwner \<or> op = DoError \<and> oracle_step op m = Inl ErrorOwner) \<and>
       (\<exists>p queued. pending_executes (om_state m) = p # queued \<and> pe_name p \<in> pe_name ` set queued))"
  using run_cases [of model_new ops] consistent_new assms
  unfolding reused_owner_def by (simp add: model_new_def)

theorem oracle_fails_only_on_reused_names_witness:
  "(\<exists>m. oracle_run [DoExecute 1, DoSuspended] model_new = Inr m) \<or>
    (\<exists>before op rest m. [DoExecute 1, DoSuspended] = before @ op # rest \<and> oracle_run before model_new = Inr m \<and>
       (op = DoSuspended \<and> oracle_step op m = Inl SuspendedOwner \<or> op = DoError \<and> oracle_step op m = Inl ErrorOwner) \<and>
       (\<exists>p queued. pending_executes (om_state m) = p # queued \<and> pe_name p \<in> pe_name ` set queued))"
  by (rule oracle_fails_only_on_reused_names) simp

text \<open>No input of the fuzz target is long enough for the counter to matter.\<close>

lemma fuzz_target_fails_only_on_owners: "fuzz_target ops = Inl v \<Longrightarrow> v = SuspendedOwner \<or> v = ErrorOwner"
proof -
  assume v: "fuzz_target ops = Inl v"
  have run: "oracle_run (before @ op # rest) m = Inl w" if "oracle_run before m = Inr m'" "oracle_step op m' = Inl w"
    for before op rest m m' w
    using that by (induction before arbitrary: m) (auto split: sum.splits)
  have "om_step model_new + length (take MAX_OPS ops) + 1 < 2 ^ 32" by (simp add: MAX_OPS_def model_new_def)
  moreover have "consistent (om_step model_new) model_new" using consistent_new by (simp add: model_new_def)
  ultimately consider m' where "oracle_run (take MAX_OPS ops) model_new = Inr m'"
    | before op rest m' w where "take MAX_OPS ops = before @ op # rest" "oracle_run before model_new = Inr m'"
      "oracle_step op m' = Inl w" "w = SuspendedOwner \<or> w = ErrorOwner"
    using run_cases by blast
  then show ?thesis
  proof cases
    case 2
    then show ?thesis using v run [OF 2(2,3)] by (simp add: fuzz_target_def)
  qed (use v in \<open>simp add: fuzz_target_def\<close>)
qed

text \<open>
  They do fail: a portal executed, bound again and executed again before the first result is suspended,
  and a portal executed twice in two exchanges of which the first fails. Nothing is wrong in either state.
\<close>

lemma rebound_portal_trips_the_oracle:
  "oracle_run [DoExecute 1, DoBind 1 0 None, DoExecute 1, DoSuspended] model_new = Inl SuspendedOwner"
  by code_simp

lemma failed_exchange_trips_the_oracle:
  "oracle_run [DoExecute 0, DoSync, DoExecute 1, DoSync, DoExecute 1, DoError, DoError] model_new = Inl ErrorOwner"
  by code_simp

end
