(* ===== verification/Spec2Isabelle.thy ===== *)
theory Spec2Isabelle
  imports Plan_Recovery Mask_Text_Facts Connection Gate_Facts Release_Facts
    Lineage_Facts Reading_Facts Hostile_Facts Classifier_Facts Plan_Oracle_Facts
begin

text \<open>
  pgmask is a proxy between PostgreSQL clients and a PostgreSQL (or CockroachDB) server. It reads a
  catalog of column rules, watches the wire protocol in both directions, and rewrites the rows on
  their way to the client so that a classified column only leaves masked. Its second binary,
  \<open>classify\<close>, drafts such a catalog from a live schema and checks one for drift. This development
  models both programs; sources are named relative to \<open>src/crates/proxy/src\<close> unless they start with
  \<open>crates/\<close>.

  HOW THE PARTS INTERACT. A connection (\<open>session.rs\<close>, \<open>handle_connection\<close> and \<open>pump\<close>) reads the startup
  packet, then passes every message to one of two handlers. The client side inspects the text of a
  statement (\<open>analysis/\<close>, \<open>lineage.rs\<close>): a refused statement is answered with an error and never sent
  on; otherwise the message is forwarded and the plan lifecycle (\<open>plan_state.rs\<close>) records what answers
  it owes. The server side turns each \<open>RowDescription\<close> into a plan (\<open>policy.rs\<close>, \<open>plan_for_with\<close>), using
  the snapshot of the catalog (\<open>catalog.rs\<close>), the roles of the session's principal and what the analysis
  said of the statement; each \<open>DataRow\<close> is rewritten by the plan in force with the masker (\<open>mask.rs\<close>,
  \<open>mask/json.rs\<close>), or the result is refused. A reload (\<open>policy.rs\<close>) swaps parts of the shared policy one
  by one and bumps an epoch; sessions compare epochs before each message and drop what they cached.

  THE THEORIES OF THE MODEL, in the order of their dependencies.
  \<^item> \<open>Prelude\<close>, \<open>Utf8\<close>, \<open>Std_Text\<close>: machine integers as words, bytes, Rust strings as lists of scalar values,
    \<open>HashMap\<close> as an association list behind the locale \<open>finite_map\<close> (interpreted on \<open>AList\<close>), the locales
    \<open>wire_codec\<close>, \<open>option_codec\<close> and \<open>step_machine\<close>, and the parts of the standard library the code uses (UTF-8,
    trimming, integer and address parsing and printing).
  \<^item> \<open>Protocol\<close> (\<open>protocol.rs\<close>): framing and startup packets with both reading loops, every body the proxy parses or builds, SASL
    mechanisms, scrubbing of errors and notices.
  \<^item> \<open>Mask_Types\<close>, \<open>Mask_Text\<close>, \<open>Mask\<close>, \<open>Json_Mask\<close> (\<open>mask.rs\<close>, \<open>mask/json.rs\<close>, \<open>json_path.rs\<close>): specifications and
    the capability table \<open>supports\<close>; the string masks; pseudonyms, dates, buckets, free text and the
    dispatch \<open>apply_with\<close>; the JSON policy trie and the walk of a document.
  \<^item> \<open>Plan_State\<close> (\<open>plan_state.rs\<close>): the record of queues, generations and plans, one definition per method.
  \<^item> \<open>Catalog\<close>, \<open>Snapshot\<close>, \<open>Catalog_Live\<close>, \<open>Metrics\<close> (\<open>catalog.rs\<close>, \<open>catalog/json.rs\<close>, \<open>metrics.rs\<close>): rules and
    their validation, the configuration, the snapshot and its lookups, opaque views, resolution with its
    retry, the live catalog, its refresh and the rounds of the background refresher, the counters.
  \<^item> \<open>Policy\<close>, \<open>Planning\<close> (\<open>policy.rs\<close>, \<open>policy/json_extract.rs\<close>, \<open>rate_limit.rs\<close>): settings, roles, the reload
    with every policy a session can observe on the way and the loop of \<open>main.rs\<close> that runs it, and the decision for one described result set.
  \<^item> \<open>Sql_Names\<close>, \<open>Catalog_Surface\<close>, \<open>Sql_Extract\<close>, \<open>Sql_Safety\<close>, \<open>Sql_Hostile\<close>, \<open>Sql_Lineage\<close>, \<open>Sql_Catalogs\<close>,
    \<open>Sql_Inspection\<close> (\<open>analysis/\<close>, \<open>lineage.rs\<close>): the view of a parsed statement, the function name lists,
    the classified system relations, JSON extracts, releasable expressions, the hostile posture, lineage,
    the gates, and the inspection that bundles them for the session.
  \<^item> \<open>Session\<close>, \<open>Connection\<close> (\<open>session.rs\<close>): the two handlers with all the state they change; startup, the
    transport gate, the principal, and the pump over batches of messages.
  \<^item> \<open>Classifier\<close> (\<open>crates/classify/src/main.rs\<close>): detectors, name rules, proposals, the printed catalog, the
    drift gate and the dispatch of a run.
  \<^item> \<open>Plan_Oracle\<close> (\<open>plan_state_fuzz.rs\<close>, \<open>fuzz/fuzz_targets/plan_state.rs\<close>): the protocol fuzzer's driver, its
    shadow of what was parsed, bound and described, and the assertions it makes after every message.

  Structs are records and enums datatypes with the constructors of the source; a name that clashes with
  a HOL constant or a keyword carries a suffix. A method that takes \<open>&mut self\<close> returns the new record; an
  error is a value of a sum type, so each early return of the source is a branch. The output of a handler
  is an explicit list of frames, in the order they are written.

  THE THEORIES OF FACTS. \<open>Protocol_Facts\<close>: frames and bodies read back however the socket splits them;
  scrubbed diagnostics depend on no field SQL can fill. \<open>Mask_Text_Facts\<close>, \<open>Mask_Facts\<close>, \<open>Json_Facts\<close>: what
  each mask reveals, that none falls open, that the trie is the rule list and the walk masks every scalar.
  \<open>Plan_State_Facts\<close>, \<open>Plan_Recovery\<close>: the invariant of the plan machine (an interpretation of
  \<open>step_machine\<close>), immutability of owed plans, first-in first-out descriptions, what an error discards.
  \<open>Catalog_Facts\<close>, \<open>Policy_Facts\<close>: role selection, validation, opaque views as a least fixed point, the
  bounded retry, coverage, reload failure, and that planning fails closed. \<open>Session_Facts\<close>, \<open>Session_Runs\<close>,
  \<open>Connection\<close>: rows reach the client only masked; a session is a machine over interleaved client messages,
  server messages and policy changes that refines the plan machine; the pump adds nothing of its own.
  \<open>Gate_Facts\<close>, \<open>Release_Facts\<close>, \<open>Lineage_Facts\<close>, \<open>Reading_Facts\<close>, \<open>Hostile_Facts\<close>: what a statement that reaches
  the server cannot contain, what a released field can depend on, and how names and paths are read.
  \<open>Classifier_Facts\<close>: when the drift gate passes, what a sample may conclude, that the payment detectors are
  the published checksums, and that printed names read back. \<open>Plan_Oracle_Facts\<close>: the fuzzer's oracle holds for
  every sequence of messages, but for two assertions that compare names (the locale \<open>plan_shadow\<close> says what a
  shadow of the state must be closed under, and its interpretation is the oracle's own shadow). The properties that span components stand in
  \<open>Session_Runs\<close>, \<open>Connection\<close> and \<open>Gate_Facts\<close>, above the components they join.

  PARAMETERS. Code that is not in the repository is an argument, never a definition: HMAC-SHA256 and
  SHA-256, the regex engine, \<open>iban_validate\<close>, \<open>jiff\<close>, \<open>rust_decimal\<close> and IEEE arithmetic, \<open>serde_json\<close>, the TOML
  and PEM readers, the \<open>governor\<close> rate limiter, \<open>sqllineage\<close>, and PostgreSQL's parser, scanner and printer
  behind \<open>pg_query\<close>. A parsed statement is given by its statements, the nodes a walk visits and the tokens of its
  text; an absent child and a child whose wrapper is empty are the same in that view, which the code treats
  alike. Where a property relies on one of these it says so as a hypothesis, and its witness supplies a
  concrete instance.

  BOUNDS. Recursion over a statement carries the source's own limits: \<open>FOLLOW_DEPTH\<close> 32 for following a
  column through nested queries, \<open>MAX_EXTRACT_DEPTH\<close> 16 for a chain of JSON operators, and 8 and 16 levels
  under the argument of a summary and a grouping item. Catalog resolution retries at most three times. The loop
  that closes the opaque views stops because each pass adds a view; its measure is the number of views not yet
  marked. The oracle's run is bounded by its 32-bit plan counter, far above the 128 messages of the fuzz
  target. The reader of framed messages stops because every step consumes a byte. Fuel appears only in
  \<open>Classifier_Facts.read_basic\<close>, a reference reader whose fuel is the length of its input.

  NOT MODELLED. \<open>for_each_child_node\<close> of \<open>analysis/walk.rs\<close> enumerates the children of some 250 node types of the
  third-party parser; the visited nodes are part of the view instead, so that a child it forgets is outside
  these theorems. Sockets, the TLS handshakes of \<open>tls.rs\<close>, the clock and the timers (the refresher
  takes its times as numbers), log lines, the metrics exporter and the rest of \<open>main.rs\<close> are input and output around the modelled steps. The SQL of the catalog queries runs
  in the server; the rows it answers are an argument. The text that the drift gate and the report of
  \<open>classify\<close> print is not modelled, their verdicts and counts are. The drivers under \<open>crates/corpus\<close>,
  \<open>crates/fuzz\<close>, \<open>crates/bench\<close> and \<open>crates/spike\<close> exercise the code modelled here against a live server.
\<close>

end
